(* ===== verification/Prelude.thy ===== *)
theory Prelude
  imports Main "HOL-Library.Finite_Map" "HOL-Library.Char_ord" "HOL-Library.List_Lexorder"
begin

text \<open>
  Shared vocabulary of the development: the part of the Go language and of its standard
  library that the modelled packages use (errors, strings, decimal conversions, fixed-width
  integers), the way calls that leave the program are modelled, and the generic lemmas and
  hint collections of the component theories.

  Conventions. A Go \<open>string\<close> is a \<open>char list\<close> of bytes. A Go \<open>int\<close> is an \<open>int\<close> that is
  wrapped to 64 bits (\<open>wrap64\<close>) where the code does arithmetic on a value it has not bounded; a
  conversion to \<open>int32\<close> is \<open>wrap32\<close>. A pair \<open>(T, error)\<close> of results is \<open>go_error + 'a\<close>.
\<close>

named_theorems inv_intros \<open>introduction and preservation rules of component invariants\<close>
named_theorems step_defs \<open>definitions unfolded when one step of a component is analysed\<close>
named_theorems frame_simps \<open>what an operation leaves unchanged\<close>

section \<open>Errors\<close>

text \<open>
  Go errors as the code builds them: \<open>errors.New\<close>/\<open>fmt.Errorf\<close> without \<open>%w\<close>, the status errors
  of the Kubernetes client (which carry a reason), and \<open>fmt.Errorf("...: %w", err)\<close>, which keeps
  the wrapped error. \<open>errors.IsNotFound\<close> and \<open>errors.IsAlreadyExists\<close> look through wrapping.
\<close>

datatype kube_reason = NotFound | AlreadyExists | Conflict | OtherReason

datatype go_error =
    ErrNew string
  | ErrKube kube_reason string
  | ErrWrap string go_error

fun err_msg :: "go_error \<Rightarrow> string" where
  "err_msg (ErrNew m) = m"
| "err_msg (ErrKube _ m) = m"
| "err_msg (ErrWrap p e) = p @ '': '' @ err_msg e"

fun reason_for :: "go_error \<Rightarrow> kube_reason option" where
  "reason_for (ErrNew _) = None"
| "reason_for (ErrKube r _) = Some r"
| "reason_for (ErrWrap _ e) = reason_for e"

definition isNotFound :: "go_error \<Rightarrow> bool" where
  "isNotFound e \<longleftrightarrow> reason_for e = Some NotFound"

definition isAlreadyExists :: "go_error \<Rightarrow> bool" where
  "isAlreadyExists e \<longleftrightarrow> reason_for e = Some AlreadyExists"

type_synonym 'a result = "go_error + 'a"

definition is_err :: "'a result \<Rightarrow> bool" where
  "is_err r \<longleftrightarrow> (case r of Inl _ \<Rightarrow> True | Inr _ \<Rightarrow> False)"

lemma is_err_simps [simp]: "is_err (Inl e)" "\<not> is_err (Inr x)"
  by (simp_all add: is_err_def)

lemma not_is_err_iff: "\<not> is_err r \<longleftrightarrow> (\<exists>x. r = Inr x)"
  by (cases r) simp_all

section \<open>Calls that leave the program\<close>

text \<open>
  A service the program talks to is a function of everything it was asked before (the log of
  requests and responses) and of the present request: this covers any server, with any state
  of its own and any interference between two requests. The log is the only state a component
  has to thread; properties of request sequences are properties of the log.
\<close>

type_synonym ('q, 'r) log = "('q \<times> 'r) list"
type_synonym ('q, 'r) service = "('q, 'r) log \<Rightarrow> 'q \<Rightarrow> 'r"

definition call :: "('q, 'r) service \<Rightarrow> 'q \<Rightarrow> ('q, 'r) log \<Rightarrow> 'r \<times> ('q, 'r) log" where
  "call srv q w = (srv w q, w @ [(q, srv w q)])"

lemma fst_call [simp]: "fst (call srv q w) = srv w q"
  by (simp add: call_def)

lemma snd_call [simp]: "snd (call srv q w) = w @ [(q, srv w q)]"
  by (simp add: call_def)

section \<open>Fixed-width integers\<close>

definition wrap32 :: "int \<Rightarrow> int" where
  "wrap32 i = (i + 2147483648) mod 4294967296 - 2147483648"

definition wrap64 :: "int \<Rightarrow> int" where
  "wrap64 i = (i + 9223372036854775808) mod 18446744073709551616 - 9223372036854775808"

definition in_int32 :: "int \<Rightarrow> bool" where
  "in_int32 i \<longleftrightarrow> - 2147483648 \<le> i \<and> i < 2147483648"

definition in_int64 :: "int \<Rightarrow> bool" where
  "in_int64 i \<longleftrightarrow> - 9223372036854775808 \<le> i \<and> i < 9223372036854775808"

lemma wrap32_id: "in_int32 i \<Longrightarrow> wrap32 i = i"
  by (simp add: wrap32_def in_int32_def)

lemma wrap64_id: "in_int64 i \<Longrightarrow> wrap64 i = i"
  by (simp add: wrap64_def in_int64_def)

lemma wrap64_range: "in_int64 (wrap64 i)"
  by (simp add: wrap64_def in_int64_def)

text \<open>Go's integer division and remainder truncate towards zero; a zero divisor panics.\<close>

definition go_div :: "int \<Rightarrow> int \<Rightarrow> int option" where
  "go_div a b = (if b = 0 then None else Some (wrap64 (sgn a * sgn b * (\<bar>a\<bar> div \<bar>b\<bar>))))"

section \<open>Strings\<close>

definition hasPrefix :: "string \<Rightarrow> string \<Rightarrow> bool" where
  "hasPrefix s p \<longleftrightarrow> take (length p) s = p"

definition trimPrefix :: "string \<Rightarrow> string \<Rightarrow> string" where
  "trimPrefix s p = (if hasPrefix s p then drop (length p) s else s)"

definition hasSuffix :: "string \<Rightarrow> string \<Rightarrow> bool" where
  "hasSuffix s p \<longleftrightarrow> hasPrefix (rev s) (rev p)"

definition trimSuffix :: "string \<Rightarrow> string \<Rightarrow> string" where
  "trimSuffix s p = (if hasSuffix s p then take (length s - length p) s else s)"

lemma hasPrefix_append [simp]: "hasPrefix (p @ s) p"
  by (simp add: hasPrefix_def)

lemma hasPrefix_iff: "hasPrefix s p \<longleftrightarrow> (\<exists>t. s = p @ t)"
  by (metis append_take_drop_id hasPrefix_append hasPrefix_def)

lemma trimPrefix_append [simp]: "trimPrefix (p @ s) p = s"
  by (simp add: trimPrefix_def)

lemma hasSuffix_iff: "hasSuffix s p \<longleftrightarrow> (\<exists>t. s = t @ p)"
  unfolding hasSuffix_def hasPrefix_iff
  by (metis rev_append rev_rev_ident)

lemma hasSuffix_append [simp]: "hasSuffix (s @ p) p"
  by (auto simp: hasSuffix_iff)

lemma trimSuffix_append [simp]: "trimSuffix (s @ p) p = s"
  by (simp add: trimSuffix_def)

text \<open>\<open>strings.Contains\<close>.\<close>

fun containsSub :: "string \<Rightarrow> string \<Rightarrow> bool" where
  "containsSub [] p = (p = [])"
| "containsSub (c # cs) p = (hasPrefix (c # cs) p \<or> containsSub cs p)"

text \<open>\<open>strings.ReplaceAll\<close> with a one-byte pattern, the only kind the code uses.\<close>

definition replaceChar :: "char \<Rightarrow> string \<Rightarrow> string \<Rightarrow> string" where
  "replaceChar old new s = concat (map (\<lambda>c. if c = old then new else [c]) s)"

lemma replaceChar_append [simp]:
  "replaceChar o' n (s @ t) = replaceChar o' n s @ replaceChar o' n t"
  by (simp add: replaceChar_def)

lemma replaceChar_notin: "old \<notin> set s \<Longrightarrow> replaceChar old new s = s"
  by (induction s) (auto simp: replaceChar_def)

lemma set_replaceChar:
  "set (replaceChar old new s) = (set s - {old}) \<union> (if old \<in> set s then set new else {})"
  by (induction s) (auto simp: replaceChar_def)

text \<open>\<open>strings.Split\<close> with a one-byte separator: always at least one piece.\<close>

fun splitOn :: "char \<Rightarrow> string \<Rightarrow> string list" where
  "splitOn sep [] = [[]]"
| "splitOn sep (c # cs) =
     (if c = sep then [] # splitOn sep cs
      else (case splitOn sep cs of [] \<Rightarrow> [[c]] | p # ps \<Rightarrow> (c # p) # ps))"

fun joinWith :: "string \<Rightarrow> string list \<Rightarrow> string" where
  "joinWith sep [] = []"
| "joinWith sep [x] = x"
| "joinWith sep (x # y # ys) = x @ sep @ joinWith sep (y # ys)"

lemma splitOn_nonempty [simp]: "splitOn sep s \<noteq> []"
  by (cases s) (auto split: list.splits)

lemma splitOn_none: "sep \<notin> set s \<Longrightarrow> splitOn sep s = [s]"
  by (induction s) auto

lemma splitOn_append_sep:
  "sep \<notin> set s \<Longrightarrow> splitOn sep (s @ sep # t) = s # splitOn sep t"
  by (induction s) auto

lemma splitOn_pieces: "p \<in> set (splitOn sep s) \<Longrightarrow> sep \<notin> set p"
  by (induction s arbitrary: p) (auto split: if_splits list.splits)

lemma joinWith_splitOn: "joinWith [sep] (splitOn sep s) = s"
proof (induction s)
  case (Cons c cs)
  obtain p ps where ps: "splitOn sep cs = p # ps"
    by (meson list.exhaust splitOn_nonempty)
  with Cons show ?case by (cases ps) auto
qed simp

text \<open>\<open>strings.SplitN(s, sep, 2)\<close> when the separator occurs: the text before and after its
  first occurrence.\<close>

fun cutAt :: "char \<Rightarrow> string \<Rightarrow> (string \<times> string) option" where
  "cutAt sep [] = None"
| "cutAt sep (c # cs) =
     (if c = sep then Some ([], cs) else map_option (\<lambda>(a, b). (c # a, b)) (cutAt sep cs))"

lemma cutAt_None_iff: "cutAt sep s = None \<longleftrightarrow> sep \<notin> set s"
  by (induction s) auto

lemma cutAt_append: "sep \<notin> set s \<Longrightarrow> cutAt sep (s @ sep # t) = Some (s, t)"
  by (induction s) auto

lemma cutAt_Some: "cutAt sep s = Some (a, b) \<Longrightarrow> s = a @ sep # b \<and> sep \<notin> set a"
  by (induction s arbitrary: a b) (auto split: if_splits)

text \<open>\<open>strings.TrimSpace\<close>, \<open>ToLower\<close> and \<open>ToUpper\<close> on ASCII text; bytes above 127 are kept.\<close>

definition isSpaceChar :: "char \<Rightarrow> bool" where
  "isSpaceChar c \<longleftrightarrow> c \<in> {CHR '' '', CHR 0x09, CHR 0x0A, CHR 0x0B, CHR 0x0C, CHR 0x0D}"

definition trimSpace :: "string \<Rightarrow> string" where
  "trimSpace s = rev (dropWhile isSpaceChar (rev (dropWhile isSpaceChar s)))"

definition toLowerChar :: "char \<Rightarrow> char" where
  "toLowerChar c =
     (if 65 \<le> (of_char c :: nat) \<and> (of_char c :: nat) \<le> 90 then char_of ((of_char c :: nat) + 32) else c)"

definition toUpperChar :: "char \<Rightarrow> char" where
  "toUpperChar c =
     (if 97 \<le> (of_char c :: nat) \<and> (of_char c :: nat) \<le> 122 then char_of ((of_char c :: nat) - 32) else c)"

definition toLower :: "string \<Rightarrow> string" where
  "toLower = map toLowerChar"

definition toUpper :: "string \<Rightarrow> string" where
  "toUpper = map toUpperChar"

definition isUpperChar :: "char \<Rightarrow> bool" where
  "isUpperChar c \<longleftrightarrow> 65 \<le> (of_char c :: nat) \<and> (of_char c :: nat) \<le> 90"

definition isLowerChar :: "char \<Rightarrow> bool" where
  "isLowerChar c \<longleftrightarrow> 97 \<le> (of_char c :: nat) \<and> (of_char c :: nat) \<le> 122"

lemma trimSpace_id:
  "s = [] \<or> (\<not> isSpaceChar (hd s) \<and> \<not> isSpaceChar (last s)) \<Longrightarrow> trimSpace s = s"
proof -
  have "dropWhile P t = t" if "t = [] \<or> \<not> P (hd t)" for P :: "char \<Rightarrow> bool" and t
    using that by (cases t) auto
  moreover assume "s = [] \<or> (\<not> isSpaceChar (hd s) \<and> \<not> isSpaceChar (last s))"
  ultimately show ?thesis by (auto simp: trimSpace_def hd_rev)
qed

section \<open>Decimal conversions\<close>

definition digitChar :: "nat \<Rightarrow> char" where
  "digitChar d = char_of (48 + d)"

definition isDigit :: "char \<Rightarrow> bool" where
  "isDigit c \<longleftrightarrow> 48 \<le> (of_char c :: nat) \<and> (of_char c :: nat) \<le> 57"

definition digitVal :: "char \<Rightarrow> nat" where
  "digitVal c = of_char c - 48"

fun natDigits :: "nat \<Rightarrow> string" where
  "natDigits n = (if n < 10 then [digitChar n] else natDigits (n div 10) @ [digitChar (n mod 10)])"

declare natDigits.simps [simp del]

text \<open>\<open>strconv.Itoa\<close>, and \<open>%d\<close> of \<open>fmt\<close>.\<close>

definition itoa :: "int \<Rightarrow> string" where
  "itoa i = (if i < 0 then CHR ''-'' # natDigits (nat (- i)) else natDigits (nat i))"

definition digitsVal :: "string \<Rightarrow> nat" where
  "digitsVal s = foldl (\<lambda>acc c. 10 * acc + digitVal c) 0 s"

text \<open>\<open>strconv.Atoi\<close>: an optional sign and at least one digit, nothing else, in the range of a
  64-bit integer; anything else is an error.\<close>

definition atoi :: "string \<Rightarrow> int option" where
  "atoi s =
     (let (neg, ds) = (case s of
          [] \<Rightarrow> (False, [])
        | c # cs \<Rightarrow> if c = CHR ''-'' then (True, cs)
                    else if c = CHR ''+'' then (False, cs) else (False, s));
        v = (if neg then - int (digitsVal ds) else int (digitsVal ds))
      in if ds \<noteq> [] \<and> list_all isDigit ds \<and> in_int64 v then Some v else None)"

text \<open>The number \<open>strconv.Atoi\<close> returns beside its error, for callers that ignore the error: 0 for a
  string that is no number, and the nearest 64-bit integer for one out of range. The digits are
  read up to an overflow of 64 bits, what follows it is not looked at.\<close>

fun scanUint :: "nat \<Rightarrow> string \<Rightarrow> nat" where
  "scanUint n [] = n"
| "scanUint n (c # cs) =
     (if \<not> isDigit c then 0
      else if 10 * n + digitVal c \<ge> 18446744073709551616 then 18446744073709551615
      else scanUint (10 * n + digitVal c) cs)"

definition atoiValue :: "string \<Rightarrow> int" where
  "atoiValue s =
     (case s of
        [] \<Rightarrow> 0
      | c # cs \<Rightarrow>
          (if c = CHR ''-'' then - min 9223372036854775808 (int (scanUint 0 cs))
           else min 9223372036854775807 (int (scanUint 0 (if c = CHR ''+'' then cs else s)))))"

text \<open>\<open>fmt.Sscanf(s, "%d", &v)\<close>: leading blanks are skipped, trailing text is ignored; \<open>None\<close>
  when no number could be scanned (the variable then keeps its value).\<close>

definition sscanfInt :: "string \<Rightarrow> int option" where
  "sscanfInt s =
     (let t = dropWhile (\<lambda>c. isSpaceChar c \<and> c \<noteq> CHR 0x0A) s;
        (sgn, ds) = (case t of
          [] \<Rightarrow> ([], [])
        | c # cs \<Rightarrow> if c = CHR ''-'' \<or> c = CHR ''+'' then ([c], cs) else ([], t))
      in atoi (sgn @ takeWhile isDigit ds))"

lemma digitChar_digit [simp]: "d < 10 \<Longrightarrow> isDigit (digitChar d)"
  by (simp add: digitChar_def isDigit_def)

lemma digitVal_digitChar [simp]: "d < 10 \<Longrightarrow> digitVal (digitChar d) = d"
  by (simp add: digitChar_def digitVal_def)

lemma digitsVal_snoc [simp]: "digitsVal (s @ [c]) = 10 * digitsVal s + digitVal c"
  by (simp add: digitsVal_def)

lemma natDigits_nonempty [simp]: "natDigits n \<noteq> []"
  by (subst natDigits.simps) simp

lemma natDigits_digits: "c \<in> set (natDigits n) \<Longrightarrow> isDigit c"
proof (induction n rule: natDigits.induct)
  case (1 n)
  then show ?case
    by (cases "n < 10") (auto simp: natDigits.simps [of n])
qed

lemma digitsVal_natDigits: "digitsVal (natDigits n) = n"
proof (induction n rule: natDigits.induct)
  case (1 n)
  show ?case
  proof (cases "n < 10")
    case True
    then show ?thesis by (simp add: natDigits.simps [of n] digitsVal_def)
  next
    case False
    with 1 have "digitsVal (natDigits (n div 10)) = n div 10" by simp
    with False show ?thesis by (simp add: natDigits.simps [of n])
  qed
qed

lemma not_isDigit [simp]:
  "\<not> isDigit (CHR ''-'')" "\<not> isDigit (CHR ''+'')" "\<not> isDigit (CHR '':'')"
  "\<not> isDigit (CHR ''/'')" "\<not> isDigit (CHR '' '')" "\<not> isDigit (CHR ''.'')"
  by (simp_all add: isDigit_def)

lemma natDigits_notin [simp]:
  "\<not> isDigit c \<Longrightarrow> c \<notin> set (natDigits n)"
  using natDigits_digits by blast

lemma natDigits_hd: "natDigits n = c # cs \<Longrightarrow> isDigit c"
  by (metis list.set_intros(1) natDigits_digits)

lemma natDigits_inject [simp]: "natDigits m = natDigits n \<longleftrightarrow> m = n"
  by (metis digitsVal_natDigits)

lemma itoa_inject [simp]: "itoa i = itoa j \<longleftrightarrow> i = j"
proof -
  have "natDigits (nat i) \<noteq> CHR ''-'' # natDigits (nat (- j))" for i j :: int
    by (metis natDigits_hd not_isDigit(1))
  then show ?thesis
    by (auto simp: itoa_def split: if_splits) (metis natDigits_hd not_isDigit(1))+
qed

lemma itoa_notin: "\<not> isDigit c \<Longrightarrow> c \<noteq> CHR ''-'' \<Longrightarrow> c \<notin> set (itoa i)"
  by (simp add: itoa_def)

lemma list_all_natDigits [simp]: "list_all isDigit (natDigits n)"
  by (auto simp: list_all_iff natDigits_digits)

theorem atoi_itoa: "in_int64 i \<Longrightarrow> atoi (itoa i) = Some i"
proof (cases "i < 0")
  case True
  assume "in_int64 i"
  with True show ?thesis
    by (simp add: atoi_def itoa_def digitsVal_natDigits)
next
  case False
  assume "in_int64 i"
  obtain c cs where ds: "natDigits (nat i) = c # cs"
    by (meson list.exhaust natDigits_nonempty)
  then have "isDigit c" by (rule natDigits_hd)
  then have "c \<noteq> CHR ''-''" "c \<noteq> CHR ''+''" by auto
  with False \<open>in_int64 i\<close> ds digitsVal_natDigits [of "nat i"] list_all_natDigits [of "nat i"]
  show ?thesis by (simp add: atoi_def itoa_def)
qed

lemma sscanfInt_itoa: "n \<ge> 0 \<Longrightarrow> in_int64 n \<Longrightarrow> sscanfInt (itoa n) = Some n"
proof -
  assume n: "n \<ge> 0" "in_int64 n"
  obtain c cs where ds: "natDigits (nat n) = c # cs"
    by (meson list.exhaust natDigits_nonempty)
  then have c: "isDigit c" by (rule natDigits_hd)
  then have "\<not> isSpaceChar c" "c \<noteq> CHR ''-''" "c \<noteq> CHR ''+''"
    by (auto simp: isSpaceChar_def isDigit_def)
  moreover have i: "itoa n = c # cs" using n ds by (simp add: itoa_def)
  ultimately have "sscanfInt (itoa n) = atoi (takeWhile isDigit (c # cs))"
    by (simp add: sscanfInt_def del: takeWhile.simps)
  also have "takeWhile isDigit (c # cs) = c # cs"
    using ds list_all_natDigits [of "nat n"] by (simp add: list_all_iff)
  finally show ?thesis using atoi_itoa [OF n(2)] i by simp
qed

lemma digits_grow: "n \<le> foldl (\<lambda>acc c. 10 * acc + digitVal c) n s"
proof (induction s arbitrary: n)
  case (Cons c s)
  have "n \<le> 10 * n + digitVal c" by simp
  also note Cons [of "10 * n + digitVal c"]
  finally show ?case by simp
qed simp

lemma scanUint_foldl:
  "list_all isDigit s \<Longrightarrow> foldl (\<lambda>acc c. 10 * acc + digitVal c) n s < 18446744073709551616 \<Longrightarrow>
   scanUint n s = foldl (\<lambda>acc c. 10 * acc + digitVal c) n s"
proof (induction s arbitrary: n)
  case (Cons c s)
  from Cons.prems(2) digits_grow [of "10 * n + digitVal c" s]
  have "10 * n + digitVal c < 18446744073709551616" by simp
  with Cons show ?case by simp
qed simp

text \<open>Where \<open>Atoi\<close> reports no error, the number returned is the number it read.\<close>

lemma scanUint_digits: "list_all isDigit s \<Longrightarrow> digitsVal s < 18446744073709551616 \<Longrightarrow> scanUint 0 s = digitsVal s"
  unfolding digitsVal_def by (rule scanUint_foldl)

lemma atoiValue_atoi: "atoi s = Some v \<Longrightarrow> atoiValue s = v"
proof (cases s)
  case (Cons c cs)
  assume "atoi s = Some v"
  with Cons show ?thesis
    by (auto simp: atoi_def atoiValue_def scanUint_digits in_int64_def Let_def min_def simp del: scanUint.simps split: if_splits)
qed (simp add: atoi_def Let_def)

lemma atoiValue_itoa [simp]: "in_int64 i \<Longrightarrow> atoiValue (itoa i) = i"
  by (rule atoiValue_atoi) (rule atoi_itoa)

section \<open>Lists and maps\<close>

text \<open>The first element that satisfies a test, with its index: Go's \<open>for i, x := range xs\<close> loop
  that breaks at the first hit.\<close>

fun findIndex :: "('a \<Rightarrow> bool) \<Rightarrow> 'a list \<Rightarrow> nat option" where
  "findIndex P [] = None"
| "findIndex P (x # xs) = (if P x then Some 0 else map_option Suc (findIndex P xs))"

lemma findIndex_None_iff: "findIndex P xs = None \<longleftrightarrow> (\<forall>x \<in> set xs. \<not> P x)"
  by (induction xs) auto

lemma findIndex_Some:
  "findIndex P xs = Some i \<Longrightarrow> i < length xs \<and> P (xs ! i) \<and> (\<forall>j < i. \<not> P (xs ! j))"
proof (induction xs arbitrary: i)
  case (Cons x xs)
  then show ?case
    by (auto split: if_splits simp: less_Suc_eq_0_disj)
qed simp

lemma findIndex_nth:
  "i < length xs \<Longrightarrow> P (xs ! i) \<Longrightarrow> (\<And>j. j < i \<Longrightarrow> \<not> P (xs ! j)) \<Longrightarrow> findIndex P xs = Some i"
proof (induction xs arbitrary: i)
  case (Cons x xs)
  show ?case
  proof (cases i)
    case 0
    with Cons.prems show ?thesis by simp
  next
    case (Suc k)
    then have "\<not> P x" using Cons.prems(3) [of 0] by simp
    moreover have "findIndex P xs = Some k"
    proof (rule Cons.IH)
      show "k < length xs" "P (xs ! k)" using Cons.prems(1,2) Suc by simp_all
      show "\<not> P (xs ! j)" if "j < k" for j using Cons.prems(3) [of "Suc j"] that Suc by simp
    qed
    ultimately show ?thesis using Suc by simp
  qed
qed simp

lemma findIndex_distinct:
  "distinct xs \<Longrightarrow> i < length xs \<Longrightarrow> findIndex (\<lambda>x. x = xs ! i) xs = Some i"
  by (rule findIndex_nth) (auto simp: distinct_conv_nth)

lemma set_map_filter: "set (List.map_filter f xs) = {y. \<exists>x \<in> set xs. f x = Some y}"
  by (induction xs) (auto simp: List.map_filter_simps split: option.splits)

text \<open>The order in which Go's \<open>range\<close> visits the keys of a map is not specified: a model that
  iterates over a map takes the visiting order as an argument, any enumeration of its keys.\<close>

definition key_order :: "'k list \<Rightarrow> ('k \<rightharpoonup> 'v) \<Rightarrow> bool" where
  "key_order ks m \<longleftrightarrow> distinct ks \<and> set ks = dom m"

text \<open>One such order, for maps with text keys: the sorted keys.\<close>

definition sortedKeys :: "(string, 'v) fmap \<Rightarrow> string list" where
  "sortedKeys m = sorted_list_of_fset (fmdom m)"

lemma sortedKeys_ok [simp]: "distinct (sortedKeys m)" "set (sortedKeys m) = fset (fmdom m)"
  by (simp_all add: sortedKeys_def sorted_list_of_fset.rep_eq)

lemma sortedKeys_order: "key_order (sortedKeys m) (fmlookup m)"
  by (auto simp: key_order_def fmlookup_dom'_iff fmlookup_dom_iff)

end
