(* ===== verification/PortAlloc.thy ===== *)
theory PortAlloc
  imports Prelude
begin

text \<open>
  The gateway port allocator (\<open>internal/gateway/portalloc/allocator.go\<close>): which port of the
  configured range belongs to which VirtualService. Its two maps (\<open>allocated\<close> from ports to
  owners, \<open>ownerPorts\<close> from owners to their ports in allocation order) describe the same
  relation; \<open>alloc_inv\<close> says so and every operation keeps it. Each method runs under the
  allocator's mutex, so an operation is one atomic step on the record. The locale \<open>port_pool\<close> is
  the interface the controller relies on, interpreted here on the allocator.
\<close>

section \<open>State and operations\<close>

record allocator =
  rangeStart :: int
  rangeEnd :: int
  allocated :: "(int, string) fmap"
  ownerPorts :: "(string, int list) fmap"

definition NewAllocator :: "int \<Rightarrow> int \<Rightarrow> allocator" where
  "NewAllocator s e =
     \<lparr>rangeStart = s, rangeEnd = e, allocated = fmempty, ownerPorts = fmempty\<rparr>"

text \<open>The search loop of \<open>Allocate\<close>: the first port from \<open>port\<close> upwards that is not a key.\<close>

function firstFree :: "(int, string) fmap \<Rightarrow> int \<Rightarrow> int \<Rightarrow> int option" where
  "firstFree m port e =
     (if port \<le> e then
        (if fmlookup m port = None then Some port else firstFree m (port + 1) e)
      else None)"
  by pat_completeness auto
termination
  by (relation "measure (\<lambda>(m, port, e). nat (e + 1 - port))") auto

declare firstFree.simps [simp del]

definition portsOf :: "allocator \<Rightarrow> string \<Rightarrow> int list" where
  "portsOf a k = (case fmlookup (ownerPorts a) k of None \<Rightarrow> [] | Some ps \<Rightarrow> ps)"

definition Allocate :: "allocator \<Rightarrow> string \<Rightarrow> allocator \<times> int result" where
  "Allocate a ownerKey =
     (case firstFree (allocated a) (rangeStart a) (rangeEnd a) of
        Some port \<Rightarrow>
          (a\<lparr>allocated := fmupd port ownerKey (allocated a),
             ownerPorts := fmupd ownerKey (portsOf a ownerKey @ [port]) (ownerPorts a)\<rparr>,
           Inr port)
      | None \<Rightarrow>
          (a, Inl (ErrNew (''no available ports in range '' @ itoa (rangeStart a) @ ''-''
                           @ itoa (rangeEnd a)))))"

definition Release :: "allocator \<Rightarrow> string \<Rightarrow> int \<Rightarrow> allocator" where
  "Release a ownerKey port =
     (if fmlookup (allocated a) port = Some ownerKey then
        (let a1 = a\<lparr>allocated := fmdrop port (allocated a)\<rparr>
         in case fmlookup (ownerPorts a1) ownerKey of
              None \<Rightarrow> a1
            | Some ports \<Rightarrow>
                (let newPorts = filter (\<lambda>p. p \<noteq> port) ports
                 in if newPorts \<noteq> []
                    then a1\<lparr>ownerPorts := fmupd ownerKey newPorts (ownerPorts a1)\<rparr>
                    else a1\<lparr>ownerPorts := fmdrop ownerKey (ownerPorts a1)\<rparr>))
      else a)"

definition ReleaseAll :: "allocator \<Rightarrow> string \<Rightarrow> allocator" where
  "ReleaseAll a ownerKey =
     (case fmlookup (ownerPorts a) ownerKey of
        None \<Rightarrow> a
      | Some ports \<Rightarrow>
          a\<lparr>allocated := foldl (\<lambda>m p. fmdrop p m) (allocated a) ports,
            ownerPorts := fmdrop ownerKey (ownerPorts a)\<rparr>)"

definition IsAllocated :: "allocator \<Rightarrow> int \<Rightarrow> bool" where
  "IsAllocated a port \<longleftrightarrow> fmlookup (allocated a) port \<noteq> None"

definition GetOwner :: "allocator \<Rightarrow> int \<Rightarrow> string" where
  "GetOwner a port = (case fmlookup (allocated a) port of None \<Rightarrow> [] | Some k \<Rightarrow> k)"

definition GetAllocatedPorts :: "allocator \<Rightarrow> string \<Rightarrow> int list" where
  "GetAllocatedPorts a ownerKey = portsOf a ownerKey"

text \<open>\<open>Stats\<close> returns allocated, available and total.\<close>

definition Stats :: "allocator \<Rightarrow> int \<times> int \<times> int" where
  "Stats a =
     (let total = rangeEnd a - rangeStart a + 1;
          used = int (fcard (fmdom (allocated a)))
      in (used, total - used, total))"

section \<open>The invariant\<close>

definition ownerOf :: "allocator \<Rightarrow> int \<Rightarrow> string option" where
  "ownerOf a = fmlookup (allocated a)"

definition inRange :: "allocator \<Rightarrow> int \<Rightarrow> bool" where
  "inRange a p \<longleftrightarrow> rangeStart a \<le> p \<and> p \<le> rangeEnd a"

definition alloc_inv :: "allocator \<Rightarrow> bool" where
  "alloc_inv a \<longleftrightarrow>
     (\<forall>p k. fmlookup (allocated a) p = Some k \<longleftrightarrow> p \<in> set (portsOf a k)) \<and>
     (\<forall>k ps. fmlookup (ownerPorts a) k = Some ps \<longrightarrow> ps \<noteq> [] \<and> distinct ps) \<and>
     (\<forall>p k. fmlookup (allocated a) p = Some k \<longrightarrow> inRange a p)"

lemma firstFree_Some:
  "firstFree m port e = Some p \<Longrightarrow>
     port \<le> p \<and> p \<le> e \<and> fmlookup m p = None \<and> (\<forall>q. port \<le> q \<and> q < p \<longrightarrow> fmlookup m q \<noteq> None)"
proof (induction m port e rule: firstFree.induct)
  case (1 m port e)
  show ?case
  proof (cases "port \<le> e \<and> fmlookup m port \<noteq> None")
    case True
    with "1.prems" have "firstFree m (port + 1) e = Some p"
      by (simp add: firstFree.simps [of m port e])
    with "1.IH" True have "port + 1 \<le> p \<and> p \<le> e \<and> fmlookup m p = None \<and>
        (\<forall>q. port + 1 \<le> q \<and> q < p \<longrightarrow> fmlookup m q \<noteq> None)"
      by simp
    moreover have "port \<le> q \<Longrightarrow> q = port \<or> port + 1 \<le> q" for q by arith
    ultimately show ?thesis using True by auto
  next
    case False
    with "1.prems" show ?thesis
      by (auto simp: firstFree.simps [of m port e] split: if_splits)
  qed
qed

lemma firstFree_None:
  "firstFree m port e = None \<longleftrightarrow> (\<forall>q. port \<le> q \<and> q \<le> e \<longrightarrow> fmlookup m q \<noteq> None)"
proof (induction m port e rule: firstFree.induct)
  case (1 m port e)
  show ?case
  proof (cases "port \<le> e \<and> fmlookup m port \<noteq> None")
    case True
    then have "firstFree m port e = firstFree m (port + 1) e"
      by (auto simp: firstFree.simps [of m port e])
    with "1.IH" True have "firstFree m port e = None \<longleftrightarrow>
        (\<forall>q. port + 1 \<le> q \<and> q \<le> e \<longrightarrow> fmlookup m q \<noteq> None)"
      by simp
    moreover have "port \<le> q \<longleftrightarrow> q = port \<or> port + 1 \<le> q" for q by arith
    ultimately show ?thesis using True by auto
  next
    case False
    then show ?thesis by (auto simp: firstFree.simps [of m port e])
  qed
qed

lemma foldl_fmdrop:
  "fmlookup (foldl (\<lambda>m p. fmdrop p m) m ps) q = (if q \<in> set ps then None else fmlookup m q)"
  by (induction ps arbitrary: m) auto

text \<open>What each operation does to the owner function.\<close>

lemma Allocate_ok_iff:
  "Allocate a k = (a', Inr p) \<longleftrightarrow>
     firstFree (allocated a) (rangeStart a) (rangeEnd a) = Some p \<and>
     a' = a\<lparr>allocated := fmupd p k (allocated a),
            ownerPorts := fmupd k (portsOf a k @ [p]) (ownerPorts a)\<rparr>"
  by (auto simp: Allocate_def split: option.splits)

lemma Allocate_owner:
  assumes "Allocate a k = (a', Inr p)"
  shows "ownerOf a p = None" "inRange a p" "ownerOf a' = (ownerOf a)(p \<mapsto> k)"
  using assms firstFree_Some [of "allocated a" "rangeStart a" "rangeEnd a" p]
  by (auto simp: Allocate_ok_iff ownerOf_def inRange_def)

lemma Allocate_fails:
  assumes "Allocate a k = (a', Inl e)"
  shows "a' = a" "inRange a p \<Longrightarrow> ownerOf a p \<noteq> None"
  using assms
  by (auto simp: Allocate_def ownerOf_def inRange_def firstFree_None split: option.splits)

lemma ownerOf_Release:
  "ownerOf (Release a k p) = (if ownerOf a p = Some k then (ownerOf a)(p := None) else ownerOf a)"
  by (auto simp: Release_def ownerOf_def Let_def fun_eq_iff split: option.splits)

lemma range_simps [frame_simps, simp]:
  "Allocate a k = (a', r) \<Longrightarrow> inRange a' = inRange a"
  "inRange (Release a k p) = inRange a"
  "inRange (ReleaseAll a k) = inRange a"
  by (auto simp: Allocate_def Release_def ReleaseAll_def inRange_def Let_def fun_eq_iff
      split: option.splits prod.splits)

lemma portsOf_Release:
  "alloc_inv a \<Longrightarrow>
   portsOf (Release a k p) k' =
     (if k' = k \<and> ownerOf a p = Some k then filter (\<lambda>q. q \<noteq> p) (portsOf a k) else portsOf a k')"
  by (auto simp: Release_def ownerOf_def portsOf_def Let_def filter_empty_conv
      split: option.splits)

lemma alloc_invI:
  assumes "\<And>p k. ownerOf a p = Some k \<longleftrightarrow> p \<in> set (portsOf a k)"
    and "\<And>k ps. fmlookup (ownerPorts a) k = Some ps \<Longrightarrow> ps \<noteq> [] \<and> distinct ps"
    and "\<And>p k. ownerOf a p = Some k \<Longrightarrow> inRange a p"
  shows "alloc_inv a"
  using assms by (auto simp: alloc_inv_def ownerOf_def)

lemma alloc_invD:
  assumes "alloc_inv a"
  shows "ownerOf a p = Some k \<longleftrightarrow> p \<in> set (portsOf a k)"
    and "fmlookup (ownerPorts a) k = Some ps \<Longrightarrow> ps \<noteq> [] \<and> distinct ps"
    and "ownerOf a p = Some k \<Longrightarrow> inRange a p"
  using assms unfolding alloc_inv_def ownerOf_def by blast+

lemma portsOf_disjoint:
  "alloc_inv a \<Longrightarrow> q \<in> set (portsOf a k) \<Longrightarrow> q \<in> set (portsOf a k') \<Longrightarrow> k' = k"
  using alloc_invD(1) by (metis option.inject)

lemma alloc_inv_New [inv_intros]: "alloc_inv (NewAllocator s e)"
  by (simp add: alloc_inv_def NewAllocator_def portsOf_def)

lemma alloc_inv_Allocate [inv_intros]:
  assumes inv: "alloc_inv a" and al: "Allocate a k = (a', r)"
  shows "alloc_inv a'"
proof (cases r)
  case (Inl e)
  with al show ?thesis using Allocate_fails(1) inv by blast
next
  case (Inr p)
  with al have al': "Allocate a k = (a', Inr p)" by simp
  note own = Allocate_owner [OF al']
  from al' have ports: "portsOf a' k' = (if k' = k then portsOf a k @ [p] else portsOf a k')" for k'
    by (auto simp: Allocate_ok_iff portsOf_def)
  have fresh: "p \<notin> set (portsOf a k')" for k'
    using own(1) alloc_invD(1) [OF inv, of p k'] by simp
  show ?thesis
  proof (rule alloc_invI)
    fix q k'
    show "ownerOf a' q = Some k' \<longleftrightarrow> q \<in> set (portsOf a' k')"
      using own(3) alloc_invD(1) [OF inv] fresh [of k'] ports by (auto split: if_splits)
  next
    fix k' ps
    assume ps: "fmlookup (ownerPorts a') k' = Some ps"
    show "ps \<noteq> [] \<and> distinct ps"
    proof (cases "k' = k")
      case True
      with ps al' have "ps = portsOf a k @ [p]" by (auto simp: Allocate_ok_iff)
      moreover have "distinct (portsOf a k)"
        using alloc_invD(2) [OF inv] by (auto simp: portsOf_def split: option.splits)
      ultimately show ?thesis using fresh [of k] by simp
    next
      case False
      with ps al' have "fmlookup (ownerPorts a) k' = Some ps" by (auto simp: Allocate_ok_iff)
      then show ?thesis by (rule alloc_invD(2) [OF inv])
    qed
  next
    fix q k'
    assume "ownerOf a' q = Some k'"
    then show "inRange a' q"
      using own alloc_invD(3) [OF inv] range_simps(1) [OF al] by (auto split: if_splits)
  qed
qed

lemma alloc_inv_Release [inv_intros]:
  assumes inv: "alloc_inv a"
  shows "alloc_inv (Release a k p)"
proof (rule alloc_invI)
  fix q k'
  show "ownerOf (Release a k p) q = Some k' \<longleftrightarrow> q \<in> set (portsOf (Release a k p) k')"
    using alloc_invD(1) [OF inv]
    by (auto simp: ownerOf_Release portsOf_Release [OF inv] dest: portsOf_disjoint [OF inv])
next
  fix k' ps
  assume "fmlookup (ownerPorts (Release a k p)) k' = Some ps"
  then show "ps \<noteq> [] \<and> distinct ps"
    using alloc_invD(2) [OF inv]
    by (auto simp: Release_def Let_def split: if_splits option.splits)
next
  fix q k'
  assume "ownerOf (Release a k p) q = Some k'"
  then show "inRange (Release a k p) q"
    using alloc_invD(3) [OF inv] by (auto simp: ownerOf_Release split: if_splits)
qed

lemma ownerOf_ReleaseAll:
  assumes "alloc_inv a"
  shows "ownerOf (ReleaseAll a k) q = (if ownerOf a q = Some k then None else ownerOf a q)"
proof -
  have "ownerOf (ReleaseAll a k) q = (if q \<in> set (portsOf a k) then None else ownerOf a q)"
    by (auto simp: ReleaseAll_def ownerOf_def portsOf_def foldl_fmdrop split: option.splits)
  then show ?thesis using alloc_invD(1) [OF assms] by simp
qed

lemma portsOf_ReleaseAll: "portsOf (ReleaseAll a k) k' = (if k' = k then [] else portsOf a k')"
  by (auto simp: ReleaseAll_def portsOf_def split: option.splits)

lemma alloc_inv_ReleaseAll [inv_intros]:
  assumes inv: "alloc_inv a"
  shows "alloc_inv (ReleaseAll a k)"
proof (rule alloc_invI)
  fix q k'
  show "ownerOf (ReleaseAll a k) q = Some k' \<longleftrightarrow> q \<in> set (portsOf (ReleaseAll a k) k')"
    using alloc_invD(1) [OF inv]
    by (auto simp: ownerOf_ReleaseAll [OF inv] portsOf_ReleaseAll dest: portsOf_disjoint [OF inv])
next
  fix k' ps
  assume "fmlookup (ownerPorts (ReleaseAll a k)) k' = Some ps"
  then show "ps \<noteq> [] \<and> distinct ps"
    using alloc_invD(2) [OF inv] by (auto simp: ReleaseAll_def split: if_splits option.splits)
next
  fix q k'
  assume "ownerOf (ReleaseAll a k) q = Some k'"
  then show "inRange (ReleaseAll a k) q"
    using alloc_invD(3) [OF inv] by (auto simp: ownerOf_ReleaseAll [OF inv] split: if_splits)
qed

section \<open>The interface of the controller\<close>

text \<open>
  What the reconciler needs of a pool of ports: \<open>owner\<close> is the abstract state, a partial function
  from ports to keys; an allocation takes a free port of the range or fails with the range full;
  a release gives up exactly the port named, and only for its owner.
\<close>

locale port_pool =
  fixes alloc :: "'a \<Rightarrow> string \<Rightarrow> 'a \<times> int result"
    and release :: "'a \<Rightarrow> string \<Rightarrow> int \<Rightarrow> 'a"
    and owner :: "'a \<Rightarrow> int \<Rightarrow> string option"
    and range :: "'a \<Rightarrow> int \<Rightarrow> bool"
    and inv :: "'a \<Rightarrow> bool"
  assumes alloc_ok: "inv a \<Longrightarrow> alloc a k = (a', Inr p) \<Longrightarrow>
      owner a p = None \<and> range a p \<and> owner a' = (owner a)(p \<mapsto> k)"
    and alloc_err: "inv a \<Longrightarrow> alloc a k = (a', Inl e) \<Longrightarrow>
      a' = a \<and> (\<forall>p. range a p \<longrightarrow> owner a p \<noteq> None)"
    and owner_release: "inv a \<Longrightarrow>
      owner (release a k p) = (if owner a p = Some k then (owner a)(p := None) else owner a)"
    and alloc_inv: "inv a \<Longrightarrow> alloc a k = (a', r) \<Longrightarrow> inv a' \<and> range a' = range a"
    and release_inv: "inv a \<Longrightarrow> inv (release a k p) \<and> range (release a k p) = range a"
begin

lemma release_list_inv: "inv a \<Longrightarrow> inv (foldl (\<lambda>b p. release b k p) a ps) \<and>
    range (foldl (\<lambda>b p. release b k p) a ps) = range a"
  by (induction ps arbitrary: a) (simp_all add: release_inv)

lemma release_list_owner:
  "inv a \<Longrightarrow> owner (foldl (\<lambda>b p. release b k p) a ps) q =
     (if q \<in> set ps \<and> owner a q = Some k then None else owner a q)"
proof (induction ps arbitrary: a)
  case (Cons p ps)
  then have "owner (foldl (\<lambda>b p. release b k p) (release a k p) ps) q =
     (if q \<in> set ps \<and> owner (release a k p) q = Some k then None else owner (release a k p) q)"
    by (simp add: release_inv)
  with Cons.prems show ?case by (auto simp: owner_release)
qed simp

end

interpretation pool: port_pool Allocate Release ownerOf inRange alloc_inv
proof
  fix a k a' p
  assume "Allocate a k = (a', Inr p)"
  then show "ownerOf a p = None \<and> inRange a p \<and> ownerOf a' = (ownerOf a)(p \<mapsto> k)"
    using Allocate_owner by blast
next
  fix a k a' e
  assume "Allocate a k = (a', Inl e)"
  then show "a' = a \<and> (\<forall>p. inRange a p \<longrightarrow> ownerOf a p \<noteq> None)"
    using Allocate_fails by blast
next
  fix a k p
  show "ownerOf (Release a k p) = (if ownerOf a p = Some k then (ownerOf a)(p := None) else ownerOf a)"
    by (rule ownerOf_Release)
next
  fix a k a' r
  assume "alloc_inv a" "Allocate a k = (a', r)"
  then show "alloc_inv a' \<and> inRange a' = inRange a"
    using alloc_inv_Allocate range_simps(1) by blast
next
  fix a k p
  assume "alloc_inv a"
  then show "alloc_inv (Release a k p) \<and> inRange (Release a k p) = inRange a"
    by (simp add: alloc_inv_Release)
qed

section \<open>Runs of the allocator\<close>

datatype alloc_op = OpAllocate string | OpRelease string int | OpReleaseAll string

fun alloc_step :: "allocator \<Rightarrow> alloc_op \<Rightarrow> allocator" where
  "alloc_step a (OpAllocate k) = fst (Allocate a k)"
| "alloc_step a (OpRelease k p) = Release a k p"
| "alloc_step a (OpReleaseAll k) = ReleaseAll a k"

definition alloc_run :: "allocator \<Rightarrow> alloc_op list \<Rightarrow> allocator" where
  "alloc_run = foldl alloc_step"

lemma alloc_step_inv [inv_intros]: "alloc_inv a \<Longrightarrow> alloc_inv (alloc_step a x)"
proof (cases x)
  case (OpAllocate k)
  assume "alloc_inv a"
  then have "alloc_inv (fst (Allocate a k))"
    by (rule alloc_inv_Allocate) (rule surjective_pairing)
  with OpAllocate show ?thesis by simp
qed (simp_all add: inv_intros)

lemma alloc_run_inv: "alloc_inv a \<Longrightarrow> alloc_inv (alloc_run a ops)"
  unfolding alloc_run_def
  by (induction ops arbitrary: a) (simp_all add: alloc_step_inv)

lemma alloc_step_range [simp]:
  "rangeStart (alloc_step a x) = rangeStart a" "rangeEnd (alloc_step a x) = rangeEnd a"
  by (cases x; simp add: Allocate_def Release_def ReleaseAll_def Let_def split: option.splits)+

lemma alloc_run_range [simp]:
  "rangeStart (alloc_run a ops) = rangeStart a" "rangeEnd (alloc_run a ops) = rangeEnd a"
  unfolding alloc_run_def by (induction ops arbitrary: a) simp_all

end
