(* ===== verification/Json.thy ===== *)
theory Json
  imports Prelude
begin

text \<open>
  JSON values as the decoders of \<open>encoding/json\<close> produce them for \<open>interface{}\<close> targets, and HTTP
  responses. A number stands for the integer that the code reads with \<open>int(f)\<close> from the decoded
  \<open>float64\<close>. Of a repeated member of an object the last one counts, as in the Go map the object is
  decoded into.
\<close>

datatype json =
    JNull
  | JBool bool
  | JNum int
  | JStr string
  | JArr "json list"
  | JObj "(string \<times> json) list"

type_synonym json_obj = "(string \<times> json) list"

definition jget :: "json_obj \<Rightarrow> string \<Rightarrow> json option" where
  "jget o' k = map_of (rev o') k"

fun json_kind :: "json \<Rightarrow> string" where
  "json_kind JNull = ''null''"
| "json_kind (JBool _) = ''bool''"
| "json_kind (JNum _) = ''number''"
| "json_kind (JStr _) = ''string''"
| "json_kind (JArr _) = ''array''"
| "json_kind (JObj _) = ''object''"

text \<open>Decoding into \<open>map[string]interface{}\<close>: \<open>null\<close> leaves the map nil, other non-objects are
  type errors.\<close>

fun asObject :: "json \<Rightarrow> json_obj result" where
  "asObject JNull = Inr []"
| "asObject (JObj o') = Inr o'"
| "asObject v = Inl (ErrNew (''json: cannot unmarshal '' @ json_kind v
                     @ '' into Go value of type map[string]interface {}''))"

fun asString :: "json option \<Rightarrow> string option" where
  "asString (Some (JStr s)) = Some s"
| "asString _ = None"

fun asNum :: "json option \<Rightarrow> int option" where
  "asNum (Some (JNum n)) = Some n"
| "asNum _ = None"

fun asArray :: "json option \<Rightarrow> json list option" where
  "asArray (Some (JArr vs)) = Some vs"
| "asArray _ = None"

text \<open>The loop that keeps the elements of an array that are objects.\<close>

fun objectsOf :: "json list \<Rightarrow> json_obj list" where
  "objectsOf [] = []"
| "objectsOf (JObj o' # vs) = o' # objectsOf vs"
| "objectsOf (_ # vs) = objectsOf vs"

text \<open>A response: status code, the body as text, and what decoding the body as JSON gives.\<close>

record http_resp =
  resp_status :: int
  resp_body :: string
  resp_json :: "json result"

definition status_err :: "string \<Rightarrow> http_resp \<Rightarrow> go_error" where
  "status_err what resp =
     ErrNew (what @ '': '' @ resp_body resp @ '' (status: '' @ itoa (resp_status resp) @ '')'')"

end
