(* ===== verification/HAProxy.thy ===== *)
theory HAProxy
  imports Json
begin

text \<open>
  The HAProxy manager (\<open>internal/gateway/haproxy/manager.go\<close>, with the interface of
  \<open>interface.go\<close> and the test double of \<open>mock_manager.go\<close>). The Data Plane API is a service: every
  method of the manager is a function of it that threads the log of requests and responses. The
  order in which \<open>range\<close> visits the desired servers of a backend is an argument (\<open>ord\<close>).
\<close>

section \<open>Data\<close>

record backend =
  be_name :: string
  be_address :: string
  be_port :: int

record listener_config =
  lc_name :: string
  lc_port :: int
  lc_backends :: "backend list"

text \<open>The requests the manager sends, one constructor for each method and URL it builds.\<close>

datatype dp_request =
    DpInfo
  | DpVersion
  | DpStartTx int
  | DpCommitTx string
  | DpDeleteTx string
  | DpReload bool
  | DpGetFrontend string string
  | DpPutFrontend string string json
  | DpPostFrontend string json
  | DpDeleteFrontend string string
  | DpGetBinds string string
  | DpPutBind string string json
  | DpPostBind string string json
  | DpGetBackend string string
  | DpPostBackend string json
  | DpDeleteBackend string string
  | DpGetServers string string
  | DpPostServer string string json
  | DpPutServer string string string json
  | DpDeleteServer string string string

text \<open>Method and URL of a request, relative to the base URL of the API. The first argument of the
  constructors is the transaction, then frontend or backend, then server.\<close>

definition svc :: string where "svc = ''/services/haproxy/''"

definition cfg :: string where "cfg = ''/services/haproxy/configuration/''"

fun dp_http :: "dp_request \<Rightarrow> string \<times> string" where
  "dp_http DpInfo = (''GET'', ''/info'')"
| "dp_http DpVersion = (''GET'', cfg @ ''version'')"
| "dp_http (DpStartTx v) = (''POST'', svc @ ''transactions?version='' @ itoa v)"
| "dp_http (DpCommitTx t) = (''PUT'', svc @ ''transactions/'' @ t @ ''?force_reload=true'')"
| "dp_http (DpDeleteTx t) = (''DELETE'', svc @ ''transactions/'' @ t)"
| "dp_http (DpReload force) =
     (''POST'', svc @ ''reloads'' @ (if force then ''?force_reload=true'' else ''''))"
| "dp_http (DpGetFrontend t n) = (''GET'', cfg @ ''frontends/'' @ n @ ''?transaction_id='' @ t)"
| "dp_http (DpPutFrontend t n _) = (''PUT'', cfg @ ''frontends/'' @ n @ ''?transaction_id='' @ t)"
| "dp_http (DpPostFrontend t _) = (''POST'', cfg @ ''frontends?transaction_id='' @ t)"
| "dp_http (DpDeleteFrontend t n) =
     (''DELETE'', cfg @ ''frontends/'' @ n @ ''?transaction_id='' @ t)"
| "dp_http (DpGetBinds t f) = (''GET'', cfg @ ''binds?frontend='' @ f @ ''&transaction_id='' @ t)"
| "dp_http (DpPutBind t f _) =
     (''PUT'', cfg @ ''binds/bind_1?frontend='' @ f @ ''&transaction_id='' @ t)"
| "dp_http (DpPostBind t f _) =
     (''POST'', cfg @ ''binds?frontend='' @ f @ ''&transaction_id='' @ t)"
| "dp_http (DpGetBackend t n) = (''GET'', cfg @ ''backends/'' @ n @ ''?transaction_id='' @ t)"
| "dp_http (DpPostBackend t _) = (''POST'', cfg @ ''backends?transaction_id='' @ t)"
| "dp_http (DpDeleteBackend t n) =
     (''DELETE'', cfg @ ''backends/'' @ n @ ''?transaction_id='' @ t)"
| "dp_http (DpGetServers t b) =
     (''GET'', cfg @ ''servers?backend='' @ b @ ''&transaction_id='' @ t)"
| "dp_http (DpPostServer t b _) =
     (''POST'', cfg @ ''servers?backend='' @ b @ ''&transaction_id='' @ t)"
| "dp_http (DpPutServer t b s _) =
     (''PUT'', cfg @ ''servers/'' @ s @ ''?backend='' @ b @ ''&transaction_id='' @ t)"
| "dp_http (DpDeleteServer t b s) =
     (''DELETE'', cfg @ ''servers/'' @ s @ ''?backend='' @ b @ ''&transaction_id='' @ t)"

type_synonym dp_log = "(dp_request, http_resp result) log"
type_synonym dp_service = "(dp_request, http_resp result) service"
type_synonym dp_order = "dp_log \<Rightarrow> string list \<Rightarrow> string list"

definition sanitizeName :: "string \<Rightarrow> string" where
  "sanitizeName name =
     replaceChar (CHR '':'') ''-'' (replaceChar (CHR '' '') ''-'' (replaceChar (CHR ''/'') ''-'' name))"

section \<open>Transactions\<close>

fun versionOf :: "json \<Rightarrow> int option" where
  "versionOf (JNum n) = Some n"
| "versionOf (JObj o') =
     (case asNum (jget o' ''version'') of
        Some n \<Rightarrow> Some n
      | None \<Rightarrow> asNum (jget o' ''_version''))"
| "versionOf _ = None"

definition getConfigVersion :: "dp_service \<Rightarrow> dp_log \<Rightarrow> int result \<times> dp_log" where
  "getConfigVersion srv w =
     (case call srv DpVersion w of
        (Inl e, w1) \<Rightarrow> (Inl e, w1)
      | (Inr resp, w1) \<Rightarrow>
          if resp_status resp \<noteq> 200
          then (Inl (status_err ''failed to get config version'' resp), w1)
          else (case resp_json resp of
                  Inl e \<Rightarrow> (Inl e, w1)
                | Inr v \<Rightarrow>
                    (case versionOf v of
                       Some n \<Rightarrow> (Inr n, w1)
                     | None \<Rightarrow> (Inl (ErrNew ''unable to parse configuration version''), w1))))"

definition startTransaction :: "dp_service \<Rightarrow> dp_log \<Rightarrow> string result \<times> dp_log" where
  "startTransaction srv w =
     (case getConfigVersion srv w of
        (Inl e, w1) \<Rightarrow> (Inl (ErrWrap ''failed to determine configuration version'' e), w1)
      | (Inr version, w1) \<Rightarrow>
          (case call srv (DpStartTx version) w1 of
             (Inl e, w2) \<Rightarrow> (Inl e, w2)
           | (Inr resp, w2) \<Rightarrow>
               if resp_status resp \<noteq> 201
               then (Inl (status_err ''failed to start transaction'' resp), w2)
               else (case resp_json resp of
                       Inl e \<Rightarrow> (Inl e, w2)
                     | Inr v \<Rightarrow>
                         (case asObject v of
                            Inl e \<Rightarrow> (Inl e, w2)
                          | Inr o' \<Rightarrow>
                              (case asString (jget o' ''id'') of
                                 Some txID \<Rightarrow> (Inr txID, w2)
                               | None \<Rightarrow>
                                   (Inl (ErrNew ''transaction ID not found in response''), w2))))))"

text \<open>The pattern of all requests whose body is not read: send, and report an unexpected status.\<close>

definition sendExpect ::
  "dp_service \<Rightarrow> dp_request \<Rightarrow> int list \<Rightarrow> string \<Rightarrow> dp_log \<Rightarrow> go_error option \<times> dp_log" where
  "sendExpect srv q ok what w =
     (case call srv q w of
        (Inl e, w1) \<Rightarrow> (Some e, w1)
      | (Inr resp, w1) \<Rightarrow>
          if resp_status resp \<notin> set ok then (Some (status_err what resp), w1) else (None, w1))"

definition commitTransaction :: "dp_service \<Rightarrow> string \<Rightarrow> dp_log \<Rightarrow> go_error option \<times> dp_log" where
  "commitTransaction srv txID w =
     sendExpect srv (DpCommitTx txID) [200, 202] ''failed to commit transaction'' w"

definition deleteTransaction :: "dp_service \<Rightarrow> string \<Rightarrow> dp_log \<Rightarrow> go_error option \<times> dp_log" where
  "deleteTransaction srv txID w =
     (case call srv (DpDeleteTx txID) w of
        (Inl e, w1) \<Rightarrow> (Some e, w1)
      | (Inr resp, w1) \<Rightarrow> (None, w1))"

definition triggerReload :: "dp_service \<Rightarrow> bool \<Rightarrow> dp_log \<Rightarrow> go_error option \<times> dp_log" where
  "triggerReload srv force w =
     sendExpect srv (DpReload force) [200, 202, 201] ''failed to trigger reload'' w"

section \<open>Frontends, binds and backends\<close>

definition bindBody :: "int \<Rightarrow> json" where
  "bindBody port =
     JObj [(''name'', JStr ''bind_1''), (''address'', JStr ''*''), (''port'', JNum port)]"

definition frontendBody :: "string \<Rightarrow> string \<Rightarrow> json" where
  "frontendBody name backendName =
     JObj [(''name'', JStr name), (''mode'', JStr ''tcp''), (''default_backend'', JStr backendName)]"

definition backendBody :: "string \<Rightarrow> json" where
  "backendBody name =
     JObj [(''name'', JStr name), (''mode'', JStr ''tcp''),
           (''balance'', JObj [(''algorithm'', JStr ''roundrobin'')])]"

text \<open>The common reading of a listing: the objects in member \<open>data\<close> of a 200 response; a failed
  decoding is an error, any other status is an empty listing.\<close>

definition listing :: "http_resp \<Rightarrow> json_obj list result" where
  "listing resp =
     (if resp_status resp = 200 then
        (case resp_json resp of
           Inl e \<Rightarrow> Inl e
         | Inr v \<Rightarrow>
             (case asObject v of
                Inl e \<Rightarrow> Inl e
              | Inr o' \<Rightarrow>
                  (case asArray (jget o' ''data'') of
                     Some vs \<Rightarrow> Inr (objectsOf vs)
                   | None \<Rightarrow> Inr [])))
      else Inr [])"

definition ensureBind ::
  "dp_service \<Rightarrow> string \<Rightarrow> string \<Rightarrow> int \<Rightarrow> dp_log \<Rightarrow> go_error option \<times> dp_log" where
  "ensureBind srv txID frontendName port w =
     (case call srv (DpGetBinds txID frontendName) w of
        (Inl e, w1) \<Rightarrow> (Some e, w1)
      | (Inr resp, w1) \<Rightarrow>
          (case listing resp of
             Inl e \<Rightarrow> (Some e, w1)
           | Inr existingBinds \<Rightarrow>
               (case find (\<lambda>b. asString (jget b ''name'') = Some ''bind_1'') existingBinds of
                  Some bind1 \<Rightarrow>
                    (let currentPort = (case asNum (jget bind1 ''port'') of Some p \<Rightarrow> p | None \<Rightarrow> 0)
                     in if currentPort = port then (None, w1)
                        else sendExpect srv (DpPutBind txID frontendName (bindBody port)) [200, 202]
                               ''failed to update bind'' w1)
                | None \<Rightarrow>
                    sendExpect srv (DpPostBind txID frontendName (bindBody port)) [201, 202]
                      ''failed to create bind'' w1)))"

definition ensureFrontend ::
  "dp_service \<Rightarrow> string \<Rightarrow> string \<Rightarrow> int \<Rightarrow> string \<Rightarrow> dp_log \<Rightarrow> go_error option \<times> dp_log" where
  "ensureFrontend srv txID name port backendName w =
     (case call srv (DpGetFrontend txID name) w of
        (Inl e, w1) \<Rightarrow> (Some e, w1)
      | (Inr resp, w1) \<Rightarrow>
          if resp_status resp = 200 then
            (case ensureBind srv txID name port w1 of
               (Some e, w2) \<Rightarrow> (Some (ErrWrap ''failed to ensure bind for existing frontend'' e), w2)
             | (None, w2) \<Rightarrow>
                 sendExpect srv (DpPutFrontend txID name (frontendBody name backendName)) [200, 202]
                   ''failed to update frontend'' w2)
          else
            (case sendExpect srv (DpPostFrontend txID (frontendBody name backendName)) [201, 202]
                    ''failed to create frontend'' w1 of
               (Some e, w2) \<Rightarrow> (Some e, w2)
             | (None, w2) \<Rightarrow>
                 (case ensureBind srv txID name port w2 of
                    (Some e, w3) \<Rightarrow> (Some (ErrWrap ''failed to create bind'' e), w3)
                  | (None, w3) \<Rightarrow> (None, w3))))"

definition deleteFrontend :: "dp_service \<Rightarrow> string \<Rightarrow> string \<Rightarrow> dp_log \<Rightarrow> go_error option \<times> dp_log" where
  "deleteFrontend srv txID name w =
     sendExpect srv (DpDeleteFrontend txID name) [204, 404] ''failed to delete frontend'' w"

definition ensureBackend :: "dp_service \<Rightarrow> string \<Rightarrow> string \<Rightarrow> dp_log \<Rightarrow> go_error option \<times> dp_log" where
  "ensureBackend srv txID name w =
     (case call srv (DpGetBackend txID name) w of
        (Inl e, w1) \<Rightarrow> (Some e, w1)
      | (Inr resp, w1) \<Rightarrow>
          if resp_status resp = 200 then (None, w1)
          else sendExpect srv (DpPostBackend txID (backendBody name)) [201, 202]
                 ''failed to create backend'' w1)"

definition deleteBackend :: "dp_service \<Rightarrow> string \<Rightarrow> string \<Rightarrow> dp_log \<Rightarrow> go_error option \<times> dp_log" where
  "deleteBackend srv txID name w =
     sendExpect srv (DpDeleteBackend txID name) [204, 404] ''failed to delete backend'' w"

section \<open>Servers\<close>

definition serverBody :: "string \<Rightarrow> backend \<Rightarrow> json" where
  "serverBody serverName b =
     JObj [(''name'', JStr serverName), (''address'', JStr (be_address b)),
           (''port'', JNum (be_port b)), (''check'', JStr ''disabled'')]"

definition createServer ::
  "dp_service \<Rightarrow> string \<Rightarrow> string \<Rightarrow> string \<Rightarrow> backend \<Rightarrow> dp_log \<Rightarrow> go_error option \<times> dp_log" where
  "createServer srv txID backendName serverName b w =
     sendExpect srv (DpPostServer txID backendName (serverBody serverName b)) [201, 202]
       ''failed to create server'' w"

definition updateServer ::
  "dp_service \<Rightarrow> string \<Rightarrow> string \<Rightarrow> string \<Rightarrow> backend \<Rightarrow> dp_log \<Rightarrow> go_error option \<times> dp_log" where
  "updateServer srv txID backendName serverName b w =
     sendExpect srv (DpPutServer txID backendName serverName (serverBody serverName b)) [200, 202]
       ''failed to update server'' w"

definition deleteServer ::
  "dp_service \<Rightarrow> string \<Rightarrow> string \<Rightarrow> string \<Rightarrow> dp_log \<Rightarrow> go_error option \<times> dp_log" where
  "deleteServer srv txID backendName serverName w =
     sendExpect srv (DpDeleteServer txID backendName serverName) [204, 404]
       ''failed to delete server'' w"

text \<open>The desired servers: a map from sanitized names to backends, a later backend replacing an
  earlier one of the same name, and its keys (the visiting order is chosen by \<open>ord\<close>).\<close>

definition desiredServers :: "backend list \<Rightarrow> string \<rightharpoonup> backend" where
  "desiredServers backends = foldl (\<lambda>m b. m(sanitizeName (be_name b) \<mapsto> b)) Map.empty backends"

definition desiredNames :: "backend list \<Rightarrow> string list" where
  "desiredNames backends = remdups (map (\<lambda>b. sanitizeName (be_name b)) backends)"

definition serverNames :: "json_obj list \<Rightarrow> string list" where
  "serverNames existing = List.map_filter (\<lambda>s. asString (jget s ''name'')) existing"

fun deleteStale ::
  "dp_service \<Rightarrow> string \<Rightarrow> string \<Rightarrow> (string \<rightharpoonup> backend) \<Rightarrow> string list \<Rightarrow> dp_log \<Rightarrow> dp_log" where
  "deleteStale srv txID backendName desired [] w = w"
| "deleteStale srv txID backendName desired (n # ns) w =
     deleteStale srv txID backendName desired ns
       (if desired n = None then snd (deleteServer srv txID backendName n w) else w)"

fun upsertServers ::
  "dp_service \<Rightarrow> string \<Rightarrow> string \<Rightarrow> (string \<rightharpoonup> backend) \<Rightarrow> string list \<Rightarrow> string list \<Rightarrow> dp_log \<Rightarrow> dp_log" where
  "upsertServers srv txID backendName desired existing [] w = w"
| "upsertServers srv txID backendName desired existing (n # ns) w =
     upsertServers srv txID backendName desired existing ns
       (case desired n of
          None \<Rightarrow> w
        | Some b \<Rightarrow>
            if n \<in> set existing then snd (updateServer srv txID backendName n b w)
            else snd (createServer srv txID backendName n b w))"

definition updateBackendServers ::
  "dp_service \<Rightarrow> dp_order \<Rightarrow> string \<Rightarrow> string \<Rightarrow> backend list \<Rightarrow> dp_log \<Rightarrow> go_error option \<times> dp_log" where
  "updateBackendServers srv ord txID backendName backends w =
     (case call srv (DpGetServers txID backendName) w of
        (Inl e, w1) \<Rightarrow> (Some e, w1)
      | (Inr resp, w1) \<Rightarrow>
          (case listing resp of
             Inl e \<Rightarrow> (Some e, w1)
           | Inr existingServers \<Rightarrow>
               (let existing = serverNames existingServers;
                    desired = desiredServers backends;
                    w2 = deleteStale srv txID backendName desired existing w1
                in (None, upsertServers srv txID backendName desired existing
                            (ord w2 (desiredNames backends)) w2))))"

section \<open>Applying and removing the configuration of an owner\<close>

text \<open>One iteration of the loop of \<open>applyConfiguration\<close>: \<open>None\<close> is \<open>continue\<close> or the end of the
  body, \<open>Some e\<close> the early return after a failed commit.\<close>

definition applyListener ::
  "dp_service \<Rightarrow> dp_order \<Rightarrow> listener_config \<Rightarrow> dp_log \<Rightarrow> go_error option \<times> dp_log" where
  "applyListener srv ord config w =
     (let frontendName = sanitizeName (lc_name config);
          backendName = sanitizeName (lc_name config) @ ''-backend''
      in case startTransaction srv w of
           (Inl e, w1) \<Rightarrow> (None, w1)
         | (Inr txID, w1) \<Rightarrow>
             (case ensureBackend srv txID backendName w1 of
                (Some e, w2) \<Rightarrow> (None, snd (deleteTransaction srv txID w2))
              | (None, w2) \<Rightarrow>
                  (case updateBackendServers srv ord txID backendName (lc_backends config) w2 of
                     (Some e, w3) \<Rightarrow> (None, snd (deleteTransaction srv txID w3))
                   | (None, w3) \<Rightarrow>
                       (case ensureFrontend srv txID frontendName (lc_port config) backendName w3 of
                          (Some e, w4) \<Rightarrow> (None, snd (deleteTransaction srv txID w4))
                        | (None, w4) \<Rightarrow>
                            (case commitTransaction srv txID w4 of
                               (Some e, w5) \<Rightarrow>
                                 (Some (ErrWrap (''failed to commit transaction for '' @ frontendName) e),
                                  snd (deleteTransaction srv txID w5))
                             | (None, w5) \<Rightarrow> (None, w5))))))"

fun applyConfiguration ::
  "dp_service \<Rightarrow> dp_order \<Rightarrow> listener_config list \<Rightarrow> dp_log \<Rightarrow> go_error option \<times> dp_log" where
  "applyConfiguration srv ord [] w = (None, w)"
| "applyConfiguration srv ord (config # rest) w =
     (case applyListener srv ord config w of
        (Some e, w1) \<Rightarrow> (Some e, w1)
      | (None, w1) \<Rightarrow> applyConfiguration srv ord rest w1)"

definition removeListener ::
  "dp_service \<Rightarrow> listener_config \<Rightarrow> dp_log \<Rightarrow> go_error option \<times> dp_log" where
  "removeListener srv config w =
     (let frontendName = sanitizeName (lc_name config);
          backendName = sanitizeName (lc_name config) @ ''-backend''
      in case startTransaction srv w of
           (Inl e, w1) \<Rightarrow> (None, w1)
         | (Inr txID, w1) \<Rightarrow>
             (let w2 = snd (deleteFrontend srv txID frontendName w1);
                  w3 = snd (deleteBackend srv txID backendName w2)
              in case commitTransaction srv txID w3 of
                   (Some e, w4) \<Rightarrow>
                     (Some (ErrWrap (''failed to commit transaction for '' @ frontendName) e),
                      snd (deleteTransaction srv txID w4))
                 | (None, w4) \<Rightarrow> (None, w4)))"

fun removeConfiguration ::
  "dp_service \<Rightarrow> listener_config list \<Rightarrow> dp_log \<Rightarrow> go_error option \<times> dp_log" where
  "removeConfiguration srv [] w = (None, w)"
| "removeConfiguration srv (config # rest) w =
     (case removeListener srv config w of
        (Some e, w1) \<Rightarrow> (Some e, w1)
      | (None, w1) \<Rightarrow> removeConfiguration srv rest w1)"

section \<open>The manager\<close>

record manager =
  socketPath :: string
  apiURL :: string
  listeners :: "string \<rightharpoonup> listener_config list"

text \<open>\<open>strings.TrimRight(s, "/")\<close>.\<close>

definition trimRightSlash :: "string \<Rightarrow> string" where
  "trimRightSlash s = rev (dropWhile (\<lambda>c. c = CHR ''/'') (rev s))"

definition NewManager :: "string \<Rightarrow> manager" where
  "NewManager endpoint =
     \<lparr>socketPath = endpoint,
      apiURL = (if hasPrefix endpoint ''http://'' \<or> hasPrefix endpoint ''https://''
                then trimRightSlash endpoint @ ''/v2'' else ''http://unix/v2''),
      listeners = Map.empty\<rparr>"

text \<open>The polling loop of \<open>waitForAPI\<close>. \<open>clock i\<close> is the time read at the \<open>i\<close>-th check of the loop
  condition; the loop ends at the deadline or at the first 200 response.\<close>

partial_function (option) waitForAPI ::
  "dp_service \<Rightarrow> (nat \<Rightarrow> int) \<Rightarrow> int \<Rightarrow> nat \<Rightarrow> dp_log \<Rightarrow> (go_error option \<times> dp_log) option" where
  "waitForAPI srv clock deadline i w =
     (if clock i < deadline then
        (case call srv DpInfo w of
           (Inl e, w1) \<Rightarrow> waitForAPI srv clock deadline (Suc i) w1
         | (Inr resp, w1) \<Rightarrow>
             if resp_status resp = 200 then Some (None, w1)
             else waitForAPI srv clock deadline (Suc i) w1)
      else Some (Some (ErrNew ''Data Plane API not available after 60 seconds''), w))"

text \<open>\<open>authRoundTripper\<close>: the credentials sent with a request, none for an empty user name.\<close>

definition basicAuth :: "string \<Rightarrow> string \<Rightarrow> (string \<times> string) option" where
  "basicAuth username password = (if username \<noteq> [] then Some (username, password) else None)"

type_synonym mgr_state = "manager \<times> dp_log"

definition Configure ::
  "dp_service \<Rightarrow> dp_order \<Rightarrow> mgr_state \<Rightarrow> string \<Rightarrow> listener_config list \<Rightarrow> mgr_state \<times> go_error option" where
  "Configure srv ord mw ownerKey configs =
     (case mw of (m, w) \<Rightarrow>
        (let m1 = m\<lparr>listeners := (listeners m)(ownerKey \<mapsto> configs)\<rparr>;
             (e, w1) = applyConfiguration srv ord configs w
         in ((m1, w1), e)))"

definition Remove :: "dp_service \<Rightarrow> mgr_state \<Rightarrow> string \<Rightarrow> mgr_state \<times> go_error option" where
  "Remove srv mw ownerKey =
     (case mw of (m, w) \<Rightarrow>
        (case listeners m ownerKey of
           None \<Rightarrow> ((m, w), None)
         | Some configs \<Rightarrow>
             (case removeConfiguration srv configs w of
                (Some e, w1) \<Rightarrow> ((m, w1), Some e)
              | (None, w1) \<Rightarrow> ((m\<lparr>listeners := (listeners m)(ownerKey := None)\<rparr>, w1), None))))"

text \<open>\<open>Rebuild\<close> visits the owners in the order \<open>keys\<close>; errors are only logged.\<close>

fun Rebuild :: "dp_service \<Rightarrow> dp_order \<Rightarrow> string list \<Rightarrow> mgr_state \<Rightarrow> mgr_state" where
  "Rebuild srv ord [] mw = mw"
| "Rebuild srv ord (k # keys) mw =
     (case mw of (m, w) \<Rightarrow>
        (case listeners m k of
           None \<Rightarrow> Rebuild srv ord keys (m, w)
         | Some configs \<Rightarrow> Rebuild srv ord keys (m, snd (applyConfiguration srv ord configs w))))"

section \<open>The test double\<close>

record mock_manager =
  mm_configs :: "string \<rightharpoonup> listener_config list"
  mm_configureCalls :: "(string \<times> listener_config list) list"
  mm_removeCalls :: "string list"
  mm_configureError :: "go_error option"
  mm_removeError :: "go_error option"

definition NewMockManager :: mock_manager where
  "NewMockManager = \<lparr>mm_configs = Map.empty, mm_configureCalls = [], mm_removeCalls = [],
                     mm_configureError = None, mm_removeError = None\<rparr>"

definition mockConfigure ::
  "mock_manager \<Rightarrow> string \<Rightarrow> listener_config list \<Rightarrow> mock_manager \<times> go_error option" where
  "mockConfigure m ownerKey configs =
     (case mm_configureError m of
        Some e \<Rightarrow> (m, Some e)
      | None \<Rightarrow>
          (m\<lparr>mm_configureCalls := mm_configureCalls m @ [(ownerKey, configs)],
             mm_configs := (mm_configs m)(ownerKey \<mapsto> configs)\<rparr>, None))"

definition mockRemove :: "mock_manager \<Rightarrow> string \<Rightarrow> mock_manager \<times> go_error option" where
  "mockRemove m ownerKey =
     (case mm_removeError m of
        Some e \<Rightarrow> (m, Some e)
      | None \<Rightarrow>
          (m\<lparr>mm_removeCalls := mm_removeCalls m @ [ownerKey],
             mm_configs := (mm_configs m)(ownerKey := None)\<rparr>, None))"

definition mockReset :: "mock_manager \<Rightarrow> mock_manager" where
  "mockReset m = NewMockManager"

definition mockGetConfigs :: "mock_manager \<Rightarrow> string \<Rightarrow> listener_config list" where
  "mockGetConfigs m ownerKey = (case mm_configs m ownerKey of None \<Rightarrow> [] | Some cs \<Rightarrow> cs)"

definition mockLastConfigureCall :: "mock_manager \<Rightarrow> (string \<times> listener_config list) option" where
  "mockLastConfigureCall m =
     (if mm_configureCalls m = [] then None else Some (last (mm_configureCalls m)))"

section \<open>The interface Configurer\<close>

text \<open>
  What a client of \<open>Configurer\<close> may rely on, for both implementations: a successful \<open>Configure\<close>
  makes the given listeners the owner's configuration, a successful \<open>Remove\<close> leaves the owner
  without one, a failed \<open>Remove\<close> keeps it (so that it can be retried), and neither touches the
  configuration of another owner.
\<close>

locale configurer =
  fixes configure :: "'h \<Rightarrow> string \<Rightarrow> listener_config list \<Rightarrow> 'h \<times> go_error option"
    and remove :: "'h \<Rightarrow> string \<Rightarrow> 'h \<times> go_error option"
    and current :: "'h \<Rightarrow> string \<Rightarrow> listener_config list option"
  assumes configure_ok: "configure h k cs = (h', None) \<Longrightarrow> current h' k = Some cs"
    and configure_frame: "configure h k cs = (h', e) \<Longrightarrow> k' \<noteq> k \<Longrightarrow> current h' k' = current h k'"
    and remove_ok: "remove h k = (h', None) \<Longrightarrow> current h' k = None"
    and remove_err: "remove h k = (h', Some er) \<Longrightarrow> current h' k = current h k"
    and remove_frame: "remove h k = (h', e) \<Longrightarrow> k' \<noteq> k \<Longrightarrow> current h' k' = current h k'"
begin

lemma configure_remove:
  assumes "configure h k cs = (h1, None)" and "remove h1 k = (h2, None)"
  shows "current h2 k = None \<and> (\<forall>k'. k' \<noteq> k \<longrightarrow> current h2 k' = current h k')"
  using assms configure_frame remove_frame remove_ok by metis

lemma remove_retry:
  assumes "remove h k = (h1, Some e)" and "remove h1 k = (h2, None)"
  shows "current h2 k = None \<and> (\<forall>k'. k' \<noteq> k \<longrightarrow> current h2 k' = current h k')"
  using assms remove_frame remove_ok by metis

end

interpretation mgr: configurer "Configure srv ord" "Remove srv" "\<lambda>mw. listeners (fst mw)" for srv ord
  by unfold_locales
    (auto simp: Configure_def Remove_def Let_def split: prod.splits option.splits)

interpretation mock: configurer mockConfigure mockRemove mm_configs
  by unfold_locales (auto simp: mockConfigure_def mockRemove_def split: option.splits)

end
