(* ===== verification/HAProxyFacts.thy ===== *)
theory HAProxyFacts
  imports HAProxy
begin

text \<open>
  What the HAProxy manager guarantees for any Data Plane API: the discipline of its transactions
  (a checker over the request log that every method is shown to pass), the exact requests with
  which it brings the servers of a backend up to date, and the names it gives to proxies.
\<close>

section \<open>The transaction checker\<close>

text \<open>The transaction a request belongs to, for the requests that read or change the configuration.\<close>

fun tx_of :: "dp_request \<Rightarrow> string option" where
  "tx_of (DpGetFrontend t _) = Some t"
| "tx_of (DpPutFrontend t _ _) = Some t"
| "tx_of (DpPostFrontend t _) = Some t"
| "tx_of (DpDeleteFrontend t _) = Some t"
| "tx_of (DpGetBinds t _) = Some t"
| "tx_of (DpPutBind t _ _) = Some t"
| "tx_of (DpPostBind t _ _) = Some t"
| "tx_of (DpGetBackend t _) = Some t"
| "tx_of (DpPostBackend t _) = Some t"
| "tx_of (DpDeleteBackend t _) = Some t"
| "tx_of (DpGetServers t _) = Some t"
| "tx_of (DpPostServer t _ _) = Some t"
| "tx_of (DpPutServer t _ _ _) = Some t"
| "tx_of (DpDeleteServer t _ _) = Some t"
| "tx_of _ = None"

text \<open>The identifier a response to a transaction start gives.\<close>

definition startedId :: "http_resp result \<Rightarrow> string option" where
  "startedId r =
     (case r of
        Inl _ \<Rightarrow> None
      | Inr resp \<Rightarrow>
          if resp_status resp \<noteq> 201 then None
          else (case resp_json resp of
                  Inl _ \<Rightarrow> None
                | Inr v \<Rightarrow> (case asObject v of Inl _ \<Rightarrow> None | Inr o' \<Rightarrow> asString (jget o' ''id''))))"

definition committed :: "http_resp result \<Rightarrow> bool" where
  "committed r \<longleftrightarrow> (case r of Inl _ \<Rightarrow> False | Inr resp \<Rightarrow> resp_status resp \<in> {200, 202})"

text \<open>
  The checker keeps the transactions that are open. It rejects (\<open>None\<close>) a configuration request
  outside the innermost open transaction, a start while one of the manager's own is open, and a
  commit or delete of a transaction that is not open. A transaction ends when it is committed
  with success or deleted.
\<close>

fun tx_step :: "string list option \<Rightarrow> dp_request \<times> http_resp result \<Rightarrow> string list option" where
  "tx_step None _ = None"
| "tx_step (Some S) (DpStartTx v, r) =
     (if S \<noteq> [] then None
      else (case startedId r of Some t \<Rightarrow> Some [t] | None \<Rightarrow> Some []))"
| "tx_step (Some S) (DpCommitTx t, r) =
     (if S = [t] then (if committed r then Some [] else Some S) else None)"
| "tx_step (Some S) (DpDeleteTx t, r) = (if S = [t] then Some [] else None)"
| "tx_step (Some S) (q, r) =
     (case tx_of q of None \<Rightarrow> Some S | Some t \<Rightarrow> if S = [t] then Some S else None)"

definition tx_check :: "dp_log \<Rightarrow> string list option" where
  "tx_check w = foldl tx_step (Some []) w"

lemma tx_check_Nil [simp]: "tx_check [] = Some []"
  by (simp add: tx_check_def)

lemma tx_check_snoc [simp]: "tx_check (w @ [x]) = tx_step (tx_check w) x"
  by (simp add: tx_check_def)

text \<open>A request inside the open transaction \<open>t\<close>, whatever the response.\<close>

lemma tx_step_scoped:
  "tx_of q = Some t \<Longrightarrow> tx_step (Some [t]) (q, r) = Some [t]"
  by (cases q) simp_all

lemma tx_check_call_scoped:
  "tx_check w = Some [t] \<Longrightarrow> tx_of q = Some t \<Longrightarrow> tx_check (snd (call srv q w)) = Some [t]"
  by (simp add: tx_step_scoped)

lemma snd_sendExpect [simp]: "snd (sendExpect srv q ok what w) = snd (call srv q w)"
  by (auto simp: sendExpect_def call_def split: sum.splits)

lemma sendExpect_log:
  "sendExpect srv q ok what w = (e, w1) \<Longrightarrow> w1 = w @ [(q, srv w q)]"
  by (metis snd_sendExpect snd_call snd_conv)

lemma tx_check_sendExpect:
  "tx_check w = Some [t] \<Longrightarrow> tx_of q = Some t \<Longrightarrow> sendExpect srv q ok what w = (e, w1) \<Longrightarrow>
     tx_check w1 = Some [t]"
  by (drule sendExpect_log) (simp add: tx_step_scoped)

lemma callD: "call srv q w = (r, w1) \<Longrightarrow> srv w q = r \<and> w1 = w @ [(q, r)]"
  by (auto simp: call_def)

subsection \<open>Every method inside a transaction keeps it open\<close>

lemma tx_check_ensureBind:
  assumes "tx_check w = Some [t]"
  shows "tx_check (snd (ensureBind srv t f p w)) = Some [t]"
  using assms
  by (auto simp: ensureBind_def Let_def tx_step_scoped
      dest!: callD split: sum.splits prod.splits option.splits)

lemma tx_check_ensureBackend:
  assumes "tx_check w = Some [t]"
  shows "tx_check (snd (ensureBackend srv t n w)) = Some [t]"
  using assms
  by (auto simp: ensureBackend_def tx_step_scoped dest!: callD split: sum.splits prod.splits)

lemma tx_check_ensureFrontend:
  assumes "tx_check w = Some [t]"
  shows "tx_check (snd (ensureFrontend srv t n p b w)) = Some [t]"
proof (cases "call srv (DpGetFrontend t n) w")
  case (Pair r w1)
  then have w1: "tx_check w1 = Some [t]"
    using tx_check_call_scoped [OF assms, of "DpGetFrontend t n" srv] by simp
  obtain e2 w2 where bind: "ensureBind srv t n p w1 = (e2, w2)" by fastforce
  obtain e3 w3 where post: "sendExpect srv (DpPostFrontend t (frontendBody n b)) [201, 202]
      ''failed to create frontend'' w1 = (e3, w3)" by fastforce
  obtain e4 w4 where bind3: "ensureBind srv t n p w3 = (e4, w4)" by fastforce
  have w2: "tx_check w2 = Some [t]"
    using tx_check_ensureBind [OF w1, of srv n p] bind by simp
  have w3: "tx_check w3 = Some [t]"
    using tx_check_sendExpect [OF w1 _ post] by simp
  have w4: "tx_check w4 = Some [t]"
    using tx_check_ensureBind [OF w3, of srv n p] bind3 by simp
  show ?thesis
    using Pair w1 w2 w3 w4 bind post bind3
    by (auto simp: ensureFrontend_def tx_step_scoped split: sum.splits option.splits)
qed

lemma tx_check_deleteStale:
  "tx_check w = Some [t] \<Longrightarrow> tx_check (deleteStale srv t b d ns w) = Some [t]"
  by (induction ns arbitrary: w) (simp_all add: deleteServer_def tx_step_scoped)

lemma tx_check_upsertServers:
  "tx_check w = Some [t] \<Longrightarrow> tx_check (upsertServers srv t b d ex ns w) = Some [t]"
  by (induction ns arbitrary: w)
    (simp_all add: updateServer_def createServer_def tx_step_scoped split: option.splits)

lemma tx_check_updateBackendServers:
  assumes "tx_check w = Some [t]"
  shows "tx_check (snd (updateBackendServers srv ord t b bs w)) = Some [t]"
  using assms
  by (auto simp: updateBackendServers_def Let_def tx_step_scoped
      intro!: tx_check_upsertServers tx_check_deleteStale
      dest!: callD split: sum.splits prod.splits)

lemma tx_check_deleteFrontend:
  "tx_check w = Some [t] \<Longrightarrow> tx_check (snd (deleteFrontend srv t n w)) = Some [t]"
  by (simp add: deleteFrontend_def tx_step_scoped)

lemma tx_check_deleteBackend:
  "tx_check w = Some [t] \<Longrightarrow> tx_check (snd (deleteBackend srv t n w)) = Some [t]"
  by (simp add: deleteBackend_def tx_step_scoped)

subsection \<open>Opening and closing\<close>

lemma tx_check_getConfigVersion:
  "tx_check (snd (getConfigVersion srv w)) = tx_check w"
  by (cases "tx_check w")
    (auto simp: getConfigVersion_def dest!: callD split: sum.splits prod.splits option.splits)

lemma tx_check_startTransaction:
  assumes "tx_check w = Some []" and st: "startTransaction srv w = (r, w1)"
  shows "tx_check w1 = Some (case r of Inl _ \<Rightarrow> [] | Inr t \<Rightarrow> [t])"
proof (cases "getConfigVersion srv w")
  case (Pair v w0)
  have w0: "tx_check w0 = Some []"
    using tx_check_getConfigVersion [of srv w] assms(1) Pair by simp
  show ?thesis
  proof (cases v)
    case (Inl e)
    with st Pair w0 show ?thesis by (auto simp: startTransaction_def)
  next
    case (Inr n)
    with st Pair w0 show ?thesis
      by (auto simp: startTransaction_def startedId_def dest!: callD
          split: sum.splits prod.splits option.splits if_splits)
  qed
qed

lemma tx_check_deleteTransaction:
  "tx_check w = Some [t] \<Longrightarrow> tx_check (snd (deleteTransaction srv t w)) = Some []"
  by (auto simp: deleteTransaction_def dest!: callD split: sum.splits prod.splits)

lemma tx_check_commitTransaction:
  assumes "tx_check w = Some [t]" and "commitTransaction srv t w = (e, w1)"
  shows "tx_check w1 = Some (case e of None \<Rightarrow> [] | Some _ \<Rightarrow> [t])"
  using assms
  by (auto simp: commitTransaction_def sendExpect_def committed_def dest!: callD
      split: sum.splits prod.splits if_splits)

lemmas tx_inside =
  tx_check_ensureBackend tx_check_ensureFrontend tx_check_updateBackendServers
  tx_check_deleteFrontend tx_check_deleteBackend

lemma tx_check_applyListener:
  assumes "tx_check w = Some []"
  shows "tx_check (snd (applyListener srv ord c w)) = Some []"
proof (cases "startTransaction srv w")
  case (Pair r w1)
  note start = tx_check_startTransaction [OF assms Pair]
  show ?thesis
  proof (cases r)
    case (Inl e)
    with Pair start show ?thesis by (simp add: applyListener_def Let_def)
  next
    case (Inr t)
    let ?n = "sanitizeName (lc_name c)" and ?b = "sanitizeName (lc_name c) @ ''-backend''"
    obtain e2 w2 where b: "ensureBackend srv t ?b w1 = (e2, w2)" by fastforce
    obtain e3 w3 where u: "updateBackendServers srv ord t ?b (lc_backends c) w2 = (e3, w3)"
      by fastforce
    obtain e4 w4 where f: "ensureFrontend srv t ?n (lc_port c) ?b w3 = (e4, w4)" by fastforce
    obtain e5 w5 where k: "commitTransaction srv t w4 = (e5, w5)" by fastforce
    have w2: "tx_check w2 = Some [t]"
      using tx_check_ensureBackend [of w1 t srv ?b] start Inr b by simp
    have w3: "tx_check w3 = Some [t]"
      using tx_check_updateBackendServers [OF w2, of srv ord ?b "lc_backends c"] u by simp
    have w4: "tx_check w4 = Some [t]"
      using tx_check_ensureFrontend [OF w3, of srv ?n "lc_port c" ?b] f by simp
    show ?thesis
      using tx_check_deleteTransaction [OF w2, of srv] tx_check_deleteTransaction [OF w3, of srv]
        tx_check_deleteTransaction [OF w4, of srv] tx_check_commitTransaction [OF w4 k]
        tx_check_deleteTransaction [of w5 t srv] Pair Inr b u f k
      by (auto simp: applyListener_def Let_def split: option.splits)
  qed
qed

lemma tx_check_applyConfiguration:
  "tx_check w = Some [] \<Longrightarrow> tx_check (snd (applyConfiguration srv ord cs w)) = Some []"
proof (induction cs arbitrary: w)
  case (Cons c cs)
  obtain e w1 where c: "applyListener srv ord c w = (e, w1)" by fastforce
  with tx_check_applyListener [OF Cons.prems, of srv ord c] have "tx_check w1 = Some []" by simp
  with Cons.IH c show ?case by (auto split: option.splits)
qed simp

lemma tx_check_removeListener:
  assumes "tx_check w = Some []"
  shows "tx_check (snd (removeListener srv c w)) = Some []"
proof (cases "startTransaction srv w")
  case (Pair r w1)
  note start = tx_check_startTransaction [OF assms Pair]
  show ?thesis
  proof (cases r)
    case (Inl e)
    with Pair start show ?thesis by (simp add: removeListener_def Let_def)
  next
    case (Inr t)
    let ?w2 = "snd (deleteFrontend srv t (sanitizeName (lc_name c)) w1)"
    let ?w3 = "snd (deleteBackend srv t (sanitizeName (lc_name c) @ ''-backend'') ?w2)"
    obtain e4 w4 where k: "commitTransaction srv t ?w3 = (e4, w4)" by fastforce
    have w3: "tx_check ?w3 = Some [t]"
      using start Inr by (simp add: tx_inside)
    show ?thesis
      using tx_check_commitTransaction [OF w3 k] tx_check_deleteTransaction [of w4 t srv] Pair Inr k
      by (auto simp: removeListener_def Let_def split: option.splits)
  qed
qed

lemma tx_check_removeConfiguration:
  "tx_check w = Some [] \<Longrightarrow> tx_check (snd (removeConfiguration srv cs w)) = Some []"
proof (induction cs arbitrary: w)
  case (Cons c cs)
  obtain e w1 where c: "removeListener srv c w = (e, w1)" by fastforce
  with tx_check_removeListener [OF Cons.prems, of srv c] have "tx_check w1 = Some []" by simp
  with Cons.IH c show ?case by (auto split: option.splits)
qed simp

section \<open>Runs of the manager\<close>

datatype mgr_op =
    MConfigure string "listener_config list"
  | MRemove string
  | MRebuild "string list"

fun mgr_step :: "dp_service \<Rightarrow> dp_order \<Rightarrow> mgr_state \<Rightarrow> mgr_op \<Rightarrow> mgr_state" where
  "mgr_step srv ord mw (MConfigure k cs) = fst (Configure srv ord mw k cs)"
| "mgr_step srv ord mw (MRemove k) = fst (Remove srv mw k)"
| "mgr_step srv ord mw (MRebuild ks) = Rebuild srv ord ks mw"

definition mgr_run :: "dp_service \<Rightarrow> dp_order \<Rightarrow> mgr_state \<Rightarrow> mgr_op list \<Rightarrow> mgr_state" where
  "mgr_run srv ord = foldl (mgr_step srv ord)"

lemma tx_check_Configure:
  "tx_check (snd mw) = Some [] \<Longrightarrow> tx_check (snd (fst (Configure srv ord mw k cs))) = Some []"
  using tx_check_applyConfiguration [of "snd mw" srv ord cs]
  by (auto simp: Configure_def Let_def split: prod.splits)

lemma tx_check_Remove:
  "tx_check (snd mw) = Some [] \<Longrightarrow> tx_check (snd (fst (Remove srv mw k))) = Some []"
proof (cases "listeners (fst mw) k")
  case None
  assume "tx_check (snd mw) = Some []"
  with None show ?thesis by (auto simp: Remove_def split: prod.splits)
next
  case (Some cs)
  assume "tx_check (snd mw) = Some []"
  then have "tx_check (snd (removeConfiguration srv cs (snd mw))) = Some []"
    by (rule tx_check_removeConfiguration)
  with Some show ?thesis by (auto simp: Remove_def split: prod.splits option.splits)
qed

lemma tx_check_Rebuild:
  "tx_check (snd mw) = Some [] \<Longrightarrow> tx_check (snd (Rebuild srv ord ks mw)) = Some []"
  by (induction srv ord ks mw rule: Rebuild.induct)
    (auto simp: tx_check_applyConfiguration split: prod.splits option.splits)

lemma tx_check_mgr_step:
  "tx_check (snd mw) = Some [] \<Longrightarrow> tx_check (snd (mgr_step srv ord mw x)) = Some []"
  by (cases x) (simp_all add: tx_check_Configure tx_check_Remove tx_check_Rebuild)

lemma tx_check_mgr_run:
  "tx_check (snd mw) = Some [] \<Longrightarrow> tx_check (snd (mgr_run srv ord mw ops)) = Some []"
  unfolding mgr_run_def
  by (induction ops arbitrary: mw) (simp_all add: tx_check_mgr_step)

section \<open>The servers of a backend\<close>

definition order_ok :: "dp_order \<Rightarrow> bool" where
  "order_ok ord \<longleftrightarrow> (\<forall>w ks. distinct ks \<longrightarrow> distinct (ord w ks) \<and> set (ord w ks) = set ks)"

definition upsertRequest ::
  "string \<Rightarrow> string \<Rightarrow> (string \<rightharpoonup> backend) \<Rightarrow> string list \<Rightarrow> string \<Rightarrow> dp_request" where
  "upsertRequest t b d ex n =
     (if n \<in> set ex then DpPutServer t b n (serverBody n (the (d n)))
      else DpPostServer t b (serverBody n (the (d n))))"

lemma deleteStale_requests:
  "map fst (deleteStale srv t b d ns w) =
     map fst w @ map (DpDeleteServer t b) (filter (\<lambda>n. d n = None) ns)"
  by (induction ns arbitrary: w) (simp_all add: deleteServer_def)

lemma upsertServers_requests:
  "set ns \<subseteq> dom d \<Longrightarrow>
   map fst (upsertServers srv t b d ex ns w) = map fst w @ map (upsertRequest t b d ex) ns"
  by (induction ns arbitrary: w)
    (auto simp: updateServer_def createServer_def upsertRequest_def)

lemma desiredServers_snoc:
  "desiredServers (bs @ [b]) = (desiredServers bs)(sanitizeName (be_name b) \<mapsto> b)"
  by (simp add: desiredServers_def)

lemma dom_desiredServers: "dom (desiredServers bs) = set (desiredNames bs)"
proof (induction bs rule: rev_induct)
  case Nil
  show ?case by (simp add: desiredServers_def desiredNames_def)
next
  case (snoc b bs)
  then show ?case
    unfolding desiredServers_snoc dom_fun_upd by (simp add: desiredNames_def)
qed

lemma distinct_desiredNames [simp]: "distinct (desiredNames bs)"
  by (simp add: desiredNames_def)

lemma desiredServers_Some:
  "desiredServers bs n = Some b \<Longrightarrow> b \<in> set bs \<and> sanitizeName (be_name b) = n"
  by (induction bs rule: rev_induct)
    (auto simp: desiredServers_snoc desiredServers_def [of "[]"] split: if_splits)

lemma updateBackendServers_requests:
  assumes get: "srv w (DpGetServers t b) = Inr resp" and ls: "listing resp = Inr ex"
    and ord: "order_ok ord"
  obtains ns where "distinct ns" and "set ns = dom (desiredServers bs)"
    and "fst (updateBackendServers srv ord t b bs w) = None"
    and "map fst (snd (updateBackendServers srv ord t b bs w)) =
      map fst w @ DpGetServers t b
        # map (DpDeleteServer t b) (filter (\<lambda>n. n \<notin> dom (desiredServers bs)) (serverNames ex))
        @ map (upsertRequest t b (desiredServers bs) (serverNames ex)) ns"
proof -
  let ?d = "desiredServers bs" and ?w1 = "snd (call srv (DpGetServers t b) w)"
  let ?w2 = "deleteStale srv t b ?d (serverNames ex) ?w1"
  let ?ns = "ord ?w2 (desiredNames bs)"
  have ns: "distinct ?ns" "set ?ns = dom ?d"
    using ord by (simp_all add: order_ok_def dom_desiredServers)
  moreover have "updateBackendServers srv ord t b bs w =
      (None, upsertServers srv t b ?d (serverNames ex) ?ns ?w2)"
    using get ls by (simp add: updateBackendServers_def call_def Let_def)
  moreover have "map fst (upsertServers srv t b ?d (serverNames ex) ?ns ?w2) =
      map fst w @ DpGetServers t b
        # map (DpDeleteServer t b) (filter (\<lambda>n. n \<notin> dom ?d) (serverNames ex))
        @ map (upsertRequest t b ?d (serverNames ex)) ?ns"
    by (subst upsertServers_requests)
      (use ns in \<open>simp_all add: deleteStale_requests domIff\<close>)
  ultimately show thesis using that by simp
qed

section \<open>Names\<close>

definition sanitizeChar :: "char \<Rightarrow> char" where
  "sanitizeChar c = (if c \<in> {CHR ''/'', CHR '' '', CHR '':''} then CHR ''-'' else c)"

lemma replaceChar_single: "replaceChar old [n] s = map (\<lambda>c. if c = old then n else c) s"
  by (induction s) (simp_all add: replaceChar_def)

lemma sanitizeName_map: "sanitizeName s = map sanitizeChar s"
  by (simp add: sanitizeName_def replaceChar_single sanitizeChar_def)

lemma sanitizeName_append [simp]: "sanitizeName (s @ t) = sanitizeName s @ sanitizeName t"
  by (simp add: sanitizeName_map)

section \<open>Waiting for the API\<close>

text \<open>Once the clock has passed the deadline the polling loop returns.\<close>

lemma waitForAPI_returns:
  "deadline \<le> clock (i + n) \<Longrightarrow> \<exists>r. waitForAPI srv clock deadline i w = Some r"
proof (induction n arbitrary: i w)
  case 0
  then show ?case by (simp add: waitForAPI.simps)
next
  case (Suc n)
  then have "\<exists>r. waitForAPI srv clock deadline (Suc i) w' = Some r" for w' by simp
  then show ?case
    by (subst waitForAPI.simps) (auto split: prod.splits sum.splits)
qed

end
