(* ===== verification/GatewayTypes.thy ===== *)
theory GatewayTypes
  imports PortAlloc HAProxyFacts
begin

text \<open>
  The data of the gateway controller: the VirtualService API type
  (\<open>api/v1alpha1/virtualservice_types.go\<close>), the parts of the Kubernetes objects the controller
  reads and writes, the requests it makes to the API server, and its own state
  (\<open>internal/gateway/controller.go\<close>).

  Label maps are finite maps. Kubernetes library functions are fields of \<open>k8s_lib\<close>. The API server
  is a service over requests; a response carries an object and an optional error, as the client
  methods return them. The informer caches are state the controller reads through its listers;
  the service lister hands out pointers into its cache, so an assignment to a field of a listed
  Service is an update of the cache.
\<close>

type_synonym label_map = "(string, string) fmap"

section \<open>VirtualService\<close>

record service_port =
  sp_name :: string
  sp_port :: int
  sp_targetPort :: int
  sp_nodePort :: int
  sp_protocol :: string

record allocated_port =
  ap_name :: string
  ap_servicePort :: int
  ap_targetPort :: int
  ap_gatewayPort :: int
  ap_protocol :: string

datatype cond_status = CondTrue | CondFalse | CondUnknown

record condition =
  cd_type :: string
  cd_status :: cond_status
  cd_reason :: string
  cd_message :: string
  cd_observedGeneration :: int
  cd_lastTransitionTime :: int

record vs_status =
  st_allocatedPorts :: "allocated_port list"
  st_conditions :: "condition list"
  st_observedGeneration :: int

record service_spec =
  ss_type :: string
  ss_selector :: label_map
  ss_ports :: "service_port list"

record virtual_service =
  vs_namespace :: string
  vs_name :: string
  vs_uid :: string
  vs_generation :: int
  vs_deletionTimestamp :: "int option"
  vs_finalizers :: "string list"
  vs_gatewaySelector :: label_map
  vs_service :: service_spec
  vs_status :: vs_status

text \<open>Constants of the API package and of the controller.\<close>

definition ConditionTypeReady :: string where "ConditionTypeReady = ''Ready''"
definition ReasonReconciled :: string where "ReasonReconciled = ''Reconciled''"
definition ReasonReconcileError :: string where "ReasonReconcileError = ''ReconcileError''"
definition ReasonUnsupportedSpec :: string where "ReasonUnsupportedSpec = ''UnsupportedSpec''"
definition ReasonServiceConflict :: string where "ReasonServiceConflict = ''ServiceConflict''"
definition ReasonPortAllocationErr :: string where "ReasonPortAllocationErr = ''PortAllocationError''"

definition VirtualServiceFinalizer :: string where
  "VirtualServiceFinalizer = ''anex.sh/virtualservice-finalizer''"

definition DefaultPortRangeStart :: int where "DefaultPortRangeStart = 6000"
definition DefaultPortRangeEnd :: int where "DefaultPortRangeEnd = 9999"
definition AnnotationVirtualPod :: string where "AnnotationVirtualPod = ''virtual''"
definition AnnotationProxySlotID :: string where "AnnotationProxySlotID = ''anex.sh/proxy-slot-id''"
definition AnnotationManagedBy :: string where "AnnotationManagedBy = ''anex.sh/managed-by''"
definition AnnotationManagedByValue :: string where
  "AnnotationManagedByValue = ''virtualservice-controller''"
definition AnnotationOwnerService :: string where
  "AnnotationOwnerService = ''anex.sh/owner-virtualservice''"
definition WireguardSubnetBase :: string where "WireguardSubnetBase = ''10.254.254.''"
definition WireguardSlotOffset :: int where "WireguardSlotOffset = 11"

section \<open>Generated Kubernetes objects\<close>

record owner_ref =
  or_kind :: string
  or_name :: string
  or_uid :: string

record k8s_port =
  kp_name :: string
  kp_port :: int
  kp_targetPort :: int
  kp_nodePort :: int
  kp_protocol :: string

record k8s_service =
  svc_name :: string
  svc_namespace :: string
  svc_labels :: label_map
  svc_owners :: "owner_ref list"
  svc_type :: string
  svc_clusterIP :: string
  svc_selector :: label_map
  svc_ports :: "k8s_port list"

record endpoint_port =
  ep_name :: string
  ep_port :: int
  ep_protocol :: string

record endpoint_slice =
  eps_name :: string
  eps_namespace :: string
  eps_labels :: label_map
  eps_owners :: "owner_ref list"
  eps_addressType :: string
  eps_endpoints :: "(string list \<times> bool) list"
  eps_ports :: "endpoint_port list"

section \<open>Pods\<close>

record container =
  ct_name :: string
  ct_ports :: "int list"

record gw_pod =
  gp_uid :: string
  gp_namespace :: string
  gp_name :: string
  gp_labels :: label_map
  gp_annotations :: "string \<rightharpoonup> string"
  gp_deletionTimestamp :: "int option"
  gp_running :: bool
  gp_containers :: "container list"

record virtual_pod_info =
  vp_uid :: string
  vp_namespace :: string
  vp_name :: string
  vp_labels :: label_map
  vp_proxySlotID :: int
  vp_wireguardIP :: string
  vp_ready :: bool
  vp_containerPorts :: "int list"

section \<open>The Kubernetes API\<close>

datatype kube_req =
    KCreateService k8s_service
  | KUpdateService k8s_service
  | KDeleteService string string
  | KGetEPS string string
  | KCreateEPS endpoint_slice
  | KUpdateEPS endpoint_slice
  | KDeleteEPS string string
  | KUpdateVS virtual_service
  | KUpdateVSStatus virtual_service

record kube_resp =
  kr_err :: "go_error option"
  kr_eps :: endpoint_slice
  kr_vs :: virtual_service

type_synonym kube_log = "(kube_req, kube_resp) log"
type_synonym kube_api = "(kube_req, kube_resp) service"

text \<open>Library functions: label selection, the owner reference built for a VirtualService, and the
  splitting of a work-queue key into namespace and name.\<close>

record k8s_lib =
  lib_matches :: "label_map \<Rightarrow> label_map \<Rightarrow> bool"
  lib_controllerRef :: "virtual_service \<Rightarrow> owner_ref"
  lib_splitKey :: "string \<Rightarrow> (string \<times> string) result"

section \<open>Controller state\<close>

text \<open>Operations on the rate-limited work queue, in the order the controller issues them.\<close>

datatype work_item = ItemKey string | ItemOther

datatype queue_op =
    QAdd string
  | QAddRateLimited string
  | QForget work_item
  | QDone work_item

text \<open>What the VirtualService lister gives for a name: an error of the lister, or an object with
  the result of converting it to the typed form.\<close>

datatype vs_entry = VsError go_error | VsObject "virtual_service result"

record 'h gw_state =
  gw_alloc :: allocator
  gw_haproxy :: 'h
  gw_kube :: kube_log
  gw_queue :: "queue_op list"
  gw_virtualServices :: "string \<rightharpoonup> virtual_service"
  gw_virtualPods :: "string \<rightharpoonup> virtual_pod_info"
  gw_svcCache :: "string \<Rightarrow> string \<Rightarrow> k8s_service result"
  gw_vsCache :: "string \<Rightarrow> string \<Rightarrow> vs_entry"

text \<open>The fixed environment of the controller: library, API server, HAProxy configurer, its own
  address, and the present time.\<close>

record 'h gw_env =
  ge_lib :: k8s_lib
  ge_api :: kube_api
  ge_configure :: "'h \<Rightarrow> string \<Rightarrow> listener_config list \<Rightarrow> 'h \<times> go_error option"
  ge_remove :: "'h \<Rightarrow> string \<Rightarrow> 'h \<times> go_error option"
  ge_gatewayIP :: string
  ge_now :: int

definition vsKey :: "virtual_service \<Rightarrow> string" where
  "vsKey vs = vs_namespace vs @ ''/'' @ vs_name vs"

text \<open>A request to the API server from the controller.\<close>

definition kcall :: "'h gw_env \<Rightarrow> kube_req \<Rightarrow> 'h gw_state \<Rightarrow> kube_resp \<times> 'h gw_state" where
  "kcall env q c = (ge_api env (gw_kube c) q,
     c\<lparr>gw_kube := gw_kube c @ [(q, ge_api env (gw_kube c) q)]\<rparr>)"

definition newController :: "'h \<Rightarrow> (string \<Rightarrow> string \<Rightarrow> k8s_service result) \<Rightarrow>
    (string \<Rightarrow> string \<Rightarrow> vs_entry) \<Rightarrow> 'h gw_state" where
  "newController h svcs vss =
     \<lparr>gw_alloc = NewAllocator DefaultPortRangeStart DefaultPortRangeEnd, gw_haproxy = h,
      gw_kube = [], gw_queue = [], gw_virtualServices = Map.empty, gw_virtualPods = Map.empty,
      gw_svcCache = svcs, gw_vsCache = vss\<rparr>"

end
