(* ===== verification/Reconcile.thy ===== *)
theory Reconcile
  imports GatewayTypes
begin

text \<open>
  The reconciliation of one VirtualService (\<open>internal/gateway/reconcile.go\<close>): validation, stable
  port allocation, the generated Service and EndpointSlice, the HAProxy configuration, the Ready
  condition, and finalization.
\<close>

section \<open>Validation\<close>

fun validatePorts :: "nat \<Rightarrow> service_port list \<Rightarrow> go_error option" where
  "validatePorts i [] = None"
| "validatePorts i (p # ps) =
     (if sp_protocol p \<noteq> [] \<and> sp_protocol p \<noteq> ''TCP'' then
        Some (ErrNew (''port['' @ itoa (int i) @ '']: protocol must be TCP (got ''
                      @ sp_protocol p @ '')''))
      else if sp_port p < 1 \<or> sp_port p > 65535 then
        Some (ErrNew (''port['' @ itoa (int i) @ '']: port must be between 1 and 65535 (got ''
                      @ itoa (sp_port p) @ '')''))
      else if sp_targetPort p < 1 \<or> sp_targetPort p > 65535 then
        Some (ErrNew (''port['' @ itoa (int i) @ '']: targetPort must be between 1 and 65535 (got ''
                      @ itoa (sp_targetPort p) @ '')''))
      else validatePorts (Suc i) ps)"

definition validateVirtualService :: "virtual_service \<Rightarrow> go_error option" where
  "validateVirtualService vs = validatePorts 0 (ss_ports (vs_service vs))"

section \<open>Port allocation\<close>

definition portMatches :: "service_port \<Rightarrow> allocated_port \<Rightarrow> bool" where
  "portMatches s a \<longleftrightarrow>
     ap_servicePort a = sp_port s \<and> ap_targetPort a = sp_targetPort s \<and> ap_name a = sp_name s"

text \<open>The test that the allocations in the status are those of the specification.\<close>

definition allocationsMatch :: "service_port list \<Rightarrow> allocated_port list \<Rightarrow> bool" where
  "allocationsMatch specs allocs \<longleftrightarrow>
     length allocs = length specs \<and> list_all (\<lambda>s. list_ex (portMatches s) allocs) specs"

definition newAllocatedPort :: "service_port \<Rightarrow> int \<Rightarrow> allocated_port" where
  "newAllocatedPort s gatewayPort =
     \<lparr>ap_name = sp_name s, ap_servicePort = sp_port s, ap_targetPort = sp_targetPort s,
      ap_gatewayPort = wrap32 gatewayPort,
      ap_protocol = (if sp_protocol s = [] then ''TCP'' else sp_protocol s)\<rparr>"

definition releasePorts ::
  "('a \<Rightarrow> string \<Rightarrow> int \<Rightarrow> 'a) \<Rightarrow> string \<Rightarrow> allocated_port list \<Rightarrow> 'a \<Rightarrow> 'a" where
  "releasePorts release k allocs a = foldl (\<lambda>b p. release b k (ap_gatewayPort p)) a allocs"

text \<open>The allocation loop with its rollback, over the operations of a port pool.\<close>

fun allocatePorts ::
  "('a \<Rightarrow> string \<Rightarrow> 'a \<times> int result) \<Rightarrow> ('a \<Rightarrow> string \<Rightarrow> int \<Rightarrow> 'a) \<Rightarrow> string \<Rightarrow>
   service_port list \<Rightarrow> allocated_port list \<Rightarrow> 'a \<Rightarrow> 'a \<times> allocated_port list result" where
  "allocatePorts alloc release k [] acc a = (a, Inr acc)"
| "allocatePorts alloc release k (s # ss) acc a =
     (case alloc a k of
        (a1, Inl e) \<Rightarrow>
          (releasePorts release k acc a1, Inl (ErrWrap ''failed to allocate gateway port'' e))
      | (a1, Inr port) \<Rightarrow>
          allocatePorts alloc release k ss (acc @ [newAllocatedPort s port]) a1)"

definition ensurePortAllocations ::
  "allocator \<Rightarrow> virtual_service \<Rightarrow> allocator \<times> virtual_service \<times> go_error option" where
  "ensurePortAllocations a vs =
     (let old = st_allocatedPorts (vs_status vs); specs = ss_ports (vs_service vs); k = vsKey vs
      in if allocationsMatch specs old then (a, vs, None)
         else
           (case allocatePorts Allocate Release k specs [] (releasePorts Release k old a) of
              (a1, Inl e) \<Rightarrow> (a1, vs, Some e)
            | (a1, Inr ports) \<Rightarrow>
                (a1, vs\<lparr>vs_status := (vs_status vs)\<lparr>st_allocatedPorts := ports\<rparr>\<rparr>, None)))"

section \<open>Matching pods and backend ports\<close>

text \<open>\<open>range\<close> over the pod cache in the order \<open>keys\<close>.\<close>

definition getMatchingPods ::
  "k8s_lib \<Rightarrow> string list \<Rightarrow> (string \<rightharpoonup> virtual_pod_info) \<Rightarrow> virtual_service \<Rightarrow> virtual_pod_info list" where
  "getMatchingPods lib keys pods vs =
     filter (\<lambda>p. vp_namespace p = vs_namespace vs \<and>
                 lib_matches lib (ss_selector (vs_service vs)) (vp_labels p))
       (List.map_filter pods keys)"

definition calculateBackendPort :: "virtual_pod_info \<Rightarrow> int \<Rightarrow> int result" where
  "calculateBackendPort pod targetPort =
     (case findIndex (\<lambda>p. p = targetPort) (vp_containerPorts pod) of
        None \<Rightarrow> Inl (ErrNew (''target port '' @ itoa targetPort
                              @ '' not found in pod's container ports [''
                              @ joinWith '' '' (map itoa (vp_containerPorts pod)) @ '']''))
      | Some portID \<Rightarrow> Inr (wrap64 (10000 + vp_proxySlotID pod * 100 + int portID + 1)))"

section \<open>The generated Service\<close>

definition isOwnedBy :: "owner_ref list \<Rightarrow> virtual_service \<Rightarrow> bool" where
  "isOwnedBy owners vs \<longleftrightarrow> list_ex (\<lambda>r. or_uid r = vs_uid vs) owners"

definition serviceType :: "virtual_service \<Rightarrow> string" where
  "serviceType vs = (if ss_type (vs_service vs) = ''NodePort'' then ''NodePort'' else ''ClusterIP'')"

text \<open>The node port of the first port of the specification with the same service port.\<close>

definition specNodePort :: "virtual_service \<Rightarrow> int \<Rightarrow> int" where
  "specNodePort vs port =
     (case find (\<lambda>s. sp_port s = port) (ss_ports (vs_service vs)) of
        None \<Rightarrow> 0
      | Some s \<Rightarrow> if sp_nodePort s > 0 then sp_nodePort s else 0)"

definition desiredPort :: "virtual_service \<Rightarrow> allocated_port \<Rightarrow> k8s_port" where
  "desiredPort vs a =
     \<lparr>kp_name = ap_name a, kp_port = ap_servicePort a, kp_targetPort = ap_gatewayPort a,
      kp_nodePort = (if serviceType vs = ''NodePort'' then specNodePort vs (ap_servicePort a) else 0),
      kp_protocol = (if ap_protocol a \<noteq> [] then ap_protocol a else ''TCP'')\<rparr>"

definition ownerLabels :: "virtual_service \<Rightarrow> label_map" where
  "ownerLabels vs =
     fmupd AnnotationOwnerService (vs_name vs)
       (fmupd AnnotationManagedBy AnnotationManagedByValue fmempty)"

definition desiredService :: "k8s_lib \<Rightarrow> virtual_service \<Rightarrow> k8s_service" where
  "desiredService lib vs =
     \<lparr>svc_name = vs_name vs, svc_namespace = vs_namespace vs, svc_labels = ownerLabels vs,
      svc_owners = [lib_controllerRef lib vs], svc_type = serviceType vs, svc_clusterIP = [],
      svc_selector = fmempty,
      svc_ports = map (desiredPort vs) (st_allocatedPorts (vs_status vs))\<rparr>"

definition serviceNeedsUpdate :: "k8s_service \<Rightarrow> k8s_service \<Rightarrow> bool" where
  "serviceNeedsUpdate existing desired \<longleftrightarrow>
     svc_labels existing \<noteq> svc_labels desired
   \<or> svc_type existing \<noteq> svc_type desired
   \<or> (svc_type desired = ''ClusterIP'' \<and> svc_clusterIP existing \<noteq> ''None'')
   \<or> svc_ports existing \<noteq> svc_ports desired"

text \<open>The assignments to the listed object before \<open>Update\<close>; they change the informer cache.\<close>

definition applyDesired :: "k8s_service \<Rightarrow> k8s_service \<Rightarrow> k8s_service" where
  "applyDesired existing desired =
     existing\<lparr>svc_type := svc_type desired, svc_selector := fmempty,
              svc_ports := svc_ports desired, svc_labels := svc_labels desired\<rparr>"

definition setSvcCache :: "string \<Rightarrow> string \<Rightarrow> k8s_service \<Rightarrow> 'h gw_state \<Rightarrow> 'h gw_state" where
  "setSvcCache ns n s c =
     c\<lparr>gw_svcCache := (gw_svcCache c)(ns := (gw_svcCache c ns)(n := Inr s))\<rparr>"

definition ensureGeneratedService ::
  "'h gw_env \<Rightarrow> virtual_service \<Rightarrow> 'h gw_state \<Rightarrow> go_error option \<times> 'h gw_state" where
  "ensureGeneratedService env vs c =
     (let desired = desiredService (ge_lib env) vs; ns = vs_namespace vs; n = vs_name vs
      in case gw_svcCache c ns n of
           Inl e \<Rightarrow>
             if isNotFound e then
               (case kcall env (KCreateService desired) c of
                  (r, c1) \<Rightarrow>
                    (map_option (ErrWrap ''failed to create Service'') (kr_err r), c1))
             else (Some (ErrWrap ''failed to get Service'' e), c)
         | Inr existing \<Rightarrow>
             if \<not> isOwnedBy (svc_owners existing) vs then
               (Some (ErrKube AlreadyExists (''service \"'' @ n @ ''\" already exists'')), c)
             else if \<not> serviceNeedsUpdate existing desired then (None, c)
             else
               (case kcall env (KUpdateService (applyDesired existing desired))
                       (setSvcCache ns n (applyDesired existing desired) c) of
                  (r, c1) \<Rightarrow>
                    (map_option (ErrWrap ''failed to update Service'') (kr_err r), c1)))"

section \<open>The generated EndpointSlice\<close>

definition desiredEPS :: "'h gw_env \<Rightarrow> virtual_service \<Rightarrow> endpoint_slice" where
  "desiredEPS env vs =
     \<lparr>eps_name = vs_name vs, eps_namespace = vs_namespace vs,
      eps_labels = fmupd ''kubernetes.io/service-name'' (vs_name vs) (ownerLabels vs),
      eps_owners = [lib_controllerRef (ge_lib env) vs], eps_addressType = ''IPv4'',
      eps_endpoints = [([ge_gatewayIP env], True)],
      eps_ports = map (\<lambda>a. \<lparr>ep_name = ap_name a, ep_port = ap_gatewayPort a, ep_protocol = ''TCP''\<rparr>)
                    (st_allocatedPorts (vs_status vs))\<rparr>"

definition ensureEndpointSlice ::
  "'h gw_env \<Rightarrow> virtual_service \<Rightarrow> 'h gw_state \<Rightarrow> go_error option \<times> 'h gw_state" where
  "ensureEndpointSlice env vs c =
     (let desired = desiredEPS env vs; ns = vs_namespace vs; n = vs_name vs
      in case kcall env (KGetEPS ns n) c of
           (r, c1) \<Rightarrow>
             (case kr_err r of
                Some e \<Rightarrow>
                  if isNotFound e then
                    (case kcall env (KCreateEPS desired) c1 of (r2, c2) \<Rightarrow> (kr_err r2, c2))
                  else (Some e, c1)
              | None \<Rightarrow>
                  (let existing = kr_eps r
                   in if \<not> isOwnedBy (eps_owners existing) vs then
                        (Some (ErrKube AlreadyExists
                                 (''endpointslices \"'' @ n @ ''\" already exists'')), c1)
                      else if eps_endpoints existing \<noteq> eps_endpoints desired
                              \<or> eps_ports existing \<noteq> eps_ports desired then
                        (case kcall env
                                (KUpdateEPS (existing\<lparr>eps_endpoints := eps_endpoints desired,
                                               eps_ports := eps_ports desired,
                                               eps_labels := eps_labels desired\<rparr>)) c1 of
                           (r2, c2) \<Rightarrow> (kr_err r2, c2))
                      else (None, c1))))"

section \<open>HAProxy configuration\<close>

definition backendsFor :: "virtual_pod_info list \<Rightarrow> int \<Rightarrow> backend list" where
  "backendsFor pods targetPort =
     List.map_filter
       (\<lambda>pod. case calculateBackendPort pod targetPort of
                Inl e \<Rightarrow> None
              | Inr port \<Rightarrow>
                  Some \<lparr>be_name = vp_namespace pod @ ''-'' @ vp_name pod,
                        be_address = vp_wireguardIP pod, be_port = port\<rparr>) pods"

definition listenerFor :: "virtual_service \<Rightarrow> virtual_pod_info list \<Rightarrow> allocated_port \<Rightarrow> listener_config" where
  "listenerFor vs pods a =
     \<lparr>lc_name = vsKey vs @ ''-port-'' @ itoa (ap_servicePort a),
      lc_port = ap_gatewayPort a, lc_backends = backendsFor pods (ap_targetPort a)\<rparr>"

definition configureHAProxy ::
  "'h gw_env \<Rightarrow> virtual_service \<Rightarrow> virtual_pod_info list \<Rightarrow> 'h gw_state \<Rightarrow> go_error option \<times> 'h gw_state" where
  "configureHAProxy env vs pods c =
     (case ge_configure env (gw_haproxy c) (vsKey vs)
             (map (listenerFor vs pods) (st_allocatedPorts (vs_status vs))) of
        (h1, e) \<Rightarrow>
          (map_option (ErrWrap ''failed to configure HAProxy'') e, c\<lparr>gw_haproxy := h1\<rparr>))"

section \<open>Conditions and status\<close>

text \<open>The loop over the conditions: the first of the same type is replaced when status or reason
  differ; a condition of a new type is appended.\<close>

fun upsertCondition :: "condition list \<Rightarrow> condition \<Rightarrow> condition list" where
  "upsertCondition [] cd = [cd]"
| "upsertCondition (x # xs) cd =
     (if cd_type x = cd_type cd then
        (if cd_status x \<noteq> cd_status cd \<or> cd_reason x \<noteq> cd_reason cd then cd # xs else x # xs)
      else x # upsertCondition xs cd)"

definition setConditionAndUpdate ::
  "'h gw_env \<Rightarrow> virtual_service \<Rightarrow> condition \<Rightarrow> 'h gw_state \<Rightarrow>
   (go_error option \<times> virtual_service) \<times> 'h gw_state" where
  "setConditionAndUpdate env vs cd c =
     (let original = vs_status vs;
          st = (vs_status vs)\<lparr>st_conditions := upsertCondition (st_conditions (vs_status vs)) cd,
                              st_observedGeneration := vs_generation vs\<rparr>;
          vs1 = vs\<lparr>vs_status := st\<rparr>
      in if st = original then ((None, vs1), c)
         else (case kcall env (KUpdateVSStatus vs1) c of (r, c1) \<Rightarrow> ((kr_err r, vs1), c1)))"

section \<open>The reconciler\<close>

definition readyCondition ::
  "'h gw_env \<Rightarrow> virtual_service \<Rightarrow> cond_status \<Rightarrow> string \<Rightarrow> string \<Rightarrow> condition" where
  "readyCondition env vs status reason msg =
     \<lparr>cd_type = ConditionTypeReady, cd_status = status, cd_reason = reason, cd_message = msg,
      cd_observedGeneration = vs_generation vs, cd_lastTransitionTime = ge_now env\<rparr>"

definition failWith ::
  "'h gw_env \<Rightarrow> virtual_service \<Rightarrow> string \<Rightarrow> string \<Rightarrow> 'h gw_state \<Rightarrow>
   (go_error option \<times> virtual_service) \<times> 'h gw_state" where
  "failWith env vs reason msg c =
     setConditionAndUpdate env vs (readyCondition env vs CondFalse reason msg) c"

definition reconcileVirtualService ::
  "'h gw_env \<Rightarrow> string list \<Rightarrow> virtual_service \<Rightarrow> 'h gw_state \<Rightarrow>
   (go_error option \<times> virtual_service) \<times> 'h gw_state" where
  "reconcileVirtualService env keys vs c =
     (case validateVirtualService vs of
        Some e \<Rightarrow> failWith env vs ReasonUnsupportedSpec (err_msg e) c
      | None \<Rightarrow>
     (case ensurePortAllocations (gw_alloc c) vs of
        (a1, vs1, Some e) \<Rightarrow>
          failWith env vs1 ReasonPortAllocationErr (''Failed to allocate ports: '' @ err_msg e)
            (c\<lparr>gw_alloc := a1\<rparr>)
      | (a1, vs1, None) \<Rightarrow>
     (let c1 = c\<lparr>gw_alloc := a1\<rparr>;
          pods = getMatchingPods (ge_lib env) keys (gw_virtualPods c1) vs1
      in case ensureGeneratedService env vs1 c1 of
        (Some e, c2) \<Rightarrow>
          if isAlreadyExists e then
            failWith env vs1 ReasonServiceConflict
              (''Service with name '' @ vs_name vs1
               @ '' already exists and is not owned by this VirtualService'') c2
          else failWith env vs1 ReasonReconcileError
                 (''Failed to create/update Service: '' @ err_msg e) c2
      | (None, c2) \<Rightarrow>
     (case ensureEndpointSlice env vs1 c2 of
        (Some e, c3) \<Rightarrow>
          if isAlreadyExists e then
            failWith env vs1 ReasonServiceConflict
              (''EndpointSlice with name '' @ vs_name vs1
               @ '' already exists and is not owned by this VirtualService'') c3
          else failWith env vs1 ReasonReconcileError
                 (''Failed to create/update EndpointSlice: '' @ err_msg e) c3
      | (None, c3) \<Rightarrow>
     (case configureHAProxy env vs1 pods c3 of
        (Some e, c4) \<Rightarrow>
          failWith env vs1 ReasonReconcileError (''Failed to configure HAProxy: '' @ err_msg e) c4
      | (None, c4) \<Rightarrow>
          setConditionAndUpdate env vs1
            (readyCondition env vs1 CondTrue ReasonReconciled
               (''Service and proxy configured with '' @ itoa (int (length pods)) @ '' backends''))
            c4)))))"

section \<open>Finalization\<close>

definition containsString :: "string list \<Rightarrow> string \<Rightarrow> bool" where
  "containsString slice s \<longleftrightarrow> list_ex (\<lambda>x. x = s) slice"

definition removeString :: "string list \<Rightarrow> string \<Rightarrow> string list" where
  "removeString slice s = filter (\<lambda>x. x \<noteq> s) slice"

text \<open>Deletion of the generated Service, if the lister has it and it is owned; an error other than
  not-found is only logged.\<close>

definition deleteOwnedService :: "'h gw_env \<Rightarrow> virtual_service \<Rightarrow> 'h gw_state \<Rightarrow> 'h gw_state" where
  "deleteOwnedService env vs c =
     (case gw_svcCache c (vs_namespace vs) (vs_name vs) of
        Inl e \<Rightarrow> c
      | Inr existing \<Rightarrow>
          if isOwnedBy (svc_owners existing) vs
          then snd (kcall env (KDeleteService (vs_namespace vs) (vs_name vs)) c) else c)"

definition deleteOwnedEPS :: "'h gw_env \<Rightarrow> virtual_service \<Rightarrow> 'h gw_state \<Rightarrow> 'h gw_state" where
  "deleteOwnedEPS env vs c =
     (case kcall env (KGetEPS (vs_namespace vs) (vs_name vs)) c of
        (r, c1) \<Rightarrow>
          if kr_err r = None \<and> isOwnedBy (eps_owners (kr_eps r)) vs
          then snd (kcall env (KDeleteEPS (vs_namespace vs) (vs_name vs)) c1) else c1)"

definition updateVirtualService ::
  "'h gw_env \<Rightarrow> virtual_service \<Rightarrow> 'h gw_state \<Rightarrow> virtual_service result \<times> 'h gw_state" where
  "updateVirtualService env vs c =
     (case kcall env (KUpdateVS vs) c of
        (r, c1) \<Rightarrow> ((case kr_err r of Some e \<Rightarrow> Inl e | None \<Rightarrow> Inr (kr_vs r)), c1))"

definition handleVirtualServiceFinalization ::
  "'h gw_env \<Rightarrow> virtual_service \<Rightarrow> 'h gw_state \<Rightarrow> (go_error option \<times> virtual_service) \<times> 'h gw_state" where
  "handleVirtualServiceFinalization env vs c =
     (if \<not> containsString (vs_finalizers vs) VirtualServiceFinalizer then ((None, vs), c)
      else
        (let k = vsKey vs;
             c1 = c\<lparr>gw_haproxy := fst (ge_remove env (gw_haproxy c) k)\<rparr>;
             c2 = c1\<lparr>gw_alloc := releasePorts Release k (st_allocatedPorts (vs_status vs)) (gw_alloc c1)\<rparr>;
             c3 = deleteOwnedService env vs c2;
             c4 = deleteOwnedEPS env vs c3;
             vs1 = vs\<lparr>vs_finalizers := removeString (vs_finalizers vs) VirtualServiceFinalizer\<rparr>
         in case updateVirtualService env vs1 c4 of
              (Inl e, c5) \<Rightarrow> ((Some (ErrWrap ''failed to remove finalizer'' e), vs1), c5)
            | (Inr _, c5) \<Rightarrow> ((None, vs1), c5)))"

end
