(* ===== verification/ReconcileFacts.thy ===== *)
theory ReconcileFacts
  imports Reconcile
begin

text \<open>
  Lemmas about the reconciler: the allocation loop proved once for any port pool and instantiated
  for the allocator, what the generated objects contain, who may be written or deleted, and the
  condition logic.
\<close>

section \<open>The allocation loop over a port pool\<close>

definition gwPorts :: "allocated_port list \<Rightarrow> int list" where
  "gwPorts allocs = map ap_gatewayPort allocs"

lemma gwPorts_simps [simp]:
  "gwPorts [] = []" "gwPorts (x # xs) = ap_gatewayPort x # gwPorts xs"
  "gwPorts (xs @ ys) = gwPorts xs @ gwPorts ys"
  by (simp_all add: gwPorts_def)

lemma gwPort_new [simp]: "ap_gatewayPort (newAllocatedPort s p) = wrap32 p"
  by (simp add: newAllocatedPort_def)

text \<open>An allocation made for a port of the specification.\<close>

definition madeFor :: "service_port \<Rightarrow> allocated_port \<Rightarrow> bool" where
  "madeFor s a \<longleftrightarrow>
     ap_name a = sp_name s \<and> ap_servicePort a = sp_port s \<and> ap_targetPort a = sp_targetPort s \<and>
     ap_protocol a = (if sp_protocol s = [] then ''TCP'' else sp_protocol s)"

lemma madeFor_new [simp]: "madeFor s (newAllocatedPort s p)"
  by (simp add: madeFor_def newAllocatedPort_def)

lemma madeFor_matches: "madeFor s a \<Longrightarrow> portMatches s a"
  by (simp add: madeFor_def portMatches_def)

lemma allocationsMatch_madeFor:
  assumes "list_all2 madeFor specs allocs"
  shows "allocationsMatch specs allocs"
proof -
  have "\<exists>a \<in> set allocs. portMatches s a" if "s \<in> set specs" for s
    using assms that madeFor_matches by (metis in_set_conv_nth list_all2_conv_all_nth)
  with assms show ?thesis
    by (simp add: allocationsMatch_def list_all_iff list_ex_iff list_all2_lengthD)
qed

lemma releasePorts_gw: "releasePorts release k allocs a = foldl (\<lambda>b p. release b k p) a (gwPorts allocs)"
  by (induction allocs arbitrary: a) (simp_all add: releasePorts_def)

context port_pool
begin

lemma releasePorts_owner:
  "inv a \<Longrightarrow> owner (releasePorts release k allocs a) q =
     (if q \<in> set (gwPorts allocs) \<and> owner a q = Some k then None else owner a q)"
  by (simp add: releasePorts_gw release_list_owner)

lemma releasePorts_inv:
  "inv a \<Longrightarrow> inv (releasePorts release k allocs a) \<and>
     range (releasePorts release k allocs a) = range a"
  by (simp add: releasePorts_gw release_list_inv)

lemma allocatePorts_ok:
  assumes "inv a" and "\<And>p. range a p \<Longrightarrow> wrap32 p = p"
    and "allocatePorts alloc release k ss acc a = (a', Inr out)"
  shows "\<exists>new. out = acc @ new \<and> list_all2 madeFor ss new \<and> distinct (gwPorts new) \<and>
    (\<forall>p \<in> set (gwPorts new). range a p \<and> owner a p = None) \<and>
    (\<forall>q. owner a' q = (if q \<in> set (gwPorts new) then Some k else owner a q)) \<and>
    inv a' \<and> range a' = range a"
  using assms
proof (induction ss arbitrary: acc a)
  case Nil
  then show ?case by simp
next
  case (Cons s ss)
  obtain a1 r where al: "alloc a k = (a1, r)" by fastforce
  with Cons.prems(3) obtain p where r: "r = Inr p"
    by (cases r) auto
  note one = alloc_ok [OF Cons.prems(1) al [unfolded r]]
  note step = alloc_inv [OF Cons.prems(1) al]
  have rest: "allocatePorts alloc release k ss (acc @ [newAllocatedPort s p]) a1 = (a', Inr out)"
    using Cons.prems(3) al r by simp
  have "\<And>q. range a1 q \<Longrightarrow> wrap32 q = q" using Cons.prems(2) step by simp
  with Cons.IH [OF _ _ rest] step obtain new where new:
    "out = (acc @ [newAllocatedPort s p]) @ new" "list_all2 madeFor ss new"
    "distinct (gwPorts new)" "\<forall>q \<in> set (gwPorts new). range a1 q \<and> owner a1 q = None"
    "\<forall>q. owner a' q = (if q \<in> set (gwPorts new) then Some k else owner a1 q)"
    "inv a'" "range a' = range a1" by blast
  have wp: "wrap32 p = p" using one Cons.prems(2) by blast
  have fresh: "p \<notin> set (gwPorts new)" using new(4) one by auto
  show ?case
  proof (intro exI conjI)
    show "out = acc @ (newAllocatedPort s p # new)" using new(1) by simp
    show "list_all2 madeFor (s # ss) (newAllocatedPort s p # new)" using new(2) by simp
    show "distinct (gwPorts (newAllocatedPort s p # new))" using new(3) wp fresh by simp
    show "\<forall>q \<in> set (gwPorts (newAllocatedPort s p # new)). range a q \<and> owner a q = None"
      using new(4) one wp step by (auto split: if_splits)
    show "\<forall>q. owner a' q =
        (if q \<in> set (gwPorts (newAllocatedPort s p # new)) then Some k else owner a q)"
      using new(5) one wp by simp
    show "inv a'" "range a' = range a" using new(6,7) step by simp_all
  qed
qed

lemma allocatePorts_err:
  assumes "inv a" and "\<And>p. range a p \<Longrightarrow> wrap32 p = p"
    and "allocatePorts alloc release k ss acc a = (a', Inl e)"
  shows "(\<forall>q. owner a' q = (if q \<in> set (gwPorts acc) \<and> owner a q = Some k then None else owner a q))
    \<and> inv a' \<and> range a' = range a"
  using assms
proof (induction ss arbitrary: acc a)
  case Nil
  then show ?case by simp
next
  case (Cons s ss)
  obtain a1 r where al: "alloc a k = (a1, r)" by fastforce
  note step = alloc_inv [OF Cons.prems(1) al]
  show ?case
  proof (cases r)
    case (Inl er)
    with al Cons.prems(3) have "a' = releasePorts release k acc a1" by simp
    moreover have "a1 = a" using alloc_err [OF Cons.prems(1)] al Inl by blast
    ultimately show ?thesis
      using Cons.prems(1) by (simp add: releasePorts_owner releasePorts_inv)
  next
    case (Inr p)
    note one = alloc_ok [OF Cons.prems(1) al [unfolded Inr]]
    have wp: "wrap32 p = p" using one Cons.prems(2) by blast
    have rest: "allocatePorts alloc release k ss (acc @ [newAllocatedPort s p]) a1 = (a', Inl e)"
      using Cons.prems(3) al Inr by simp
    have "\<And>q. range a1 q \<Longrightarrow> wrap32 q = q" using Cons.prems(2) step by simp
    with Cons.IH [OF _ _ rest] step have
      "\<forall>q. owner a' q = (if q \<in> set (gwPorts acc) \<union> {p} \<and> owner a1 q = Some k then None
                          else owner a1 q)"
      "inv a'" "range a' = range a1"
      using wp by auto
    with one step show ?thesis by auto
  qed
qed

text \<open>The loop fails exactly when the range has fewer free ports than the specification has.\<close>

definition freePorts :: "'a \<Rightarrow> int set" where
  "freePorts a = {p. range a p \<and> owner a p = None}"

lemma allocatePorts_succeeds_iff:
  assumes "inv a" and "finite (freePorts a)"
  shows "is_err (snd (allocatePorts alloc release k ss acc a)) \<longleftrightarrow> card (freePorts a) < length ss"
  using assms
proof (induction ss arbitrary: acc a)
  case (Cons s ss)
  obtain a1 r where al: "alloc a k = (a1, r)" by fastforce
  note step = alloc_inv [OF Cons.prems(1) al]
  show ?case
  proof (cases r)
    case (Inl er)
    with alloc_err [OF Cons.prems(1)] al have "freePorts a = {}" by (auto simp: freePorts_def)
    with al Inl show ?thesis by simp
  next
    case (Inr p)
    note one = alloc_ok [OF Cons.prems(1) al [unfolded Inr]]
    have free: "freePorts a1 = freePorts a - {p}" "p \<in> freePorts a"
      using one step by (auto simp: freePorts_def)
    then have "card (freePorts a) = Suc (card (freePorts a1))"
      using Cons.prems(2) by (metis card.remove)
    moreover have "finite (freePorts a1)" using free Cons.prems(2) by simp
    ultimately show ?thesis using Cons.IH [of a1] step al Inr by simp
  qed
qed simp

end

section \<open>Port allocation of a VirtualService\<close>

text \<open>Every gateway port of the status belongs to the VirtualService in the allocator.\<close>

definition ownsStatus :: "allocator \<Rightarrow> virtual_service \<Rightarrow> bool" where
  "ownsStatus a vs \<longleftrightarrow>
     (\<forall>p \<in> set (gwPorts (st_allocatedPorts (vs_status vs))). ownerOf a p = Some (vsKey vs))"

definition int32_range :: "allocator \<Rightarrow> bool" where
  "int32_range a \<longleftrightarrow> (\<forall>p. inRange a p \<longrightarrow> in_int32 p)"

lemma int32_range_wrap: "int32_range a \<Longrightarrow> inRange a p \<Longrightarrow> wrap32 p = p"
  by (rule wrap32_id) (simp add: int32_range_def)

lemma int32_range_New: "- 2147483648 \<le> s \<Longrightarrow> e < 2147483648 \<Longrightarrow> int32_range (NewAllocator s e)"
  by (simp add: int32_range_def inRange_def in_int32_def NewAllocator_def)

lemma vsKey_status [simp]: "vsKey (vs\<lparr>vs_status := st\<rparr>) = vsKey vs"
  by (simp add: vsKey_def)

lemma ensure_reuse:
  "allocationsMatch (ss_ports (vs_service vs)) (st_allocatedPorts (vs_status vs)) \<Longrightarrow>
   ensurePortAllocations a vs = (a, vs, None)"
  by (simp add: ensurePortAllocations_def Let_def)

lemma ensure_alloc:
  assumes inv: "alloc_inv a" and r32: "int32_range a"
    and nomatch: "\<not> allocationsMatch (ss_ports (vs_service vs)) (st_allocatedPorts (vs_status vs))"
    and ok: "ensurePortAllocations a vs = (a', vs', None)"
  defines "old \<equiv> set (gwPorts (st_allocatedPorts (vs_status vs)))"
  obtains new where "vs' = vs\<lparr>vs_status := (vs_status vs)\<lparr>st_allocatedPorts := new\<rparr>\<rparr>"
    and "list_all2 madeFor (ss_ports (vs_service vs)) new" and "distinct (gwPorts new)"
    and "\<forall>p \<in> set (gwPorts new). inRange a p \<and>
           (ownerOf a p = None \<or> (p \<in> old \<and> ownerOf a p = Some (vsKey vs)))"
    and "\<forall>q. ownerOf a' q = (if q \<in> set (gwPorts new) then Some (vsKey vs)
              else if q \<in> old \<and> ownerOf a q = Some (vsKey vs) then None else ownerOf a q)"
    and "alloc_inv a'" and "inRange a' = inRange a"
proof -
  let ?k = "vsKey vs" and ?old = "st_allocatedPorts (vs_status vs)"
  let ?a0 = "releasePorts Release ?k ?old a"
  note rel = pool.releasePorts_inv [OF inv, of ?k ?old] pool.releasePorts_owner [OF inv, of ?k ?old]
  obtain a1 r where lp: "allocatePorts Allocate Release ?k (ss_ports (vs_service vs)) [] ?a0 = (a1, r)"
    by fastforce
  with ok nomatch obtain new where r: "r = Inr new" and a1: "a' = a1"
    and vs': "vs' = vs\<lparr>vs_status := (vs_status vs)\<lparr>st_allocatedPorts := new\<rparr>\<rparr>"
    by (cases r) (auto simp: ensurePortAllocations_def Let_def)
  have "\<And>p. inRange ?a0 p \<Longrightarrow> wrap32 p = p" using rel(1) int32_range_wrap [OF r32] by simp
  from pool.allocatePorts_ok [OF _ this lp [unfolded r]] rel(1)
  have new: "list_all2 madeFor (ss_ports (vs_service vs)) new" "distinct (gwPorts new)"
    "\<forall>p \<in> set (gwPorts new). inRange a p \<and> ownerOf ?a0 p = None"
    "\<forall>q. ownerOf a1 q = (if q \<in> set (gwPorts new) then Some ?k else ownerOf ?a0 q)"
    "alloc_inv a1" "inRange a1 = inRange a" by auto
  show thesis
  proof (rule that [OF vs' new(1,2)])
    show "\<forall>p \<in> set (gwPorts new). inRange a p \<and>
        (ownerOf a p = None \<or> (p \<in> old \<and> ownerOf a p = Some ?k))"
      using new(3) unfolding rel(2) old_def by (auto split: if_splits)
    show "\<forall>q. ownerOf a' q = (if q \<in> set (gwPorts new) then Some ?k
        else if q \<in> old \<and> ownerOf a q = Some ?k then None else ownerOf a q)"
      using new(4) unfolding rel(2) old_def a1 by simp
  qed (use new(5,6) a1 in simp_all)
qed

lemma ensure_fail:
  assumes inv: "alloc_inv a" and r32: "int32_range a"
    and fail: "ensurePortAllocations a vs = (a', vs', Some e)"
  shows "vs' = vs" and "alloc_inv a'" and "inRange a' = inRange a"
    and "ownerOf a' q = (if q \<in> set (gwPorts (st_allocatedPorts (vs_status vs)))
           \<and> ownerOf a q = Some (vsKey vs) then None else ownerOf a q)"
proof -
  let ?k = "vsKey vs" and ?old = "st_allocatedPorts (vs_status vs)"
  let ?a0 = "releasePorts Release ?k ?old a"
  note rel = pool.releasePorts_inv [OF inv, of ?k ?old] pool.releasePorts_owner [OF inv, of ?k ?old]
  obtain a1 r where lp: "allocatePorts Allocate Release ?k (ss_ports (vs_service vs)) [] ?a0 = (a1, r)"
    by fastforce
  with fail obtain er where r: "r = Inl er" and a1: "a' = a1" "vs' = vs"
    by (cases r) (auto simp: ensurePortAllocations_def Let_def split: if_splits)
  have "\<And>p. inRange ?a0 p \<Longrightarrow> wrap32 p = p" using rel(1) int32_range_wrap [OF r32] by simp
  from pool.allocatePorts_err [OF _ this lp [unfolded r]] rel(1)
  have own: "\<forall>q. ownerOf a1 q = ownerOf ?a0 q" "alloc_inv a1" "inRange a1 = inRange a" by auto
  show "vs' = vs" "alloc_inv a'" "inRange a' = inRange a" using own(2,3) a1 by simp_all
  show "ownerOf a' q = (if q \<in> set (gwPorts ?old) \<and> ownerOf a q = Some ?k then None
          else ownerOf a q)"
    using own(1) rel(2) a1 by simp
qed

lemma ensure_alloc_inv [inv_intros]:
  assumes "alloc_inv a" "int32_range a" "ensurePortAllocations a vs = (a', vs', e)"
  shows "alloc_inv a' \<and> inRange a' = inRange a"
proof (cases e)
  case None
  show ?thesis
  proof (cases "allocationsMatch (ss_ports (vs_service vs)) (st_allocatedPorts (vs_status vs))")
    case True
    with assms show ?thesis by (simp add: ensure_reuse)
  next
    case False
    from ensure_alloc [OF assms(1,2) False assms(3) [unfolded None]] show ?thesis by metis
  qed
next
  case (Some er)
  with ensure_fail(2,3) [OF assms(1,2)] assms(3) show ?thesis by simp
qed

end
