(* ===== verification/Controller.thy ===== *)
theory Controller
  imports ReconcileFacts
begin

text \<open>
  The event side of the gateway controller (\<open>internal/gateway/controller.go\<close>): the cache of
  virtual pods, the informer callbacks that fill the work queue, the worker that takes a key and
  reconciles it, and runs of the controller over any sequence of events.

  The cached VirtualService is the object the handlers assign to, so the cache holds it as they
  leave it. The order in which Go ranges over a map is an argument.
\<close>

section \<open>The virtual pod cache\<close>

text \<open>The distinct container ports in increasing order.\<close>

definition extractContainerPorts :: "gw_pod \<Rightarrow> int list" where
  "extractContainerPorts pod = sort (remdups (concat (map ct_ports (gp_containers pod))))"

definition podKey :: "gw_pod \<Rightarrow> string" where
  "podKey pod = gp_namespace pod @ ''/'' @ gp_name pod"

text \<open>The slot of the annotation; 0 without annotation or without a number in it.\<close>

definition slotOf :: "gw_pod \<Rightarrow> int" where
  "slotOf pod =
     (case gp_annotations pod AnnotationProxySlotID of
        None \<Rightarrow> 0
      | Some s \<Rightarrow> (case sscanfInt s of None \<Rightarrow> 0 | Some i \<Rightarrow> i))"

definition wireguardAddress :: "int \<Rightarrow> string" where
  "wireguardAddress slot = WireguardSubnetBase @ itoa (wrap64 (WireguardSlotOffset + slot))"

definition virtualPodInfoOf :: "gw_pod \<Rightarrow> virtual_pod_info" where
  "virtualPodInfoOf pod =
     \<lparr>vp_uid = gp_uid pod, vp_namespace = gp_namespace pod, vp_name = gp_name pod,
      vp_labels = gp_labels pod, vp_proxySlotID = slotOf pod,
      vp_wireguardIP = wireguardAddress (slotOf pod), vp_ready = gp_running pod,
      vp_containerPorts = extractContainerPorts pod\<rparr>"

definition updateVirtualPodCache :: "gw_pod \<Rightarrow> 'h gw_state \<Rightarrow> 'h gw_state" where
  "updateVirtualPodCache pod c =
     (if gp_deletionTimestamp pod \<noteq> None
      then c\<lparr>gw_virtualPods := (gw_virtualPods c)(podKey pod := None)\<rparr>
      else c\<lparr>gw_virtualPods := (gw_virtualPods c)(podKey pod \<mapsto> virtualPodInfoOf pod)\<rparr>)"

section \<open>Informer callbacks\<close>

text \<open>The object of a pod event: a pod, or something else (the tombstone of a missed deletion).\<close>

datatype pod_obj = PodObj gw_pod | OtherObj

definition queueAdd :: "string \<Rightarrow> 'h gw_state \<Rightarrow> 'h gw_state" where
  "queueAdd key c = c\<lparr>gw_queue := gw_queue c @ [QAdd key]\<rparr>"

definition enqueueVirtualServicesForPod ::
  "k8s_lib \<Rightarrow> string list \<Rightarrow> gw_pod \<Rightarrow> 'h gw_state \<Rightarrow> 'h gw_state" where
  "enqueueVirtualServicesForPod lib vskeys pod c =
     foldl (\<lambda>d vs. if lib_matches lib (ss_selector (vs_service vs)) (gp_labels pod)
                   then queueAdd (vsKey vs) d else d)
       c (List.map_filter (gw_virtualServices c) vskeys)"

definition handlePodEvent ::
  "k8s_lib \<Rightarrow> string list \<Rightarrow> pod_obj \<Rightarrow> 'h gw_state \<Rightarrow> 'h gw_state" where
  "handlePodEvent lib vskeys obj c =
     (case obj of
        OtherObj \<Rightarrow> c
      | PodObj pod \<Rightarrow>
          if gp_annotations pod AnnotationVirtualPod \<noteq> Some ''true'' then c
          else enqueueVirtualServicesForPod lib vskeys pod (updateVirtualPodCache pod c))"

text \<open>The key function of the library gives a key or an error; an error is only logged.\<close>

definition enqueueVirtualService :: "string result \<Rightarrow> 'h gw_state \<Rightarrow> 'h gw_state" where
  "enqueueVirtualService key c = (case key of Inl e \<Rightarrow> c | Inr k \<Rightarrow> queueAdd k c)"

section \<open>The worker\<close>

definition handleVirtualServiceDeletion ::
  "string \<Rightarrow> string \<Rightarrow> 'h gw_state \<Rightarrow> go_error option \<times> 'h gw_state" where
  "handleVirtualServiceDeletion ns n c = (None, c)"

definition cacheVS :: "string \<Rightarrow> virtual_service \<Rightarrow> 'h gw_state \<Rightarrow> 'h gw_state" where
  "cacheVS key vs c = c\<lparr>gw_virtualServices := (gw_virtualServices c)(key \<mapsto> vs)\<rparr>"

definition addFinalizer ::
  "'h gw_env \<Rightarrow> virtual_service \<Rightarrow> 'h gw_state \<Rightarrow> (go_error option \<times> virtual_service) \<times> 'h gw_state" where
  "addFinalizer env vs c =
     (if containsString (vs_finalizers vs) VirtualServiceFinalizer then ((None, vs), c)
      else
        (let vs1 = vs\<lparr>vs_finalizers := vs_finalizers vs @ [VirtualServiceFinalizer]\<rparr>
         in case updateVirtualService env vs1 c of
              (Inl e, c1) \<Rightarrow> ((Some e, vs1), c1)
            | (Inr _, c1) \<Rightarrow> ((None, vs1), c1)))"

text \<open>What \<open>reconcile\<close> does with a typed object.\<close>

definition reconcileTyped ::
  "'h gw_env \<Rightarrow> string list \<Rightarrow> virtual_service \<Rightarrow> 'h gw_state \<Rightarrow>
   (go_error option \<times> virtual_service) \<times> 'h gw_state" where
  "reconcileTyped env keys vs c =
     (if vs_deletionTimestamp vs \<noteq> None then handleVirtualServiceFinalization env vs c
      else
        (case addFinalizer env vs c of
           ((Some e, vs1), c1) \<Rightarrow> ((Some e, vs1), c1)
         | ((None, vs1), c1) \<Rightarrow> reconcileVirtualService env keys vs1 c1))"

definition reconcile ::
  "'h gw_env \<Rightarrow> string list \<Rightarrow> string \<Rightarrow> 'h gw_state \<Rightarrow> go_error option \<times> 'h gw_state" where
  "reconcile env keys key c =
     (case lib_splitKey (ge_lib env) key of
        Inl e \<Rightarrow> (Some e, c)
      | Inr (ns, n) \<Rightarrow>
          (case gw_vsCache c ns n of
             VsError e \<Rightarrow>
               if isNotFound e then
                 handleVirtualServiceDeletion ns n
                   (c\<lparr>gw_virtualServices := (gw_virtualServices c)(key := None)\<rparr>)
               else (Some e, c)
           | VsObject (Inl e) \<Rightarrow> (Some e, c)
           | VsObject (Inr vs) \<Rightarrow>
               (case reconcileTyped env keys vs (cacheVS key vs c) of
                  ((e, vs1), c1) \<Rightarrow> (e, cacheVS key vs1 c1))))"

text \<open>One item taken from the queue. \<open>Done\<close> is deferred, so it comes last.\<close>

definition queueOps :: "queue_op list \<Rightarrow> 'h gw_state \<Rightarrow> 'h gw_state" where
  "queueOps ops c = c\<lparr>gw_queue := gw_queue c @ ops\<rparr>"

definition processNextWorkItem ::
  "'h gw_env \<Rightarrow> string list \<Rightarrow> work_item \<Rightarrow> 'h gw_state \<Rightarrow> 'h gw_state" where
  "processNextWorkItem env keys item c =
     (case item of
        ItemOther \<Rightarrow> queueOps [QForget item, QDone item] c
      | ItemKey key \<Rightarrow>
          (case reconcile env keys key c of
             (Some e, c1) \<Rightarrow> queueOps [QAddRateLimited key, QDone item] c1
           | (None, c1) \<Rightarrow> queueOps [QForget item, QDone item] c1))"

section \<open>Runs of the controller\<close>

text \<open>
  The events of the controller: the three callbacks of the VirtualService informer all enqueue,
  the three of the pod informer all go to \<open>handlePodEvent\<close>; a worker handles an item of the queue;
  an informer replaces what its lister returns. The handlers take the controller's locks, and a
  run with one worker is a sequence of these steps.
\<close>

datatype 'h gw_event =
    EvVirtualService "string result"
  | EvPod "string list" pod_obj
  | EvWork "string list" work_item
  | EvServiceCache "string \<Rightarrow> string \<Rightarrow> k8s_service result"
  | EvVSCache "string \<Rightarrow> string \<Rightarrow> vs_entry"

fun gw_step :: "'h gw_env \<Rightarrow> 'h gw_event \<Rightarrow> 'h gw_state \<Rightarrow> 'h gw_state" where
  "gw_step env (EvVirtualService k) c = enqueueVirtualService k c"
| "gw_step env (EvPod vskeys obj) c = handlePodEvent (ge_lib env) vskeys obj c"
| "gw_step env (EvWork keys item) c = processNextWorkItem env keys item c"
| "gw_step env (EvServiceCache f) c = c\<lparr>gw_svcCache := f\<rparr>"
| "gw_step env (EvVSCache f) c = c\<lparr>gw_vsCache := f\<rparr>"

definition gw_run :: "'h gw_env \<Rightarrow> 'h gw_event list \<Rightarrow> 'h gw_state \<Rightarrow> 'h gw_state" where
  "gw_run env evs c = foldl (\<lambda>d ev. gw_step env ev d) c evs"

end
