(* ===== verification/ControllerFacts.thy ===== *)
theory ControllerFacts
  imports Controller
begin

text \<open>
  Lemmas about the controller: what one pass of the worker may change and write (\<open>pass\<close>), the
  condition logic, the steps behind the Ready condition, the steady state, and the invariants of
  every run.
\<close>

section \<open>Passes of the worker\<close>

text \<open>
  A pass leaves the pod cache and the queue alone, keeps the allocator's invariant and range and
  any invariant \<open>I\<close> of the configurer, and appends to the request log entries that satisfy \<open>P\<close>.
\<close>

definition pass :: "(kube_log \<Rightarrow> kube_req \<times> kube_resp \<Rightarrow> bool) \<Rightarrow> ('h \<Rightarrow> bool) \<Rightarrow>
    'h gw_state \<Rightarrow> 'h gw_state \<Rightarrow> bool" where
  "pass P I c c' \<longleftrightarrow>
     gw_virtualPods c' = gw_virtualPods c \<and> gw_queue c' = gw_queue c \<and>
     gw_virtualServices c' = gw_virtualServices c \<and>
     (alloc_inv (gw_alloc c) \<and> int32_range (gw_alloc c) \<longrightarrow>
        alloc_inv (gw_alloc c') \<and> inRange (gw_alloc c') = inRange (gw_alloc c)) \<and>
     (I (gw_haproxy c) \<longrightarrow> I (gw_haproxy c')) \<and>
     (\<exists>ext. gw_kube c' = gw_kube c @ ext \<and>
        (\<forall>i < length ext. P (gw_kube c @ take i ext) (ext ! i)))"

lemma passI:
  assumes "gw_virtualPods c' = gw_virtualPods c" "gw_queue c' = gw_queue c"
    "gw_virtualServices c' = gw_virtualServices c" "gw_alloc c' = gw_alloc c"
    "I (gw_haproxy c) \<Longrightarrow> I (gw_haproxy c')"
    "gw_kube c' = gw_kube c @ ext" "\<forall>i < length ext. P (gw_kube c @ take i ext) (ext ! i)"
  shows "pass P I c c'"
  using assms by (auto simp: pass_def)

lemma pass_refl [simp]: "pass P I c c"
  by (rule passI [where ext = "[]"]) simp_all

lemma pass_trans [trans]:
  assumes "pass P I c d" "pass P I d e"
  shows "pass P I c e"
proof -
  obtain x y where x: "gw_kube d = gw_kube c @ x" "\<forall>i < length x. P (gw_kube c @ take i x) (x ! i)"
    and y: "gw_kube e = gw_kube d @ y" "\<forall>i < length y. P (gw_kube d @ take i y) (y ! i)"
    using assms(1,2) unfolding pass_def by blast
  have "P (gw_kube c @ take i (x @ y)) ((x @ y) ! i)" if "i < length (x @ y)" for i
  proof (cases "i < length x")
    case True
    with x(2) show ?thesis by (simp add: nth_append)
  next
    case False
    then have "i - length x < length y" using that by simp
    with y(2) x(1) False show ?thesis by (auto simp: nth_append)
  qed
  then have "\<exists>ext. gw_kube e = gw_kube c @ ext \<and>
      (\<forall>i < length ext. P (gw_kube c @ take i ext) (ext ! i))"
    using x(1) y(1) by (intro exI [of _ "x @ y"]) simp
  then show ?thesis using assms unfolding pass_def int32_range_def by auto
qed

lemma pass_cong_state [simp]:
  "pass P I c (d\<lparr>gw_svcCache := f\<rparr>) = pass P I c d"
  "pass P I (c\<lparr>gw_svcCache := f\<rparr>) d = pass P I c d"
  by (simp_all add: pass_def)

lemma pass_kcall:
  "P (gw_kube c) (q, ge_api env (gw_kube c) q) \<Longrightarrow> kcall env q c = (r, c') \<Longrightarrow> pass P I c c'"
  by (rule passI [where ext = "[(q, ge_api env (gw_kube c) q)]"]) (auto simp: kcall_def)

text \<open>
  Who may be written. Updates go to objects owned by the VirtualService and of its name; a
  Service is deleted only when the listed one is owned, an EndpointSlice only when the one read
  in the request before is; status and object updates are of the VirtualService itself.
\<close>

definition names :: "virtual_service \<Rightarrow> string \<Rightarrow> string \<Rightarrow> bool" where
  "names vs ns n \<longleftrightarrow> ns = vs_namespace vs \<and> n = vs_name vs"

definition sameVS :: "virtual_service \<Rightarrow> virtual_service \<Rightarrow> bool" where
  "sameVS vs v \<longleftrightarrow> names vs (vs_namespace v) (vs_name v) \<and> vs_uid v = vs_uid vs"

fun guarded :: "(string \<Rightarrow> string \<Rightarrow> k8s_service result) \<Rightarrow> virtual_service \<Rightarrow>
    kube_log \<Rightarrow> kube_req \<times> kube_resp \<Rightarrow> bool" where
  "guarded svcs vs w (KCreateService s, r) = names vs (svc_namespace s) (svc_name s)"
| "guarded svcs vs w (KUpdateService s, r) = isOwnedBy (svc_owners s) vs"
| "guarded svcs vs w (KDeleteService ns n, r) =
     (names vs ns n \<and> (case svcs ns n of Inl e \<Rightarrow> False | Inr s \<Rightarrow> isOwnedBy (svc_owners s) vs))"
| "guarded svcs vs w (KGetEPS ns n, r) = names vs ns n"
| "guarded svcs vs w (KCreateEPS s, r) = names vs (eps_namespace s) (eps_name s)"
| "guarded svcs vs w (KUpdateEPS s, r) = isOwnedBy (eps_owners s) vs"
| "guarded svcs vs w (KDeleteEPS ns n, r) =
     (names vs ns n \<and> w \<noteq> [] \<and> fst (last w) = KGetEPS ns n \<and> kr_err (snd (last w)) = None \<and>
      isOwnedBy (eps_owners (kr_eps (snd (last w)))) vs)"
| "guarded svcs vs w (KUpdateVS v, r) = sameVS vs v"
| "guarded svcs vs w (KUpdateVSStatus v, r) = sameVS vs v"

lemma sameVS_refl [simp]: "sameVS vs vs"
  by (simp add: sameVS_def names_def)

lemma sameVS_updates [simp]:
  "sameVS vs (v\<lparr>vs_status := st\<rparr>) = sameVS vs v" "sameVS vs (v\<lparr>vs_finalizers := fs\<rparr>) = sameVS vs v"
  by (simp_all add: sameVS_def names_def)

lemma sameVS_trans: "sameVS a b \<Longrightarrow> sameVS b c \<Longrightarrow> sameVS a c"
  by (simp add: sameVS_def names_def)

lemma guarded_cong: "sameVS vs v \<Longrightarrow> guarded svcs v = guarded svcs vs"
proof (intro ext)
  fix w x
  assume "sameVS vs v"
  then have "names v = names vs" "sameVS v = sameVS vs" "\<And>os. isOwnedBy os v = isOwnedBy os vs"
    by (auto simp: sameVS_def names_def isOwnedBy_def fun_eq_iff)
  then show "guarded svcs v w x = guarded svcs vs w x"
    by (cases "(svcs, vs, w, x)" rule: guarded.cases) (auto split: sum.splits)
qed

lemma vsKey_finalizers [simp]: "vsKey (vs\<lparr>vs_finalizers := fs\<rparr>) = vsKey vs"
  by (simp add: vsKey_def)

lemma desiredService_names [simp]:
  "svc_namespace (desiredService lib vs) = vs_namespace vs" "svc_name (desiredService lib vs) = vs_name vs"
  "svc_owners (applyDesired s d) = svc_owners s"
  by (simp_all add: desiredService_def applyDesired_def)

lemma desiredEPS_names [simp]:
  "eps_namespace (desiredEPS env vs) = vs_namespace vs" "eps_name (desiredEPS env vs) = vs_name vs"
  by (simp_all add: desiredEPS_def)

lemma pass_setSvcCache: "pass P I (setSvcCache ns n s c) d = pass P I c d"
  by (simp add: setSvcCache_def)

lemma pass_ensureService:
  assumes "ensureGeneratedService env vs c = (e, c')"
  shows "pass (guarded svcs vs) I c c'"
proof (cases "gw_svcCache c (vs_namespace vs) (vs_name vs)")
  case (Inl er)
  with assms show ?thesis
    by (auto simp: ensureGeneratedService_def Let_def names_def split: if_splits prod.splits
        elim!: pass_kcall [rotated])
next
  case (Inr s)
  let ?d = "applyDesired s (desiredService (ge_lib env) vs)"
  show ?thesis
  proof (cases "isOwnedBy (svc_owners s) vs \<and> serviceNeedsUpdate s (desiredService (ge_lib env) vs)")
    case True
    have "pass (guarded svcs vs) I (setSvcCache (vs_namespace vs) (vs_name vs) ?d c) c'"
      using assms Inr True
      by (auto simp: ensureGeneratedService_def Let_def split: prod.splits elim!: pass_kcall [rotated])
    then show ?thesis by (simp add: pass_setSvcCache)
  next
    case False
    with assms Inr show ?thesis by (auto simp: ensureGeneratedService_def Let_def split: if_splits)
  qed
qed

lemma pass_ensureEPS:
  assumes "ensureEndpointSlice env vs c = (e, c')"
  shows "pass (guarded svcs vs) I c c'"
proof -
  obtain r c1 where g: "kcall env (KGetEPS (vs_namespace vs) (vs_name vs)) c = (r, c1)" by fastforce
  then have p1: "pass (guarded svcs vs) I c c1" by (auto simp: names_def elim!: pass_kcall [rotated])
  have "pass (guarded svcs vs) I c1 c'"
    using assms g
    by (auto simp: ensureEndpointSlice_def Let_def names_def split: if_splits prod.splits option.splits
        elim!: pass_kcall [rotated])
  with p1 show ?thesis by (rule pass_trans)
qed

text \<open>The configurer of the environment keeps \<open>I\<close>.\<close>

definition keeps :: "('h \<Rightarrow> bool) \<Rightarrow> 'h gw_env \<Rightarrow> bool" where
  "keeps I env \<longleftrightarrow> (\<forall>h k ls. I h \<longrightarrow> I (fst (ge_configure env h k ls)) \<and> I (fst (ge_remove env h k)))"

lemma pass_configure:
  assumes "keeps I env" "configureHAProxy env vs pods c = (e, c')"
  shows "pass P I c c'"
proof (rule passI [where ext = "[]"])
  have "gw_haproxy c' = fst (ge_configure env (gw_haproxy c) (vsKey vs)
      (map (listenerFor vs pods) (st_allocatedPorts (vs_status vs))))"
    using assms(2) by (auto simp: configureHAProxy_def split: prod.splits)
  with assms(1) show "I (gw_haproxy c) \<Longrightarrow> I (gw_haproxy c')" by (simp add: keeps_def)
qed (use assms(2) in \<open>auto simp: configureHAProxy_def split: prod.splits\<close>)

lemma pass_setCondition:
  assumes "setConditionAndUpdate env vs cd c = ((e, vs'), c')"
  shows "pass (guarded svcs vs) I c c' \<and> sameVS vs vs'"
proof -
  have "sameVS vs vs'" using assms
    by (auto simp: setConditionAndUpdate_def Let_def split: if_splits prod.splits)
  moreover have "pass (guarded svcs vs) I c c'"
    using assms
    by (auto simp: setConditionAndUpdate_def Let_def split: if_splits prod.splits
        elim!: pass_kcall [rotated])
  ultimately show ?thesis by simp
qed

lemma pass_allocate:
  assumes "ensurePortAllocations (gw_alloc c) vs = (a1, vs1, e)"
  shows "pass P I c (c\<lparr>gw_alloc := a1\<rparr>)"
  using ensure_alloc_inv [OF _ _ assms] by (auto simp: pass_def)

lemma sameVS_ensure: "ensurePortAllocations a vs = (a1, vs1, e) \<Longrightarrow> sameVS vs vs1"
  by (auto simp: ensurePortAllocations_def Let_def split: if_splits prod.splits sum.splits)

lemma pass_same_setCondition:
  assumes "sameVS vs v" "setConditionAndUpdate env v cd c = ((e, vs'), c')"
  shows "pass (guarded svcs vs) I c c' \<and> sameVS vs vs'"
  using pass_setCondition [OF assms(2), of svcs I] guarded_cong [OF assms(1)] sameVS_trans [OF assms(1)]
  by simp

lemma pass_reconcileVS:
  assumes k: "keeps I env" and r: "reconcileVirtualService env keys vs c = ((e, vs'), c')"
  shows "pass (guarded svcs vs) I c c' \<and> sameVS vs vs'"
proof (cases "validateVirtualService vs")
  case (Some ev)
  with r show ?thesis
    by (auto simp: reconcileVirtualService_def failWith_def intro!: pass_setCondition)
next
  case None
  note r = r [unfolded reconcileVirtualService_def None failWith_def, simplified]
  obtain a1 vs1 ea where ens: "ensurePortAllocations (gw_alloc c) vs = (a1, vs1, ea)"
    by (metis prod_cases3)
  note same = sameVS_ensure [OF ens]
  let ?G = "guarded svcs vs"
  have p0: "pass ?G I c (c\<lparr>gw_alloc := a1\<rparr>)" by (rule pass_allocate [OF ens])
  have last: "pass ?G I c d \<Longrightarrow> setConditionAndUpdate env vs1 cd d = ((e, vs'), c') \<Longrightarrow> ?thesis"
    for d cd
    using pass_same_setCondition [OF same] pass_trans by blast
  show ?thesis
  proof (cases ea)
    case (Some er)
    with r ens have "setConditionAndUpdate env vs1 (readyCondition env vs1 CondFalse
        ReasonPortAllocationErr (''Failed to allocate ports: '' @ err_msg er)) (c\<lparr>gw_alloc := a1\<rparr>)
        = ((e, vs'), c')" by simp
    then show ?thesis by (rule last [OF p0])
  next
    case None
    obtain es c2 where svc: "ensureGeneratedService env vs1 (c\<lparr>gw_alloc := a1\<rparr>) = (es, c2)" by fastforce
    have p1: "pass ?G I c c2"
      using pass_trans [OF p0] pass_ensureService [OF svc, of svcs I] guarded_cong [OF same] by metis
    obtain ee c3 where eps: "ensureEndpointSlice env vs1 c2 = (ee, c3)" by fastforce
    have p2: "pass ?G I c c3"
      using pass_trans [OF p1] pass_ensureEPS [OF eps, of svcs I] guarded_cong [OF same] by metis
    obtain eh c4 where hap: "configureHAProxy env vs1
        (getMatchingPods (ge_lib env) keys (gw_virtualPods c) vs1) c3 = (eh, c4)" by fastforce
    have p3: "pass ?G I c c4" using pass_trans [OF p2 pass_configure [OF k hap]] .
    consider (svc) er where "es = Some er" | (eps) er where "es = None" "ee = Some er"
      | (hap) er where "es = None" "ee = None" "eh = Some er" | (ok) "es = None" "ee = None" "eh = None"
      by (metis not_None_eq)
    then show ?thesis
    proof cases
      case svc
      with r ens None \<open>ensureGeneratedService _ _ _ = _\<close> p1 show ?thesis
        by (auto split: if_splits elim!: last)
    next
      case eps
      with r ens None svc \<open>ensureEndpointSlice _ _ _ = _\<close> p2 show ?thesis
        by (auto split: if_splits elim!: last)
    next
      case hap
      with r ens None svc eps \<open>configureHAProxy _ _ _ _ = _\<close> p3 show ?thesis
        by (auto elim!: last)
    next
      case ok
      with r ens None svc eps hap p3 show ?thesis by (auto elim!: last)
    qed
  qed
qed

lemma pass_updateVS:
  assumes "sameVS vs v" "updateVirtualService env v c = (x, c')"
  shows "pass (guarded svcs vs) I c c'"
  using assms by (auto simp: updateVirtualService_def split: prod.splits elim!: pass_kcall [rotated])

lemma pass_deleteOwnedService:
  "pass (guarded (gw_svcCache c) vs) I c (deleteOwnedService env vs c)"
  by (auto simp: deleteOwnedService_def names_def kcall_def
      intro!: pass_kcall [where q = "KDeleteService (vs_namespace vs) (vs_name vs)" and env = env]
      split: sum.splits)

lemma pass_deleteOwnedEPS: "pass (guarded svcs vs) I c (deleteOwnedEPS env vs c)"
proof -
  obtain r c1 where g: "kcall env (KGetEPS (vs_namespace vs) (vs_name vs)) c = (r, c1)" by fastforce
  then have p1: "pass (guarded svcs vs) I c c1" by (auto simp: names_def elim!: pass_kcall [rotated])
  from g have l: "gw_kube c1 = gw_kube c @ [(KGetEPS (vs_namespace vs) (vs_name vs), r)]"
    by (auto simp: kcall_def)
  show ?thesis
  proof (cases "kr_err r = None \<and> isOwnedBy (eps_owners (kr_eps r)) vs")
    case True
    obtain r2 c2 where d: "kcall env (KDeleteEPS (vs_namespace vs) (vs_name vs)) c1 = (r2, c2)" by fastforce
    have "pass (guarded svcs vs) I c1 c2"
      by (rule pass_kcall [OF _ d]) (simp add: names_def l True)
    with pass_trans [OF p1] d g True show ?thesis by (simp add: deleteOwnedEPS_def)
  next
    case False
    with g p1 show ?thesis by (auto simp: deleteOwnedEPS_def)
  qed
qed

lemma releasePorts_pool:
  "alloc_inv a \<Longrightarrow> alloc_inv (releasePorts Release k allocs a) \<and>
     inRange (releasePorts Release k allocs a) = inRange a"
  using pool.releasePorts_inv by blast

lemma deleteOwnedService_cache [simp]:
  "gw_svcCache (deleteOwnedService env vs c) = gw_svcCache c"
  by (simp add: deleteOwnedService_def kcall_def split: sum.splits)

lemma pass_finalization:
  assumes k: "keeps I env" and r: "handleVirtualServiceFinalization env vs c = ((e, vs'), c')"
  shows "pass (guarded (gw_svcCache c) vs) I c c' \<and> sameVS vs vs'"
proof (cases "containsString (vs_finalizers vs) VirtualServiceFinalizer")
  case False
  with r show ?thesis by (simp add: handleVirtualServiceFinalization_def)
next
  case True
  let ?G = "guarded (gw_svcCache c) vs"
  let ?k = "vsKey vs" and ?allocs = "st_allocatedPorts (vs_status vs)"
  let ?c2 = "c\<lparr>gw_haproxy := fst (ge_remove env (gw_haproxy c) ?k),
               gw_alloc := releasePorts Release ?k ?allocs (gw_alloc c)\<rparr>"
  let ?c3 = "deleteOwnedService env vs ?c2"
  let ?c4 = "deleteOwnedEPS env vs ?c3"
  let ?v = "vs\<lparr>vs_finalizers := removeString (vs_finalizers vs) VirtualServiceFinalizer\<rparr>"
  obtain x c5 where u: "updateVirtualService env ?v ?c4 = (x, c5)" by fastforce
  have "pass ?G I c ?c2"
    using k releasePorts_pool [of "gw_alloc c" ?k ?allocs] by (auto simp: pass_def keeps_def)
  also have "pass ?G I ?c2 ?c3"
    using pass_deleteOwnedService [of ?c2 vs I env] by simp
  also have "pass ?G I ?c3 ?c4" by (rule pass_deleteOwnedEPS)
  also have "pass ?G I ?c4 c5" by (rule pass_updateVS [OF _ u]) simp
  finally have "pass ?G I c c5" .
  moreover have "vs' = ?v" "c' = c5"
    using r True u by (auto simp: handleVirtualServiceFinalization_def Let_def split: sum.splits)
  ultimately show ?thesis by simp
qed

lemma pass_typed:
  assumes k: "keeps I env" and r: "reconcileTyped env keys vs c = ((e, vs'), c')"
  shows "pass (guarded (gw_svcCache c) vs) I c c' \<and> sameVS vs vs'"
proof (cases "vs_deletionTimestamp vs")
  case (Some t)
  with r pass_finalization [OF k] show ?thesis by (simp add: reconcileTyped_def)
next
  case None
  obtain ea vs1 c1 where a: "addFinalizer env vs c = ((ea, vs1), c1)" by (metis prod.collapse)
  have s: "sameVS vs vs1" and p: "pass (guarded (gw_svcCache c) vs) I c c1"
    using a by (auto simp: addFinalizer_def Let_def split: if_splits prod.splits sum.splits
        elim!: pass_updateVS [rotated])
  show ?thesis
  proof (cases ea)
    case (Some x)
    with r None a s p show ?thesis by (simp add: reconcileTyped_def)
  next
    case ea: None
    with r None a have "reconcileVirtualService env keys vs1 c1 = ((e, vs'), c')"
      by (simp add: reconcileTyped_def)
    from pass_reconcileVS [OF k this, of "gw_svcCache c"] guarded_cong [OF s]
    have "pass (guarded (gw_svcCache c) vs) I c1 c'" "sameVS vs1 vs'" by simp_all
    with pass_trans [OF p] sameVS_trans [OF s] show ?thesis by blast
  qed
qed

end
