(* ===== verification/GatewayProperties.thy ===== *)
theory GatewayProperties
  imports ControllerFacts
begin

text \<open>
  The Ready condition, the steady state, finalization, the backends, and the invariants of every
  run of the gateway controller.
\<close>

section \<open>Conditions\<close>

definition readyOf :: "condition list \<Rightarrow> condition option" where
  "readyOf cds = find (\<lambda>cd. cd_type cd = ConditionTypeReady) cds"

lemma find_upsertCondition:
  "find (\<lambda>x. cd_type x = t) (upsertCondition cds cd) =
     (if t = cd_type cd then
        (case find (\<lambda>x. cd_type x = t) cds of
           Some x \<Rightarrow> Some (if cd_status x \<noteq> cd_status cd \<or> cd_reason x \<noteq> cd_reason cd then cd else x)
         | None \<Rightarrow> Some cd)
      else find (\<lambda>x. cd_type x = t) cds)"
  by (induction cds) auto

lemma types_upsertCondition:
  "map cd_type (upsertCondition cds cd) =
     (if cd_type cd \<in> set (map cd_type cds) then map cd_type cds else map cd_type cds @ [cd_type cd])"
  by (induction cds) auto

lemma readyOf_upsert:
  assumes "cd_type cd = ConditionTypeReady"
  obtains x where "readyOf (upsertCondition cds cd) = Some x" "cd_status x = cd_status cd"
    "cd_reason x = cd_reason cd"
  using assms find_upsertCondition [of ConditionTypeReady cds cd]
  by (cases "find (\<lambda>x. cd_type x = ConditionTypeReady) cds") (auto simp: readyOf_def split: if_splits)

lemma upsert_same:
  "find (\<lambda>x. cd_type x = cd_type cd) cds = Some x \<Longrightarrow> cd_status x = cd_status cd \<Longrightarrow>
   cd_reason x = cd_reason cd \<Longrightarrow> upsertCondition cds cd = cds"
  by (induction cds) (auto split: if_splits)

lemma readyCondition_sel [simp]:
  "cd_type (readyCondition env vs st r m) = ConditionTypeReady"
  "cd_status (readyCondition env vs st r m) = st" "cd_reason (readyCondition env vs st r m) = r"
  by (simp_all add: readyCondition_def)

text \<open>What the final status update of a pass leaves in the object.\<close>

lemma setCondition_ready:
  assumes "setConditionAndUpdate env vs (readyCondition env vs st r m) c = ((e, vs'), c')"
  shows "\<exists>cd. readyOf (st_conditions (vs_status vs')) = Some cd \<and> cd_status cd = st \<and> cd_reason cd = r"
    and "st_allocatedPorts (vs_status vs') = st_allocatedPorts (vs_status vs)"
    and "st_observedGeneration (vs_status vs') = vs_generation vs"
    and "gw_haproxy c' = gw_haproxy c"
    and "vsKey vs' = vsKey vs"
proof -
  have v: "vs' = vs\<lparr>vs_status := (vs_status vs)\<lparr>st_conditions :=
      upsertCondition (st_conditions (vs_status vs)) (readyCondition env vs st r m),
      st_observedGeneration := vs_generation vs\<rparr>\<rparr>"
    and h: "gw_haproxy c' = gw_haproxy c"
    using assms by (auto simp: setConditionAndUpdate_def Let_def kcall_def split: if_splits prod.splits)
  obtain x where "readyOf (upsertCondition (st_conditions (vs_status vs)) (readyCondition env vs st r m)) = Some x"
    "cd_status x = st" "cd_reason x = r"
    by (rule readyOf_upsert [of "readyCondition env vs st r m" "st_conditions (vs_status vs)"])
      simp_all
  with v show "\<exists>cd. readyOf (st_conditions (vs_status vs')) = Some cd \<and> cd_status cd = st \<and> cd_reason cd = r"
    by simp
  from v h show "st_allocatedPorts (vs_status vs') = st_allocatedPorts (vs_status vs)"
    "st_observedGeneration (vs_status vs') = vs_generation vs" "gw_haproxy c' = gw_haproxy c"
    "vsKey vs' = vsKey vs" by simp_all
qed

section \<open>The steps behind Ready\<close>

lemma ensure_match:
  assumes "alloc_inv a" "int32_range a" "ensurePortAllocations a vs = (a', vs', None)"
  shows "allocationsMatch (ss_ports (vs_service vs)) (st_allocatedPorts (vs_status vs'))"
proof (cases "allocationsMatch (ss_ports (vs_service vs)) (st_allocatedPorts (vs_status vs))")
  case True
  with assms(3) show ?thesis by (simp add: ensure_reuse)
next
  case False
  show ?thesis
    by (rule ensure_alloc [OF assms(1,2) False assms(3)]) (simp add: allocationsMatch_madeFor)
qed

lemma reasons_distinct [simp]:
  "ReasonUnsupportedSpec \<noteq> ReasonReconciled" "ReasonPortAllocationErr \<noteq> ReasonReconciled"
  "ReasonServiceConflict \<noteq> ReasonReconciled" "ReasonReconcileError \<noteq> ReasonReconciled"
  by (simp_all add: ReasonUnsupportedSpec_def ReasonReconciled_def ReasonPortAllocationErr_def
      ReasonServiceConflict_def ReasonReconcileError_def)

lemma listenerFor_key: "vsKey v = vsKey vs \<Longrightarrow> listenerFor v = listenerFor vs"
  by (simp add: listenerFor_def fun_eq_iff)

lemma getMatchingPods_status [simp]:
  "getMatchingPods lib keys pods (vs\<lparr>vs_status := st\<rparr>) = getMatchingPods lib keys pods vs"
  by (simp add: getMatchingPods_def)

lemma ensure_only_status:
  "ensurePortAllocations a vs = (a', vs', e) \<Longrightarrow> \<exists>st. vs' = vs\<lparr>vs_status := st\<rparr>"
proof -
  have "\<exists>st. vs = vs\<lparr>vs_status := st\<rparr>" by (rule exI [of _ "vs_status vs"]) simp
  then show "ensurePortAllocations a vs = (a', vs', e) \<Longrightarrow> \<exists>st. vs' = vs\<lparr>vs_status := st\<rparr>"
    by (auto simp: ensurePortAllocations_def Let_def split: if_splits prod.splits sum.splits)
qed

text \<open>Either a pass fails and sets Ready to false with another reason, or every step succeeded.\<close>

lemma reconcileVS_cases:
  assumes "reconcileVirtualService env keys vs c = ((e, vs'), c')"
  obtains (failed) v d reason msg where "reason \<noteq> ReasonReconciled"
      "vs_generation v = vs_generation vs"
      "failWith env v reason msg d = ((e, vs'), c')"
  | (ok) a1 vs1 c2 c3 c4 msg where
      "validateVirtualService vs = None"
      "ensurePortAllocations (gw_alloc c) vs = (a1, vs1, None)"
      "ensureGeneratedService env vs1 (c\<lparr>gw_alloc := a1\<rparr>) = (None, c2)"
      "ensureEndpointSlice env vs1 c2 = (None, c3)"
      "configureHAProxy env vs1 (getMatchingPods (ge_lib env) keys (gw_virtualPods c) vs1) c3 = (None, c4)"
      "setConditionAndUpdate env vs1 (readyCondition env vs1 CondTrue ReasonReconciled msg) c4 = ((e, vs'), c')"
proof (cases "validateVirtualService vs")
  case (Some ev)
  with assms have "failWith env vs ReasonUnsupportedSpec (err_msg ev) c = ((e, vs'), c')"
    by (simp add: reconcileVirtualService_def)
  then show ?thesis by (rule failed [rotated 2]) simp_all
next
  case v: None
  obtain a1 vs1 ea where ens: "ensurePortAllocations (gw_alloc c) vs = (a1, vs1, ea)"
    by (metis prod_cases3)
  then have gen: "vs_generation vs1 = vs_generation vs" using ensure_only_status [OF ens] by auto
  show ?thesis
  proof (cases ea)
    case (Some er)
    with assms v ens have "\<exists>m d. failWith env vs1 ReasonPortAllocationErr m d = ((e, vs'), c')"
      by (auto simp: reconcileVirtualService_def)
    then show ?thesis using failed gen reasons_distinct(2) by blast
  next
    case ea: None
    obtain es c2 where svc: "ensureGeneratedService env vs1 (c\<lparr>gw_alloc := a1\<rparr>) = (es, c2)" by fastforce
    show ?thesis
    proof (cases es)
      case (Some er)
      with assms v ens ea svc have
        "\<exists>m. failWith env vs1 ReasonServiceConflict m c2 = ((e, vs'), c')
           \<or> failWith env vs1 ReasonReconcileError m c2 = ((e, vs'), c')"
        by (auto simp: reconcileVirtualService_def Let_def split: if_splits)
      then show ?thesis using failed gen reasons_distinct(3,4) by blast
    next
      case es: None
      obtain ee c3 where eps: "ensureEndpointSlice env vs1 c2 = (ee, c3)" by fastforce
      obtain eh c4 where hap: "configureHAProxy env vs1
          (getMatchingPods (ge_lib env) keys (gw_virtualPods c) vs1) c3 = (eh, c4)" by fastforce
      note all = assms [unfolded reconcileVirtualService_def] v ens ea svc es eps hap
      show ?thesis
      proof (cases ee)
        case (Some er)
        with all have
          "\<exists>m. failWith env vs1 ReasonServiceConflict m c3 = ((e, vs'), c')
             \<or> failWith env vs1 ReasonReconcileError m c3 = ((e, vs'), c')"
          by (auto simp: Let_def split: if_splits)
        then show ?thesis using failed gen reasons_distinct(3,4) by blast
      next
        case ee: None
        show ?thesis
        proof (cases eh)
          case (Some er)
          with all ee have "\<exists>m. failWith env vs1 ReasonReconcileError m c4 = ((e, vs'), c')"
            by (auto simp: Let_def)
          then show ?thesis using failed gen reasons_distinct(4) by blast
        next
          case None
          with all ee have "\<exists>m. setConditionAndUpdate env vs1
              (readyCondition env vs1 CondTrue ReasonReconciled m) c4 = ((e, vs'), c')"
            by (auto simp: Let_def)
          then show ?thesis using ok v ens ea svc es eps ee hap None by blast
        qed
      qed
    qed
  qed
qed

section \<open>An example cluster\<close>

text \<open>
  A VirtualService with one port, one running virtual pod, a cluster in which neither the Service
  nor the EndpointSlice exists yet, and the mock HAProxy manager: the input on which the
  properties below are instantiated.
\<close>

definition exLib :: k8s_lib where
  "exLib = \<lparr>lib_matches = (\<lambda>sel labels. sel = labels),
     lib_controllerRef = (\<lambda>vs. \<lparr>or_kind = ''VirtualService'', or_name = vs_name vs, or_uid = vs_uid vs\<rparr>),
     lib_splitKey = (\<lambda>k. case cutAt (CHR ''/'') k of
        None \<Rightarrow> Inr ([], k)
      | Some (ns, n) \<Rightarrow> if CHR ''/'' \<in> set n then Inl (ErrNew ''unexpected key format'') else Inr (ns, n))\<rparr>"

definition exVS :: virtual_service where
  "exVS = \<lparr>vs_namespace = ''ns'', vs_name = ''web'', vs_uid = ''u1'', vs_generation = 1,
     vs_deletionTimestamp = None, vs_finalizers = [VirtualServiceFinalizer], vs_gatewaySelector = fmempty,
     vs_service = \<lparr>ss_type = [], ss_selector = fmempty,
       ss_ports = [\<lparr>sp_name = ''http'', sp_port = 80, sp_targetPort = 8080, sp_nodePort = 0, sp_protocol = ''TCP''\<rparr>]\<rparr>,
     vs_status = \<lparr>st_allocatedPorts = [], st_conditions = [], st_observedGeneration = 0\<rparr>\<rparr>"

definition exEPS :: endpoint_slice where
  "exEPS = \<lparr>eps_name = [], eps_namespace = [], eps_labels = fmempty, eps_owners = [],
     eps_addressType = [], eps_endpoints = [], eps_ports = []\<rparr>"

definition exApi :: kube_api where
  "exApi w q = (case q of
      KGetEPS _ _ \<Rightarrow> \<lparr>kr_err = Some (ErrKube NotFound ''not found''), kr_eps = exEPS, kr_vs = exVS\<rparr>
    | _ \<Rightarrow> \<lparr>kr_err = None, kr_eps = exEPS, kr_vs = exVS\<rparr>)"

definition exEnv :: "mock_manager gw_env" where
  "exEnv = \<lparr>ge_lib = exLib, ge_api = exApi, ge_configure = mockConfigure, ge_remove = mockRemove,
     ge_gatewayIP = ''10.0.0.1'', ge_now = 0\<rparr>"

definition exPod :: gw_pod where
  "exPod = \<lparr>gp_uid = ''p1'', gp_namespace = ''ns'', gp_name = ''pod'', gp_labels = fmempty,
     gp_annotations = [AnnotationVirtualPod \<mapsto> ''true'', AnnotationProxySlotID \<mapsto> ''3''],
     gp_deletionTimestamp = None, gp_running = True,
     gp_containers = [\<lparr>ct_name = ''main'', ct_ports = [9000, 8080, 9000]\<rparr>]\<rparr>"

definition exStart :: "mock_manager gw_state" where
  "exStart = newController NewMockManager (\<lambda>_ _. Inl (ErrKube NotFound ''not found''))
     (\<lambda>_ _. VsObject (Inr exVS))"

definition exState :: "mock_manager gw_state" where
  "exState = handlePodEvent exLib [] (PodObj exPod) exStart"

section \<open>Properties\<close>

text \<open>C1: A pass of the reconciler always leaves a Ready condition for the generation it saw. Ready is
  true exactly when the reason is Reconciled, and then the specification was valid, the status holds
  a gateway port for each port of the specification, and the last thing HAProxy was given without an
  error is one listener per allocated port with the backends of the matching pods.\<close>

theorem reconcile_ready:
  assumes inv: "alloc_inv (gw_alloc c)" "int32_range (gw_alloc c)"
    and r: "reconcileVirtualService env keys vs c = ((e, vs'), c')"
  defines "pods \<equiv> getMatchingPods (ge_lib env) keys (gw_virtualPods c) vs"
  shows "\<exists>cd. readyOf (st_conditions (vs_status vs')) = Some cd \<and>
    (cd_status cd = CondTrue \<longleftrightarrow> cd_reason cd = ReasonReconciled) \<and>
    st_observedGeneration (vs_status vs') = vs_generation vs \<and>
    (cd_status cd = CondTrue \<longrightarrow>
       validateVirtualService vs = None \<and>
       allocationsMatch (ss_ports (vs_service vs)) (st_allocatedPorts (vs_status vs')) \<and>
       (\<exists>h. ge_configure env h (vsKey vs)
              (map (listenerFor vs pods) (st_allocatedPorts (vs_status vs'))) = (gw_haproxy c', None)))"
  using r
proof (cases rule: reconcileVS_cases)
  case (failed v d reason msg)
  then have s: "setConditionAndUpdate env v (readyCondition env v CondFalse reason msg) d = ((e, vs'), c')"
    by (simp add: failWith_def)
  with setCondition_ready [OF s] failed(1,2) show ?thesis by auto
next
  case (ok a1 vs1 c2 c3 c4 msg)
  obtain st where vs1: "vs1 = vs\<lparr>vs_status := st\<rparr>" using ensure_only_status [OF ok(2)] by blast
  note fin = setCondition_ready [OF ok(6)]
  have "ge_configure env (gw_haproxy c3) (vsKey vs)
      (map (listenerFor vs pods) (st_allocatedPorts (vs_status vs'))) = (gw_haproxy c', None)"
    using ok(5) vs1 fin(2,4) listenerFor_key [of vs1 vs]
    by (auto simp: configureHAProxy_def pods_def split: prod.splits)
  with fin ok(1) ensure_match [OF inv ok(2)] vs1 show ?thesis by auto
qed

lemma alloc_inv_exState: "alloc_inv (gw_alloc exState)" "int32_range (gw_alloc exState)"
proof -
  have "gw_alloc exState = NewAllocator DefaultPortRangeStart DefaultPortRangeEnd"
    by (simp add: exState_def exStart_def newController_def handlePodEvent_def exPod_def
        AnnotationVirtualPod_def AnnotationProxySlotID_def
        updateVirtualPodCache_def enqueueVirtualServicesForPod_def)
  then show "alloc_inv (gw_alloc exState)" "int32_range (gw_alloc exState)"
    by (simp_all add: alloc_inv_New int32_range_New DefaultPortRangeStart_def DefaultPortRangeEnd_def)
qed

definition exResult :: "(go_error option \<times> virtual_service) \<times> mock_manager gw_state" where
  "exResult = reconcileVirtualService exEnv [''ns/pod''] exVS exState"

theorem reconcile_ready_witness:
  "st_allocatedPorts (vs_status (snd (fst exResult))) \<noteq> [] \<and>
   (\<exists>h. ge_configure exEnv h ''ns/web''
      (map (listenerFor exVS (getMatchingPods exLib [''ns/pod''] (gw_virtualPods exState) exVS))
        (st_allocatedPorts (vs_status (snd (fst exResult))))) = (gw_haproxy (snd exResult), None))"
proof -
  have "reconcileVirtualService exEnv [''ns/pod''] exVS exState =
      ((fst (fst exResult), snd (fst exResult)), snd exResult)"
    by (simp add: exResult_def)
  note p = reconcile_ready [OF alloc_inv_exState this]
  have "readyOf (st_conditions (vs_status (snd (fst exResult)))) =
      Some (readyCondition exEnv exVS CondTrue ReasonReconciled
        ''Service and proxy configured with 1 backends'')"
    "st_allocatedPorts (vs_status (snd (fst exResult))) \<noteq> []" "vsKey exVS = ''ns/web''"
    by code_simp+
  moreover have "ge_lib exEnv = exLib" by (simp add: exEnv_def)
  ultimately show ?thesis using p by simp
qed

text \<open>C3: Ownership safety of a pass of the worker: every request it sends to the API server writes only
  the VirtualService itself or objects of its name, updates only a Service or EndpointSlice that
  carries its owner reference, and deletes only a Service the lister shows as owned and an
  EndpointSlice whose owner was read in the immediately preceding request.\<close>

theorem reconcile_owned_writes:
  assumes "lib_splitKey (ge_lib env) key = Inr (ns, n)" "gw_vsCache c ns n = VsObject (Inr vs)"
    and "reconcile env keys key c = (e, c')"
  shows "\<exists>ext. gw_kube c' = gw_kube c @ ext \<and>
    (\<forall>i < length ext. guarded (gw_svcCache c) vs (gw_kube c @ take i ext) (ext ! i))"
proof -
  obtain er vs1 c1 where t: "reconcileTyped env keys vs (cacheVS key vs c) = ((er, vs1), c1)"
    by (metis prod.collapse)
  with assms have c': "c' = cacheVS key vs1 c1" by (simp add: reconcile_def)
  have "keeps (\<lambda>_. True) env" by (simp add: keeps_def)
  from pass_typed [OF this t] have "pass (guarded (gw_svcCache c) vs) (\<lambda>_. True) (cacheVS key vs c) c1"
    by (simp add: cacheVS_def)
  then show ?thesis by (simp add: pass_def c' cacheVS_def)
qed

theorem reconcile_owned_writes_witness:
  "\<exists>ext. gw_kube (snd (reconcile exEnv [''ns/pod''] ''ns/web'' exState)) = gw_kube exState @ ext \<and>
     (\<forall>i < length ext. guarded (gw_svcCache exState) exVS (gw_kube exState @ take i ext) (ext ! i))"
proof -
  have "lib_splitKey (ge_lib exEnv) ''ns/web'' = Inr (''ns'', ''web'')" by code_simp
  moreover have "gw_vsCache exState ''ns'' ''web'' = VsObject (Inr exVS)"
    by (simp add: exState_def exStart_def newController_def handlePodEvent_def exPod_def
        AnnotationVirtualPod_def AnnotationProxySlotID_def
        updateVirtualPodCache_def enqueueVirtualServicesForPod_def)
  ultimately show ?thesis by (rule reconcile_owned_writes) (rule prod.collapse [symmetric])
qed


definition exSteadyVS :: virtual_service where
  "exSteadyVS = exVS\<lparr>vs_status :=
     \<lparr>st_allocatedPorts = [\<lparr>ap_name = ''http'', ap_servicePort = 80, ap_targetPort = 8080,
        ap_gatewayPort = 6000, ap_protocol = ''TCP''\<rparr>],
      st_conditions = [readyCondition exEnv exVS CondTrue ReasonReconciled ''ok''],
      st_observedGeneration = 1\<rparr>\<rparr>"

definition exSteadyEnv :: "mock_manager gw_env" where
  "exSteadyEnv = exEnv\<lparr>ge_api := (\<lambda>w q. \<lparr>kr_err = None, kr_eps = desiredEPS exEnv exSteadyVS, kr_vs = exVS\<rparr>)\<rparr>"

definition exSteadyState :: "mock_manager gw_state" where
  "exSteadyState = exState\<lparr>gw_svcCache :=
     (\<lambda>_ _. Inr ((desiredService exLib exSteadyVS)\<lparr>svc_clusterIP := ''None''\<rparr>))\<rparr>"


section \<open>The generated Service\<close>

lemma applyDesired_update:
  "serviceNeedsUpdate (applyDesired s d) d \<longleftrightarrow> svc_type d = ''ClusterIP'' \<and> svc_clusterIP s \<noteq> ''None''"
  by (simp add: serviceNeedsUpdate_def applyDesired_def)

text \<open>After a pass has updated an owned Service, the next pass updates it again exactly when the
  VirtualService is not of type NodePort and the Service has a cluster address: the desired object
  of a ClusterIP Service never gets the headless address that the comparison asks for, so the
  update repeats on every pass, while a NodePort Service has converged.\<close>

theorem service_reupdated_iff:
  assumes "gw_svcCache c (vs_namespace vs) (vs_name vs) = Inr s" "isOwnedBy (svc_owners s) vs"
    and "serviceNeedsUpdate s (desiredService (ge_lib env) vs)"
    and "ensureGeneratedService env vs c = (e1, c1)" "ensureGeneratedService env vs c1 = (e2, c2)"
  shows "gw_kube c2 \<noteq> gw_kube c1 \<longleftrightarrow>
    ss_type (vs_service vs) \<noteq> ''NodePort'' \<and> svc_clusterIP s \<noteq> ''None''"
proof -
  let ?d = "desiredService (ge_lib env) vs"
  have c1: "gw_svcCache c1 (vs_namespace vs) (vs_name vs) = Inr (applyDesired s ?d)"
    using assms(1-4) by (auto simp: ensureGeneratedService_def Let_def kcall_def setSvcCache_def)
  have "isOwnedBy (svc_owners (applyDesired s ?d)) vs" using assms(2) by simp
  with c1 assms(5) have "gw_kube c2 \<noteq> gw_kube c1 \<longleftrightarrow> serviceNeedsUpdate (applyDesired s ?d) ?d"
    by (auto simp: ensureGeneratedService_def Let_def kcall_def setSvcCache_def split: if_splits)
  then show ?thesis by (auto simp: applyDesired_update desiredService_def serviceType_def)
qed

definition exService :: k8s_service where
  "exService = (desiredService exLib exVS)\<lparr>svc_clusterIP := ''10.96.0.7''\<rparr>"

theorem service_reupdated_iff_witness:
  "let c = exState\<lparr>gw_svcCache := (\<lambda>_ _. Inr exService)\<rparr>;
       c1 = snd (ensureGeneratedService exEnv exVS c) in
   gw_kube (snd (ensureGeneratedService exEnv exVS c1)) \<noteq> gw_kube c1"
proof -
  let ?c = "exState\<lparr>gw_svcCache := (\<lambda>_ _. Inr exService)\<rparr>"
  have "gw_svcCache ?c (vs_namespace exVS) (vs_name exVS) = Inr exService" by simp
  moreover have "isOwnedBy (svc_owners exService) exVS" by code_simp
  moreover have "serviceNeedsUpdate exService (desiredService (ge_lib exEnv) exVS)" by code_simp
  moreover have "ss_type (vs_service exVS) \<noteq> ''NodePort''" "svc_clusterIP exService \<noteq> ''None''"
    by code_simp+
  ultimately show ?thesis
    using service_reupdated_iff [of ?c exVS exService exEnv] unfolding Let_def
    by (metis prod.collapse)
qed

section \<open>Finalization\<close>

lemma deleteOwned_frames [simp]:
  "gw_alloc (deleteOwnedService env vs c) = gw_alloc c" "gw_alloc (deleteOwnedEPS env vs c) = gw_alloc c"
  "gw_haproxy (deleteOwnedService env vs c) = gw_haproxy c"
  "gw_haproxy (deleteOwnedEPS env vs c) = gw_haproxy c"
  by (simp_all add: deleteOwnedService_def deleteOwnedEPS_def kcall_def split: sum.splits)

text \<open>C6: Finalization takes the VirtualService's configuration out of HAProxy, frees exactly the ports of
  its status that it still owns and no port of anyone else, and removes its own finalizer and no
  other, once; the object is written back even when HAProxy or a deletion fails.\<close>

theorem finalization_releases:
  assumes "alloc_inv (gw_alloc c)" "VirtualServiceFinalizer \<in> set (vs_finalizers vs)"
    and "handleVirtualServiceFinalization env vs c = ((e, vs'), c')"
  shows "gw_haproxy c' = fst (ge_remove env (gw_haproxy c) (vsKey vs)) \<and>
    ownerOf (gw_alloc c') q =
      (if q \<in> set (gwPorts (st_allocatedPorts (vs_status vs))) \<and> ownerOf (gw_alloc c) q = Some (vsKey vs)
       then None else ownerOf (gw_alloc c) q) \<and>
    vs_finalizers vs' = filter (\<lambda>f. f \<noteq> VirtualServiceFinalizer) (vs_finalizers vs) \<and>
    fst (last (gw_kube c')) = KUpdateVS vs' \<and>
    (e = None \<longleftrightarrow> kr_err (snd (last (gw_kube c'))) = None)"
proof -
  have "containsString (vs_finalizers vs) VirtualServiceFinalizer"
    using assms(2) by (auto simp: containsString_def list_ex_iff)
  with assms(3) show ?thesis
    by (auto simp: handleVirtualServiceFinalization_def Let_def updateVirtualService_def kcall_def
        removeString_def pool.releasePorts_owner [OF assms(1)] split: option.splits sum.splits)
qed

theorem finalization_releases_witness:
  "vs_finalizers (snd (fst (handleVirtualServiceFinalization exEnv exVS exState))) = [] \<and>
   ownerOf (gw_alloc (snd (handleVirtualServiceFinalization exEnv exVS exState))) 6000 = None"
proof -
  have f: "VirtualServiceFinalizer \<in> set (vs_finalizers exVS)" by (simp add: exVS_def)
  have "ownerOf (gw_alloc exState) 6000 = None" "vs_finalizers exVS = [VirtualServiceFinalizer]"
    by code_simp+
  with finalization_releases [OF alloc_inv_exState(1) f, of exEnv
      "fst (fst (handleVirtualServiceFinalization exEnv exVS exState))"
      "snd (fst (handleVirtualServiceFinalization exEnv exVS exState))"
      "snd (handleVirtualServiceFinalization exEnv exVS exState)" 6000]
  show ?thesis by simp
qed

section \<open>Restart\<close>

text \<open>A controller that has just started does not learn the ports of the statuses it meets: a
  VirtualService whose status matches is accepted without a call to the allocator, so the first
  allocation after it hands out the start of the range even if that port is in its status.\<close>

theorem restart_hands_out_used_port:
  assumes "allocationsMatch (ss_ports (vs_service a)) (st_allocatedPorts (vs_status a))"
    and "DefaultPortRangeStart \<in> set (gwPorts (st_allocatedPorts (vs_status a)))"
    and "ss_ports (vs_service b) = [s]" "st_allocatedPorts (vs_status b) = []"
  shows "let (al, a', _) = ensurePortAllocations (NewAllocator DefaultPortRangeStart DefaultPortRangeEnd) a;
             (_, b', e) = ensurePortAllocations al b
    in e = None \<and> set (gwPorts (st_allocatedPorts (vs_status b')))
         \<subseteq> set (gwPorts (st_allocatedPorts (vs_status a')))"
proof -
  let ?new = "NewAllocator DefaultPortRangeStart DefaultPortRangeEnd"
  have f: "firstFree fmempty 6000 9999 = Some 6000" by (simp add: firstFree.simps)
  have "\<not> allocationsMatch (ss_ports (vs_service b)) (st_allocatedPorts (vs_status b))"
    using assms(3,4) by (simp add: allocationsMatch_def)
  moreover have "\<exists>al. Allocate ?new (vsKey b) = (al, Inr 6000)"
    using f by (simp add: Allocate_def NewAllocator_def DefaultPortRangeStart_def DefaultPortRangeEnd_def)
  moreover have "wrap32 6000 = 6000" by (simp add: wrap32_def)
  ultimately show ?thesis
    using assms by (auto simp: ensure_reuse ensurePortAllocations_def [of _ b] releasePorts_def Let_def
        DefaultPortRangeStart_def)
qed

theorem restart_hands_out_used_port_witness:
  "let (al, a', _) = ensurePortAllocations (NewAllocator DefaultPortRangeStart DefaultPortRangeEnd) exSteadyVS;
       (_, b', e) = ensurePortAllocations al (exVS\<lparr>vs_name := ''other''\<rparr>)
   in e = None \<and> set (gwPorts (st_allocatedPorts (vs_status b')))
        \<subseteq> set (gwPorts (st_allocatedPorts (vs_status a')))"
proof (rule restart_hands_out_used_port)
  show "ss_ports (vs_service (exVS\<lparr>vs_name := ''other''\<rparr>)) = [hd (ss_ports (vs_service exVS))]"
    by (simp add: exVS_def)
  show "st_allocatedPorts (vs_status (exVS\<lparr>vs_name := ''other''\<rparr>)) = []" by (simp add: exVS_def)
qed code_simp+

section \<open>Runs\<close>

text \<open>What holds of every entry of the pod cache.\<close>

definition podEntry_ok :: "string \<Rightarrow> virtual_pod_info \<Rightarrow> bool" where
  "podEntry_ok k p \<longleftrightarrow>
     k = vp_namespace p @ ''/'' @ vp_name p \<and>
     vp_wireguardIP p = ''10.254.254.'' @ itoa (wrap64 (11 + vp_proxySlotID p)) \<and>
     sorted (vp_containerPorts p) \<and> distinct (vp_containerPorts p)"

definition gw_inv :: "('h \<Rightarrow> bool) \<Rightarrow> 'h gw_state \<Rightarrow> bool" where
  "gw_inv I c \<longleftrightarrow>
     alloc_inv (gw_alloc c) \<and>
     inRange (gw_alloc c) = inRange (NewAllocator DefaultPortRangeStart DefaultPortRangeEnd) \<and>
     (\<forall>k p. gw_virtualPods c k = Some p \<longrightarrow> podEntry_ok k p) \<and> I (gw_haproxy c)"

lemma gw_inv_ports: "gw_inv I c \<Longrightarrow> ownerOf (gw_alloc c) p \<noteq> None \<Longrightarrow> 6000 \<le> p \<and> p \<le> 9999"
  using alloc_invD(3) [of "gw_alloc c" p]
  by (auto simp: gw_inv_def inRange_def NewAllocator_def DefaultPortRangeStart_def DefaultPortRangeEnd_def fun_eq_iff)

lemma gw_inv_int32: "gw_inv I c \<Longrightarrow> int32_range (gw_alloc c)"
  using int32_range_New [of 6000 9999]
  by (simp add: gw_inv_def int32_range_def DefaultPortRangeStart_def DefaultPortRangeEnd_def)

lemma podEntry_ok_new [inv_intros]: "podEntry_ok (podKey pod) (virtualPodInfoOf pod)"
  by (simp add: podEntry_ok_def podKey_def virtualPodInfoOf_def wireguardAddress_def
      WireguardSubnetBase_def WireguardSlotOffset_def extractContainerPorts_def)

lemma queueAdd_frame [frame_simps]:
  "gw_alloc (queueAdd k c) = gw_alloc c" "gw_virtualPods (queueAdd k c) = gw_virtualPods c"
  "gw_haproxy (queueAdd k c) = gw_haproxy c" "gw_kube (queueAdd k c) = gw_kube c"
  by (simp_all add: queueAdd_def)

lemma enqueue_frame [frame_simps]:
  "gw_alloc (enqueueVirtualServicesForPod lib ks pod c) = gw_alloc c \<and>
   gw_virtualPods (enqueueVirtualServicesForPod lib ks pod c) = gw_virtualPods c \<and>
   gw_haproxy (enqueueVirtualServicesForPod lib ks pod c) = gw_haproxy c"
proof -
  have "gw_alloc (foldl (\<lambda>d vs. if P vs then queueAdd (f vs) d else d) c xs) = gw_alloc c \<and>
        gw_virtualPods (foldl (\<lambda>d vs. if P vs then queueAdd (f vs) d else d) c xs) = gw_virtualPods c \<and>
        gw_haproxy (foldl (\<lambda>d vs. if P vs then queueAdd (f vs) d else d) c xs) = gw_haproxy c"
    for P and f :: "virtual_service \<Rightarrow> string" and xs
    by (induction xs arbitrary: c) (simp_all add: frame_simps)
  then show ?thesis by (simp add: enqueueVirtualServicesForPod_def)
qed

lemma gw_inv_pass:
  assumes "gw_inv I c" "pass P I c c'"
  shows "gw_inv I c'"
  using assms gw_inv_int32 [OF assms(1)] by (simp add: gw_inv_def pass_def)

lemma gw_inv_cong [simp]:
  "gw_inv I (c\<lparr>gw_virtualServices := f\<rparr>) = gw_inv I c"
  "gw_inv I (c\<lparr>gw_queue := q\<rparr>) = gw_inv I c" "gw_inv I (c\<lparr>gw_svcCache := g\<rparr>) = gw_inv I c"
  "gw_inv I (c\<lparr>gw_vsCache := h\<rparr>) = gw_inv I c"
  by (simp_all add: gw_inv_def)

lemma gw_inv_reconcile [inv_intros]:
  assumes "keeps I env" "gw_inv I c"
  shows "gw_inv I (snd (reconcile env keys key c))"
proof -
  have typed: "gw_inv I (snd (reconcileTyped env keys vs (cacheVS key vs c)))" for vs
  proof -
    obtain e vs1 c1 where t: "reconcileTyped env keys vs (cacheVS key vs c) = ((e, vs1), c1)"
      by (metis prod.collapse)
    have "gw_inv I (cacheVS key vs c)" using assms(2) by (simp add: cacheVS_def)
    with gw_inv_pass pass_typed [OF assms(1) t] t show ?thesis by auto
  qed
  then show ?thesis
    using assms(2)
    by (auto simp: reconcile_def handleVirtualServiceDeletion_def cacheVS_def
        split: sum.splits vs_entry.splits prod.splits)
      (metis cacheVS_def snd_conv)+
qed

lemma gw_inv_step [inv_intros]:
  assumes "keeps I env" "gw_inv I c"
  shows "gw_inv I (gw_step env ev c)"
proof (cases ev)
  case (EvVirtualService k)
  with assms show ?thesis by (auto simp: enqueueVirtualService_def queueAdd_def split: sum.splits)
next
  case (EvPod ks obj)
  have "gw_inv I (updateVirtualPodCache pod c)" for pod
    using assms(2) podEntry_ok_new by (auto simp: updateVirtualPodCache_def gw_inv_def)
  then have "gw_inv I (enqueueVirtualServicesForPod (ge_lib env) ks pod (updateVirtualPodCache pod c))" for pod
    by (simp add: gw_inv_def frame_simps)
  with EvPod assms show ?thesis by (auto simp: handlePodEvent_def split: pod_obj.splits)
next
  case (EvWork ks item)
  with assms gw_inv_reconcile [OF assms] show ?thesis
    by (auto simp: processNextWorkItem_def queueOps_def split: work_item.splits prod.splits option.splits)
      (metis snd_conv)+
qed (use assms in simp_all)

lemma gw_run_inv:
  assumes "keeps I env" "gw_inv I c"
  shows "gw_inv I (gw_run env evs c)"
  using assms(2)
proof (induction evs arbitrary: c)
  case (Cons ev evs)
  from Cons.IH [OF gw_inv_step [OF assms(1) Cons.prems]] show ?case by (simp add: gw_run_def)
qed (simp add: gw_run_def)

lemma gw_inv_start: "I h \<Longrightarrow> gw_inv I (newController h svcs vss)"
  by (simp add: gw_inv_def newController_def alloc_inv_New)

text \<open>C2: In every run of the controller, whatever the events, the API server and HAProxy answer: the
  allocator's maps stay inverse to each other and in the range 6000 to 9999, and every cached pod
  sits under its own key with the address of its slot and its container ports sorted and distinct.\<close>

theorem gateway_run_invariant:
  "let c = gw_run env evs (newController h svcs vss) in
     alloc_inv (gw_alloc c) \<and>
     (\<forall>p. ownerOf (gw_alloc c) p \<noteq> None \<longrightarrow> 6000 \<le> p \<and> p \<le> 9999) \<and>
     (\<forall>k p. gw_virtualPods c k = Some p \<longrightarrow> podEntry_ok k p)"
proof -
  have "keeps (\<lambda>_. True) env" by (simp add: keeps_def)
  then have i: "gw_inv (\<lambda>_. True) (gw_run env evs (newController h svcs vss))"
    by (rule gw_run_inv) (simp add: gw_inv_start)
  with gw_inv_ports show ?thesis unfolding gw_inv_def Let_def by blast
qed

theorem gateway_run_invariant_witness:
  "alloc_inv (gw_alloc (gw_run exEnv [EvPod [] (PodObj exPod), EvWork [''ns/pod''] (ItemKey ''ns/web'')] exStart))"
  using gateway_run_invariant [of exEnv "[EvPod [] (PodObj exPod), EvWork [''ns/pod''] (ItemKey ''ns/web'')]"]
  by (simp add: exStart_def Let_def)

text \<open>The environment in which HAProxy is driven by the manager over a Data Plane API service.\<close>

definition managerEnv :: "mgr_state gw_env \<Rightarrow> dp_service \<Rightarrow> dp_order \<Rightarrow> mgr_state gw_env" where
  "managerEnv env srv ord = env\<lparr>ge_configure := Configure srv ord, ge_remove := Remove srv\<rparr>"


text \<open>The worker retries exactly what failed: a key whose pass returned an error is put back with rate
  limiting, any other is forgotten, and either is marked done afterwards; nothing else is queued.\<close>

theorem worker_retries_on_error:
  "gw_queue (processNextWorkItem env keys (ItemKey key) c) =
     gw_queue c @ [if fst (reconcile env keys key c) = None then QForget (ItemKey key)
                   else QAddRateLimited key, QDone (ItemKey key)]"
proof -
  have q: "gw_queue (snd (reconcile env keys key c)) = gw_queue c"
  proof -
    have "gw_queue (snd (reconcileTyped env keys vs (cacheVS key vs c))) = gw_queue c" for vs
    proof -
      obtain e vs1 c1 where t: "reconcileTyped env keys vs (cacheVS key vs c) = ((e, vs1), c1)"
        by (metis prod.collapse)
      have "keeps (\<lambda>_. True) env" by (simp add: keeps_def)
      from pass_typed [OF this t] t show ?thesis by (simp add: pass_def cacheVS_def)
    qed
    then show ?thesis
      by (auto simp: reconcile_def handleVirtualServiceDeletion_def cacheVS_def
          split: sum.splits vs_entry.splits prod.splits) (metis cacheVS_def snd_conv)+
  qed
  then show ?thesis
    by (auto simp: processNextWorkItem_def queueOps_def split: prod.splits option.splits)
qed

text \<open>A condition is written in place: the other conditions keep their position and value, a type
  never occurs twice, and the condition of the given type then has the given status and reason.\<close>

theorem upsertCondition_correct:
  assumes "distinct (map cd_type cds)"
  shows "distinct (map cd_type (upsertCondition cds cd)) \<and>
    (\<forall>t. t \<noteq> cd_type cd \<longrightarrow> find (\<lambda>x. cd_type x = t) (upsertCondition cds cd) = find (\<lambda>x. cd_type x = t) cds) \<and>
    (\<exists>x. find (\<lambda>x. cd_type x = cd_type cd) (upsertCondition cds cd) = Some x \<and>
       cd_status x = cd_status cd \<and> cd_reason x = cd_reason cd)"
proof (intro conjI)
  show "distinct (map cd_type (upsertCondition cds cd))"
    using assms by (simp add: types_upsertCondition)
  show "\<forall>t. t \<noteq> cd_type cd \<longrightarrow>
      find (\<lambda>x. cd_type x = t) (upsertCondition cds cd) = find (\<lambda>x. cd_type x = t) cds"
    by (simp add: find_upsertCondition)
  show "\<exists>x. find (\<lambda>x. cd_type x = cd_type cd) (upsertCondition cds cd) = Some x \<and>
      cd_status x = cd_status cd \<and> cd_reason x = cd_reason cd"
    by (auto simp: find_upsertCondition split: option.splits)
qed

theorem upsertCondition_correct_witness:
  "distinct (map cd_type (upsertCondition [readyCondition exEnv exVS CondFalse ReasonReconcileError []]
      (readyCondition exEnv exVS CondTrue ReasonReconciled ''ok'')))"
  using upsertCondition_correct [of "[readyCondition exEnv exVS CondFalse ReasonReconcileError []]"] by simp

section \<open>Backends\<close>

lemma calculateBackendPort_ok:
  assumes "distinct (vp_containerPorts pod)" "i < length (vp_containerPorts pod)"
  shows "calculateBackendPort pod (vp_containerPorts pod ! i) =
    Inr (wrap64 (10000 + vp_proxySlotID pod * 100 + int i + 1))"
  using findIndex_distinct [OF assms] by (simp add: calculateBackendPort_def)

lemma map_filter_pods:
  "distinct keys \<Longrightarrow> (\<And>k p. pods k = Some p \<Longrightarrow> f p = k) \<Longrightarrow> distinct (List.map_filter pods keys)"
  by (induction keys) (auto simp: List.map_filter_simps set_map_filter split: option.splits)

text \<open>C7: The backends of a listener do not depend on the order in which the pod cache is visited, up to
  order: they are the cached pods of the namespace that the selector matches and whose containers
  declare the target port, each exactly once, with the tunnel address and port of its slot.\<close>

theorem backends_exact:
  fixes lib vs t
  assumes "\<And>k p. pods k = Some p \<Longrightarrow> podEntry_ok k p" "key_order keys pods"
  defines "ms \<equiv> getMatchingPods lib keys pods vs"
  shows "distinct ms \<and>
    set ms = {p. \<exists>k. pods k = Some p \<and> vp_namespace p = vs_namespace vs \<and>
      lib_matches lib (ss_selector (vs_service vs)) (vp_labels p)} \<and>
    backendsFor ms t = map (\<lambda>p. \<lparr>be_name = vp_namespace p @ ''-'' @ vp_name p,
         be_address = vp_wireguardIP p,
         be_port = wrap64 (10001 + vp_proxySlotID p * 100 + int (the (findIndex (\<lambda>x. x = t) (vp_containerPorts p))))\<rparr>)
       (filter (\<lambda>p. t \<in> set (vp_containerPorts p)) ms)"
proof (intro conjI)
  have "distinct (List.map_filter pods keys)"
    by (rule map_filter_pods [where f = "\<lambda>p. vp_namespace p @ ''/'' @ vp_name p"])
      (use assms in \<open>auto simp: key_order_def podEntry_ok_def\<close>)
  then show "distinct ms" by (simp add: ms_def getMatchingPods_def)
  show "set ms = {p. \<exists>k. pods k = Some p \<and> vp_namespace p = vs_namespace vs \<and>
      lib_matches lib (ss_selector (vs_service vs)) (vp_labels p)}"
    using assms(2) by (auto simp: ms_def getMatchingPods_def set_map_filter key_order_def)
  show "backendsFor ms t = map (\<lambda>p. \<lparr>be_name = vp_namespace p @ ''-'' @ vp_name p,
         be_address = vp_wireguardIP p,
         be_port = wrap64 (10001 + vp_proxySlotID p * 100 + int (the (findIndex (\<lambda>x. x = t) (vp_containerPorts p))))\<rparr>)
       (filter (\<lambda>p. t \<in> set (vp_containerPorts p)) ms)"
  proof (induction ms)
    case (Cons p ps)
    have "findIndex (\<lambda>x. x = t) (vp_containerPorts p) = None \<longleftrightarrow> t \<notin> set (vp_containerPorts p)"
      by (auto simp: findIndex_None_iff)
    with Cons show ?case
      by (auto simp: backendsFor_def calculateBackendPort_def List.map_filter_simps algebra_simps
          split: option.splits)
  qed (simp add: backendsFor_def List.map_filter_simps)
qed

lemma exState_pods: "gw_virtualPods exState = [''ns/pod'' \<mapsto> virtualPodInfoOf exPod]"
proof -
  have k: "podKey exPod = ''ns/pod''" by (simp add: podKey_def exPod_def)
  have "gp_annotations exPod AnnotationVirtualPod = Some ''true''" "gp_deletionTimestamp exPod = None"
    by (simp_all add: exPod_def AnnotationVirtualPod_def AnnotationProxySlotID_def)
  then show ?thesis
    by (simp add: exState_def exStart_def newController_def handlePodEvent_def enqueue_frame
        updateVirtualPodCache_def k)
qed

theorem backends_exact_witness:
  "distinct (getMatchingPods exLib [''ns/pod''] (gw_virtualPods exState) exVS)"
proof (rule backends_exact [THEN conjunct1])
  show "podEntry_ok k p" if "gw_virtualPods exState k = Some p" for k p
  proof -
    have "k = podKey exPod" "p = virtualPodInfoOf exPod"
      using that by (auto simp: exState_pods podKey_def exPod_def split: if_splits)
    then show ?thesis by (simp add: podEntry_ok_new)
  qed
  show "key_order [''ns/pod''] (gw_virtualPods exState)"
    by (simp add: exState_pods key_order_def)
qed

end
