(* ===== verification/VirtualPod.thy ===== *)
theory VirtualPod
  imports Prelude
begin

text \<open>
  The in-memory pod of the kubelet (\<open>virtualpod/virtualpod.go\<close>, \<open>virtualpod/machine.go\<close>): its
  machine, its status, and the status machine that the lifecycle loop drives with what the agent
  reports.

  Times and durations are nanoseconds in 64-bit integers. The code indexes the first container
  status without a length test; an operation that does so on an empty list panics, which is the
  result \<open>None\<close>. The embedded Kubernetes pod keeps the fields the package uses.
\<close>

section \<open>Data\<close>

datatype machine_state = MachinePending | MachineRunning | MachineFailed | MachineUnknown

text \<open>The measured properties of a machine; the element type of numbers is a type variable.\<close>

record 'f machine_stats =
  ms_gpuName :: string
  ms_gpuVRAM :: 'f
  ms_gpuTFLOPS :: 'f
  ms_gpuMemoryBandwidth :: 'f
  ms_cpuCores :: 'f
  ms_cpuRam :: 'f
  ms_pricePerHr :: 'f

record 'f machine =
  mc_id :: string
  mc_machineID :: string
  mc_publicIP :: string
  mc_agentPort :: int
  mc_stats :: "'f machine_stats"
  mc_state :: machine_state

record offer =
  of_offerID :: string
  of_machineID :: string

datatype pod_phase = PhasePending | PhaseRunning | PhaseSucceeded | PhaseFailed | PhaseUnknown

datatype restart_policy = RestartAlways | RestartOnFailure | RestartNever | RestartOther

record terminated =
  tm_exitCode :: int
  tm_reason :: string
  tm_message :: string
  tm_startedAt :: int
  tm_finishedAt :: int

text \<open>A container state is a union of three pointers.\<close>

record container_state =
  st_waiting :: "(string \<times> string) option"
  st_running :: "int option"
  st_terminated :: "terminated option"

record container_status =
  cs_ready :: bool
  cs_restartCount :: int
  cs_state :: container_state
  cs_lastTermination :: container_state

datatype pod_cond_type = ContainersReady | PodReady | PodScheduled | OtherCondition string

record pod_condition =
  pc_type :: pod_cond_type
  pc_status :: bool
  pc_transition :: int

record pod_status =
  ps_phase :: pod_phase
  ps_conditions :: "pod_condition list"
  ps_containers :: "container_status list"

record volume_mount =
  vm_name :: string
  vm_mountPath :: string
  vm_subPath :: string

text \<open>A volume: the ConfigMap it is backed by, with its items (key and path), and the names of the
  ConfigMaps among the sources of a projected volume.\<close>

record pod_volume =
  vo_name :: string
  vo_configMap :: "(string \<times> (string \<times> string) list) option"
  vo_projected :: "string option list"

record pod_container =
  pn_name :: string
  pn_image :: string
  pn_command :: "string list"
  pn_args :: "string list"
  pn_workdir :: string
  pn_ports :: "int list"
  pn_env :: "(string \<times> string) list"
  pn_mounts :: "volume_mount list"
  pn_pullAlways :: bool

text \<open>A map that may be nil: reading a nil map finds nothing, writing to it panics.\<close>

type_synonym annotation_map = "(string, string) fmap option"

definition annLookup :: "annotation_map \<Rightarrow> string \<Rightarrow> string option" where
  "annLookup m k = (case m of None \<Rightarrow> None | Some a \<Rightarrow> fmlookup a k)"

record pod =
  pod_namespace :: string
  pod_name :: string
  pod_uid :: string
  pod_annotations :: annotation_map
  pod_restartPolicy :: restart_policy
  pod_containers :: "pod_container list"
  pod_volumes :: "pod_volume list"
  pod_status :: pod_status

type_synonym config_maps = "(string, (string, string) fmap) fmap"

record file_mapping =
  fm_targetPath :: string
  fm_configMap :: string
  fm_key :: string

record 'f vpod =
  pd_id :: string
  pd_pod :: pod
  pd_machine :: "'f machine"
  pd_finalized :: bool
  pd_slot :: int
  pd_agentPort :: int
  pd_provisioned :: bool
  pd_readySince :: int
  pd_restarts :: nat
  pd_authToken :: string
  pd_authHeader :: string
  pd_configMaps :: config_maps
  pd_volumeMounts :: "file_mapping list"

text \<open>The zero value of a machine, for a zero of the number type.\<close>

definition emptyMachine :: "'f \<Rightarrow> 'f machine" where
  "emptyMachine z = \<lparr>mc_id = [], mc_machineID = [], mc_publicIP = [], mc_agentPort = 0,
     mc_stats = \<lparr>ms_gpuName = [], ms_gpuVRAM = z, ms_gpuTFLOPS = z, ms_gpuMemoryBandwidth = z,
                 ms_cpuCores = z, ms_cpuRam = z, ms_pricePerHr = z\<rparr>,
     mc_state = MachinePending\<rparr>"

text \<open>The constructor fills the header field from the token; the token field keeps its zero value.\<close>

definition NewVirtualPod ::
  "string \<Rightarrow> pod \<Rightarrow> 'f machine \<Rightarrow> int \<Rightarrow> config_maps \<Rightarrow>
   file_mapping list \<Rightarrow> string \<Rightarrow> 'f vpod" where
  "NewVirtualPod i pod m slot cms mounts token =
     \<lparr>pd_id = i, pd_pod = pod, pd_machine = m, pd_finalized = False, pd_slot = slot, pd_agentPort = 0,
      pd_provisioned = False, pd_readySince = 0, pd_restarts = 0, pd_authToken = [],
      pd_authHeader = ''Bearer '' @ token, pd_configMaps = cms, pd_volumeMounts = mounts\<rparr>"

section \<open>Accessors\<close>

definition GetAgentAddress :: "'f vpod \<Rightarrow> string" where
  "GetAgentAddress v =
     ''http://10.254.254.'' @ itoa (wrap64 (pd_slot v + 10 + 1)) @ '':'' @ itoa (pd_agentPort v)"

definition MachineRentID :: "'f vpod \<Rightarrow> string" where "MachineRentID v = mc_id (pd_machine v)"
definition MachineStableID :: "'f vpod \<Rightarrow> string" where "MachineStableID v = mc_machineID (pd_machine v)"
definition AuthToken :: "'f vpod \<Rightarrow> string" where "AuthToken v = pd_authToken v"
definition authHeaders :: "'f vpod \<Rightarrow> string" where "authHeaders v = ''Bearer '' @ pd_authToken v"
definition ProxySlot :: "'f vpod \<Rightarrow> int" where "ProxySlot v = pd_slot v"
definition Finalized :: "'f vpod \<Rightarrow> bool" where "Finalized v = pd_finalized v"
definition ProvisioningCompleted :: "'f vpod \<Rightarrow> bool" where "ProvisioningCompleted v = pd_provisioned v"

text \<open>Also writes the machine's identifiers into the annotations of the pod.\<close>

definition SetMachine :: "'f machine \<Rightarrow> 'f vpod \<Rightarrow> 'f vpod option" where
  "SetMachine m v =
     (case pod_annotations (pd_pod v) of
        None \<Rightarrow> None
      | Some a \<Rightarrow>
          Some (v\<lparr>pd_machine := m,
                  pd_pod := (pd_pod v)\<lparr>pod_annotations := Some
                    (fmupd ''anex.sh/machine-stable-id'' (mc_machineID m)
                      (fmupd ''anex.sh/machine-rent-id'' (mc_id m) a))\<rparr>\<rparr>))"

definition SetAgentPort :: "int \<Rightarrow> 'f vpod \<Rightarrow> 'f vpod" where
  "SetAgentPort port v = v\<lparr>pd_agentPort := port\<rparr>"

definition RemoveMachine :: "'f \<Rightarrow> 'f vpod \<Rightarrow> 'f vpod" where
  "RemoveMachine z v = v\<lparr>pd_machine := emptyMachine z\<rparr>"

definition Finalize :: "'f vpod \<Rightarrow> 'f vpod" where
  "Finalize v = v\<lparr>pd_finalized := True\<rparr>"

definition SetProvisioningCompleted :: "int \<Rightarrow> bool \<Rightarrow> 'f vpod \<Rightarrow> 'f vpod" where
  "SetProvisioningCompleted now b v = v\<lparr>pd_provisioned := b, pd_readySince := now\<rparr>"

definition UpdatePodRef :: "pod \<Rightarrow> 'f vpod \<Rightarrow> 'f vpod" where
  "UpdatePodRef p v = v\<lparr>pd_pod := p\<rparr>"

definition ImagePullAlways :: "'f vpod \<Rightarrow> bool option" where
  "ImagePullAlways v =
     (case pod_containers (pd_pod v) of [] \<Rightarrow> None | c # _ \<Rightarrow> Some (pn_pullAlways c))"

section \<open>The status machine\<close>

datatype container_phase = CWaiting | CRunning | CTerminated

definition readContainerState :: "container_state \<Rightarrow> container_phase" where
  "readContainerState s =
     (if st_waiting s \<noteq> None then CWaiting
      else if st_running s \<noteq> None then CRunning
      else if st_terminated s \<noteq> None then CTerminated
      else CWaiting)"

record status_update =
  su_changed :: bool
  su_terminated :: bool
  su_succeeded :: bool
  su_restarts :: bool
  su_backoff :: int

definition noUpdate :: status_update where
  "noUpdate = \<lparr>su_changed = False, su_terminated = False, su_succeeded = False, su_restarts = False, su_backoff = 0\<rparr>"

fun setCondition :: "int \<Rightarrow> pod_cond_type \<Rightarrow> bool \<Rightarrow> pod_condition list \<Rightarrow> pod_condition list" where
  "setCondition now t st [] = [\<lparr>pc_type = t, pc_status = st, pc_transition = now\<rparr>]"
| "setCondition now t st (c # cs) =
     (if pc_type c = t then \<lparr>pc_type = t, pc_status = st, pc_transition = now\<rparr> # cs
      else c # setCondition now t st cs)"

definition setReady :: "int \<Rightarrow> bool \<Rightarrow> pod_status \<Rightarrow> pod_status" where
  "setReady now b s =
     s\<lparr>ps_conditions := setCondition now PodReady b (setCondition now ContainersReady b (ps_conditions s))\<rparr>"

text \<open>The first container status, and an update of it.\<close>

definition cs0 :: "pod_status \<Rightarrow> container_status" where
  "cs0 s = ps_containers s ! 0"

definition upd0 :: "(container_status \<Rightarrow> container_status) \<Rightarrow> pod_status \<Rightarrow> pod_status" where
  "upd0 f s = s\<lparr>ps_containers := (ps_containers s)[0 := f (cs0 s)]\<rparr>"

definition podShouldRestart :: "restart_policy \<Rightarrow> pod_status \<Rightarrow> bool" where
  "podShouldRestart policy s =
     (case st_terminated (cs_state (cs0 s)) of
        None \<Rightarrow> False
      | Some t \<Rightarrow>
          (case policy of
             RestartAlways \<Rightarrow> True
           | RestartOnFailure \<Rightarrow> tm_exitCode t \<noteq> 0
           | RestartNever \<Rightarrow> False
           | RestartOther \<Rightarrow> False))"

definition handleContainerStart :: "int \<Rightarrow> container_state \<Rightarrow> pod_status \<Rightarrow> pod_status" where
  "handleContainerStart now new s =
     setReady now True
       (upd0 (\<lambda>c. c\<lparr>cs_ready := True,
                    cs_state := \<lparr>st_waiting = None,
                      st_running = Some (case st_running new of Some t \<Rightarrow> t | None \<Rightarrow> now),
                      st_terminated = None\<rparr>\<rparr>) s)"

text \<open>Of the reported termination the message is not copied.\<close>

definition handleContainerTermination :: "int \<Rightarrow> terminated \<Rightarrow> pod_status \<Rightarrow> pod_status" where
  "handleContainerTermination now t s =
     (let st = \<lparr>st_waiting = None, st_running = None,
                st_terminated = Some (t\<lparr>tm_message := []\<rparr>)\<rparr>
      in setReady now False (upd0 (\<lambda>c. c\<lparr>cs_ready := False, cs_state := st, cs_lastTermination := st\<rparr>) s))"

definition handleContainerRestart :: "bool \<Rightarrow> pod_status \<Rightarrow> pod_status" where
  "handleContainerRestart backoff s =
     upd0 (\<lambda>c. c\<lparr>cs_restartCount := wrap32 (cs_restartCount c + 1),
                 cs_state := \<lparr>st_waiting = Some (if backoff then ''CrashLoopBackOff'' else ''ContainerCreating'',
                                                ''container restarts''),
                              st_running = None, st_terminated = None\<rparr>\<rparr>) s"

text \<open>
  The conversion of a float to a 64-bit integer (on amd64, where a value out of range gives the
  smallest integer), and the back-off of the restart after \<open>n > 0\<close> consecutive failures: a float
  power of two times ten, converted to a duration, times a second, which wraps.
\<close>

definition second :: int where "second = 1000000000"
definition minute :: int where "minute = 60 * second"

definition floatToInt64 :: "int \<Rightarrow> int" where
  "floatToInt64 i = (if in_int64 i then i else - 9223372036854775808)"

definition crashBackoff :: "nat \<Rightarrow> int" where
  "crashBackoff n = (if n = 0 then 0 else wrap64 (floatToInt64 (10 * 2 ^ (n - 1)) * second))"

text \<open>The restart branch: counter and back-off.\<close>

definition restartCounter :: "int \<Rightarrow> int \<Rightarrow> 'f vpod \<Rightarrow> int \<times> nat" where
  "restartCounter now exitCode v =
     (if exitCode = 0 \<or> now - pd_readySince v > 10 * minute then (0, 0)
      else (crashBackoff (pd_restarts v), Suc (pd_restarts v)))"

definition vstatus :: "'f vpod \<Rightarrow> pod_status" where
  "vstatus v = pod_status (pd_pod v)"

definition setStatus :: "pod_status \<Rightarrow> 'f vpod \<Rightarrow> 'f vpod" where
  "setStatus s v = v\<lparr>pd_pod := (pd_pod v)\<lparr>pod_status := s\<rparr>\<rparr>"

text \<open>The branch of a termination, after the status has been brought to running if it was waiting.\<close>

definition terminatedUpdate ::
  "int \<Rightarrow> terminated \<Rightarrow> pod_status \<Rightarrow> 'f vpod \<Rightarrow> status_update \<times> 'f vpod" where
  "terminatedUpdate now t s v =
     (let s1 = handleContainerTermination now t s;
          succeeded = (tm_exitCode t = 0)
      in if podShouldRestart (pod_restartPolicy (pd_pod v)) s1 then
           (let (backoff, n) = restartCounter now (tm_exitCode t) v
            in (\<lparr>su_changed = True, su_terminated = False, su_succeeded = succeeded, su_restarts = True,
                 su_backoff = backoff\<rparr>,
                setStatus (handleContainerRestart (backoff > 0) s1)
                  (v\<lparr>pd_restarts := n, pd_provisioned := False\<rparr>)))
         else
           (\<lparr>su_changed = True, su_terminated = True, su_succeeded = succeeded, su_restarts = False,
             su_backoff = 0\<rparr>,
            setStatus (s1\<lparr>ps_phase := if succeeded then PhaseSucceeded else PhaseFailed\<rparr>) v))"

definition PodStatusUpdate ::
  "int \<Rightarrow> container_state result \<Rightarrow> 'f vpod \<Rightarrow> (status_update result \<times> 'f vpod) option" where
  "PodStatusUpdate now resp v =
     (case resp of
        Inl e \<Rightarrow> Some (Inl e, v)
      | Inr new \<Rightarrow>
          if ps_containers (vstatus v) = [] then None
          else
            (let lastState = readContainerState (cs_state (cs0 (vstatus v)));
                 newState = readContainerState new
             in if lastState = newState then Some (Inr noUpdate, v)
                else if newState = CRunning then
                  Some (Inr (noUpdate\<lparr>su_changed := True\<rparr>),
                        setStatus ((handleContainerStart now new (vstatus v))\<lparr>ps_phase := PhaseRunning\<rparr>) v)
                else if newState = CTerminated then
                  (let s = (if lastState = CWaiting
                            then (handleContainerStart now new (vstatus v))\<lparr>ps_phase := PhaseRunning\<rparr>
                            else vstatus v);
                       (u, v1) = terminatedUpdate now (the (st_terminated new)) s v
                   in Some (Inr u, v1))
                else Some (Inl (ErrNew ''container state transition not found''), v)))"

section \<open>The other status operations\<close>

definition CrashLoopBackOffDone :: "'f vpod \<Rightarrow> 'f vpod option" where
  "CrashLoopBackOffDone v =
     (if ps_containers (vstatus v) = [] then None
      else (case st_waiting (cs_state (cs0 (vstatus v))) of
              None \<Rightarrow> Some v
            | Some (reason, msg) \<Rightarrow>
                Some (setStatus (upd0 (\<lambda>c. c\<lparr>cs_state := (cs_state c)\<lparr>st_waiting := Some (''ContainerCreating'', msg)\<rparr>\<rparr>)
                        (vstatus v)) v)))"

definition FailContainer :: "int \<Rightarrow> string \<Rightarrow> 'f vpod \<Rightarrow> 'f vpod option" where
  "FailContainer now msg v =
     (if ps_containers (vstatus v) = [] then None
      else Some (setStatus (handleContainerTermination now
        \<lparr>tm_exitCode = 1, tm_reason = ''Failed'', tm_message = msg, tm_startedAt = now, tm_finishedAt = now\<rparr>
        (vstatus v)) v))"

definition TerminatePod :: "int \<Rightarrow> int \<Rightarrow> 'f vpod \<Rightarrow> 'f vpod option" where
  "TerminatePod now exitCode v =
     (if ps_containers (vstatus v) = [] then None
      else
        (let s = (vstatus v)\<lparr>ps_phase := if exitCode = 0 then PhaseSucceeded else PhaseFailed\<rparr>;
             t = \<lparr>tm_exitCode = exitCode, tm_reason = ''Pod Deleted'', tm_message = [],
                  tm_startedAt = (case st_running (cs_state (cs0 s)) of Some x \<Rightarrow> x | None \<Rightarrow> 0),
                  tm_finishedAt = now\<rparr>
         in Some (setStatus (handleContainerTermination now t s) v)))"

section \<open>The status of a new pod\<close>

text \<open>What the provider's \<open>CreatePod\<close> writes into the pod: pending, scheduled, and one container that
  waits for its machine.\<close>

definition initialWaiting :: container_state where
  "initialWaiting = \<lparr>st_waiting = Some ([], ''Waiting machine init and container start''), st_running = None, st_terminated = None\<rparr>"

definition newPodStatus :: pod_status where
  "newPodStatus = \<lparr>ps_phase = PhasePending,
     ps_conditions = [\<lparr>pc_type = PodScheduled, pc_status = True, pc_transition = 0\<rparr>],
     ps_containers = [\<lparr>cs_ready = False, cs_restartCount = 0, cs_state = initialWaiting,
       cs_lastTermination = \<lparr>st_waiting = None, st_running = None, st_terminated = None\<rparr>\<rparr>]\<rparr>"

end
