(* ===== verification/VirtualPodFacts.thy ===== *)
theory VirtualPodFacts
  imports VirtualPod
begin

text \<open>
  Facts about the in-memory pod: the status it reports is consistent in every run of the status
  operations, the restart decision, and the back-off sequence of a crashing container.
\<close>

section \<open>Conditions and the first status\<close>

definition condIs :: "pod_cond_type \<Rightarrow> bool \<Rightarrow> pod_status \<Rightarrow> bool" where
  "condIs t b s \<longleftrightarrow> (case find (\<lambda>c. pc_type c = t) (ps_conditions s) of None \<Rightarrow> False | Some c \<Rightarrow> pc_status c = b)"

lemma find_setCondition:
  "find (\<lambda>c. pc_type c = t') (setCondition now t b cs) =
     (if t' = t then Some \<lparr>pc_type = t, pc_status = b, pc_transition = now\<rparr>
      else find (\<lambda>c. pc_type c = t') cs)"
  by (induction cs) auto

lemma setReady_conditions [simp]:
  "condIs t b (setReady now b' s) \<longleftrightarrow>
     (if t = PodReady \<or> t = ContainersReady then b = b' else condIs t b s)"
  by (auto simp: condIs_def setReady_def find_setCondition)

lemma setReady_frame [simp]:
  "ps_containers (setReady now b s) = ps_containers s" "ps_phase (setReady now b s) = ps_phase s"
  "cs0 (setReady now b s) = cs0 s"
  by (simp_all add: setReady_def cs0_def)

lemma cs0_upd0 [simp]: "ps_containers s \<noteq> [] \<Longrightarrow> cs0 (upd0 f s) = f (cs0 s)"
  by (simp add: cs0_def upd0_def)

lemma upd0_frame [simp]:
  "ps_containers (upd0 f s) = [] \<longleftrightarrow> ps_containers s = []" "ps_phase (upd0 f s) = ps_phase s"
  "ps_conditions (upd0 f s) = ps_conditions s" "condIs t b (upd0 f s) = condIs t b s"
  "length (ps_containers (upd0 f s)) = length (ps_containers s)"
  by (simp_all add: upd0_def condIs_def)

lemma phase_frame [simp]:
  "cs0 (s\<lparr>ps_phase := p\<rparr>) = cs0 s" "condIs t b (s\<lparr>ps_phase := p\<rparr>) = condIs t b s"
  by (simp_all add: cs0_def condIs_def)

lemma setStatus_simps [simp]:
  "vstatus (setStatus s v) = s" "pd_restarts (setStatus s v) = pd_restarts v"
  "pd_provisioned (setStatus s v) = pd_provisioned v" "pd_readySince (setStatus s v) = pd_readySince v"
  "pod_restartPolicy (pd_pod (setStatus s v)) = pod_restartPolicy (pd_pod v)"
  "pd_slot (setStatus s v) = pd_slot v" "pd_machine (setStatus s v) = pd_machine v"
  by (simp_all add: vstatus_def setStatus_def)

lemma vstatus_fields [simp]:
  "vstatus (v\<lparr>pd_restarts := n\<rparr>) = vstatus v" "vstatus (v\<lparr>pd_provisioned := b\<rparr>) = vstatus v"
  "vstatus (v\<lparr>pd_readySince := t\<rparr>) = vstatus v"
  by (simp_all add: vstatus_def)

section \<open>Consistency of the reported status\<close>

text \<open>Exactly one of the three pointers of the union is set.\<close>

definition oneOf :: "container_state \<Rightarrow> bool" where
  "oneOf s \<longleftrightarrow> (st_waiting s \<noteq> None \<and> st_running s = None \<and> st_terminated s = None)
             \<or> (st_waiting s = None \<and> st_running s \<noteq> None \<and> st_terminated s = None)
             \<or> (st_waiting s = None \<and> st_running s = None \<and> st_terminated s \<noteq> None)"

text \<open>The ready flag says running, and the two ready conditions, once they exist, say the flag.\<close>

definition consistent :: "pod_status \<Rightarrow> bool" where
  "consistent s \<longleftrightarrow> ps_containers s \<noteq> [] \<and> oneOf (cs_state (cs0 s)) \<and>
     (cs_ready (cs0 s) \<longleftrightarrow> st_running (cs_state (cs0 s)) \<noteq> None) \<and>
     \<not> condIs PodReady (\<not> cs_ready (cs0 s)) s \<and> \<not> condIs ContainersReady (\<not> cs_ready (cs0 s)) s"

lemma consistent_start [inv_intros]:
  "ps_containers s \<noteq> [] \<Longrightarrow> consistent (handleContainerStart now new s)"
  by (auto simp: consistent_def handleContainerStart_def oneOf_def)

lemma consistent_termination [inv_intros]:
  "ps_containers s \<noteq> [] \<Longrightarrow> consistent (handleContainerTermination now t s)"
  by (auto simp: consistent_def handleContainerTermination_def oneOf_def Let_def)

lemma consistent_restart [inv_intros]:
  "consistent (handleContainerTermination now t s) \<Longrightarrow> ps_containers s \<noteq> [] \<Longrightarrow>
     consistent (handleContainerRestart b (handleContainerTermination now t s))"
  by (auto simp: consistent_def handleContainerRestart_def handleContainerTermination_def oneOf_def Let_def)

lemma consistent_phase [simp]: "consistent (s\<lparr>ps_phase := p\<rparr>) = consistent s"
  by (simp add: consistent_def)

lemma termination_frame [simp]:
  "ps_containers (handleContainerTermination now t s) = [] \<longleftrightarrow> ps_containers s = []"
  "ps_containers s \<noteq> [] \<Longrightarrow> st_terminated (cs_state (cs0 (handleContainerTermination now t s))) = Some (t\<lparr>tm_message := []\<rparr>)"
  "ps_containers s \<noteq> [] \<Longrightarrow> cs_restartCount (cs0 (handleContainerTermination now t s)) = cs_restartCount (cs0 s)"
  "ps_phase (handleContainerTermination now t s) = ps_phase s"
  by (simp_all add: handleContainerTermination_def Let_def)

lemma start_frame [simp]:
  "ps_containers (handleContainerStart now new s) = [] \<longleftrightarrow> ps_containers s = []"
  "ps_containers s \<noteq> [] \<Longrightarrow> cs_restartCount (cs0 (handleContainerStart now new s)) = cs_restartCount (cs0 s)"
  by (simp_all add: handleContainerStart_def)

lemma restart_frame [simp]:
  "ps_containers s \<noteq> [] \<Longrightarrow>
     cs_restartCount (cs0 (handleContainerRestart b s)) = wrap32 (cs_restartCount (cs0 s) + 1)"
  "ps_phase (handleContainerRestart b s) = ps_phase s"
  "ps_containers (handleContainerRestart b s) = [] \<longleftrightarrow> ps_containers s = []"
  by (simp_all add: handleContainerRestart_def)

text \<open>The operations on the status, as they occur in any order.\<close>

datatype status_op =
    OpReport int "container_state result"
  | OpBackoffDone
  | OpFail int string
  | OpTerminate int int
  | OpProvisioned int bool

definition status_step :: "status_op \<Rightarrow> 'f vpod \<Rightarrow> 'f vpod option" where
  "status_step x v = (case x of
       OpReport now r \<Rightarrow> map_option snd (PodStatusUpdate now r v)
     | OpBackoffDone \<Rightarrow> CrashLoopBackOffDone v
     | OpFail now m \<Rightarrow> FailContainer now m v
     | OpTerminate now e \<Rightarrow> TerminatePod now e v
     | OpProvisioned now b \<Rightarrow> Some (SetProvisioningCompleted now b v))"

fun status_run :: "status_op list \<Rightarrow> 'f vpod \<Rightarrow> 'f vpod option" where
  "status_run [] v = Some v"
| "status_run (x # xs) v = (case status_step x v of None \<Rightarrow> None | Some v1 \<Rightarrow> status_run xs v1)"

lemma consistent_terminatedUpdate [inv_intros]:
  "ps_containers s \<noteq> [] \<Longrightarrow> consistent (vstatus (snd (terminatedUpdate now t s v)))"
  by (auto simp: terminatedUpdate_def Let_def consistent_termination consistent_restart split: prod.splits)

lemma PodStatusUpdate_consistent:
  assumes "consistent (vstatus v)"
  obtains r v' where "PodStatusUpdate now resp v = Some (r, v')" "consistent (vstatus v')"
proof -
  have ne: "ps_containers (vstatus v) \<noteq> []" using assms by (simp add: consistent_def)
  have t: "consistent (vstatus (snd (terminatedUpdate now t s v)))" if "ps_containers s \<noteq> []" for t s
    using that by (rule consistent_terminatedUpdate)
  have "\<exists>r v'. PodStatusUpdate now resp v = Some (r, v') \<and> consistent (vstatus v')"
    using assms ne t [of "vstatus v"]
      t [of "(handleContainerStart now new (vstatus v))\<lparr>ps_phase := PhaseRunning\<rparr>" for new]
    by (auto simp: PodStatusUpdate_def Let_def consistent_start split: sum.splits prod.splits)
      (metis snd_conv)+
  with that show thesis by blast
qed

lemma consistent_step [inv_intros]:
  assumes "consistent (vstatus v)"
  shows "\<exists>v'. status_step x v = Some v' \<and> consistent (vstatus v')"
proof -
  have ne: "ps_containers (vstatus v) \<noteq> []" using assms by (simp add: consistent_def)
  show ?thesis
  proof (cases x)
    case (OpReport now r)
    obtain y v' where "PodStatusUpdate now r v = Some (y, v')" "consistent (vstatus v')"
      using PodStatusUpdate_consistent [OF assms] .
    with OpReport show ?thesis by (simp add: status_step_def)
  next
    case OpBackoffDone
    with assms ne show ?thesis
      by (auto simp: status_step_def CrashLoopBackOffDone_def consistent_def oneOf_def split: option.splits)
  next
    case (OpFail now m)
    with ne show ?thesis by (simp add: status_step_def FailContainer_def consistent_termination)
  next
    case (OpTerminate now e)
    with ne show ?thesis
      by (simp add: status_step_def TerminatePod_def Let_def consistent_termination)
  next
    case (OpProvisioned now b)
    with assms show ?thesis by (simp add: status_step_def SetProvisioningCompleted_def vstatus_def)
  qed
qed

lemma status_run_consistent:
  "consistent (vstatus v) \<Longrightarrow> \<exists>v'. status_run ops v = Some v' \<and> consistent (vstatus v')"
proof (induction ops arbitrary: v)
  case (Cons x xs)
  then show ?case using consistent_step [OF Cons.prems, of x] by auto
qed simp

section \<open>Properties\<close>

definition exMachine :: "int machine" where
  "exMachine = (emptyMachine 0)\<lparr>mc_id := ''m1''\<rparr>"

definition exCrashPod :: pod where
  "exCrashPod = \<lparr>pod_namespace = ''ns'', pod_name = ''job'', pod_uid = ''u'', pod_annotations = Some fmempty,
     pod_restartPolicy = RestartAlways,
     pod_containers = [\<lparr>pn_name = ''main'', pn_image = ''busybox'', pn_command = [], pn_args = [], pn_workdir = [],
       pn_ports = [8080], pn_env = [], pn_mounts = [], pn_pullAlways = False\<rparr>],
     pod_volumes = [],
     pod_status = newPodStatus\<rparr>"

definition exVPod :: "int vpod" where
  "exVPod = NewVirtualPod ''ns-job'' exCrashPod exMachine 0 fmempty [] ''secret''"

definition exCrash :: terminated where
  "exCrash = \<lparr>tm_exitCode = 137, tm_reason = ''OOMKilled'', tm_message = [], tm_startedAt = 0, tm_finishedAt = 0\<rparr>"

definition reportTerminated :: "terminated \<Rightarrow> container_state result" where
  "reportTerminated t = Inr \<lparr>st_waiting = None, st_running = None, st_terminated = Some t\<rparr>"

lemma consistent_new: "consistent newPodStatus"
  by (simp add: consistent_def newPodStatus_def initialWaiting_def cs0_def oneOf_def condIs_def)

text \<open>A reported termination of a container that was not terminated.\<close>

definition broughtUp :: "int \<Rightarrow> 'f vpod \<Rightarrow> pod_status" where
  "broughtUp now v =
     (if readContainerState (cs_state (cs0 (vstatus v))) = CWaiting
      then (setReady now True (upd0 (\<lambda>c. c\<lparr>cs_ready := True,
              cs_state := \<lparr>st_waiting = None, st_running = Some now, st_terminated = None\<rparr>\<rparr>) (vstatus v)))
            \<lparr>ps_phase := PhaseRunning\<rparr>
      else vstatus v)"

lemma broughtUp_simps [simp]:
  "ps_containers (vstatus v) \<noteq> [] \<Longrightarrow> ps_containers (broughtUp now v) \<noteq> []"
  "ps_containers (vstatus v) \<noteq> [] \<Longrightarrow>
     cs_restartCount (cs0 (broughtUp now v)) = cs_restartCount (cs0 (vstatus v))"
  by (simp_all add: broughtUp_def)

lemma report_terminated:
  assumes "ps_containers (vstatus v) \<noteq> []" "readContainerState (cs_state (cs0 (vstatus v))) \<noteq> CTerminated"
  shows "PodStatusUpdate now (reportTerminated t) v =
    (case terminatedUpdate now t (broughtUp now v) v of (u, v') \<Rightarrow> Some (Inr u, v'))"
  using assms
  by (auto simp: PodStatusUpdate_def reportTerminated_def broughtUp_def handleContainerStart_def
      readContainerState_def Let_def split: prod.splits)

text \<open>C8: The status of a pod stays consistent through every sequence of agent reports, back-off ends,
  failures, deletions and restarts, none of which panics: exactly one of waiting, running and
  terminated is set, the ready flag says running, and the pod conditions Ready and ContainersReady,
  once set, agree with the flag.\<close>

theorem status_always_consistent:
  assumes "consistent (vstatus v)"
  shows "\<exists>v'. status_run ops v = Some v' \<and> consistent (vstatus v')"
  using assms by (rule status_run_consistent)

theorem status_always_consistent_witness:
  "\<exists>v'. status_run [OpReport 1 (reportTerminated exCrash), OpBackoffDone, OpFail 2 ''lost''] exVPod = Some v'
     \<and> consistent (vstatus v')"
  by (rule status_always_consistent) (simp add: exVPod_def NewVirtualPod_def vstatus_def exCrashPod_def consistent_new)

text \<open>C9: When the agent reports a termination of a container that was not terminated, the pod restarts
  exactly when its policy says so: the update is a restart or final, never both; a restart adds one to
  the restart count and leaves the phase, a final one keeps the count and sets the phase from the
  exit code; the exit code the status keeps is the reported one when final.\<close>

theorem termination_decision:
  assumes "ps_containers (vstatus v) \<noteq> []" "st_terminated (cs_state (cs0 (vstatus v))) = None"
    and "0 \<le> cs_restartCount (cs0 (vstatus v))" "cs_restartCount (cs0 (vstatus v)) < 2147483647"
    and "PodStatusUpdate now (reportTerminated t) v = Some (Inr u, v')"
  defines "again \<equiv> (case pod_restartPolicy (pd_pod v) of RestartAlways \<Rightarrow> True
     | RestartOnFailure \<Rightarrow> tm_exitCode t \<noteq> 0 | _ \<Rightarrow> False)"
  shows "su_changed u \<and> su_restarts u = again \<and> su_terminated u = (\<not> again) \<and>
    su_succeeded u = (tm_exitCode t = 0) \<and>
    cs_restartCount (cs0 (vstatus v')) = cs_restartCount (cs0 (vstatus v)) + (if again then 1 else 0) \<and>
    pd_provisioned v' = (pd_provisioned v \<and> \<not> again) \<and>
    (\<not> again \<longrightarrow> ps_phase (vstatus v') = (if tm_exitCode t = 0 then PhaseSucceeded else PhaseFailed) \<and>
       map_option tm_exitCode (st_terminated (cs_state (cs0 (vstatus v')))) = Some (tm_exitCode t))"
proof -
  have last: "readContainerState (cs_state (cs0 (vstatus v))) \<noteq> CTerminated"
    using assms(2) by (simp add: readContainerState_def)
  let ?s = "broughtUp now v"
  have ne: "ps_containers ?s \<noteq> []" and cnt: "cs_restartCount (cs0 ?s) = cs_restartCount (cs0 (vstatus v))"
    using assms(1) by simp_all
  have u: "(u, v') = terminatedUpdate now t ?s v"
    using assms(5) report_terminated [OF assms(1) last] by (auto split: prod.splits)
  have again: "podShouldRestart (pod_restartPolicy (pd_pod v)) (handleContainerTermination now t ?s) = again"
    using ne by (simp add: podShouldRestart_def again_def split: restart_policy.splits)
  have w: "wrap32 (cs_restartCount (cs0 (vstatus v)) + 1) = cs_restartCount (cs0 (vstatus v)) + 1"
    by (rule wrap32_id) (use assms(3,4) in \<open>simp add: in_int32_def\<close>)
  show ?thesis
    using u ne cnt w again by (cases again) (auto simp: terminatedUpdate_def Let_def split: prod.splits)
qed

theorem termination_decision_witness:
  "let r = PodStatusUpdate 5 (reportTerminated exCrash) exVPod in
   case r of Some (Inr u, v') \<Rightarrow> su_restarts u \<and> cs_restartCount (cs0 (vstatus v')) = 1 | _ \<Rightarrow> False"
proof -
  have v: "ps_containers (vstatus exVPod) \<noteq> []" "st_terminated (cs_state (cs0 (vstatus exVPod))) = None"
    "cs_restartCount (cs0 (vstatus exVPod)) = 0" "pod_restartPolicy (pd_pod exVPod) = RestartAlways"
    "readContainerState (cs_state (cs0 (vstatus exVPod))) \<noteq> CTerminated"
    by (simp_all add: exVPod_def NewVirtualPod_def vstatus_def exCrashPod_def newPodStatus_def initialWaiting_def
        cs0_def readContainerState_def)
  obtain u v' where t: "terminatedUpdate 5 exCrash (broughtUp 5 exVPod) exVPod = (u, v')"
    by (rule prod.exhaust)
  have r: "PodStatusUpdate 5 (reportTerminated exCrash) exVPod = Some (Inr u, v')"
    unfolding report_terminated [OF v(1,5)] t by simp
  have "0 \<le> cs_restartCount (cs0 (vstatus exVPod))" "cs_restartCount (cs0 (vstatus exVPod)) < 2147483647"
    unfolding v(3) by simp_all
  note d = termination_decision [OF v(1,2) this r, unfolded v(3,4), simplified]
  from d have "su_restarts u" by blast
  moreover from d have "cs_restartCount (cs0 (vstatus v')) = 1" by blast
  ultimately show ?thesis unfolding r Let_def by simp
qed

section \<open>Crash loops\<close>

text \<open>
  A container that terminates again and again: each time it was brought up (the provisioning
  completed at the first time) and then reported as terminated (at the second).
\<close>

fun crash_run :: "(int \<times> int \<times> terminated) list \<Rightarrow> 'f vpod \<Rightarrow> (int list \<times> 'f vpod) option" where
  "crash_run [] v = Some ([], v)"
| "crash_run ((up, down, t) # rest) v =
     (case PodStatusUpdate down (reportTerminated t) (SetProvisioningCompleted up True v) of
        Some (Inr u, v1) \<Rightarrow>
          (case crash_run rest v1 of Some (bs, v2) \<Rightarrow> Some (su_backoff u # bs, v2) | None \<Rightarrow> None)
      | _ \<Rightarrow> None)"

lemma SetProvisioningCompleted_simps [simp]:
  "vstatus (SetProvisioningCompleted t b v) = vstatus v"
  "pd_restarts (SetProvisioningCompleted t b v) = pd_restarts v"
  "pd_readySince (SetProvisioningCompleted t b v) = t"
  "pd_pod (SetProvisioningCompleted t b v) = pd_pod v"
  by (simp_all add: SetProvisioningCompleted_def vstatus_def)

lemma readContainerState_waiting [simp]: "readContainerState \<lparr>st_waiting = Some w, st_running = r, st_terminated = t\<rparr> = CWaiting"
  by (simp add: readContainerState_def)

lemma crash_once:
  assumes "ps_containers (vstatus v) \<noteq> []" "readContainerState (cs_state (cs0 (vstatus v))) \<noteq> CTerminated"
    and "pod_restartPolicy (pd_pod v) = RestartAlways \<or> pod_restartPolicy (pd_pod v) = RestartOnFailure"
    and "tm_exitCode t \<noteq> 0" "now - pd_readySince v \<le> 10 * minute"
  obtains u v' where "PodStatusUpdate now (reportTerminated t) v = Some (Inr u, v')"
    "su_backoff u = crashBackoff (pd_restarts v)" "pd_restarts v' = Suc (pd_restarts v)"
    "ps_containers (vstatus v') \<noteq> []" "readContainerState (cs_state (cs0 (vstatus v'))) = CWaiting"
    "pod_restartPolicy (pd_pod v') = pod_restartPolicy (pd_pod v)"
proof -
  let ?s1 = "handleContainerTermination now t (broughtUp now v)"
  have "podShouldRestart (pod_restartPolicy (pd_pod v)) ?s1"
    using assms(1,3,4) by (auto simp: podShouldRestart_def)
  then have e: "terminatedUpdate now t (broughtUp now v) v =
      (\<lparr>su_changed = True, su_terminated = False, su_succeeded = False, su_restarts = True,
        su_backoff = crashBackoff (pd_restarts v)\<rparr>,
       setStatus (handleContainerRestart (crashBackoff (pd_restarts v) > 0) ?s1)
         (v\<lparr>pd_restarts := Suc (pd_restarts v), pd_provisioned := False\<rparr>))"
    using assms(4,5) by (simp add: terminatedUpdate_def restartCounter_def)
  have s1: "ps_containers ?s1 \<noteq> []" using assms(1) by simp
  show thesis
    by (rule that, simp add: report_terminated [OF assms(1,2)] e)
      (use s1 in \<open>simp_all add: handleContainerRestart_def\<close>)
qed

lemma crash_run_backoffs:
  assumes "ps_containers (vstatus v) \<noteq> []" "readContainerState (cs_state (cs0 (vstatus v))) \<noteq> CTerminated"
    and "pod_restartPolicy (pd_pod v) = RestartAlways \<or> pod_restartPolicy (pd_pod v) = RestartOnFailure"
    and "\<forall>(up, down, t) \<in> set cs. tm_exitCode t \<noteq> 0 \<and> down - up \<le> 10 * minute"
  shows "\<exists>v'. crash_run cs v = Some (map crashBackoff [pd_restarts v ..< pd_restarts v + length cs], v')"
  using assms
proof (induction cs arbitrary: v)
  case (Cons c cs)
  obtain up down t where c: "c = (up, down, t)" by (cases c)
  let ?v = "SetProvisioningCompleted up True v"
  obtain u v1 where 1: "PodStatusUpdate down (reportTerminated t) ?v = Some (Inr u, v1)"
    "su_backoff u = crashBackoff (pd_restarts v)" "pd_restarts v1 = Suc (pd_restarts v)"
    "ps_containers (vstatus v1) \<noteq> []" "readContainerState (cs_state (cs0 (vstatus v1))) = CWaiting"
    "pod_restartPolicy (pd_pod v1) = pod_restartPolicy (pd_pod v)"
    by (rule crash_once [of ?v t down]) (use Cons.prems c in auto)
  from Cons.IH [of v1] 1(3-6) Cons.prems(3,4)
  obtain v' where "crash_run cs v1 =
      Some (map crashBackoff [Suc (pd_restarts v) ..< Suc (pd_restarts v) + length cs], v')" by auto
  with 1(1,2) c show ?case by (simp add: upt_conv_Cons del: upt_Suc)
qed simp

lemma crashBackoff_exact:
  assumes "n < 30"
  shows "crashBackoff (Suc n) = 10 * 2 ^ n * second"
proof -
  have "(2 :: int) ^ n \<le> 2 ^ 29" using assms by (intro power_increasing) simp_all
  then have b: "(2 :: int) ^ n \<le> 536870912" by simp
  have p: "0 < (2 :: int) ^ n" by simp
  have "in_int64 (10 * 2 ^ n)" "in_int64 (10 * 2 ^ n * second)"
    unfolding in_int64_def second_def using b p by linarith+
  then show ?thesis by (simp add: crashBackoff_def floatToInt64_def wrap64_id)
qed

text \<open>C10: The back-off of a crash loop. A container that keeps failing within ten minutes of coming up is
  restarted at once the first time and then after 10, 20, 40, ... seconds, each wait twice the one
  before, for the first thirty waits: nothing caps it.\<close>

theorem crash_loop_backoff:
  assumes "consistent (vstatus v)" "st_terminated (cs_state (cs0 (vstatus v))) = None" "pd_restarts v = 0"
    and "pod_restartPolicy (pd_pod v) = RestartAlways \<or> pod_restartPolicy (pd_pod v) = RestartOnFailure"
    and "\<forall>(up, down, t) \<in> set cs. tm_exitCode t \<noteq> 0 \<and> down - up \<le> 10 * minute"
    and "length cs \<le> 31"
  shows "\<exists>v'. crash_run cs v =
    Some (map (\<lambda>n. if n = 0 then 0 else 10 * 2 ^ (n - 1) * second) [0 ..< length cs], v')"
proof -
  have "ps_containers (vstatus v) \<noteq> []" using assms(1) by (simp add: consistent_def)
  moreover have "readContainerState (cs_state (cs0 (vstatus v))) \<noteq> CTerminated"
    using assms(2) by (simp add: readContainerState_def)
  ultimately obtain v' where r: "crash_run cs v = Some (map crashBackoff [0 ..< length cs], v')"
    using crash_run_backoffs [OF _ _ assms(4,5)] assms(3) by auto
  have "crashBackoff n = (if n = 0 then 0 else 10 * 2 ^ (n - 1) * second)" if "n < length cs" for n
    using that assms(6) crashBackoff_exact [of "n - 1"] by (cases n) (simp_all add: crashBackoff_def)
  then have "map crashBackoff [0 ..< length cs]
      = map (\<lambda>n. if n = 0 then 0 else 10 * 2 ^ (n - 1) * second) [0 ..< length cs]" by simp
  with r show ?thesis by simp
qed

theorem crash_loop_backoff_witness:
  "\<exists>v'. crash_run [(1, 2, exCrash), (3, 4, exCrash), (5, 6, exCrash)] exVPod = Some ([0, 10 * second, 20 * second], v')"
proof -
  have "consistent (vstatus exVPod)" "st_terminated (cs_state (cs0 (vstatus exVPod))) = None"
    "pd_restarts exVPod = 0" "pod_restartPolicy (pd_pod exVPod) = RestartAlways"
    by (simp_all add: exVPod_def NewVirtualPod_def vstatus_def exCrashPod_def consistent_new)
      (simp add: newPodStatus_def initialWaiting_def cs0_def)
  with crash_loop_backoff [of exVPod "[(1, 2, exCrash), (3, 4, exCrash), (5, 6, exCrash)]"]
  show ?thesis by (simp add: exCrash_def minute_def second_def upt_rec)
qed

text \<open>The thirty-first wait overflows: after 31 consecutive failures the computed back-off is negative,
  so the container is restarted without any wait and is not shown as in back-off.\<close>

theorem crash_backoff_overflows:
  assumes "pd_restarts v = 31" "tm_exitCode t \<noteq> 0" "now - pd_readySince v \<le> 10 * minute"
  shows "fst (restartCounter now (tm_exitCode t) v) < 0"
  using assms by (simp add: restartCounter_def crashBackoff_def floatToInt64_def in_int64_def wrap64_def second_def)

theorem crash_backoff_overflows_witness:
  "fst (restartCounter 5 137 (exVPod\<lparr>pd_restarts := 31\<rparr>)) < 0"
  using crash_backoff_overflows [of "exVPod\<lparr>pd_restarts := 31\<rparr>" exCrash 5]
  by (simp add: exCrash_def exVPod_def NewVirtualPod_def minute_def second_def)

text \<open>The token that the constructor is given never reaches the requests to the agent: whatever the
  token, the header of a status request is the one of the empty token.\<close>

theorem auth_token_dropped:
  "authHeaders (NewVirtualPod i p m slot cms mounts token) = ''Bearer ''"
  by (simp add: authHeaders_def NewVirtualPod_def)

end
