(* ===== verification/MachineSpec.thy ===== *)
theory MachineSpec
  imports VirtualPod
begin

text \<open>
  The machine specification that a pod's annotations ask for (\<open>virtualpod/machine.go\<close>,
  \<open>newMachineSpecification\<close> of \<open>internal/provider/anex/provisioning.go\<close>).

  The code has three fields, exact, minimum and maximum, for each of thirteen quantities; here a
  quantity is a constructor and its three fields a record. \<open>float64\<close> values are of an abstract
  type, and \<open>strconv.ParseFloat\<close> is an argument. The three loops range over the annotation map in
  an order that is an argument.
\<close>

section \<open>Data\<close>

datatype region = RegionEurope | RegionNorthAmerica | RegionSouthAmerica | RegionAsia | RegionAfrica
  | RegionOceania | RegionAny

datatype int_quantity = QGPUCount | QVRAM | QVRAMTotal | QCPU | QRAM

datatype float_quantity = QVRAMBandwidth | QTFLOPS | QCUDA | QPrice | QUploadSpeed | QDownloadSpeed

record 'a bounds =
  bd_exact :: "'a option"
  bd_min :: "'a option"
  bd_max :: "'a option"

definition noBounds :: "'a bounds" where
  "noBounds = \<lparr>bd_exact = None, bd_min = None, bd_max = None\<rparr>"

record 'f machine_spec =
  sp_gpuNames :: "string list"
  sp_computeCap :: "string list"
  sp_regions :: "region list"
  sp_ints :: "int_quantity \<Rightarrow> int bounds"
  sp_floats :: "float_quantity \<Rightarrow> 'f bounds"
  sp_diskSpaceGB :: "'f option"
  sp_diskBW :: "'f option"
  sp_cloudType :: string
  sp_dataCenterIds :: "string list"
  sp_keepGPUTypePriority :: bool
  sp_verifiedOnly :: bool
  sp_datacenterOnly :: bool
  sp_dlperf :: "'f bounds"

section \<open>Parsing of values\<close>

text \<open>\<open>strconv.ParseBool\<close>, whose value is false on an error.\<close>

definition parseBool :: "string \<Rightarrow> bool" where
  "parseBool s \<longleftrightarrow> s \<in> {''1'', ''t'', ''T'', ''true'', ''TRUE'', ''True''}"

definition parseList :: "string \<Rightarrow> string list" where
  "parseList value = filter (\<lambda>p. p \<noteq> []) (map trimSpace (splitOn (CHR '','') value))"

definition parseRegions :: "string \<Rightarrow> region list" where
  "parseRegions value = List.map_filter
     (\<lambda>r. if r = ''europe'' then Some RegionEurope
          else if r = ''north-america'' then Some RegionNorthAmerica
          else if r = ''asia-pacific'' then Some RegionAsia
          else if r = ''africa'' then Some RegionAfrica
          else if r = ''south-america'' then Some RegionSouthAmerica
          else if r = ''oceania'' then Some RegionOceania
          else None) (parseList value)"

section \<open>The shared annotations\<close>

definition sharedPrefix :: string where "sharedPrefix = ''anex.sh/''"
definition vastaiPrefix :: string where "vastaiPrefix = ''vastai.anex.sh/''"
definition runpodPrefix :: string where "runpodPrefix = ''runpod.anex.sh/''"

fun int_name :: "int_quantity \<Rightarrow> string" where
  "int_name QGPUCount = ''gpu-count''"
| "int_name QVRAM = ''vram''"
| "int_name QVRAMTotal = ''vram-total''"
| "int_name QCPU = ''cpu''"
| "int_name QRAM = ''ram''"

fun float_name :: "float_quantity \<Rightarrow> string" where
  "float_name QVRAMBandwidth = ''vram-bandwidth''"
| "float_name QTFLOPS = ''tflops''"
| "float_name QCUDA = ''cuda''"
| "float_name QPrice = ''price''"
| "float_name QUploadSpeed = ''upload-speed''"
| "float_name QDownloadSpeed = ''download-speed''"

definition int_quantities :: "int_quantity list" where
  "int_quantities = [QGPUCount, QVRAM, QVRAMTotal, QCPU, QRAM]"

definition float_quantities :: "float_quantity list" where
  "float_quantities = [QVRAMBandwidth, QTFLOPS, QCUDA, QPrice, QUploadSpeed, QDownloadSpeed]"

text \<open>The names of the settings given exactly: every shared setting without a bound suffix.\<close>

definition exactFields :: "string list \<Rightarrow> string list" where
  "exactFields keys =
     filter (\<lambda>setting. \<not> hasSuffix setting ''-min'' \<and> \<not> hasSuffix setting ''-max'')
       (map (\<lambda>k. trimPrefix k sharedPrefix) (filter (\<lambda>k. hasPrefix k sharedPrefix) keys))"

text \<open>The cases of one quantity: the exact value, and the bounds unless the exact one is given.\<close>

definition setBounds ::
  "(string \<Rightarrow> 'a option) \<Rightarrow> string list \<Rightarrow> string \<Rightarrow> string \<Rightarrow> string \<Rightarrow> 'a bounds \<Rightarrow> 'a bounds" where
  "setBounds parse exact name setting value b =
     (if setting = name then b\<lparr>bd_exact := parse value\<rparr>
      else if setting = name @ ''-min'' \<and> name \<notin> set exact then b\<lparr>bd_min := parse value\<rparr>
      else if setting = name @ ''-max'' \<and> name \<notin> set exact then b\<lparr>bd_max := parse value\<rparr>
      else b)"

definition applyShared ::
  "(string \<Rightarrow> 'f option) \<Rightarrow> string list \<Rightarrow> string \<Rightarrow> string \<Rightarrow> 'f machine_spec \<Rightarrow> 'f machine_spec" where
  "applyShared parseFloat exact setting value out =
     (if setting = ''region'' then out\<lparr>sp_regions := sp_regions out @ parseRegions value\<rparr>
      else if setting = ''gpu-names'' then out\<lparr>sp_gpuNames := parseList value\<rparr>
      else if setting = ''compute-cap'' then out\<lparr>sp_computeCap := parseList value\<rparr>
      else if setting = ''disk-space-gb'' then out\<lparr>sp_diskSpaceGB := parseFloat value\<rparr>
      else if setting = ''disk-bw'' then out\<lparr>sp_diskBW := parseFloat value\<rparr>
      else out\<lparr>sp_ints := (\<lambda>q. setBounds atoi exact (int_name q) setting value (sp_ints out q)),
               sp_floats := (\<lambda>q. setBounds parseFloat exact (float_name q) setting value (sp_floats out q))\<rparr>)"

section \<open>Provider-specific annotations\<close>

definition applyVastAI ::
  "(string \<Rightarrow> 'f option) \<Rightarrow> string \<Rightarrow> string \<Rightarrow> 'f machine_spec \<Rightarrow> 'f machine_spec" where
  "applyVastAI parseFloat setting value out =
     (if setting = ''verified-only'' then out\<lparr>sp_verifiedOnly := parseBool value\<rparr>
      else if setting = ''datacenter-only'' then out\<lparr>sp_datacenterOnly := parseBool value\<rparr>
      else if setting = ''dlperf'' then out\<lparr>sp_dlperf := (sp_dlperf out)\<lparr>bd_exact := parseFloat value\<rparr>\<rparr>
      else if setting = ''dlperf-min'' then out\<lparr>sp_dlperf := (sp_dlperf out)\<lparr>bd_min := parseFloat value\<rparr>\<rparr>
      else if setting = ''dlperf-max'' then out\<lparr>sp_dlperf := (sp_dlperf out)\<lparr>bd_max := parseFloat value\<rparr>\<rparr>
      else out)"

definition applyRunPod :: "string \<Rightarrow> string \<Rightarrow> 'f machine_spec \<Rightarrow> 'f machine_spec" where
  "applyRunPod setting value out =
     (if setting = ''cloud-type'' then out\<lparr>sp_cloudType := toUpper (trimSpace value)\<rparr>
      else if setting = ''datacenter-ids'' then out\<lparr>sp_dataCenterIds := parseList value\<rparr>
      else if setting = ''keep-gpu-type-priority'' then out\<lparr>sp_keepGPUTypePriority := parseBool value\<rparr>
      else out)"

definition emptySpec :: "'f machine_spec" where
  "emptySpec = \<lparr>sp_gpuNames = [], sp_computeCap = [], sp_regions = [], sp_ints = (\<lambda>_. noBounds),
     sp_floats = (\<lambda>_. noBounds), sp_diskSpaceGB = None, sp_diskBW = None, sp_cloudType = [],
     sp_dataCenterIds = [], sp_keepGPUTypePriority = False, sp_verifiedOnly = True,
     sp_datacenterOnly = False, sp_dlperf = noBounds\<rparr>"

text \<open>One loop over the annotations that start with a prefix.\<close>

definition forPrefix ::
  "string \<Rightarrow> (string \<Rightarrow> string \<Rightarrow> 's \<Rightarrow> 's) \<Rightarrow> (string \<rightharpoonup> string) \<Rightarrow> string list \<Rightarrow> 's \<Rightarrow> 's" where
  "forPrefix prefix step ann keys s =
     foldl (\<lambda>t k. if hasPrefix k prefix
                  then (case ann k of None \<Rightarrow> t | Some v \<Rightarrow> step (trimPrefix k prefix) v t)
                  else t) s keys"

definition newMachineSpecification ::
  "(string \<Rightarrow> 'f option) \<Rightarrow> string list \<Rightarrow> (string \<rightharpoonup> string) \<Rightarrow> 'f machine_spec" where
  "newMachineSpecification parseFloat keys ann =
     forPrefix runpodPrefix applyRunPod ann keys
       (forPrefix vastaiPrefix (applyVastAI parseFloat) ann keys
         (forPrefix sharedPrefix (applyShared parseFloat (exactFields keys)) ann keys emptySpec))"

end
