(* ===== verification/MachineSpecFacts.thy ===== *)
theory MachineSpecFacts
  imports MachineSpec
begin

text \<open>
  The specification is a function of the annotations alone: the order in which the map is visited
  does not matter, and an exact value disables the bounds of its quantity.
\<close>

lemma forPrefix_Nil [simp]: "forPrefix p step ann [] t = t"
  by (simp add: forPrefix_def)

lemma forPrefix_Cons [simp]:
  "forPrefix p step ann (k # ks) t = forPrefix p step ann ks
     (if hasPrefix k p then (case ann k of None \<Rightarrow> t | Some v \<Rightarrow> step (trimPrefix k p) v t) else t)"
  by (simp add: forPrefix_def)

lemma hasPrefix_trim: "hasPrefix k p \<Longrightarrow> trimPrefix k p = s \<longleftrightarrow> k = p @ s"
  by (auto simp: hasPrefix_iff)

text \<open>A view of the result that a single setting can change.\<close>

lemma forPrefix_single:
  assumes "distinct keys"
    and other: "\<And>s v t. s \<noteq> s0 \<Longrightarrow> g (step s v t) = g t" and own: "\<And>v t. g (step s0 v t) = h v"
  shows "g (forPrefix p step ann keys t) =
    (if p @ s0 \<in> set keys then (case ann (p @ s0) of None \<Rightarrow> g t | Some v \<Rightarrow> h v) else g t)"
  using assms(1)
proof (induction keys arbitrary: t)
  case (Cons k ks)
  consider (own) "k = p @ s0" | (other) s where "k = p @ s" "s \<noteq> s0" | (none) "\<not> hasPrefix k p"
    by (auto simp: hasPrefix_iff)
  then show ?case
  proof cases
    case own
    with Cons show ?thesis by (auto simp: assms(3) split: option.splits)
  next
    case other
    then have "g (case ann k of None \<Rightarrow> t | Some v \<Rightarrow> step (trimPrefix k p) v t) = g t"
      by (auto simp: assms(2) split: option.splits)
    with Cons other show ?thesis by (auto split: option.splits)
  next
    case none
    then have "k \<noteq> p @ s0" by auto
    with Cons none show ?thesis by auto
  qed
qed simp

lemma forPrefix_view:
  assumes "\<And>s v t. g (step s v t) = step' s v (g t)"
  shows "g (forPrefix p step ann keys t) = forPrefix p step' ann keys (g t)"
  by (induction keys arbitrary: t) (auto simp: assms split: option.splits)

lemma forPrefix_frame:
  assumes "\<And>s v t. g (step s v t) = g t"
  shows "g (forPrefix p step ann keys t) = g t"
  by (induction keys arbitrary: t) (auto simp: assms split: option.splits)

text \<open>The bounds that the annotations give a quantity of the given name.\<close>

definition annotated :: "(string \<Rightarrow> 'a option) \<Rightarrow> (string \<rightharpoonup> string) \<Rightarrow> string \<Rightarrow> 'a bounds" where
  "annotated parse ann name =
     (let get = (\<lambda>s. Option.bind (ann (sharedPrefix @ s)) parse);
          exact = (ann (sharedPrefix @ name) \<noteq> None)
      in \<lparr>bd_exact = get name,
          bd_min = (if exact then None else get (name @ ''-min'')),
          bd_max = (if exact then None else get (name @ ''-max''))\<rparr>)"

lemma setBounds_fold:
  assumes "distinct keys" "set keys = dom ann" "name \<in> set exact \<longleftrightarrow> sharedPrefix @ name \<in> dom ann"
  shows "forPrefix sharedPrefix (setBounds parse exact name) ann keys noBounds = annotated parse ann name"
    (is "?r = _")
proof -
  have k: "sharedPrefix @ s \<in> set keys \<longleftrightarrow> (\<exists>v. ann (sharedPrefix @ s) = Some v)" for s
    using assms(2) by auto
  have "bd_exact ?r = Option.bind (ann (sharedPrefix @ name)) parse"
    using forPrefix_single [OF assms(1), of name bd_exact "setBounds parse exact name" parse]
    by (auto simp: setBounds_def noBounds_def k split: option.splits bind_splits)
  moreover have "bd_min ?r = (if name \<in> set exact then None else Option.bind (ann (sharedPrefix @ name @ ''-min'')) parse)"
    using forPrefix_single [OF assms(1), of "name @ ''-min''" bd_min "setBounds parse exact name"
        "\<lambda>v. parse v" sharedPrefix ann noBounds]
      forPrefix_frame [of bd_min "setBounds parse exact name" sharedPrefix ann keys noBounds]
    by (auto simp: setBounds_def noBounds_def k split: option.splits bind_splits)
  moreover have "bd_max ?r = (if name \<in> set exact then None else Option.bind (ann (sharedPrefix @ name @ ''-max'')) parse)"
    using forPrefix_single [OF assms(1), of "name @ ''-max''" bd_max "setBounds parse exact name"
        "\<lambda>v. parse v" sharedPrefix ann noBounds]
      forPrefix_frame [of bd_max "setBounds parse exact name" sharedPrefix ann keys noBounds]
    by (auto simp: setBounds_def noBounds_def k split: option.splits bind_splits)
  moreover have "name \<in> set exact \<longleftrightarrow> ann (sharedPrefix @ name) \<noteq> None" using assms(3) by auto
  ultimately show ?thesis by (intro bounds.equality) (simp_all add: annotated_def Let_def)
qed

lemma exactFields_mem:
  "\<not> hasSuffix name ''-min'' \<Longrightarrow> \<not> hasSuffix name ''-max'' \<Longrightarrow>
     name \<in> set (exactFields keys) \<longleftrightarrow> sharedPrefix @ name \<in> set keys"
  by (auto simp: exactFields_def hasPrefix_iff image_iff)

lemma names_no_suffix [simp]:
  "\<not> hasSuffix (int_name q) ''-min''" "\<not> hasSuffix (int_name q) ''-max''"
  "\<not> hasSuffix (float_name r) ''-min''" "\<not> hasSuffix (float_name r) ''-max''"
  by (cases q; simp add: hasSuffix_def hasPrefix_def) (cases q; simp add: hasSuffix_def hasPrefix_def;
      cases r; simp add: hasSuffix_def hasPrefix_def)+

lemma ints_applyShared:
  "sp_ints (applyShared pf ex s v out) q = setBounds atoi ex (int_name q) s v (sp_ints out q)"
  by (cases q) (simp_all add: applyShared_def setBounds_def)

lemma floats_applyShared:
  "sp_floats (applyShared pf ex s v out) q = setBounds pf ex (float_name q) s v (sp_floats out q)"
  by (cases q) (simp_all add: applyShared_def setBounds_def)

lemma provider_frame [simp]:
  "sp_ints (applyVastAI pf s v out) = sp_ints out" "sp_floats (applyVastAI pf s v out) = sp_floats out"
  "sp_ints (applyRunPod s v out) = sp_ints out" "sp_floats (applyRunPod s v out) = sp_floats out"
  by (simp_all add: applyVastAI_def applyRunPod_def)

lemma spec_view:
  assumes "\<And>s v out. g (applyVastAI pf s v out) = g out" "\<And>s v out. g (applyRunPod s v out) = g out"
    and "\<And>s v out. g (applyShared pf (exactFields keys) s v out) = step s v (g out)"
  shows "g (newMachineSpecification pf keys ann) = forPrefix sharedPrefix step ann keys (g emptySpec)"
  using forPrefix_frame [of g "applyRunPod" runpodPrefix ann keys]
    forPrefix_frame [of g "applyVastAI pf" vastaiPrefix ann keys]
    forPrefix_view [of g "applyShared pf (exactFields keys)" step sharedPrefix ann keys emptySpec] assms
  by (simp add: newMachineSpecification_def)

text \<open>C11: The bounds asked for are those of the annotations, in whatever order the map is visited: each of
  the eleven shared quantities takes its exact value from its own annotation, its minimum and maximum
  from theirs only when there is no exact annotation at all, and a value that does not parse counts
  as absent but still disables the bounds when it is the exact one.\<close>

theorem spec_bounds_of_annotations:
  assumes "key_order keys ann"
  shows "sp_ints (newMachineSpecification pf keys ann) q = annotated atoi ann (int_name q) \<and>
    sp_floats (newMachineSpecification pf keys ann) r = annotated pf ann (float_name r)"
proof
  have d: "distinct keys" "set keys = dom ann" using assms by (simp_all add: key_order_def)
  show "sp_ints (newMachineSpecification pf keys ann) q = annotated atoi ann (int_name q)"
    using spec_view [of "\<lambda>out. sp_ints out q" pf keys "setBounds atoi (exactFields keys) (int_name q)"]
      setBounds_fold [OF d, of "int_name q" "exactFields keys" atoi] d(2)
    by (simp add: ints_applyShared exactFields_mem emptySpec_def)
  show "sp_floats (newMachineSpecification pf keys ann) r = annotated pf ann (float_name r)"
    using spec_view [of "\<lambda>out. sp_floats out r" pf keys "setBounds pf (exactFields keys) (float_name r)"]
      setBounds_fold [OF d, of "float_name r" "exactFields keys" pf] d(2)
    by (simp add: floats_applyShared exactFields_mem emptySpec_def)
qed

theorem spec_bounds_of_annotations_witness:
  "sp_ints (newMachineSpecification (\<lambda>_. None :: int option) [''anex.sh/vram-min'', ''anex.sh/vram'']
      [''anex.sh/vram'' \<mapsto> ''x'', ''anex.sh/vram-min'' \<mapsto> ''24000'']) QVRAM = noBounds"
proof -
  have "key_order [''anex.sh/vram-min'', ''anex.sh/vram'']
      [''anex.sh/vram'' \<mapsto> ''x'', ''anex.sh/vram-min'' \<mapsto> ''24000'']"
    by (auto simp: key_order_def)
  from spec_bounds_of_annotations [OF this, of "\<lambda>_. None :: int option" QVRAM QPrice]
  show ?thesis by (simp add: annotated_def sharedPrefix_def atoi_def isDigit_def noBounds_def)
qed

end
