(* ===== verification/Mounts.thy ===== *)
theory Mounts
  imports VirtualPod Paths
begin

text \<open>
  The files a pod mounts from ConfigMaps (\<open>internal/provider/anex/mounted.go\<close>): which ConfigMaps
  are read, and which file of the container gets which key. Paths are joined and cleaned as the
  package \<open>path\<close> does. Maps are visited in an order that is an argument.
\<close>

section \<open>Paths\<close>

definition trimLeftSlash :: "string \<Rightarrow> string" where
  "trimLeftSlash s = dropWhile (\<lambda>c. c = slash) s"

definition trimRightSlashes :: "string \<Rightarrow> string" where
  "trimRightSlashes s = rev (dropWhile (\<lambda>c. c = slash) (rev s))"

section \<open>The ConfigMaps of a pod\<close>

definition configMapName_ok :: "string \<Rightarrow> bool" where
  "configMapName_ok n \<longleftrightarrow> n \<noteq> [] \<and> n \<noteq> ''kube-root-ca.crt''"

text \<open>The names referenced by the volumes, each once.\<close>

definition referencedConfigMaps :: "pod_volume list \<Rightarrow> string list" where
  "referencedConfigMaps vols =
     remdups (filter configMapName_ok
       (concat (map (\<lambda>v. if hasPrefix (vo_name v) ''kube-api-access-'' then []
                         else (case vo_configMap v of None \<Rightarrow> [] | Some (n, _) \<Rightarrow> [n])
                              @ List.map_filter (\<lambda>x. x) (vo_projected v)) vols)))"

text \<open>The fetched contents: text data, overlaid by binary data; a ConfigMap that cannot be read is
  left out. The names are fetched in the order \<open>names\<close>.\<close>

type_synonym config_map_get = "string \<Rightarrow> string \<Rightarrow> ((string, string) fmap \<times> (string, string) fmap) result"

definition loadMountedConfigMaps :: "config_map_get \<Rightarrow> string list \<Rightarrow> pod \<Rightarrow> config_maps" where
  "loadMountedConfigMaps get names p =
     foldl (\<lambda>out n. case get (pod_namespace p) n of
                      Inl e \<Rightarrow> out
                    | Inr (data, bin) \<Rightarrow> fmupd n (data ++\<^sub>f bin) out) fmempty names"

section \<open>The mounted files\<close>

record volume_def =
  vd_cmName :: string
  vd_items :: "(string, string) fmap"

text \<open>The items of a volume, by relative path; items without path or key are skipped.\<close>

definition volumeItems :: "(string \<times> string) list \<Rightarrow> (string, string) fmap" where
  "volumeItems items =
     foldl (\<lambda>m (key, pth). if trimLeftSlash pth = [] \<or> key = [] then m
                           else fmupd (trimLeftSlash pth) key m) fmempty items"

definition volumeDefs :: "pod_volume list \<Rightarrow> (string, volume_def) fmap" where
  "volumeDefs vols =
     foldl (\<lambda>m v. case vo_configMap v of
                    None \<Rightarrow> m
                  | Some (n, items) \<Rightarrow>
                      if trimSpace n = [] then m
                      else fmupd (vo_name v) \<lparr>vd_cmName = trimSpace n, vd_items = volumeItems items\<rparr> m)
       fmempty vols"

text \<open>The files of one volume mount.\<close>

definition mountFiles ::
  "((string, string) fmap \<Rightarrow> string list) \<Rightarrow> config_maps \<Rightarrow> (string, volume_def) fmap \<Rightarrow>
   volume_mount \<Rightarrow> file_mapping list" where
  "mountFiles ord cms defs vm =
     (case fmlookup defs (vm_name vm) of
        None \<Rightarrow> []
      | Some d \<Rightarrow>
          (let dir = trimRightSlashes (vm_mountPath vm); rel = trimLeftSlash (vm_subPath vm);
               file = (\<lambda>target key. \<lparr>fm_targetPath = target, fm_configMap = vd_cmName d, fm_key = key\<rparr>)
           in if dir = [] then []
              else if vm_subPath vm \<noteq> [] then
                (if rel = [] then []
                 else
                   (let key = (if vd_items d \<noteq> fmempty
                               then (case fmlookup (vd_items d) rel of Some k \<Rightarrow> k | None \<Rightarrow> [])
                               else rel)
                    in if key = [] then [] else [file dir key]))
              else if vd_items d \<noteq> fmempty then
                map (\<lambda>r. file (pathJoin [dir, r]) (case fmlookup (vd_items d) r of Some k \<Rightarrow> k | None \<Rightarrow> []))
                  (ord (vd_items d))
              else
                (case fmlookup cms (vd_cmName d) of
                   None \<Rightarrow> []
                 | Some data \<Rightarrow> map (\<lambda>key. file (pathJoin [dir, key]) key) (ord data))))"

definition buildMountedConfigMaps ::
  "((string, string) fmap \<Rightarrow> string list) \<Rightarrow> pod \<Rightarrow> config_maps \<Rightarrow> file_mapping list option" where
  "buildMountedConfigMaps ord p cms =
     (case pod_containers p of
        [] \<Rightarrow> None
      | c # _ \<Rightarrow> Some (concat (map (mountFiles ord cms (volumeDefs (pod_volumes p))) (pn_mounts c))))"

section \<open>What the mapping promises\<close>

definition ord_ok :: "((string, string) fmap \<Rightarrow> string list) \<Rightarrow> bool" where
  "ord_ok ord \<longleftrightarrow> (\<forall>m. distinct (ord m) \<and> set (ord m) = fset (fmdom m))"

lemma mountFiles_volume:
  assumes "f \<in> set (mountFiles ord cms defs vm)"
  obtains d where "fmlookup defs (vm_name vm) = Some d" "fm_configMap f = vd_cmName d"
    "vd_items d \<noteq> fmempty \<or> vm_subPath vm \<noteq> [] \<or> (\<exists>data. fmlookup cms (vd_cmName d) = Some data \<and> fm_key f \<in> set (ord data))"
proof -
  obtain d where d: "fmlookup defs (vm_name vm) = Some d"
    using assms by (cases "fmlookup defs (vm_name vm)") (simp_all add: mountFiles_def)
  have "fm_configMap f = vd_cmName d"
    using assms d by (auto simp: mountFiles_def Let_def split: option.splits if_splits)
  moreover have "\<exists>data. fmlookup cms (vd_cmName d) = Some data \<and> fm_key f \<in> set (ord data)"
    if "vd_items d = fmempty" "vm_subPath vm = []"
    using assms d that by (auto simp: mountFiles_def Let_def split: option.splits if_splits)
  ultimately show thesis using that d by blast
qed

lemma volumeDefs_from:
  "fmlookup (volumeDefs vols) n = Some d \<Longrightarrow>
   \<exists>v \<in> set vols. vo_name v = n \<and> (\<exists>cm items. vo_configMap v = Some (cm, items) \<and>
     vd_cmName d = trimSpace cm \<and> trimSpace cm \<noteq> [] \<and> vd_items d = volumeItems items)"
proof (induction vols arbitrary: d rule: rev_induct)
  case Nil
  then show ?case by (simp add: volumeDefs_def)
next
  case (snoc v vs)
  have e: "volumeDefs (vs @ [v]) = (case vo_configMap v of None \<Rightarrow> volumeDefs vs
      | Some (n, items) \<Rightarrow> if trimSpace n = [] then volumeDefs vs
          else fmupd (vo_name v) \<lparr>vd_cmName = trimSpace n, vd_items = volumeItems items\<rparr> (volumeDefs vs))"
    by (simp add: volumeDefs_def split: option.split prod.split)
  show ?case
  proof (cases "vo_configMap v")
    case None
    with snoc e show ?thesis by auto
  next
    case (Some a)
    obtain n' items where a: "a = (n', items)" by fastforce
    show ?thesis
    proof (cases "trimSpace n' \<noteq> [] \<and> vo_name v = n")
      case True
      with snoc.prems e Some a show ?thesis by auto
    next
      case False
      with snoc e Some a show ?thesis by (auto split: if_splits)
    qed
  qed
qed


definition exMountPod :: pod where
  "exMountPod = \<lparr>pod_namespace = ''ns'', pod_name = ''job'', pod_uid = ''u'', pod_annotations = None,
     pod_restartPolicy = RestartAlways,
     pod_containers = [\<lparr>pn_name = ''main'', pn_image = ''busybox'', pn_command = [], pn_args = [], pn_workdir = [],
       pn_ports = [], pn_env = [], pn_mounts = [\<lparr>vm_name = ''cfg'', vm_mountPath = ''/etc/app/'', vm_subPath = []\<rparr>],
       pn_pullAlways = False\<rparr>],
     pod_volumes = [\<lparr>vo_name = ''cfg'', vo_configMap = Some (''settings'', []), vo_projected = []\<rparr>],
     pod_status = \<lparr>ps_phase = PhasePending, ps_conditions = [], ps_containers = []\<rparr>\<rparr>"


end
