(* ===== verification/Wireproxy.thy ===== *)
theory Wireproxy
  imports VirtualPod PortAlloc
begin

text \<open>
  The tunnel between the gateway and a machine: the configuration that \<open>cmd/gateway-init\<close>
  generates for every slot, the wireproxy configuration of a pod (\<open>virtualpod/proxy.go\<close>), and the
  requests to the container agent (\<open>virtualpod/runtime.go\<close>, \<open>virtualpod/promtail.go\<close>).

  Key generation, YAML and HTTP are outside: keys are an argument, the YAML decoder of the tunnel
  list is an argument, and the agent is a service. The formatting of floats is an argument.
\<close>

section \<open>The generated peers\<close>

record proxy_server =
  px_endpoint :: string
  px_serverKey :: string
  px_portUDP :: int
  px_portTCP :: int

record proxy_client =
  px_address :: string
  px_privateKey :: string
  px_publicKey :: string
  px_offset :: int
  px_assigned :: bool

record pod_proxy =
  pp_enabled :: bool
  pp_server :: proxy_server
  pp_client :: proxy_client

record full_config =
  fc_privateKey :: string
  fc_server :: proxy_server
  fc_peers :: "proxy_client list"

text \<open>The server's key pair is generated first, then one pair per peer; an error stops.\<close>

definition peerConfig :: "nat \<Rightarrow> string \<times> string \<Rightarrow> proxy_client" where
  "peerConfig i kp =
     \<lparr>px_address = ''10.254.254.'' @ itoa (11 + int i) @ ''/32'', px_privateKey = fst kp,
      px_publicKey = snd kp, px_offset = wrap64 (10000 + int i * 100), px_assigned = False\<rparr>"

fun generatePeers :: "(nat \<Rightarrow> (string \<times> string) result) \<Rightarrow> nat \<Rightarrow> nat \<Rightarrow> proxy_client list result" where
  "generatePeers keys i 0 = Inr []"
| "generatePeers keys i (Suc n) =
     (case keys (Suc i) of
        Inl e \<Rightarrow> Inl (ErrWrap ''generate peer private key'' e)
      | Inr kp \<Rightarrow>
          (case generatePeers keys (Suc i) n of
             Inl e \<Rightarrow> Inl e
           | Inr ps \<Rightarrow> Inr (peerConfig i kp # ps)))"

definition generateWireguardConfig ::
  "(nat \<Rightarrow> (string \<times> string) result) \<Rightarrow> string \<Rightarrow> int \<Rightarrow> int \<Rightarrow> nat \<Rightarrow> full_config result" where
  "generateWireguardConfig keys endpoint portUDP portTCP peerCount =
     (case keys 0 of
        Inl e \<Rightarrow> Inl (ErrWrap ''generate server private key'' e)
      | Inr kp \<Rightarrow>
          (case generatePeers keys 0 peerCount of
             Inl e \<Rightarrow> Inl e
           | Inr ps \<Rightarrow> Inr \<lparr>fc_privateKey = fst kp,
               fc_server = \<lparr>px_endpoint = endpoint, px_serverKey = snd kp, px_portUDP = portUDP, px_portTCP = portTCP\<rparr>,
               fc_peers = ps\<rparr>))"

text \<open>The address of the load balancer of the gateway's service.\<close>

record lb_service =
  lb_type :: string
  lb_ingress :: "(string \<times> string) list"

definition getLoadBalancerIP :: "lb_service result \<Rightarrow> string \<Rightarrow> string result" where
  "getLoadBalancerIP svc name =
     (case svc of
        Inl e \<Rightarrow> Inl (ErrWrap ''get service'' e)
      | Inr s \<Rightarrow>
          if lb_type s \<noteq> ''LoadBalancer'' then
            Inl (ErrNew (''service '' @ name @ '' is not of type LoadBalancer''))
          else
            (case lb_ingress s of
               [] \<Rightarrow> Inl (ErrNew (''no external IP/hostname found for service '' @ name))
             | (ip, host) # _ \<Rightarrow>
                 if ip \<noteq> [] then Inr ip
                 else if host \<noteq> [] then Inr host
                 else Inl (ErrNew (''no external IP/hostname found for service '' @ name))))"

section \<open>The wireproxy configuration of a pod\<close>

definition nl :: string where "nl = [CHR 0x0A]"

text \<open>The sorted ports of the first container; without a container the index panics.\<close>

definition wireproxyPorts :: "pod \<Rightarrow> int list option" where
  "wireproxyPorts p = (case pod_containers p of [] \<Rightarrow> None | c # _ \<Rightarrow> Some (sort (pn_ports c)))"

text \<open>The server tunnels of the template: the listening port and the local port behind it.\<close>

definition serverTunnels :: "int \<Rightarrow> int list \<Rightarrow> (int \<times> int) list" where
  "serverTunnels offset ports =
     map (\<lambda>i. (wrap64 (offset + int i + 1), ports ! i)) [0 ..< length ports]"

definition renderServerTunnel :: "int \<times> int \<Rightarrow> string" where
  "renderServerTunnel t =
     nl @ ''[TCPServerTunnel]'' @ nl @ ''ListenPort = '' @ itoa (fst t) @ nl
     @ ''Target     = 127.0.0.1:'' @ itoa (snd t) @ nl"

definition renderClientTunnel :: "string \<times> int \<Rightarrow> string" where
  "renderClientTunnel t =
     nl @ ''[TCPClientTunnel]'' @ nl @ ''BindAddress = 127.0.0.1:'' @ itoa (snd t) @ nl
     @ ''Target      = '' @ fst t @ nl"

definition renderWireproxy ::
  "pod_proxy \<Rightarrow> int list \<Rightarrow> (string \<times> int) list \<Rightarrow> string \<Rightarrow> string \<Rightarrow> string \<Rightarrow> string" where
  "renderWireproxy proxy ports tunnels wireproxyPort agentPublicPort agentLocalPort =
     nl @ ''[Interface]'' @ nl
     @ ''Address     = '' @ px_address (pp_client proxy) @ nl
     @ ''PrivateKey  = '' @ px_privateKey (pp_client proxy) @ nl
     @ ''ListenPort  = '' @ wireproxyPort @ nl
     @ ''DNS         = 10.254.254.1'' @ nl @ nl
     @ ''[Peer]'' @ nl
     @ ''PublicKey           = '' @ px_serverKey (pp_server proxy) @ nl
     @ ''Endpoint            = '' @ px_endpoint (pp_server proxy) @ nl
     @ ''AllowedIPs          = 0.0.0.0/0'' @ nl
     @ ''PersistentKeepalive = 25'' @ nl @ nl
     @ ''[HTTP]'' @ nl @ ''BindAddress = 127.0.0.1:3128'' @ nl @ nl
     @ ''[TCPServerTunnel]'' @ nl
     @ ''ListenPort = '' @ agentPublicPort @ nl
     @ ''Target = 127.0.0.1:'' @ agentLocalPort
     @ (if ports = [] then [] else nl @ concat (map renderServerTunnel (serverTunnels (px_offset (pp_client proxy)) ports)))
     @ concat (map renderClientTunnel tunnels) @ nl"

text \<open>The client tunnels come from the first mounted file at the fixed path; a decoding error is only
  logged, and what was decoded before it is used.\<close>

definition proxyTunnelsOf ::
  "(string \<Rightarrow> (string \<times> int) list \<times> go_error option) \<Rightarrow> 'f vpod \<Rightarrow> (string \<times> int) list" where
  "proxyTunnelsOf decode v =
     (case find (\<lambda>m. fm_targetPath m = ''/etc/virtualpod/proxy.conf'') (pd_volumeMounts v) of
        None \<Rightarrow> []
      | Some m \<Rightarrow>
          fst (decode (case fmlookup (pd_configMaps v) (fm_configMap m) of
                         None \<Rightarrow> []
                       | Some cm \<Rightarrow> (case fmlookup cm ''proxy.conf'' of None \<Rightarrow> [] | Some d \<Rightarrow> d))))"

definition generateWireproxyConfig ::
  "(string \<Rightarrow> (string \<times> int) list \<times> go_error option) \<Rightarrow> pod_proxy \<Rightarrow> string \<Rightarrow> string \<Rightarrow> string \<Rightarrow>
   'f vpod \<Rightarrow> string option" where
  "generateWireproxyConfig decode proxy wireproxyPort agentPublicPort agentLocalPort v =
     map_option (\<lambda>ports. renderWireproxy proxy ports (proxyTunnelsOf decode v) wireproxyPort agentPublicPort agentLocalPort)
       (wireproxyPorts (pd_pod v))"

section \<open>Requests to the agent\<close>

datatype agent_req =
    AHealthz string
  | ARestartWireproxy string
  | APushFile string string string
  | ARun string

record agent_resp =
  ar_status :: int
  ar_err :: "go_error option"

type_synonym agent_log = "(agent_req, agent_resp) log"
type_synonym agent_service = "(agent_req, agent_resp) service"

definition WaitForAgentReady :: "agent_service \<Rightarrow> 'f vpod \<Rightarrow> agent_log \<Rightarrow> go_error option \<times> agent_log" where
  "WaitForAgentReady srv v w =
     (case call srv (AHealthz (GetAgentAddress v @ ''/healthz'')) w of (r, w1) \<Rightarrow> (ar_err r, w1))"

definition RestartWireproxy :: "agent_service \<Rightarrow> 'f vpod \<Rightarrow> agent_log \<Rightarrow> go_error option \<times> agent_log" where
  "RestartWireproxy srv v w =
     (case call srv (ARestartWireproxy (GetAgentAddress v @ ''/restart_wireproxy'')) w of (r, w1) \<Rightarrow> (ar_err r, w1))"

text \<open>A failed push is only logged.\<close>

definition pushFile ::
  "agent_service \<Rightarrow> 'f vpod \<Rightarrow> string \<Rightarrow> string \<Rightarrow> agent_log \<Rightarrow> go_error option \<times> agent_log" where
  "pushFile srv v target data w =
     (case call srv (APushFile (GetAgentAddress v @ ''/push_file'') target data) w of (r, w1) \<Rightarrow> (None, w1))"

text \<open>Formatting of floats: \<open>%f\<close>, and the conversion to an integer.\<close>

record 'f float_fmt =
  ff_fmt :: "'f \<Rightarrow> string"
  ff_int :: "'f \<Rightarrow> int"

definition envLine :: "string \<times> string \<Rightarrow> string" where
  "envLine e =
     (if hasPrefix (fst e) ''AWS_WEB_IDENTITY_TOKEN_FILE'' \<or> hasPrefix (fst e) ''GW_TUNNEL_'' then []
      else fst e @ ''='' @ snd e @ nl)"

definition quoted :: "string \<Rightarrow> string \<Rightarrow> string" where
  "quoted name v = name @ ''=\"'' @ v @ ''\"'' @ nl"

definition environmentFile :: "'f float_fmt \<Rightarrow> (string \<times> string) list \<Rightarrow> 'f machine \<Rightarrow> string" where
  "environmentFile ff env m =
     concat (map envLine env)
     @ ''CLOUD_PROVIDER=vastai'' @ nl
     @ quoted ''MACHINE_ID'' (mc_machineID m)
     @ quoted ''GPU_NAME'' (ms_gpuName (mc_stats m))
     @ quoted ''GPU_VRAM'' (ff_fmt ff (ms_gpuVRAM (mc_stats m)))
     @ quoted ''GPU_TFLOPS'' (ff_fmt ff (ms_gpuTFLOPS (mc_stats m)))
     @ quoted ''GPU_MEMORY_BANDWIDTH'' (ff_fmt ff (ms_gpuMemoryBandwidth (mc_stats m)))
     @ quoted ''CPU_CORES'' (itoa (ff_int ff (ms_cpuCores (mc_stats m))))
     @ quoted ''RAM'' (ff_fmt ff (ms_cpuRam (mc_stats m)))
     @ quoted ''PRICE_PER_HR'' (ff_fmt ff (ms_pricePerHr (mc_stats m)))"

definition PushEnvVars ::
  "'f float_fmt \<Rightarrow> agent_service \<Rightarrow> 'f vpod \<Rightarrow> agent_log \<Rightarrow> (go_error option \<times> agent_log) option" where
  "PushEnvVars ff srv v w =
     (case pod_containers (pd_pod v) of
        [] \<Rightarrow> None
      | c # _ \<Rightarrow> Some (pushFile srv v ''/etc/virtualpod/environment''
                        (environmentFile ff (pn_env c) (pd_machine v)) w))"

fun pushMounts :: "agent_service \<Rightarrow> 'f vpod \<Rightarrow> file_mapping list \<Rightarrow> agent_log \<Rightarrow> go_error option \<times> agent_log" where
  "pushMounts srv v [] w = (None, w)"
| "pushMounts srv v (f # fs) w =
     (case fmlookup (pd_configMaps v) (fm_configMap f) of
        None \<Rightarrow> pushMounts srv v fs w
      | Some cm \<Rightarrow>
          (case fmlookup cm (fm_key f) of
             None \<Rightarrow> pushMounts srv v fs w
           | Some data \<Rightarrow>
               (case pushFile srv v (fm_targetPath f) data w of
                  (Some e, w1) \<Rightarrow> (Some e, w1)
                | (None, w1) \<Rightarrow> pushMounts srv v fs w1)))"

definition PushConfigMaps :: "agent_service \<Rightarrow> 'f vpod \<Rightarrow> agent_log \<Rightarrow> go_error option \<times> agent_log" where
  "PushConfigMaps srv v w =
     (if pd_volumeMounts v = [] \<or> pd_configMaps v = fmempty then (None, w)
      else pushMounts srv v (pd_volumeMounts v) w)"

definition PushWireproxyConfig ::
  "(string \<Rightarrow> (string \<times> int) list \<times> go_error option) \<Rightarrow> agent_service \<Rightarrow> pod_proxy \<Rightarrow> string \<Rightarrow> string \<Rightarrow> string \<Rightarrow>
   'f vpod \<Rightarrow> agent_log \<Rightarrow> (go_error option \<times> agent_log) option" where
  "PushWireproxyConfig decode srv proxy wireproxyPort agentPublicPort agentLocalPort v w =
     map_option (\<lambda>data. pushFile srv v ''/etc/virtualpod/wireproxy.tpl'' data w)
       (generateWireproxyConfig decode proxy wireproxyPort agentPublicPort agentLocalPort v)"

record loki_config =
  lk_url :: string
  lk_username :: string
  lk_password :: string

definition renderPromtail :: "loki_config \<Rightarrow> string \<Rightarrow> string \<Rightarrow> string" where
  "renderPromtail lk ns name =
     nl @ ''server:'' @ nl @ ''  http_listen_port: 0'' @ nl @ ''  grpc_listen_port: 0'' @ nl @ nl
     @ ''clients:'' @ nl @ ''  - url: '' @ lk_url lk @ nl @ ''    basic_auth:'' @ nl
     @ ''      username: '' @ lk_username lk @ nl @ ''      password: '' @ lk_password lk @ nl @ nl
     @ ''scrape_configs:'' @ nl @ ''  - job_name: experiment'' @ nl @ ''    static_configs:'' @ nl
     @ ''    - targets:'' @ nl @ ''        - localhost'' @ nl @ ''      labels:'' @ nl
     @ ''        job: vastai'' @ nl @ ''        vast_namespace: '' @ ns @ nl
     @ ''        vast_pod: '' @ name @ nl @ ''        __path__: /var/log/agent/main.log'' @ nl"

definition PushPromtailConfig ::
  "agent_service \<Rightarrow> loki_config \<Rightarrow> 'f vpod \<Rightarrow> agent_log \<Rightarrow> go_error option \<times> agent_log" where
  "PushPromtailConfig srv lk v w =
     pushFile srv v ''/etc/virtualpod/promtail.yaml''
       (renderPromtail lk (pod_namespace (pd_pod v)) (pod_name (pd_pod v))) w"

definition RunCommand :: "agent_service \<Rightarrow> 'f vpod \<Rightarrow> agent_log \<Rightarrow> go_error option \<times> agent_log" where
  "RunCommand srv v w =
     (case call srv (ARun (GetAgentAddress v @ ''/run'')) w of (r, w1) \<Rightarrow> (ar_err r, w1))"

end
