(* ===== verification/Provider.thy ===== *)
theory Provider
  imports MachineSpec Wireproxy Mounts "HOL-Library.Monad_Syntax"
begin

text \<open>
  The virtual kubelet provider (\<open>internal/provider/anex/provider.go\<close>, \<open>provisioning.go\<close> and the
  recovery part of \<open>node.go\<close>): gateway slots, the pods it keeps in memory, the handlers of the
  kubelet, the provisioning goroutine and the lifecycle goroutine.

  Pods are kept in a store and referred to by position, as the code refers to them by pointer: the
  map of the provider, the goroutines and the restored maps may refer to the same pod, and a
  goroutine keeps its pod when the map no longer has it. Cancel functions are context numbers; a
  nil one panics when called. Cloud and agent are services; the code's asynchronous steps are
  tasks that a run executes one at a time. An operation returns \<open>None\<close> when it panics, or does
  not return.
\<close>

section \<open>The cloud\<close>

datatype gctx = CtxBase | CtxId nat | CtxTimeout gctx

datatype 'f cloud_req =
    CProvision "'f machine_spec" pod pod_proxy bool
  | CGet string
  | CDestroy string
  | CRestart string bool
  | CBan string
  | CRegister string string
  | CPrune "string list"
  | CStatus string string
  | CCtxErr gctx
  | CWait int
  | CNow

record 'f cloud_resp =
  cr_err :: "go_error option"
  cr_id :: string
  cr_machine :: "'f machine option"
  cr_state :: container_state
  cr_time :: int

type_synonym 'f cloud_log = "('f cloud_req, 'f cloud_resp) log"

section \<open>State\<close>

record 'f cell =
  ce_pod :: "'f vpod"
  ce_provision :: "nat option"
  ce_lifecycle :: "nat option"

text \<open>Goroutines: provisioning (context, restart only), and lifecycle (context, time of the last
  status).\<close>

datatype task = TaskInit nat nat bool | TaskLifecycle nat nat int

record 'f prov =
  pv_server :: proxy_server
  pv_clients :: "proxy_client list"
  pv_store :: "'f cell list"
  pv_index :: "string \<rightharpoonup> nat"
  pv_restored :: "(string \<times> nat) list"
  pv_toRestart :: "(string \<times> nat) list"
  pv_nextCtx :: nat
  pv_cancelled :: "nat list"
  pv_tasks :: "task list"
  pv_notified :: "pod list"
  pv_log :: "'f cloud_log"
  pv_agent :: agent_log

section \<open>Retries\<close>

text \<open>
  \<open>backoff.Retry\<close> is a library function, three parameters of the environment below. What the provider
  relies on is its documented behaviour, the relation \<open>retry_run\<close>: the operation is run until it
  succeeds, its error is permanent, the context is done, or the retries are used up (\<open>None\<close>: no
  limit). It need not end. \<open>retry\<close> is a function that behaves so.
\<close>

datatype attempt = Succeeded | Again go_error | Permanent go_error

inductive retry_run ::
  "('s \<Rightarrow> (attempt \<times> 's) option) \<Rightarrow> ('s \<Rightarrow> go_error option \<times> 's) \<Rightarrow> nat option \<Rightarrow> 's \<Rightarrow>
   go_error option \<times> 's \<Rightarrow> bool"
  for op ctx where
  succeeded: "op s = Some (Succeeded, s1) \<Longrightarrow> retry_run op ctx left s (None, s1)"
| permanent: "op s = Some (Permanent e, s1) \<Longrightarrow> retry_run op ctx left s (Some e, s1)"
| ctx_done: "op s = Some (Again e, s1) \<Longrightarrow> ctx s1 = (Some ce, s2) \<Longrightarrow> retry_run op ctx left s (Some ce, s2)"
| used_up: "op s = Some (Again e, s1) \<Longrightarrow> ctx s1 = (None, s2) \<Longrightarrow> retry_run op ctx (Some 0) s (Some e, s2)"
| again: "op s = Some (Again e, s1) \<Longrightarrow> ctx s1 = (None, s2) \<Longrightarrow> left \<noteq> Some 0 \<Longrightarrow>
    retry_run op ctx (map_option (\<lambda>n. n - 1) left) s2 r \<Longrightarrow> retry_run op ctx left s r"

partial_function (option) retry ::
  "('s \<Rightarrow> (attempt \<times> 's) option) \<Rightarrow> ('s \<Rightarrow> go_error option \<times> 's) \<Rightarrow> nat option \<Rightarrow> 's \<Rightarrow>
   (go_error option \<times> 's) option" where
  "retry op ctx left s =
     (case op s of
        None \<Rightarrow> None
      | Some (Succeeded, s1) \<Rightarrow> Some (None, s1)
      | Some (Permanent e, s1) \<Rightarrow> Some (Some e, s1)
      | Some (Again e, s1) \<Rightarrow>
          (case ctx s1 of
             (Some ce, s2) \<Rightarrow> Some (Some ce, s2)
           | (None, s2) \<Rightarrow>
               if left = Some 0 then Some (Some e, s2)
               else retry op ctx (map_option (\<lambda>n. n - 1) left) s2))"

type_synonym 's retrier =
  "('s \<Rightarrow> (attempt \<times> 's) option) \<Rightarrow> ('s \<Rightarrow> go_error option \<times> 's) \<Rightarrow> nat option \<Rightarrow> 's \<Rightarrow>
   (go_error option \<times> 's) option"

section \<open>The environment\<close>

record 'f prov_env =
  pe_cloud :: "('f cloud_req, 'f cloud_resp) service"
  pe_agent :: agent_service
  pe_parseFloat :: "string \<Rightarrow> 'f option"
  pe_ff :: "'f float_fmt"
  pe_zero :: 'f
  pe_keys :: "(string, string) fmap \<Rightarrow> string list"
  pe_decode :: "string \<Rightarrow> (string \<times> int) list \<times> go_error option"
  pe_configMaps :: config_map_get
  pe_active :: string
  pe_maxRetries :: nat
  pe_token :: string
  pe_statusTimeout :: int
  pe_promtail :: "(string \<times> (string \<times> string) option) list option"
  pe_retrySelect :: "(string \<times> 'f prov) retrier"
  pe_retryWait :: "'f prov retrier"
  pe_retryInit :: "(bool \<times> 'f prov) retrier"

text \<open>The documented behaviour of the retrying library.\<close>

definition retries_ok :: "'s retrier \<Rightarrow> bool" where
  "retries_ok R \<longleftrightarrow> (\<forall>op ctx left s r. R op ctx left s = Some r \<longleftrightarrow> retry_run op ctx left s r)"

definition backoff_ok :: "'f prov_env \<Rightarrow> bool" where
  "backoff_ok env \<longleftrightarrow>
     retries_ok (pe_retrySelect env) \<and> retries_ok (pe_retryWait env) \<and> retries_ok (pe_retryInit env)"

text \<open>A computation of the provider: the result and new state, or \<open>None\<close>.\<close>

type_synonym ('a, 'f) prov_io = "'f prov \<Rightarrow> ('a \<times> 'f prov) option"

definition cloud :: "'f prov_env \<Rightarrow> 'f cloud_req \<Rightarrow> 'f prov \<Rightarrow> 'f cloud_resp \<times> 'f prov" where
  "cloud env q s = (pe_cloud env (pv_log s) q, s\<lparr>pv_log := pv_log s @ [(q, pe_cloud env (pv_log s) q)]\<rparr>)"

definition agentDo :: "(agent_log \<Rightarrow> 'a \<times> agent_log) \<Rightarrow> 'f prov \<Rightarrow> 'a \<times> 'f prov" where
  "agentDo f s = (case f (pv_agent s) of (r, w) \<Rightarrow> (r, s\<lparr>pv_agent := w\<rparr>))"

definition vpodAt :: "nat \<Rightarrow> 'f prov \<Rightarrow> 'f vpod" where
  "vpodAt i s = ce_pod (pv_store s ! i)"

definition setVpod :: "nat \<Rightarrow> 'f vpod \<Rightarrow> 'f prov \<Rightarrow> 'f prov" where
  "setVpod i v s = s\<lparr>pv_store := (pv_store s)[i := (pv_store s ! i)\<lparr>ce_pod := v\<rparr>]\<rparr>"

definition notifyPodUpdate :: "pod \<Rightarrow> 'f prov \<Rightarrow> 'f prov" where
  "notifyPodUpdate p s = s\<lparr>pv_notified := pv_notified s @ [p]\<rparr>"

definition cancelCtx :: "nat option \<Rightarrow> 'f prov \<Rightarrow> 'f prov option" where
  "cancelCtx c s = (case c of None \<Rightarrow> None | Some n \<Rightarrow> Some (s\<lparr>pv_cancelled := n # pv_cancelled s\<rparr>))"

definition newCtx :: "'f prov \<Rightarrow> nat \<times> 'f prov" where
  "newCtx s = (pv_nextCtx s, s\<lparr>pv_nextCtx := Suc (pv_nextCtx s)\<rparr>)"

text \<open>The error of a context: cancelled if the provider cancelled it, or what the outside says (a
  deadline, or a cancellation during the call).\<close>

definition ErrCanceled :: go_error where "ErrCanceled = ErrNew ''context canceled''"
definition ErrDeadline :: go_error where "ErrDeadline = ErrNew ''context deadline exceeded''"

fun ctxCancelled :: "gctx \<Rightarrow> 'f prov \<Rightarrow> bool" where
  "ctxCancelled CtxBase s = False"
| "ctxCancelled (CtxId n) s = (n \<in> set (pv_cancelled s))"
| "ctxCancelled (CtxTimeout c) s = ctxCancelled c s"

definition ctxErr :: "'f prov_env \<Rightarrow> gctx \<Rightarrow> 'f prov \<Rightarrow> go_error option \<times> 'f prov" where
  "ctxErr env c s =
     (if ctxCancelled c s then (Some ErrCanceled, s)
      else (case cloud env (CCtxErr c) s of (r, s1) \<Rightarrow> (cr_err r, s1)))"

section \<open>Keys and slots\<close>

definition buildKeyFromNames :: "string \<Rightarrow> string \<Rightarrow> string" where
  "buildKeyFromNames ns n = ns @ ''-'' @ n"

definition buildKey :: "pod \<Rightarrow> string" where
  "buildKey p = buildKeyFromNames (pod_namespace p) (pod_name p)"

definition setAssigned :: "nat \<Rightarrow> bool \<Rightarrow> proxy_client list \<Rightarrow> proxy_client list" where
  "setAssigned i b cs = cs[i := (cs ! i)\<lparr>px_assigned := b\<rparr>]"

definition reserveGatewaySlot :: "proxy_client list \<Rightarrow> nat result \<times> proxy_client list" where
  "reserveGatewaySlot cs =
     (case findIndex (\<lambda>c. \<not> px_assigned c) cs of
        None \<Rightarrow> (Inl (ErrNew ''no free Gateway slot available''), cs)
      | Some i \<Rightarrow> (Inr i, setAssigned i True cs))"

text \<open>An index outside the slice panics.\<close>

definition clientAt :: "int \<Rightarrow> 'f prov \<Rightarrow> proxy_client option" where
  "clientAt k s = (if 0 \<le> k \<and> nat k < length (pv_clients s) then Some (pv_clients s ! nat k) else None)"

definition assignSlot :: "int \<Rightarrow> bool \<Rightarrow> 'f prov \<Rightarrow> 'f prov option" where
  "assignSlot k b s =
     (case clientAt k s of
        None \<Rightarrow> None
      | Some _ \<Rightarrow> Some (s\<lparr>pv_clients := setAssigned (nat k) b (pv_clients s)\<rparr>))"

definition zeroProxy :: pod_proxy where
  "zeroProxy = \<lparr>pp_enabled = False,
     pp_server = \<lparr>px_endpoint = [], px_serverKey = [], px_portUDP = 0, px_portTCP = 0\<rparr>,
     pp_client = \<lparr>px_address = [], px_privateKey = [], px_publicKey = [], px_offset = 0, px_assigned = False\<rparr>\<rparr>"

definition getPodProxyConfigById :: "int \<Rightarrow> 'f prov \<Rightarrow> (pod_proxy \<times> go_error option) option" where
  "getPodProxyConfigById k s =
     map_option (\<lambda>c. if \<not> px_assigned c
                     then (zeroProxy, Some (ErrNew (''proxy slot id='' @ itoa k @ '' not assigned'')))
                     else (\<lparr>pp_enabled = True, pp_server = pv_server s, pp_client = c\<rparr>, None))
       (clientAt k s)"

section \<open>Handlers of the kubelet\<close>

definition CreatePod :: "'f prov_env \<Rightarrow> pod \<Rightarrow> (go_error option, 'f) prov_io" where
  "CreatePod env p s =
     (if length (pod_containers p) > 1 then
        Some (Some (ErrNew ''ANEX does not support multiple containers''), s)
      else
        (case reserveGatewaySlot (pv_clients s) of
           (Inl e, _) \<Rightarrow> Some (Some e, s)
         | (Inr slot, cs) \<Rightarrow>
             (case (pod_annotations p, pod_containers p) of
                (Some ann, c # _) \<Rightarrow>
                  (let p1 = p\<lparr>pod_annotations := Some (fmupd ''anex.sh/proxy-slot-id'' (itoa (int slot)) ann),
                              pod_status := newPodStatus\<rparr>;
                       s1 = notifyPodUpdate p1 (s\<lparr>pv_clients := cs\<rparr>);
                       cms = loadMountedConfigMaps (pe_configMaps env) (referencedConfigMaps (pod_volumes p1)) p1
                   in do {
                        mounts \<leftarrow> buildMountedConfigMaps (pe_keys env) p1 cms;
                        let v = NewVirtualPod (buildKey p1) p1 (emptyMachine (pe_zero env)) (int slot) cms mounts
                                  (pe_token env);
                        let (ctx, s2) = newCtx s1;
                        let i = length (pv_store s2);
                        Some (None, s2\<lparr>pv_store := pv_store s2 @ [\<lparr>ce_pod = v, ce_provision = Some ctx, ce_lifecycle = None\<rparr>],
                                       pv_index := (pv_index s2)(buildKey p1 \<mapsto> i),
                                       pv_tasks := pv_tasks s2 @ [TaskInit i ctx False]\<rparr>)
                      })
              | _ \<Rightarrow> None)))"

definition UpdatePod :: "pod \<Rightarrow> (go_error option, 'f) prov_io" where
  "UpdatePod p s =
     (case pv_index s (buildKey p) of
        None \<Rightarrow> None
      | Some i \<Rightarrow> Some (None, notifyPodUpdate p (setVpod i (UpdatePodRef p (vpodAt i s)) s)))"

definition ErrPodNotFound :: go_error where "ErrPodNotFound = ErrKube NotFound ''pod not found''"

text \<open>The branch of a pod whose provisioning completed: terminate, destroy the machine, free the slot.\<close>

definition deleteProvisioned :: "'f prov_env \<Rightarrow> string \<Rightarrow> nat \<Rightarrow> (go_error option, 'f) prov_io" where
  "deleteProvisioned env key i s =
     (if Finalized (vpodAt i s) then Some (None, s\<lparr>pv_index := (pv_index s)(key := None)\<rparr>)
      else do {
        s1 \<leftarrow> cancelCtx (ce_lifecycle (pv_store s ! i)) s;
        let (now, s2) = cloud env CNow s1;
        v1 \<leftarrow> TerminatePod (cr_time now) 0 (vpodAt i s2);
        let s3 = setVpod i v1 s2;
        let (r, s4) = cloud env (CDestroy (MachineRentID v1)) s3;
        case cr_err r of
          Some e \<Rightarrow> Some (Some e, s4)
        | None \<Rightarrow> do {
            s5 \<leftarrow> assignSlot (ProxySlot v1) False s4;
            let s6 = setVpod i (Finalize (vpodAt i s5)) s5;
            Some (None, s6\<lparr>pv_index := (pv_index s6)(key := None)\<rparr>)
          }
      })"

definition deleteUnprovisioned :: "'f prov_env \<Rightarrow> string \<Rightarrow> nat \<Rightarrow> (go_error option, 'f) prov_io" where
  "deleteUnprovisioned env key i s =
     do {
       s1 \<leftarrow> cancelCtx (ce_provision (pv_store s ! i)) s;
       s2 \<leftarrow> assignSlot (ProxySlot (vpodAt i s1)) False s1;
       let s3 = s2\<lparr>pv_index := (pv_index s2)(key := None)\<rparr>;
       let (now, s4) = cloud env CNow s3;
       v1 \<leftarrow> TerminatePod (cr_time now) 0 (vpodAt i s4);
       Some (None, setVpod i v1 s4)
     }"

definition DeletePod :: "'f prov_env \<Rightarrow> pod \<Rightarrow> (go_error option, 'f) prov_io" where
  "DeletePod env p s =
     (case pv_index s (buildKey p) of
        None \<Rightarrow> Some (Some ErrPodNotFound, s)
      | Some i \<Rightarrow> do {
          (e, s1) \<leftarrow> (if ProvisioningCompleted (vpodAt i s)
                      then deleteProvisioned env (buildKey p) i s
                      else deleteUnprovisioned env (buildKey p) i s);
          case e of
            Some er \<Rightarrow> Some (Some er, s1)
          | None \<Rightarrow> Some (None, notifyPodUpdate (p\<lparr>pod_status := vstatus (vpodAt i s1)\<rparr>) s1)
        })"

definition GetPod :: "string \<Rightarrow> string \<Rightarrow> 'f prov \<Rightarrow> pod result" where
  "GetPod ns n s =
     (case pv_index s (buildKeyFromNames ns n) of
        Some i \<Rightarrow> Inr (pd_pod (vpodAt i s))
      | None \<Rightarrow> Inl (ErrKube NotFound (''pod \"'' @ ns @ ''/'' @ n @ ''\" is not known to the provider'')))"

definition GetPodStatus :: "string \<Rightarrow> string \<Rightarrow> 'f prov \<Rightarrow> pod_status result" where
  "GetPodStatus ns n s =
     (case pv_index s (buildKeyFromNames ns n) of
        Some i \<Rightarrow> Inr (vstatus (vpodAt i s))
      | None \<Rightarrow> Inl (ErrKube NotFound (''pod \"'' @ ns @ ''/'' @ n @ ''\" is not known to the provider'')))"

text \<open>In the order in which the map is visited.\<close>

definition GetPods :: "string list \<Rightarrow> 'f prov \<Rightarrow> pod list" where
  "GetPods keys s = map (\<lambda>i. pd_pod (vpodAt i s)) (List.map_filter (pv_index s) keys)"

section \<open>Provisioning\<close>

definition ErrMachineNotFound :: go_error where "ErrMachineNotFound = ErrNew ''machine not found''"
definition ErrMachineNotRunning :: go_error where "ErrMachineNotRunning = ErrNew ''machine not running''"
definition ErrMachineFailed :: go_error where "ErrMachineFailed = ErrNew ''machine failed''"
definition ErrCandidateMachineFailed :: go_error where "ErrCandidateMachineFailed = ErrNew ''candidate failed''"

text \<open>Destroys the machine of a pod that has not been provisioned; an error is only logged.\<close>

definition machineCleanup :: "'f prov_env \<Rightarrow> nat \<Rightarrow> 'f prov \<Rightarrow> 'f prov" where
  "machineCleanup env i s =
     (let v = vpodAt i s
      in if \<not> ProvisioningCompleted v \<and> MachineRentID v \<noteq> [] then
           (case cloud env (CDestroy (MachineRentID v)) s of
              (r, s1) \<Rightarrow> setVpod i (RemoveMachine (pe_zero env) (vpodAt i s1)) s1)
         else s)"

text \<open>Selection is retried without limit; the machine identifier is threaded through the state.\<close>

definition selectOp :: "'f prov_env \<Rightarrow> pod \<Rightarrow> pod_proxy \<Rightarrow> string \<times> 'f prov \<Rightarrow> (attempt \<times> string \<times> 'f prov) option" where
  "selectOp env p proxy st =
     (let ann = (case pod_annotations p of None \<Rightarrow> fmempty | Some a \<Rightarrow> a);
          spec = newMachineSpecification (pe_parseFloat env) (pe_keys env ann) (fmlookup ann);
          (r, s1) = cloud env (CProvision spec p proxy (pe_promtail env \<noteq> None)) (snd st)
      in Some (case cr_err r of None \<Rightarrow> Succeeded | Some e \<Rightarrow> Again e, cr_id r, s1))"

definition selectAndProvisionMachine ::
  "'f prov_env \<Rightarrow> gctx \<Rightarrow> pod \<Rightarrow> pod_proxy \<Rightarrow> (string \<times> go_error option, 'f) prov_io" where
  "selectAndProvisionMachine env ctx p proxy s =
     map_option (\<lambda>(e, m, s1). ((m, e), s1))
       (pe_retrySelect env (selectOp env p proxy) (\<lambda>(m, t). case ctxErr env ctx t of (e, t1) \<Rightarrow> (e, m, t1)) None ([], s))"

definition waitOp :: "'f prov_env \<Rightarrow> gctx \<Rightarrow> nat \<Rightarrow> 'f prov \<Rightarrow> (attempt \<times> 'f prov) option" where
  "waitOp env ctx i s =
     (case ctxErr env ctx s of
        (Some e, s1) \<Rightarrow> Some (Again e, s1)
      | (None, s1) \<Rightarrow>
          (case cloud env (CGet (MachineRentID (vpodAt i s1))) s1 of
             (r, s2) \<Rightarrow>
               (case (cr_err r, cr_machine r) of
                  (Some e, _) \<Rightarrow> Some (Again e, s2)
                | (None, None) \<Rightarrow> Some (Again ErrMachineNotFound, s2)
                | (None, Some m) \<Rightarrow> do {
                    v \<leftarrow> SetMachine m (vpodAt i s2);
                    Some (case mc_state m of
                            MachineRunning \<Rightarrow> Succeeded
                          | MachineFailed \<Rightarrow> Permanent ErrMachineFailed
                          | _ \<Rightarrow> Again ErrMachineNotRunning, setVpod i v s2)
                  })))"

definition waitForMachineReady :: "'f prov_env \<Rightarrow> gctx \<Rightarrow> nat \<Rightarrow> (go_error option, 'f) prov_io" where
  "waitForMachineReady env ctx i s =
     pe_retryWait env (waitOp env (CtxTimeout ctx) i) (ctxErr env (CtxTimeout ctx)) None s"

definition supportsBans :: "'f prov_env \<Rightarrow> bool" where
  "supportsBans env \<longleftrightarrow> toLower (pe_active env) = ''vastai''"

definition isRunPod :: "'f prov_env \<Rightarrow> bool" where
  "isRunPod env \<longleftrightarrow> toLower (pe_active env) = ''runpod''"

text \<open>The machine part of an attempt: restart the machine, or clean up and get another one. The flag
  is whether the next attempt only restarts.\<close>

definition acquireMachine ::
  "'f prov_env \<Rightarrow> gctx \<Rightarrow> nat \<Rightarrow> bool \<Rightarrow> (bool \<times> go_error option, 'f) prov_io" where
  "acquireMachine env ctx i restartOnly s =
     (if restartOnly then
        (case cloud env CNow s of
           (now, s1) \<Rightarrow> do {
             let v = SetProvisioningCompleted (cr_time now) False (vpodAt i s1);
             pull \<leftarrow> ImagePullAlways v;
             let (r, s2) = cloud env (CRestart (MachineRentID v) pull) (setVpod i v s1);
             Some ((cr_err r = None, cr_err r), s2)
           })
      else do {
        let s1 = (if MachineRentID (vpodAt i s) \<noteq> [] then machineCleanup env i s else s);
        (proxy, perr) \<leftarrow> getPodProxyConfigById (ProxySlot (vpodAt i s1)) s1;
        ((m, e), s2) \<leftarrow> selectAndProvisionMachine env ctx (pd_pod (vpodAt i s1)) proxy s1;
        let port = wrap64 (10000 + ProxySlot (vpodAt i s2) * 100);
        let s3 = setVpod i (SetAgentPort port (vpodAt i s2)) s2;
        case e of
          Some er \<Rightarrow> Some ((False, Some er), s3)
        | None \<Rightarrow> do {
            v \<leftarrow> SetMachine ((emptyMachine (pe_zero env))\<lparr>mc_id := m\<rparr>) (vpodAt i s3);
            let s4 = setVpod i v s3;
            let s5 = (if isRunPod env
                      then snd (cloud env (CRegister m (''http://10.254.254.'' @ itoa (wrap64 (11 + ProxySlot v))
                                                         @ '':'' @ itoa port)) s4)
                      else s4);
            Some ((False, None), s5)
          }
      })"

text \<open>The ports of the wireproxy configuration depend on the cloud.\<close>

definition wireproxyPortsFor :: "'f prov_env \<Rightarrow> 'f vpod \<Rightarrow> pod_proxy \<Rightarrow> string \<times> string \<times> string" where
  "wireproxyPortsFor env v proxy =
     (if toLower (pe_active env) = ''mock'' then
        (let n = atoiValue (pd_id v)
         in (itoa (wrap64 (51900 + n)), itoa (wrap64 (31000 + n)), itoa (wrap64 (32000 + n))))
      else if isRunPod env then (''51820'', itoa (px_offset (pp_client proxy)), ''8080'')
      else (''${VAST_UDP_PORT_72000}'', ''9000'', ''8080''))"

text \<open>The steps that bring the runtime up, each stopping at the first error.\<close>

definition andThen :: "(go_error option, 'f) prov_io \<Rightarrow> (go_error option, 'f) prov_io \<Rightarrow> (go_error option, 'f) prov_io" where
  "andThen f g s = (case f s of None \<Rightarrow> None | Some (Some e, s1) \<Rightarrow> Some (Some e, s1) | Some (None, s1) \<Rightarrow> g s1)"

definition runtimeStep :: "(agent_log \<Rightarrow> (go_error option \<times> agent_log) option) \<Rightarrow> (go_error option, 'f) prov_io" where
  "runtimeStep f s =
     (case f (pv_agent s) of
        None \<Rightarrow> None
      | Some (e, w) \<Rightarrow> Some (map_option (\<lambda>_. ErrMachineFailed) e, s\<lparr>pv_agent := w\<rparr>))"

definition pushPromtail :: "'f prov_env \<Rightarrow> nat \<Rightarrow> (go_error option, 'f) prov_io" where
  "pushPromtail env i s =
     (case pe_promtail env of
        None \<Rightarrow> Some (None, s)
      | Some ((url, Some (user, pw)) # _) \<Rightarrow>
          runtimeStep (\<lambda>w. Some (PushPromtailConfig (pe_agent env)
            \<lparr>lk_url = url, lk_username = user, lk_password = pw\<rparr> (vpodAt i s) w)) s
      | _ \<Rightarrow> None)"

definition startRuntime :: "'f prov_env \<Rightarrow> nat \<Rightarrow> (go_error option, 'f) prov_io" where
  "startRuntime env i s =
     (let v = vpodAt i s; srv = pe_agent env
      in andThen (runtimeStep (\<lambda>w. Some (WaitForAgentReady srv v w)))
        (andThen (runtimeStep (PushEnvVars (pe_ff env) srv v))
        (andThen (runtimeStep (\<lambda>w. Some (PushConfigMaps srv v w)))
        (andThen (\<lambda>t. case getPodProxyConfigById (ProxySlot v) t of
                        None \<Rightarrow> None
                      | Some (proxy, perr) \<Rightarrow>
                          (case wireproxyPortsFor env v proxy of (wp, pub, loc) \<Rightarrow>
                             runtimeStep (PushWireproxyConfig (pe_decode env) srv proxy wp pub loc v) t))
        (andThen (pushPromtail env i)
                 (runtimeStep (\<lambda>w. Some (RunCommand srv v w))))))) s)"

text \<open>One attempt of the provisioning loop.\<close>

definition initOp :: "'f prov_env \<Rightarrow> gctx \<Rightarrow> nat \<Rightarrow> bool \<times> 'f prov \<Rightarrow> (attempt \<times> bool \<times> 'f prov) option" where
  "initOp env ctx i st =
     do {
       ((again, e), s1) \<leftarrow> acquireMachine env ctx i (fst st) (snd st);
       case e of
         Some er \<Rightarrow> Some (Again er, again, s1)
       | None \<Rightarrow> do {
           (we, s2) \<leftarrow> waitForMachineReady env ctx i s1;
           case we of
             Some er \<Rightarrow>
               (if er = ErrMachineFailed \<or> er = ErrDeadline then
                  Some (Again ErrCandidateMachineFailed, False,
                    machineCleanup env i
                      (if supportsBans env then snd (cloud env (CBan (MachineStableID (vpodAt i s2))) s2) else s2))
                else Some (Again ErrCandidateMachineFailed, again, machineCleanup env i s2))
           | None \<Rightarrow> do {
               (re, s3) \<leftarrow> startRuntime env i s2;
               case re of
                 Some er \<Rightarrow> Some (Again er, again, s3)
               | None \<Rightarrow>
                   (let (c, s4) = newCtx s3; (now, s5) = cloud env CNow s4
                    in Some (Succeeded, again,
                         s5\<lparr>pv_store := (pv_store s5)[i := (pv_store s5 ! i)\<lparr>ce_lifecycle := Some c\<rparr>],
                            pv_tasks := pv_tasks s5 @ [TaskLifecycle i c (cr_time now)]\<rparr>))
             }
         }
     }"

text \<open>
  The goroutine. The deferred calls are the cancel function as it was at the start, and the cleanup,
  which runs before it. \<open>ctx\<close> is the number of the pod's own context.
\<close>

definition initializeVirtualPod :: "'f prov_env \<Rightarrow> nat \<Rightarrow> nat \<Rightarrow> bool \<Rightarrow> (go_error option, 'f) prov_io" where
  "initializeVirtualPod env i ctx restartOnly s =
     do {
       let cancel = ce_provision (pv_store s ! i);
       (e, again, s1) \<leftarrow> pe_retryInit env (initOp env (CtxId ctx) i)
         (\<lambda>(b, t). case ctxErr env (CtxId ctx) t of (x, t1) \<Rightarrow> (x, b, t1))
         (Some (pe_maxRetries env)) (restartOnly, s);
       let (now, s2) = cloud env CNow s1;
       let s3 = (if e = None then setVpod i (SetProvisioningCompleted (cr_time now) True (vpodAt i s2)) s2 else s2);
       s4 \<leftarrow> cancelCtx cancel (machineCleanup env i s3);
       Some (e, s4)
     }"

section \<open>The lifecycle loop\<close>

text \<open>The update of a status request, and the pod after it: a lost agent fails or restarts the pod.\<close>

definition statusStep ::
  "'f prov_env \<Rightarrow> nat \<Rightarrow> int \<Rightarrow> (status_update \<times> int, 'f) prov_io" where
  "statusStep env i seen s =
     do {
       let (now, s1) = cloud env CNow s;
       let v = vpodAt i s1;
       let (r, s2) = cloud env (CStatus (GetAgentAddress v @ ''/status'') (authHeaders v)) s1;
       (u, v1) \<leftarrow> PodStatusUpdate (cr_time now)
         (case cr_err r of Some e \<Rightarrow> Inl e | None \<Rightarrow> Inr (cr_state r)) v;
       let s3 = setVpod i v1 s2;
       let (after, s4) = cloud env CNow s3;
       case u of
         Inr up \<Rightarrow> Some ((up, cr_time after), s4)
       | Inl e \<Rightarrow>
           if cr_time after - seen > pe_statusTimeout env then
             (let restarts = (pod_restartPolicy (pd_pod v1) \<noteq> RestartNever);
                  up = \<lparr>su_changed = True, su_terminated = \<not> restarts, su_succeeded = False,
                        su_restarts = restarts, su_backoff = 0\<rparr>
              in if restarts then Some ((up, seen), s4)
                 else do {
                   v2 \<leftarrow> FailContainer (cr_time after) ''Pod stopped responding'' v1;
                   Some ((up, seen), setVpod i v2 s4)
                 })
           else Some ((noUpdate, seen), s4)
     }"

text \<open>The wait ends with an error when the context is done before the timer. The lock of the pod is held
  meanwhile, so no handler that takes it can cancel in between.\<close>

definition restartBackoff :: "'f prov_env \<Rightarrow> gctx \<Rightarrow> int \<Rightarrow> 'f prov \<Rightarrow> go_error option \<times> 'f prov" where
  "restartBackoff env ctx d s =
     (case cloud env (CWait d) s of
        (_, s1) \<Rightarrow> (if ctxCancelled ctx s1 then Some ErrCanceled else None, s1))"

text \<open>A restart: wait for the back-off, then a new provisioning goroutine takes over.\<close>

definition restartStep :: "'f prov_env \<Rightarrow> nat \<Rightarrow> nat \<Rightarrow> int \<Rightarrow> (unit, 'f) prov_io" where
  "restartStep env i ctx backoff s =
     do {
       (gaveUp, s1) \<leftarrow>
         (if backoff > 0 then
            (case restartBackoff env (CtxId ctx) backoff s of
               (Some e, s') \<Rightarrow> Some (True, s')
             | (None, s') \<Rightarrow> do {
                 v \<leftarrow> CrashLoopBackOffDone (vpodAt i s');
                 Some (False, notifyPodUpdate (pd_pod v) (setVpod i v s'))
               })
          else Some (False, s));
       if gaveUp then Some ((), s1)
       else do {
         let (c, s2) = newCtx s1;
         let s3 = s2\<lparr>pv_store := (pv_store s2)[i := (pv_store s2 ! i)\<lparr>ce_provision := Some c\<rparr>]\<rparr>;
         s4 \<leftarrow> cancelCtx (ce_lifecycle (pv_store s3 ! i)) s3;
         Some ((), s4\<lparr>pv_tasks := pv_tasks s4 @ [TaskInit i c True]\<rparr>)
       }
     }"

text \<open>The end of a pod: the lifecycle is cancelled through the provider's map, the slot is freed, the
  machine destroyed.\<close>

definition terminateStep :: "'f prov_env \<Rightarrow> nat \<Rightarrow> (unit, 'f) prov_io" where
  "terminateStep env i s =
     do {
       j \<leftarrow> pv_index s (buildKey (pd_pod (vpodAt i s)));
       s1 \<leftarrow> cancelCtx (ce_lifecycle (pv_store s ! j)) s;
       s2 \<leftarrow> assignSlot (ProxySlot (vpodAt i s1)) False s1;
       let s3 = setVpod i (Finalize (vpodAt i s2)) s2;
       let (r, s4) = cloud env (CDestroy (MachineRentID (vpodAt i s3))) s3;
       Some ((), s4)
     }"

text \<open>One tick of the loop; the result is the time of the last status.\<close>

definition reconcileTick :: "'f prov_env \<Rightarrow> nat \<Rightarrow> nat \<Rightarrow> int \<Rightarrow> (int, 'f) prov_io" where
  "reconcileTick env i ctx seen s =
     (case ctxErr env (CtxId ctx) s of
        (Some e, s0) \<Rightarrow> Some (seen, s0)
      | (None, s0) \<Rightarrow> do {
          ((up, seen'), s1) \<leftarrow> statusStep env i seen s0;
          let s2 = (if su_changed up then notifyPodUpdate (pd_pod (vpodAt i s1)) s1 else s1);
          if su_restarts up then map_option (\<lambda>(_, t). (seen', t)) (restartStep env i ctx (su_backoff up) s2)
          else if su_terminated up then map_option (\<lambda>(_, t). (seen', t)) (terminateStep env i s2)
          else Some (seen', s2)
        })"

section \<open>Start-up and garbage collection\<close>

text \<open>Recovery of one pod of the node after a restart of the kubelet. \<open>machines\<close> is the mapping the
  cloud gave; the slot index panics outside the configured slots.\<close>

definition recoverPod :: "'f prov_env \<Rightarrow> (string \<rightharpoonup> 'f machine) \<Rightarrow> pod \<Rightarrow> 'f prov \<Rightarrow> 'f prov option" where
  "recoverPod env machines p s =
     (if ps_phase (pod_status p) \<noteq> PhaseRunning then Some s
      else
        (let key = buildKey p;
             slot = (case annLookup (pod_annotations p) ''anex.sh/proxy-slot-id'' of
                       None \<Rightarrow> 0 | Some t \<Rightarrow> atoiValue t)
         in do {
              client \<leftarrow> clientAt slot s;
              if px_assigned client then Some s
              else do {
                s1 \<leftarrow> assignSlot slot True s;
                case machines (pod_uid p) of
                  Some m \<Rightarrow>
                    (let port = wrap64 (10000 + slot * 100);
                         v = SetAgentPort port (NewVirtualPod key p m slot fmempty [] (pe_token env));
                         s2 = (if isRunPod env
                               then snd (cloud env (CRegister (mc_id m) (''http://10.254.254.'' @ itoa (wrap64 (11 + slot))
                                                                          @ '':'' @ itoa port)) s1)
                               else s1);
                         (now, s3) = cloud env CNow s2;
                         i = length (pv_store s3)
                     in Some (s3\<lparr>pv_store := pv_store s3 @ [\<lparr>ce_pod = SetProvisioningCompleted (cr_time now) True v,
                                                             ce_provision = None, ce_lifecycle = None\<rparr>],
                                 pv_restored := pv_restored s3 @ [(key, i)]\<rparr>))
                | None \<Rightarrow>
                    if pod_restartPolicy p \<noteq> RestartNever then
                      (let v = NewVirtualPod key p (emptyMachine (pe_zero env)) slot fmempty [] (pe_token env);
                           i = length (pv_store s1)
                       in Some (s1\<lparr>pv_store := pv_store s1 @ [\<lparr>ce_pod = v, ce_provision = None, ce_lifecycle = None\<rparr>],
                                   pv_toRestart := pv_toRestart s1 @ [(key, i)]\<rparr>))
                    else if ps_containers (pod_status p) = [] then None
                    else
                      (let (now, s2) = cloud env CNow s1;
                           st = \<lparr>st_waiting = None, st_running = None,
                                 st_terminated = Some \<lparr>tm_exitCode = 1, tm_reason = ''Failed'', tm_message = [],
                                   tm_startedAt = 0, tm_finishedAt = cr_time now\<rparr>\<rparr>;
                           ps = (upd0 (\<lambda>c. c\<lparr>cs_state := st\<rparr>) (pod_status p))\<lparr>ps_phase := PhaseFailed\<rparr>
                       in Some (notifyPodUpdate (p\<lparr>pod_status := ps\<rparr>) s2))
              }
            }))"

fun recoverPods :: "'f prov_env \<Rightarrow> (string \<rightharpoonup> 'f machine) \<Rightarrow> pod list \<Rightarrow> 'f prov \<Rightarrow> 'f prov option" where
  "recoverPods env machines [] s = Some s"
| "recoverPods env machines (p # ps) s =
     (case recoverPod env machines p s of None \<Rightarrow> None | Some s1 \<Rightarrow> recoverPods env machines ps s1)"

text \<open>The part of \<open>ConfigureNode\<close> that starts the goroutines of the recovered pods.\<close>

definition startRestored :: "'f prov_env \<Rightarrow> string \<times> nat \<Rightarrow> 'f prov \<Rightarrow> 'f prov" where
  "startRestored env ki s =
     (case newCtx s of
        (c, s1) \<Rightarrow>
          (case cloud env CNow s1 of
             (now, s2) \<Rightarrow>
               s2\<lparr>pv_store := (pv_store s2)[snd ki := (pv_store s2 ! snd ki)\<lparr>ce_lifecycle := Some c\<rparr>],
                  pv_index := (pv_index s2)(fst ki \<mapsto> snd ki),
                  pv_tasks := pv_tasks s2 @ [TaskLifecycle (snd ki) c (cr_time now)]\<rparr>))"

definition startToRestart :: "string \<times> nat \<Rightarrow> 'f prov \<Rightarrow> 'f prov" where
  "startToRestart ki s =
     (case newCtx s of
        (c, s1) \<Rightarrow>
          s1\<lparr>pv_store := (pv_store s1)[snd ki := (pv_store s1 ! snd ki)\<lparr>ce_provision := Some c\<rparr>],
             pv_index := (pv_index s1)(fst ki \<mapsto> snd ki),
             pv_tasks := pv_tasks s1 @ [TaskInit (snd ki) c False]\<rparr>)"

definition startRecovered :: "'f prov_env \<Rightarrow> 'f prov \<Rightarrow> 'f prov" where
  "startRecovered env s =
     foldl (\<lambda>t ki. startToRestart ki t)
       ((foldl (\<lambda>t ki. startRestored env ki t) s (pv_restored s))\<lparr>pv_restored := []\<rparr>)
       (pv_toRestart s)"

text \<open>Garbage collection with the pods the API server lists for the node.\<close>

definition machineGarbageCollector :: "'f prov_env \<Rightarrow> pod list result \<Rightarrow> 'f prov \<Rightarrow> 'f prov" where
  "machineGarbageCollector env pods s =
     (case pods of
        Inl e \<Rightarrow> s
      | Inr ps \<Rightarrow> snd (cloud env (CPrune (map pod_uid ps)) s))"

section \<open>Runs of the provider\<close>

text \<open>
  A run is a sequence of handler calls and of steps of goroutines, each executed to its end: a
  provisioning goroutine runs through, a lifecycle goroutine runs one tick. A goroutine whose
  context is cancelled ends at its next step. A step with the number of no task does nothing.
\<close>

datatype prov_event =
    EvCreate pod
  | EvUpdate pod
  | EvDelete pod
  | EvTask nat
  | EvCollect "pod list result"

definition runTask :: "'f prov_env \<Rightarrow> task \<Rightarrow> 'f prov \<Rightarrow> 'f prov option" where
  "runTask env t s =
     (case t of
        TaskInit i ctx ro \<Rightarrow> map_option snd (initializeVirtualPod env i ctx ro s)
      | TaskLifecycle i ctx seen \<Rightarrow>
          if ctxCancelled (CtxId ctx) s then Some s
          else map_option (\<lambda>(l, s1). s1\<lparr>pv_tasks := pv_tasks s1 @ [TaskLifecycle i ctx l]\<rparr>)
                 (reconcileTick env i ctx seen s))"

definition prov_step :: "'f prov_env \<Rightarrow> prov_event \<Rightarrow> 'f prov \<Rightarrow> 'f prov option" where
  "prov_step env ev s =
     (case ev of
        EvCreate p \<Rightarrow> map_option snd (CreatePod env p s)
      | EvUpdate p \<Rightarrow> map_option snd (UpdatePod p s)
      | EvDelete p \<Rightarrow> map_option snd (DeletePod env p s)
      | EvTask k \<Rightarrow>
          if k < length (pv_tasks s)
          then runTask env (pv_tasks s ! k) (s\<lparr>pv_tasks := take k (pv_tasks s) @ drop (Suc k) (pv_tasks s)\<rparr>)
          else Some s
      | EvCollect ps \<Rightarrow> Some (machineGarbageCollector env ps s))"

fun prov_run :: "'f prov_env \<Rightarrow> prov_event list \<Rightarrow> 'f prov \<Rightarrow> 'f prov option" where
  "prov_run env [] s = Some s"
| "prov_run env (e # es) s = (case prov_step env e s of None \<Rightarrow> None | Some s1 \<Rightarrow> prov_run env es s1)"

end
