(* ===== verification/ProviderFacts.thy ===== *)
theory ProviderFacts
  imports Provider VirtualPodFacts
begin

text \<open>
  Lemmas about the provider: what provisioning may touch, that a cancelled provisioning goroutine
  never brings a pod up, the slot invariant and its preservation by every step of a run.
\<close>

section \<open>Retrying\<close>

text \<open>Every operation and every context check that does not end with success moves along \<open>J\<close>; then a
  failed loop moves along \<open>J\<close>, and a successful one moves along \<open>J\<close> to the state from which the
  last operation succeeded.\<close>

lemma retry_rel:
  assumes run: "retry_run op ctx left s (e, s')"
    and refl: "\<And>s. J s s" and trans: "\<And>s t u. J s t \<Longrightarrow> J t u \<Longrightarrow> J s u"
    and op: "\<And>s a s1. op s = Some (a, s1) \<Longrightarrow> a \<noteq> Succeeded \<Longrightarrow> J s s1"
    and ctx: "\<And>s e s1. ctx s = (e, s1) \<Longrightarrow> J s s1"
  shows "(e \<noteq> None \<and> J s s') \<or> (e = None \<and> (\<exists>s0. J s s0 \<and> op s0 = Some (Succeeded, s')))"
  using run
proof (induction left s "(e, s')")
  case (succeeded s left)
  then show ?case using refl by blast
next
  case (permanent s er left)
  then show ?case using op by blast
next
  case (ctx_done s er s1 ce left)
  then show ?case using op ctx trans by blast
next
  case (used_up s er s1)
  then show ?case using op ctx trans by blast
next
  case (again s er s1 s2 left)
  then have "J s s2" using op ctx trans by blast
  with again(5) trans show ?case by blast
qed

text \<open>The executable \<open>retry\<close> behaves as documented.\<close>

lemma retry_sound: "retry op ctx left s = Some y \<Longrightarrow> retry_run op ctx left s y"
proof (induction rule: retry.raw_induct [rotated, consumes 1, case_names step])
  case (step rec op ctx left s y)
  note IH = step(1) and body = step(2)
  obtain a s1 where o: "op s = Some (a, s1)" using body by (cases "op s") auto
  show ?case
  proof (cases a)
    case (Again er)
    obtain ce s2 where c: "ctx s1 = (ce, s2)" by fastforce
    show ?thesis
      using o Again c body IH [of op ctx "map_option (\<lambda>n. n - 1) left" s2 y]
      by (cases ce; cases "left = Some 0") (auto intro: retry_run.intros)
  qed (use o body in \<open>auto intro: retry_run.intros\<close>)
qed

lemma retry_complete: "retry_run op ctx left s y \<Longrightarrow> retry op ctx left s = Some y"
  by (induction rule: retry_run.induct) (simp_all add: retry.simps)

lemma retry_ok [simp]: "retries_ok retry"
  using retry_sound retry_complete by (auto simp: retries_ok_def)

lemma backoff_runs:
  assumes "backoff_ok env"
  shows "pe_retrySelect env op1 c1 l x1 = Some r1 \<longleftrightarrow> retry_run op1 c1 l x1 r1"
    and "pe_retryWait env op2 c2 l x2 = Some r2 \<longleftrightarrow> retry_run op2 c2 l x2 r2"
    and "pe_retryInit env op3 c3 l x3 = Some r3 \<longleftrightarrow> retry_run op3 c3 l x3 r3"
  using assms unfolding backoff_ok_def retries_ok_def by blast+

section \<open>Frames\<close>

lemma cloud_simps [simp]:
  "pv_clients (snd (cloud env q s)) = pv_clients s" "pv_index (snd (cloud env q s)) = pv_index s"
  "pv_store (snd (cloud env q s)) = pv_store s" "pv_cancelled (snd (cloud env q s)) = pv_cancelled s"
  "pv_tasks (snd (cloud env q s)) = pv_tasks s" "pv_nextCtx (snd (cloud env q s)) = pv_nextCtx s"
  "vpodAt i (snd (cloud env q s)) = vpodAt i s" "pv_agent (snd (cloud env q s)) = pv_agent s"
  by (simp_all add: cloud_def vpodAt_def)

lemma cloud_frame [frame_simps]:
  "cloud env q s = (r, s1) \<Longrightarrow> pv_clients s1 = pv_clients s \<and> pv_index s1 = pv_index s \<and>
     pv_store s1 = pv_store s \<and> pv_cancelled s1 = pv_cancelled s \<and> pv_tasks s1 = pv_tasks s \<and>
     pv_nextCtx s1 = pv_nextCtx s"
  by (auto simp: cloud_def)

lemma setVpod_simps [simp]:
  "pv_clients (setVpod i v s) = pv_clients s" "pv_index (setVpod i v s) = pv_index s"
  "pv_cancelled (setVpod i v s) = pv_cancelled s" "pv_tasks (setVpod i v s) = pv_tasks s"
  "pv_nextCtx (setVpod i v s) = pv_nextCtx s" "length (pv_store (setVpod i v s)) = length (pv_store s)"
  by (simp_all add: setVpod_def)

lemma setVpod_at [simp]: "i < length (pv_store s) \<Longrightarrow> vpodAt i (setVpod i v s) = v"
  by (simp add: setVpod_def vpodAt_def)

lemma setVpod_other [simp]: "j \<noteq> i \<Longrightarrow> pv_store (setVpod i v s) ! j = pv_store s ! j"
  by (simp add: setVpod_def)

lemma setVpod_ctx [simp]:
  "ce_lifecycle (pv_store (setVpod i v s) ! j) = ce_lifecycle (pv_store s ! j)"
  "ce_provision (pv_store (setVpod i v s) ! j) = ce_provision (pv_store s ! j)"
proof -
  have "i < length (pv_store s) \<or> (pv_store s)[i := x] = pv_store s" for x
    by (metis list_update_beyond not_less)
  then show "ce_lifecycle (pv_store (setVpod i v s) ! j) = ce_lifecycle (pv_store s ! j)"
    "ce_provision (pv_store (setVpod i v s) ! j) = ce_provision (pv_store s ! j)"
    by (cases "i = j"; force simp: setVpod_def)+
qed

text \<open>What identifies a pod in the provider.\<close>

definition vsame :: "'f vpod \<Rightarrow> 'f vpod \<Rightarrow> bool" where
  "vsame v v' \<longleftrightarrow> pd_id v' = pd_id v \<and> pd_slot v' = pd_slot v \<and> pd_finalized v' = pd_finalized v \<and>
     buildKey (pd_pod v') = buildKey (pd_pod v)"

lemma vsame_refl [simp]: "vsame v v"
  by (simp add: vsame_def)

lemma vsame_trans: "vsame a b \<Longrightarrow> vsame b c \<Longrightarrow> vsame a c"
  by (simp add: vsame_def)

lemma vsame_ops [simp]:
  "vsame v (SetAgentPort p v)" "vsame v (RemoveMachine z v)" "vsame v (SetProvisioningCompleted t b v)"
  "vsame v (setStatus st v)" "SetMachine m v = Some v' \<Longrightarrow> vsame v v'"
  "vsame v (v\<lparr>pd_restarts := n\<rparr>)" "vsame v (v\<lparr>pd_provisioned := b\<rparr>)"
  by (auto simp: vsame_def SetAgentPort_def RemoveMachine_def SetProvisioningCompleted_def setStatus_def
      SetMachine_def buildKey_def split: option.splits)

lemma vsame_status_ops:
  "CrashLoopBackOffDone v = Some v' \<Longrightarrow> vsame v v'" "FailContainer t m v = Some v' \<Longrightarrow> vsame v v'"
  "TerminatePod t e v = Some v' \<Longrightarrow> vsame v v'"
  by (auto simp: CrashLoopBackOffDone_def FailContainer_def TerminatePod_def Let_def split: if_splits option.splits)

lemma vsame_terminatedUpdate: "terminatedUpdate t tm s v = (u, v') \<Longrightarrow> vsame v v'"
  by (auto simp: terminatedUpdate_def Let_def vsame_def setStatus_def buildKey_def split: if_splits prod.splits)

lemma vsame_PodStatusUpdate: "PodStatusUpdate t r v = Some (u, v') \<Longrightarrow> vsame v v'"
  by (auto simp: PodStatusUpdate_def Let_def vsame_terminatedUpdate split: sum.splits if_splits prod.splits)

text \<open>Work on pod \<open>i\<close> that leaves the provider's own state alone.\<close>

definition quiet :: "nat \<Rightarrow> 'f prov \<Rightarrow> 'f prov \<Rightarrow> bool" where
  "quiet i s s' \<longleftrightarrow>
     pv_clients s' = pv_clients s \<and> pv_index s' = pv_index s \<and> pv_cancelled s' = pv_cancelled s \<and>
     pv_tasks s' = pv_tasks s \<and> pv_nextCtx s' = pv_nextCtx s \<and>
     length (pv_store s') = length (pv_store s) \<and>
     (\<forall>j. j \<noteq> i \<longrightarrow> pv_store s' ! j = pv_store s ! j) \<and>
     ce_provision (pv_store s' ! i) = ce_provision (pv_store s ! i) \<and>
     ce_lifecycle (pv_store s' ! i) = ce_lifecycle (pv_store s ! i) \<and>
     vsame (vpodAt i s) (vpodAt i s')"

lemma quiet_refl [simp]: "quiet i s s"
  by (simp add: quiet_def)

lemma quiet_trans [trans]: "quiet i s t \<Longrightarrow> quiet i t u \<Longrightarrow> quiet i s u"
  by (auto simp: quiet_def intro: vsame_trans)

lemma quiet_cloud [simp]: "quiet i s (snd (cloud env q s))"
  by (simp add: quiet_def)

lemma quiet_cloudD: "cloud env q s = (r, s1) \<Longrightarrow> quiet i s s1"
  by (metis quiet_cloud snd_conv)

lemma setVpod_out: "\<not> i < length (pv_store s) \<Longrightarrow> setVpod i v s = s"
  by (simp add: setVpod_def list_update_beyond)

lemma quiet_setVpod: "vsame (vpodAt i s) v \<Longrightarrow> quiet i s (setVpod i v s)"
  by (cases "i < length (pv_store s)") (auto simp: quiet_def setVpod_out)

lemma quiet_agent [simp]: "quiet i s (s\<lparr>pv_agent := w\<rparr>)"
  by (simp add: quiet_def vpodAt_def)

lemma quiet_ctxErr: "ctxErr env c s = (e, s1) \<Longrightarrow> quiet i s s1"
  by (auto simp: ctxErr_def quiet_cloudD split: if_splits prod.splits)

lemma quiet_machineCleanup: "quiet i s (machineCleanup env i s)"
proof -
  obtain r s1 where c: "cloud env (CDestroy (MachineRentID (vpodAt i s))) s = (r, s1)" by fastforce
  have "quiet i s s1" by (rule quiet_cloudD [OF c])
  also have "quiet i s1 (setVpod i (RemoveMachine (pe_zero env) (vpodAt i s1)) s1)"
    by (rule quiet_setVpod) simp
  finally show ?thesis using c by (simp add: machineCleanup_def Let_def)
qed

section \<open>Provisioning touches its pod only\<close>

lemma quiet_select:
  assumes bo: "backoff_ok env" and "selectAndProvisionMachine env ctx p proxy s = Some (r, s')"
  shows "quiet i s s'"
proof -
  obtain e m where r: "retry_run (selectOp env p proxy) (\<lambda>(m, t). case ctxErr env ctx t of (e, t1) \<Rightarrow> (e, m, t1))
      None ([], s) (e, m, s')"
    using assms by (auto simp: selectAndProvisionMachine_def backoff_runs)
  let ?J = "\<lambda>(m :: string, s) (m' :: string, s'). quiet i s s'"
  have op: "?J x y" if "selectOp env p proxy x = Some (a, y)" for x a y
  proof -
    have "snd y = snd (cloud env (CProvision (newMachineSpecification (pe_parseFloat env)
        (pe_keys env (case pod_annotations p of None \<Rightarrow> fmempty | Some a \<Rightarrow> a))
        (fmlookup (case pod_annotations p of None \<Rightarrow> fmempty | Some a \<Rightarrow> a))) p proxy (pe_promtail env \<noteq> None)) (snd x))"
      using that by (auto simp: selectOp_def Let_def split: prod.splits option.splits)
    then have "quiet i (snd x) (snd y)" by (simp only: quiet_cloud)
    then show ?thesis by (simp add: case_prod_unfold)
  qed
  have "(e \<noteq> None \<and> ?J ([], s) (m, s')) \<or>
      (e = None \<and> (\<exists>x. ?J ([], s) x \<and> selectOp env p proxy x = Some (Succeeded, m, s')))"
  proof (rule retry_rel [OF r, where J = ?J])
    show "?J x y" if "(\<lambda>(m, t). case ctxErr env ctx t of (e, t1) \<Rightarrow> (e, m, t1)) x = (e, y)" for x e y
      using that by (auto split: prod.splits dest: quiet_ctxErr)
    show "?J x y" if "selectOp env p proxy x = Some (a, y)" for x a y by (rule op [OF that])
  qed (auto intro: quiet_trans split: prod.splits)
  with op quiet_trans show ?thesis by fastforce
qed

lemma quiet_acquire:
  assumes bo: "backoff_ok env" and "acquireMachine env ctx i ro s = Some (r, s')"
  shows "quiet i s s'"
proof (cases ro)
  case True
  obtain now s1 where c: "cloud env CNow s = (now, s1)" by fastforce
  let ?v = "SetProvisioningCompleted (cr_time now) False (vpodAt i s1)"
  obtain pull where p: "ImagePullAlways ?v = Some pull"
    using assms True c by (cases "ImagePullAlways ?v") (auto simp: acquireMachine_def)
  have "quiet i s s1" by (rule quiet_cloudD [OF c])
  also have "quiet i s1 (setVpod i ?v s1)" by (rule quiet_setVpod) simp
  also have "quiet i (setVpod i ?v s1) s'"
    using assms True c p by (auto simp: acquireMachine_def Let_def split: prod.splits intro: quiet_cloudD)
  finally show ?thesis .
next
  case False
  define s1 where "s1 = (if MachineRentID (vpodAt i s) \<noteq> [] then machineCleanup env i s else s)"
  obtain proxy perr where g: "getPodProxyConfigById (ProxySlot (vpodAt i s1)) s1 = Some (proxy, perr)"
    using assms False by (cases "getPodProxyConfigById (ProxySlot (vpodAt i s1)) s1")
      (auto simp: acquireMachine_def Let_def s1_def)
  obtain m e s2 where sel: "selectAndProvisionMachine env ctx (pd_pod (vpodAt i s1)) proxy s1 = Some ((m, e), s2)"
    using assms False g by (cases "selectAndProvisionMachine env ctx (pd_pod (vpodAt i s1)) proxy s1")
      (auto simp: acquireMachine_def Let_def s1_def)
  let ?s3 = "setVpod i (SetAgentPort (wrap64 (10000 + ProxySlot (vpodAt i s2) * 100)) (vpodAt i s2)) s2"
  have "quiet i s s1" by (auto simp: s1_def intro: quiet_machineCleanup)
  also have "quiet i s1 s2" by (rule quiet_select [OF bo sel])
  also have "quiet i s2 ?s3" by (rule quiet_setVpod) simp
  finally have q3: "quiet i s ?s3" .
  show ?thesis
  proof (cases e)
    case (Some er)
    with assms False g sel q3 show ?thesis by (simp add: acquireMachine_def Let_def s1_def [symmetric])
  next
    case None
    then obtain v where v: "SetMachine ((emptyMachine (pe_zero env))\<lparr>mc_id := m\<rparr>) (vpodAt i ?s3) = Some v"
      using assms False g sel
      by (cases "SetMachine ((emptyMachine (pe_zero env))\<lparr>mc_id := m\<rparr>) (vpodAt i ?s3)")
        (auto simp: acquireMachine_def Let_def s1_def [symmetric])
    have "quiet i ?s3 (setVpod i v ?s3)" by (rule quiet_setVpod) (rule vsame_ops(5) [OF v])
    moreover have "quiet i (setVpod i v ?s3) s'"
      using assms False g sel None v
      by (auto simp: acquireMachine_def Let_def s1_def [symmetric])
    ultimately show ?thesis using q3 quiet_trans by blast
  qed
qed

lemma quiet_waitOp:
  assumes "waitOp env ctx i s = Some (a, s')"
  shows "quiet i s s'"
proof -
  obtain e s1 where c: "ctxErr env ctx s = (e, s1)" by fastforce
  note q1 = quiet_ctxErr [OF c, of i]
  show ?thesis
  proof (cases e)
    case (Some er)
    with assms c q1 show ?thesis by (simp add: waitOp_def)
  next
    case None
    obtain r s2 where g: "cloud env (CGet (MachineRentID (vpodAt i s1))) s1 = (r, s2)" by fastforce
    note q2 = quiet_trans [OF q1 quiet_cloudD [OF g]]
    have "quiet i s2 s'"
      using assms None c g
      by (auto simp: waitOp_def bind_eq_Some_conv split: option.splits intro!: quiet_setVpod)
    with q2 quiet_trans show ?thesis by blast
  qed
qed

lemma quiet_wait:
  assumes bo: "backoff_ok env" and "waitForMachineReady env ctx i s = Some (e, s')"
  shows "quiet i s s'"
proof -
  have "(e \<noteq> None \<and> quiet i s s') \<or> (e = None \<and> (\<exists>s0. quiet i s s0 \<and>
      waitOp env (CtxTimeout ctx) i s0 = Some (Succeeded, s')))"
    by (rule retry_rel [OF assms(2) [unfolded waitForMachineReady_def backoff_runs [OF bo]]])
      (auto intro: quiet_trans quiet_waitOp quiet_ctxErr)
  with quiet_waitOp quiet_trans show ?thesis by blast
qed

lemma quiet_runtimeStep: "runtimeStep f s = Some (e, s') \<Longrightarrow> quiet i s s'"
  by (auto simp: runtimeStep_def split: option.splits prod.splits)

lemma quiet_andThen:
  assumes "\<And>s e s'. f s = Some (e, s') \<Longrightarrow> quiet i s s'" "\<And>s e s'. g s = Some (e, s') \<Longrightarrow> quiet i s s'"
    and "andThen f g s = Some (e, s')"
  shows "quiet i s s'"
  using assms(3)
  by (auto simp: andThen_def split: option.splits prod.splits dest: assms(1) assms(2) intro: quiet_trans)

lemma quiet_startRuntime:
  assumes "startRuntime env i s = Some (e, s')"
  shows "quiet i s s'"
proof -
  have prom: "quiet i t t'" if "pushPromtail env i t = Some (x, t')" for t x t'
    using that by (auto simp: pushPromtail_def quiet_runtimeStep split: option.splits list.splits prod.splits)
  show ?thesis
    using assms unfolding startRuntime_def Let_def
    by (elim quiet_andThen [rotated 2])
      (auto intro: quiet_runtimeStep prom split: option.splits prod.splits)
qed

section \<open>A provisioning goroutine\<close>

lemma ctxCancelled_cong: "pv_cancelled s = pv_cancelled s' \<Longrightarrow> ctxCancelled c s = ctxCancelled c s'"
  by (induction c) simp_all

lemma quiet_cancelled: "quiet i s s' \<Longrightarrow> ctxCancelled c s' = ctxCancelled c s"
  by (rule ctxCancelled_cong) (simp add: quiet_def)

lemma wait_cancelled:
  assumes bo: "backoff_ok env" and "waitForMachineReady env ctx i s = Some (e, s')" "ctxCancelled ctx s"
  shows "e \<noteq> None"
proof -
  have "(e \<noteq> None \<and> quiet i s s') \<or> (e = None \<and> (\<exists>s0. quiet i s s0 \<and>
      waitOp env (CtxTimeout ctx) i s0 = Some (Succeeded, s')))"
    by (rule retry_rel [OF assms(2) [unfolded waitForMachineReady_def backoff_runs [OF bo]]])
      (auto intro: quiet_trans quiet_waitOp quiet_ctxErr)
  moreover have "waitOp env (CtxTimeout ctx) i s0 \<noteq> Some (Succeeded, s')" if "quiet i s s0" for s0
    using assms(3) quiet_cancelled [OF that, of "ctx"] by (simp add: waitOp_def ctxErr_def)
  ultimately show ?thesis by blast
qed

text \<open>A new lifecycle goroutine of pod \<open>i\<close>.\<close>

definition spawned :: "nat \<Rightarrow> 'f prov \<Rightarrow> 'f prov \<Rightarrow> bool" where
  "spawned i s s' \<longleftrightarrow>
     pv_clients s' = pv_clients s \<and> pv_index s' = pv_index s \<and> pv_cancelled s' = pv_cancelled s \<and>
     pv_nextCtx s' = Suc (pv_nextCtx s) \<and> (\<exists>t. pv_tasks s' = pv_tasks s @ [TaskLifecycle i (pv_nextCtx s) t]) \<and>
     length (pv_store s') = length (pv_store s) \<and>
     (\<forall>j. j \<noteq> i \<longrightarrow> pv_store s' ! j = pv_store s ! j) \<and>
     ce_provision (pv_store s' ! i) = ce_provision (pv_store s ! i) \<and>
     (i < length (pv_store s) \<longrightarrow> ce_lifecycle (pv_store s' ! i) = Some (pv_nextCtx s)) \<and>
     vsame (vpodAt i s) (vpodAt i s')"

lemma quiet_spawned: "quiet i s t \<Longrightarrow> spawned i t u \<Longrightarrow> spawned i s u"
  by (auto simp: quiet_def spawned_def intro: vsame_trans)

lemma spawned_quiet: "spawned i s t \<Longrightarrow> quiet i t u \<Longrightarrow> spawned i s u"
  by (auto simp: quiet_def spawned_def intro: vsame_trans)

lemma initOp_cases:
  assumes bo: "backoff_ok env" and "initOp env ctx i (ro, s) = Some (a, ro', s')"
  shows "(a \<noteq> Succeeded \<and> quiet i s s') \<or> (a = Succeeded \<and> \<not> ctxCancelled ctx s \<and> spawned i s s')"
proof -
  obtain again e s1 where acq: "acquireMachine env ctx i ro s = Some ((again, e), s1)"
    using assms by (auto simp: initOp_def bind_eq_Some_conv)
  note q1 = quiet_acquire [OF bo acq]
  show ?thesis
  proof (cases e)
    case (Some er)
    with assms acq q1 show ?thesis by (auto simp: initOp_def)
  next
    case None
    obtain we s2 where w: "waitForMachineReady env ctx i s1 = Some (we, s2)"
      using assms acq None by (auto simp: initOp_def bind_eq_Some_conv)
    note q2 = quiet_trans [OF q1 quiet_wait [OF bo w]]
    show ?thesis
    proof (cases we)
      case (Some er)
      define s2' where "s2' = (if (er = ErrMachineFailed \<or> er = ErrDeadline) \<and> supportsBans env
        then snd (cloud env (CBan (MachineStableID (vpodAt i s2))) s2) else s2)"
      have "quiet i s2 s2'" by (simp add: s2'_def)
      then have "quiet i s (machineCleanup env i s2')"
        using q2 quiet_machineCleanup quiet_trans by blast
      moreover have "s' = machineCleanup env i s2'" "a \<noteq> Succeeded"
        using assms acq None w Some by (auto simp: initOp_def s2'_def split: if_splits)
      ultimately show ?thesis by simp
    next
      case we: None
      have live: "\<not> ctxCancelled ctx s"
        using wait_cancelled [OF bo w] we quiet_cancelled [OF q1] by blast
      obtain re s3 where r: "startRuntime env i s2 = Some (re, s3)"
        using assms acq None w we by (auto simp: initOp_def bind_eq_Some_conv)
      note q3 = quiet_trans [OF q2 quiet_startRuntime [OF r]]
      show ?thesis
      proof (cases re)
        case (Some er)
        with assms acq None w we r q3 show ?thesis by (auto simp: initOp_def)
      next
        case re: None
        obtain now s5 where c: "cloud env CNow (snd (newCtx s3)) = (now, s5)" by fastforce
        have a: "a = Succeeded" and s': "s' = s5\<lparr>pv_store := (pv_store s5)[i := (pv_store s5 ! i)\<lparr>ce_lifecycle := Some (pv_nextCtx s3)\<rparr>],
            pv_tasks := pv_tasks s5 @ [TaskLifecycle i (pv_nextCtx s3) (cr_time now)]\<rparr>"
          using assms acq None w we r re c by (auto simp: initOp_def newCtx_def Let_def)
        have f: "pv_store s5 = pv_store s3" "pv_tasks s5 = pv_tasks s3" "pv_clients s5 = pv_clients s3"
          "pv_index s5 = pv_index s3" "pv_cancelled s5 = pv_cancelled s3" "pv_nextCtx s5 = Suc (pv_nextCtx s3)"
          using cloud_frame [OF c] by (simp_all add: newCtx_def)
        have "spawned i s3 s'"
          unfolding s' spawned_def vpodAt_def f
          by (cases "i < length (pv_store s3)") (simp_all add: f list_update_beyond vsame_def)
        with a live quiet_spawned [OF q3] show ?thesis by blast
      qed
    qed
  qed
qed

text \<open>What the goroutine leaves: its context cancelled, and on success a lifecycle goroutine of a
  provisioned pod, which a goroutine with a cancelled context never reaches.\<close>

lemma init_spec:
  assumes bo: "backoff_ok env" and run: "initializeVirtualPod env i ctx ro s = Some (e, s')" and i: "i < length (pv_store s)"
  obtains (failed) p u where "ce_provision (pv_store s ! i) = Some p" "e \<noteq> None" "quiet i s u"
      "s' = u\<lparr>pv_cancelled := p # pv_cancelled u\<rparr>"
  | (started) p u where "ce_provision (pv_store s ! i) = Some p" "e = None" "spawned i s u"
      "pd_provisioned (vpodAt i u)" "ctx \<notin> set (pv_cancelled s)" "s' = u\<lparr>pv_cancelled := p # pv_cancelled u\<rparr>"
proof -
  obtain e1 ro' s1 where r1: "pe_retryInit env (initOp env (CtxId ctx) i)
      (\<lambda>(b, t). case ctxErr env (CtxId ctx) t of (x, t1) \<Rightarrow> (x, b, t1)) (Some (pe_maxRetries env)) (ro, s)
      = Some (e1, ro', s1)"
    using run by (auto simp: initializeVirtualPod_def Let_def bind_eq_Some_conv)
  obtain now s2 where n: "cloud env CNow s1 = (now, s2)" by fastforce
  have "e1 = e"
    using run r1 n by (auto simp: initializeVirtualPod_def Let_def bind_eq_Some_conv)
  note r = r1 [unfolded this]
  define s3 where "s3 = (if e = None then setVpod i (SetProvisioningCompleted (cr_time now) True (vpodAt i s2)) s2 else s2)"
  define s4 where "s4 = machineCleanup env i s3"
  from run r n obtain p where p: "ce_provision (pv_store s ! i) = Some p" and s': "s' = s4\<lparr>pv_cancelled := p # pv_cancelled s4\<rparr>"
    by (cases "ce_provision (pv_store s ! i)")
      (auto simp: initializeVirtualPod_def Let_def cancelCtx_def s3_def s4_def)
  have q3: "quiet i s1 s3"
    using quiet_cloudD [OF n, of i] quiet_trans [OF _ quiet_setVpod, of i s1 s2] by (simp add: s3_def)
  have q4: "quiet i s1 s4" using quiet_trans [OF q3 quiet_machineCleanup] by (simp add: s4_def)
  let ?J = "\<lambda>(b :: bool, s) (b' :: bool, s'). quiet i s s'"
  have "(e \<noteq> None \<and> ?J (ro, s) (ro', s1)) \<or>
      (e = None \<and> (\<exists>x. ?J (ro, s) x \<and> initOp env (CtxId ctx) i x = Some (Succeeded, ro', s1)))"
  proof (rule retry_rel [OF r [unfolded backoff_runs [OF bo]], where J = ?J])
    show "?J x y" if "(\<lambda>(b, t). case ctxErr env (CtxId ctx) t of (x, t1) \<Rightarrow> (x, b, t1)) x = (e, y)" for x e y
      using that by (auto split: prod.splits dest: quiet_ctxErr)
    show "?J x y" if "initOp env (CtxId ctx) i x = Some (a, y)" "a \<noteq> Succeeded" for x a y
      using that initOp_cases [OF bo, of "CtxId ctx" i "fst x" "snd x" a "fst y" "snd y"] by (auto split: prod.splits)
  qed (auto intro: quiet_trans split: prod.splits)
  then show thesis
  proof (elim disjE conjE exE)
    assume "e \<noteq> None" "?J (ro, s) (ro', s1)"
    then show thesis using failed [OF p _ _ s'] quiet_trans [OF _ q4] by auto
  next
    fix x
    assume e: "e = None" and x: "?J (ro, s) x" and o: "initOp env (CtxId ctx) i x = Some (Succeeded, ro', s1)"
    obtain b s0 where xx: "x = (b, s0)" by (cases x)
    from initOp_cases [OF bo o [unfolded xx]] have sp: "\<not> ctxCancelled (CtxId ctx) s0" "spawned i s0 s1" by auto
    have sp4: "spawned i s s4" using quiet_spawned x xx sp(2) spawned_quiet q4 by fastforce
    have nc: "ctx \<notin> set (pv_cancelled s)" using sp(1) x xx by (simp add: quiet_def)
    have "i < length (pv_store s2)"
      using i x xx sp(2) quiet_cloudD [OF n, of i] by (auto simp: quiet_def spawned_def)
    then have "pd_provisioned (vpodAt i s3)" using e by (simp add: s3_def SetProvisioningCompleted_def)
    then have "pd_provisioned (vpodAt i s4)" by (simp add: s4_def machineCleanup_def ProvisioningCompleted_def Let_def)
    then show thesis using started [OF p e sp4 _ nc s'] by blast
  qed
qed

section \<open>A tick of the lifecycle\<close>

lemma PodStatusUpdate_provisioned:
  assumes "PodStatusUpdate t r v = Some (u, v')"
  shows "(case u of Inr up \<Rightarrow> su_restarts up | Inl e \<Rightarrow> False) \<or> pd_provisioned v' = pd_provisioned v"
  using assms
  by (auto simp: PodStatusUpdate_def Let_def terminatedUpdate_def setStatus_def noUpdate_def
      split: sum.splits if_splits prod.splits)

lemma FailContainer_provisioned: "FailContainer t m v = Some v' \<Longrightarrow> pd_provisioned v' = pd_provisioned v"
  by (auto simp: FailContainer_def split: if_splits)

lemma CrashLoop_frame: "CrashLoopBackOffDone v = Some v' \<Longrightarrow> vsame v v'"
  by (rule vsame_status_ops)

lemma statusStep_quiet:
  assumes run: "statusStep env i seen s = Some ((up, l), s')" and i: "i < length (pv_store s)"
  shows "quiet i s s' \<and> (su_restarts up \<or> pd_provisioned (vpodAt i s') = pd_provisioned (vpodAt i s))"
proof -
  obtain now s1 where c1: "cloud env CNow s = (now, s1)" by fastforce
  let ?v = "vpodAt i s1"
  obtain r s2 where c2: "cloud env (CStatus (GetAgentAddress ?v @ ''/status'') (authHeaders ?v)) s1 = (r, s2)" by fastforce
  obtain u v1 where p: "PodStatusUpdate (cr_time now) (case cr_err r of Some e \<Rightarrow> Inl e | None \<Rightarrow> Inr (cr_state r)) ?v = Some (u, v1)"
    using run c1 c2 by (auto simp: statusStep_def Let_def bind_eq_Some_conv)
  let ?s3 = "setVpod i v1 s2"
  obtain after s4 where c3: "cloud env CNow ?s3 = (after, s4)" by fastforce
  have v: "vpodAt i s2 = vpodAt i s" "?v = vpodAt i s" "pv_store s2 = pv_store s"
    using cloud_frame [OF c1] cloud_frame [OF c2] by (simp_all add: vpodAt_def)
  have "quiet i s s1" by (rule quiet_cloudD [OF c1])
  also have "quiet i s1 s2" by (rule quiet_cloudD [OF c2])
  also have "quiet i s2 ?s3" by (rule quiet_setVpod) (use vsame_PodStatusUpdate [OF p] v in simp)
  also have "quiet i ?s3 s4" by (rule quiet_cloudD [OF c3])
  finally have q4: "quiet i s s4" .
  have i2: "i < length (pv_store s2)" "i < length (pv_store s4)"
    using i q4 v by (simp_all add: quiet_def)
  have v4: "vpodAt i s4 = v1" using cloud_frame [OF c3] i2 by (simp add: vpodAt_def setVpod_def)
  note pr = PodStatusUpdate_provisioned [OF p]
  show ?thesis
  proof (cases u)
    case (Inr up')
    with run c1 c2 p c3 have "up = up'" "s' = s4" by (auto simp: statusStep_def Let_def)
    with q4 pr Inr v4 v show ?thesis by simp
  next
    case (Inl e)
    show ?thesis
    proof (cases "cr_time after - seen > pe_statusTimeout env \<and> pod_restartPolicy (pd_pod v1) = RestartNever")
      case True
      then obtain v2 where f: "FailContainer (cr_time after) ''Pod stopped responding'' v1 = Some v2" "s' = setVpod i v2 s4"
        using run c1 c2 p c3 Inl by (auto simp: statusStep_def Let_def bind_eq_Some_conv)
      have "quiet i s4 s'" unfolding f(2) by (rule quiet_setVpod) (use vsame_status_ops(2) [OF f(1)] v4 in simp)
      with q4 quiet_trans have "quiet i s s'" by blast
      moreover have "pd_provisioned (vpodAt i s') = pd_provisioned (vpodAt i s)"
        using f FailContainer_provisioned [OF f(1)] pr Inl v i2 by simp
      ultimately show ?thesis by simp
    next
      case False
      then have "s' = s4" using run c1 c2 p c3 Inl by (auto simp: statusStep_def Let_def split: if_splits)
      with q4 pr Inl v4 v show ?thesis by simp
    qed
  qed
qed

text \<open>The restart: the lifecycle context is cancelled, and a provisioning goroutine with a fresh one
  waits to run.\<close>

definition restarted :: "nat \<Rightarrow> nat \<Rightarrow> 'f prov \<Rightarrow> 'f prov \<Rightarrow> bool" where
  "restarted i lc s s' \<longleftrightarrow>
     pv_clients s' = pv_clients s \<and> pv_index s' = pv_index s \<and> pv_cancelled s' = lc # pv_cancelled s \<and>
     pv_nextCtx s' = Suc (pv_nextCtx s) \<and> pv_tasks s' = pv_tasks s @ [TaskInit i (pv_nextCtx s) True] \<and>
     length (pv_store s') = length (pv_store s) \<and>
     (\<forall>j. j \<noteq> i \<longrightarrow> pv_store s' ! j = pv_store s ! j) \<and>
     ce_provision (pv_store s' ! i) = Some (pv_nextCtx s) \<and>
     ce_lifecycle (pv_store s' ! i) = ce_lifecycle (pv_store s ! i) \<and>
     vsame (vpodAt i s) (vpodAt i s')"

lemma quiet_restarted: "quiet i s t \<Longrightarrow> restarted i lc t u \<Longrightarrow> restarted i lc s u"
  by (auto simp: quiet_def restarted_def intro: vsame_trans)

lemma quiet_notify [simp]: "quiet i s (notifyPodUpdate p s)"
  by (simp add: quiet_def notifyPodUpdate_def vpodAt_def)

lemma restartStep_spec:
  assumes run: "restartStep env i ctx b s = Some (u, s')" and i: "i < length (pv_store s)"
    and c: "ctx \<notin> set (pv_cancelled s)"
  obtains lc where "ce_lifecycle (pv_store s ! i) = Some lc" "restarted i lc s s'"
proof -
  have "\<exists>s1. quiet i s s1 \<and> (do {
         let (c, s2) = newCtx s1;
         let s3 = s2\<lparr>pv_store := (pv_store s2)[i := (pv_store s2 ! i)\<lparr>ce_provision := Some c\<rparr>]\<rparr>;
         s4 \<leftarrow> cancelCtx (ce_lifecycle (pv_store s3 ! i)) s3;
         Some ((), s4\<lparr>pv_tasks := pv_tasks s4 @ [TaskInit i c True]\<rparr>)
       }) = Some (u, s')"
  proof (cases "b > 0")
    case False
    with run show ?thesis by (intro exI [of _ s]) (auto simp: restartStep_def)
  next
    case True
    obtain r s0 where w: "cloud env (CWait b) s = (r, s0)" by fastforce
    have nc: "\<not> ctxCancelled (CtxId ctx) s0" using c cloud_frame [OF w] by simp
    then obtain v where v: "CrashLoopBackOffDone (vpodAt i s0) = Some v"
      using run True w by (cases "CrashLoopBackOffDone (vpodAt i s0)") (auto simp: restartStep_def restartBackoff_def)
    have "quiet i s (notifyPodUpdate (pd_pod v) (setVpod i v s0))"
      by (meson quiet_trans quiet_cloudD [OF w] quiet_setVpod CrashLoop_frame [OF v] quiet_notify)
    with run True w nc v show ?thesis
      by (intro exI [of _ "notifyPodUpdate (pd_pod v) (setVpod i v s0)"]) (auto simp: restartStep_def restartBackoff_def)
  qed
  then obtain s1 where q: "quiet i s s1" and rest: "(do {
         let (c, s2) = newCtx s1;
         let s3 = s2\<lparr>pv_store := (pv_store s2)[i := (pv_store s2 ! i)\<lparr>ce_provision := Some c\<rparr>]\<rparr>;
         s4 \<leftarrow> cancelCtx (ce_lifecycle (pv_store s3 ! i)) s3;
         Some ((), s4\<lparr>pv_tasks := pv_tasks s4 @ [TaskInit i c True]\<rparr>)
       }) = Some (u, s')" by blast
  have i1: "i < length (pv_store s1)" and lcs: "ce_lifecycle (pv_store s1 ! i) = ce_lifecycle (pv_store s ! i)"
    using q i by (simp_all add: quiet_def)
  from rest i1 obtain lc where lc: "ce_lifecycle (pv_store s1 ! i) = Some lc"
    by (cases "ce_lifecycle (pv_store s1 ! i)") (auto simp: newCtx_def cancelCtx_def)
  have "restarted i lc s1 s'"
    using rest i1 lc by (auto simp: newCtx_def cancelCtx_def restarted_def vpodAt_def)
  with that lc lcs quiet_restarted [OF q] show thesis by simp
qed

text \<open>The end of a pod, with the pod \<open>j\<close> that the map has under its key.\<close>

definition ended :: "nat \<Rightarrow> nat \<Rightarrow> 'f prov \<Rightarrow> 'f prov \<Rightarrow> bool" where
  "ended i lc s s' \<longleftrightarrow>
     0 \<le> pd_slot (vpodAt i s) \<and> nat (pd_slot (vpodAt i s)) < length (pv_clients s) \<and>
     pv_clients s' = setAssigned (nat (pd_slot (vpodAt i s))) False (pv_clients s) \<and>
     pv_index s' = pv_index s \<and> pv_cancelled s' = lc # pv_cancelled s \<and>
     pv_nextCtx s' = pv_nextCtx s \<and> pv_tasks s' = pv_tasks s \<and>
     length (pv_store s') = length (pv_store s) \<and>
     (\<forall>j. j \<noteq> i \<longrightarrow> pv_store s' ! j = pv_store s ! j) \<and>
     ce_provision (pv_store s' ! i) = ce_provision (pv_store s ! i) \<and>
     ce_lifecycle (pv_store s' ! i) = ce_lifecycle (pv_store s ! i) \<and>
     pd_slot (vpodAt i s') = pd_slot (vpodAt i s) \<and> pd_finalized (vpodAt i s') \<and>
     pd_provisioned (vpodAt i s') = pd_provisioned (vpodAt i s) \<and>
     buildKey (pd_pod (vpodAt i s')) = buildKey (pd_pod (vpodAt i s))"

lemma terminateStep_spec:
  assumes run: "terminateStep env i s = Some (u, s')" and i: "i < length (pv_store s)"
  obtains j lc where "pv_index s (buildKey (pd_pod (vpodAt i s))) = Some j"
    "ce_lifecycle (pv_store s ! j) = Some lc" "ended i lc s s'"
proof -
  obtain j where j: "pv_index s (buildKey (pd_pod (vpodAt i s))) = Some j"
    using run by (auto simp: terminateStep_def bind_eq_Some_conv)
  obtain lc where lc: "ce_lifecycle (pv_store s ! j) = Some lc"
    using run j by (cases "ce_lifecycle (pv_store s ! j)") (auto simp: terminateStep_def cancelCtx_def)
  have "ended i lc s s'"
    using run j lc i
    by (auto simp: terminateStep_def cancelCtx_def assignSlot_def clientAt_def ProxySlot_def Finalize_def
        ended_def setVpod_def vpodAt_def cloud_def Let_def split: if_splits)
  with that j lc show thesis by blast
qed

lemma tick_cases:
  assumes run: "reconcileTick env i ctx seen s = Some (l, s')" and i: "i < length (pv_store s)"
    and c: "ctx \<notin> set (pv_cancelled s)"
  obtains (quiet) "quiet i s s'" "pd_provisioned (vpodAt i s') = pd_provisioned (vpodAt i s)"
  | (restart) lc where "ce_lifecycle (pv_store s ! i) = Some lc" "restarted i lc s s'"
  | (ended) t j lc where "quiet i s t" "pd_provisioned (vpodAt i t) = pd_provisioned (vpodAt i s)"
      "pv_index t (buildKey (pd_pod (vpodAt i t))) = Some j"
      "ce_lifecycle (pv_store t ! j) = Some lc" "ended i lc t s'"
proof -
  obtain ce s0 where ce: "ctxErr env (CtxId ctx) s = (ce, s0)" by fastforce
  note q0 = quiet_ctxErr [OF ce, of i]
  have store: "pv_store s0 = pv_store s"
    using ce by (auto simp: ctxErr_def dest: cloud_frame split: if_splits prod.splits)
  then have v0: "vpodAt i s0 = vpodAt i s" by (simp add: vpodAt_def)
  show thesis
  proof (cases ce)
    case (Some e)
    with run ce q0 v0 show thesis by (intro quiet) (auto simp: reconcileTick_def)
  next
    case None
    obtain up l' s1 where st: "statusStep env i seen s0 = Some ((up, l'), s1)"
      using run ce None by (auto simp: reconcileTick_def bind_eq_Some_conv)
    have i0: "i < length (pv_store s0)" using i store by simp
    note q1 = statusStep_quiet [OF st i0]
    define s2 where "s2 = (if su_changed up then notifyPodUpdate (pd_pod (vpodAt i s1)) s1 else s1)"
    have "quiet i s1 s2" by (simp add: s2_def)
    then have q2: "quiet i s s2" using q0 q1 quiet_trans by blast
    then have i2: "i < length (pv_store s2)" and c2: "ctx \<notin> set (pv_cancelled s2)"
      using i c by (simp_all add: quiet_def)
    have v2: "vpodAt i s2 = vpodAt i s1" by (simp add: s2_def notifyPodUpdate_def vpodAt_def)
    show thesis
    proof (cases "su_restarts up")
      case True
      then obtain u where "restartStep env i ctx (su_backoff up) s2 = Some (u, s')"
        using run ce None st by (auto simp: reconcileTick_def s2_def)
      from restartStep_spec [OF this i2 c2] obtain lc
        where "ce_lifecycle (pv_store s2 ! i) = Some lc" "restarted i lc s2 s'" .
      then show thesis using restart q2 quiet_restarted by (metis quiet_def)
    next
      case False
      then have pr: "pd_provisioned (vpodAt i s2) = pd_provisioned (vpodAt i s)" using q1 v2 v0 by simp
      show thesis
      proof (cases "su_terminated up")
        case True
        then obtain u where "terminateStep env i s2 = Some (u, s')"
          using run ce None st False by (auto simp: reconcileTick_def s2_def)
        from terminateStep_spec [OF this i2] obtain j lc where
          "pv_index s2 (buildKey (pd_pod (vpodAt i s2))) = Some j"
          "ce_lifecycle (pv_store s2 ! j) = Some lc" "ended i lc s2 s'" .
        then show thesis by (rule ended [OF q2 pr])
      next
        case nt: False
        with run ce None st False have "s' = s2" by (auto simp: reconcileTick_def s2_def)
        with q2 pr show thesis by (intro quiet) simp_all
      qed
    qed
  qed
qed

end
