(* ===== verification/ProviderInv.thy ===== *)
theory ProviderInv
  imports ProviderFacts
begin

text \<open>
  The invariant of the provider: every pod it knows sits under its own key, the live ones hold
  different assigned slots, and each has at most one goroutine whose context is not cancelled. Every
  admissible step of a run keeps it.
\<close>

section \<open>The invariant\<close>

fun taskPod :: "task \<Rightarrow> nat" where
  "taskPod (TaskInit i c ro) = i"
| "taskPod (TaskLifecycle i c t) = i"

fun taskCtx :: "task \<Rightarrow> nat" where
  "taskCtx (TaskInit i c ro) = c"
| "taskCtx (TaskLifecycle i c t) = c"

definition active :: "'f prov \<Rightarrow> task \<Rightarrow> bool" where
  "active s t \<longleftrightarrow> taskCtx t \<notin> set (pv_cancelled s)"

definition known :: "'f prov \<Rightarrow> nat \<Rightarrow> bool" where
  "known s i \<longleftrightarrow> (\<exists>k. pv_index s k = Some i)"

definition live :: "'f prov \<Rightarrow> nat \<Rightarrow> bool" where
  "live s i \<longleftrightarrow> known s i \<and> \<not> pd_finalized (vpodAt i s)"

abbreviation slotOfPod :: "'f prov \<Rightarrow> nat \<Rightarrow> int" where
  "slotOfPod s i \<equiv> pd_slot (vpodAt i s)"

definition ctxOf :: "'f prov \<Rightarrow> nat \<Rightarrow> nat \<Rightarrow> bool" where
  "ctxOf s i c \<longleftrightarrow> i < length (pv_store s) \<and>
     (ce_provision (pv_store s ! i) = Some c \<or> ce_lifecycle (pv_store s ! i) = Some c)"

fun task_ok :: "'f prov \<Rightarrow> task \<Rightarrow> bool" where
  "task_ok s (TaskInit i c ro) = (i < length (pv_store s) \<and> c < pv_nextCtx s \<and>
     (if c \<in> set (pv_cancelled s) then \<not> known s i
      else live s i \<and> ce_provision (pv_store s ! i) = Some c))"
| "task_ok s (TaskLifecycle i c t) = (i < length (pv_store s) \<and> c < pv_nextCtx s \<and>
     (c \<notin> set (pv_cancelled s) \<longrightarrow>
        live s i \<and> ce_lifecycle (pv_store s ! i) = Some c \<and> pd_provisioned (vpodAt i s)))"

definition inv_pods :: "'f prov \<Rightarrow> bool" where
  "inv_pods s \<longleftrightarrow>
     (\<forall>k i. pv_index s k = Some i \<longrightarrow> i < length (pv_store s) \<and> buildKey (pd_pod (vpodAt i s)) = k \<and>
        (pd_finalized (vpodAt i s) \<longrightarrow> pd_provisioned (vpodAt i s))) \<and>
     (\<forall>i. live s i \<longrightarrow> 0 \<le> slotOfPod s i \<and> nat (slotOfPod s i) < length (pv_clients s) \<and>
        px_assigned (pv_clients s ! nat (slotOfPod s i))) \<and>
     (\<forall>i j. live s i \<and> live s j \<and> slotOfPod s i = slotOfPod s j \<longrightarrow> i = j)"

definition inv_ctx :: "'f prov \<Rightarrow> bool" where
  "inv_ctx s \<longleftrightarrow>
     (\<forall>i c. ctxOf s i c \<longrightarrow> c < pv_nextCtx s) \<and> (\<forall>c \<in> set (pv_cancelled s). c < pv_nextCtx s) \<and>
     (\<forall>i j c. ctxOf s i c \<and> ctxOf s j c \<longrightarrow> i = j)"

definition inv_tasks :: "'f prov \<Rightarrow> bool" where
  "inv_tasks s \<longleftrightarrow> (\<forall>t \<in> set (pv_tasks s). task_ok s t) \<and>
     distinct (map taskPod (filter (active s) (pv_tasks s)))"

definition prov_inv :: "'f prov \<Rightarrow> bool" where
  "prov_inv s \<longleftrightarrow> inv_pods s \<and> inv_ctx s \<and> inv_tasks s"

lemma known_lt: "inv_pods s \<Longrightarrow> known s i \<Longrightarrow> i < length (pv_store s)"
  by (auto simp: inv_pods_def known_def)

lemma active_ctx: "task_ok s t \<Longrightarrow> active s t \<Longrightarrow> live s (taskPod t) \<and> ctxOf s (taskPod t) (taskCtx t)"
  by (cases t) (auto simp: active_def ctxOf_def split: if_splits)

section \<open>Changes at one pod\<close>

text \<open>
  A change at pod \<open>i\<close> that keeps the map, the slots and the other pods, cancels only contexts of
  \<open>i\<close> and gives \<open>i\<close> only fresh ones, and appends the tasks \<open>new\<close>.
\<close>

definition local_change :: "nat \<Rightarrow> task list \<Rightarrow> 'f prov \<Rightarrow> 'f prov \<Rightarrow> bool" where
  "local_change i new s s' \<longleftrightarrow>
     pv_clients s' = pv_clients s \<and> pv_index s' = pv_index s \<and>
     length (pv_store s') = length (pv_store s) \<and>
     (\<forall>j. j \<noteq> i \<longrightarrow> pv_store s' ! j = pv_store s ! j) \<and> vsame (vpodAt i s) (vpodAt i s') \<and>
     pv_nextCtx s \<le> pv_nextCtx s' \<and>
     (\<forall>c. ctxOf s' i c \<longrightarrow> ctxOf s i c \<or> (pv_nextCtx s \<le> c \<and> c < pv_nextCtx s')) \<and>
     set (pv_cancelled s) \<subseteq> set (pv_cancelled s') \<and>
     (\<forall>c \<in> set (pv_cancelled s') - set (pv_cancelled s). ctxOf s i c) \<and>
     pv_tasks s' = pv_tasks s @ new"

lemma buildKey_vsame: "vsame v v' \<Longrightarrow> buildKey (pd_pod v') = buildKey (pd_pod v)"
  by (simp add: vsame_def)

lemma vsame_cell: "(\<And>j. j \<noteq> i \<Longrightarrow> pv_store s' ! j = pv_store s ! j) \<Longrightarrow> vsame (vpodAt i s) (vpodAt i s') \<Longrightarrow>
    vsame (vpodAt j s) (vpodAt j s')"
  by (cases "j = i") (simp_all add: vpodAt_def)

lemma local_known: "local_change i new s s' \<Longrightarrow> known s' j = known s j"
  by (simp add: local_change_def known_def)

lemma local_live: "local_change i new s s' \<Longrightarrow> live s' j = live s j"
  using vsame_cell [of i s' s j] by (auto simp: live_def local_change_def known_def vsame_def)

lemma inv_local:
  assumes inv: "prov_inv s" and l: "local_change i new s s'"
    and idle: "\<And>t. t \<in> set (pv_tasks s) \<Longrightarrow> taskPod t = i \<Longrightarrow> \<not> active s' t"
    and gone: "\<And>c ro. TaskInit i c ro \<in> set (pv_tasks s) \<Longrightarrow> \<not> known s i"
    and fin: "known s i \<Longrightarrow> pd_finalized (vpodAt i s) \<Longrightarrow> pd_provisioned (vpodAt i s')"
    and new: "\<And>t. t \<in> set new \<Longrightarrow> taskPod t = i \<and> task_ok s' t" "length new \<le> 1"
  shows "prov_inv s'"
proof -
  note L = l [unfolded local_change_def]
  have vs: "vsame (vpodAt j s) (vpodAt j s')" for j using vsame_cell [of i s' s j] L by blast
  note kn = local_known [OF l] and lv = local_live [OF l]
  have at: "vpodAt j s' = vpodAt j s" if "j \<noteq> i" for j using L that by (simp add: vpodAt_def)
  have pods: "inv_pods s'"
    unfolding inv_pods_def
  proof (intro conjI allI impI)
    fix k j
    assume k: "pv_index s' k = Some j"
    then have k': "pv_index s k = Some j" using L by simp
    then have old: "j < length (pv_store s)" "buildKey (pd_pod (vpodAt j s)) = k"
      "pd_finalized (vpodAt j s) \<longrightarrow> pd_provisioned (vpodAt j s)"
      using inv by (auto simp: prov_inv_def inv_pods_def)
    show "j < length (pv_store s')" using old L by simp
    show "buildKey (pd_pod (vpodAt j s')) = k" using old buildKey_vsame [OF vs [of j]] by simp
    assume "pd_finalized (vpodAt j s')"
    then have f: "pd_finalized (vpodAt j s)" using vs [of j] by (simp add: vsame_def)
    show "pd_provisioned (vpodAt j s')"
    proof (cases "j = i")
      case True
      with fin f k' show ?thesis by (auto simp: known_def)
    next
      case False
      with at f old show ?thesis by simp
    qed
  next
    fix j
    assume "live s' j"
    then have "live s j" by (simp add: lv)
    then have "0 \<le> slotOfPod s j \<and> nat (slotOfPod s j) < length (pv_clients s) \<and>
        px_assigned (pv_clients s ! nat (slotOfPod s j))"
      using inv by (auto simp: prov_inv_def inv_pods_def)
    moreover have "slotOfPod s' j = slotOfPod s j" using vs [of j] by (simp add: vsame_def)
    ultimately show "0 \<le> slotOfPod s' j" "nat (slotOfPod s' j) < length (pv_clients s')"
      "px_assigned (pv_clients s' ! nat (slotOfPod s' j))" using L by simp_all
  next
    fix a b
    assume "live s' a \<and> live s' b \<and> slotOfPod s' a = slotOfPod s' b"
    then have "live s a" "live s b" "slotOfPod s a = slotOfPod s b"
      using lv vs [of a] vs [of b] by (simp_all add: vsame_def)
    then show "a = b" using inv by (auto simp: prov_inv_def inv_pods_def)
  qed
  have other: "ctxOf s' j c = ctxOf s j c" if "j \<noteq> i" for j c using L that by (simp add: ctxOf_def)
  have lt: "ctxOf s j c \<Longrightarrow> c < pv_nextCtx s" for j c using inv by (auto simp: prov_inv_def inv_ctx_def)
  have own: "ctxOf s' j c \<Longrightarrow> ctxOf s j c \<or> (j = i \<and> pv_nextCtx s \<le> c)" for j c
    using L other by (cases "j = i") auto
  have ctx: "inv_ctx s'"
    unfolding inv_ctx_def
  proof (intro conjI allI impI ballI)
    show "c < pv_nextCtx s'" if "ctxOf s' j c" for j c
    proof (cases "ctxOf s j c")
      case True
      with lt L show ?thesis by (meson order_less_le_trans)
    next
      case False
      with that own have "j = i" by blast
      with that False L show ?thesis by blast
    qed
    show "c < pv_nextCtx s'" if "c \<in> set (pv_cancelled s')" for c
    proof (cases "c \<in> set (pv_cancelled s)")
      case True
      with inv have "c < pv_nextCtx s" by (auto simp: prov_inv_def inv_ctx_def)
      with L show ?thesis by linarith
    next
      case False
      with that L lt have "c < pv_nextCtx s" by blast
      with L show ?thesis by linarith
    qed
    show "a = b" if "ctxOf s' a c \<and> ctxOf s' b c" for a b c
    proof -
      from that own have "(ctxOf s a c \<or> a = i \<and> pv_nextCtx s \<le> c)" "(ctxOf s b c \<or> b = i \<and> pv_nextCtx s \<le> c)"
        by blast+
      moreover have "ctxOf s a c \<Longrightarrow> ctxOf s b c \<Longrightarrow> a = b"
        using inv unfolding prov_inv_def inv_ctx_def by blast
      ultimately show ?thesis using lt [of a c] lt [of b c] by linarith
    qed
  qed
  have keep: "active s' t = active s t" if t: "t \<in> set (pv_tasks s)" "taskPod t \<noteq> i" for t
  proof -
    have "active s t \<Longrightarrow> active s' t"
    proof (rule ccontr)
      assume a: "active s t" "\<not> active s' t"
      then have "ctxOf s i (taskCtx t)" using L by (auto simp: active_def)
      moreover have "ctxOf s (taskPod t) (taskCtx t)"
        using active_ctx [OF _ a(1)] inv t(1) by (auto simp: prov_inv_def inv_tasks_def)
      ultimately show False using inv t(2) unfolding prov_inv_def inv_ctx_def by blast
    qed
    moreover have "active s' t \<Longrightarrow> active s t" using L by (auto simp: active_def)
    ultimately show ?thesis by blast
  qed
  have ok: "task_ok s' t" if t: "t \<in> set (pv_tasks s)" for t
  proof -
    have old: "task_ok s t" using inv t by (auto simp: prov_inv_def inv_tasks_def)
    show ?thesis
    proof (cases "taskPod t = i")
      case True
      with idle t have "\<not> active s' t" by blast
      with True old L gone [of "taskCtx t"] t kn show ?thesis
        by (cases t) (auto simp: active_def)
    next
      case False
      then show ?thesis using old keep [OF t False] L kn lv at
        by (cases t) (auto simp: active_def split: if_splits)
    qed
  qed
  have filt: "filter (active s') (pv_tasks s) = filter (\<lambda>t. active s t \<and> taskPod t \<noteq> i) (pv_tasks s)"
    using keep idle by (intro filter_cong) auto
  let ?old = "filter (\<lambda>t. active s t \<and> taskPod t \<noteq> i) (pv_tasks s)" and ?new = "filter (active s') new"
  have d1: "distinct (map taskPod ?old)"
  proof -
    have "distinct (map taskPod (filter (active s) (pv_tasks s)))"
      using inv by (simp add: prov_inv_def inv_tasks_def)
    then have "distinct (map taskPod (filter (\<lambda>t. taskPod t \<noteq> i) (filter (active s) (pv_tasks s))))"
      by (rule distinct_map_filter)
    then show ?thesis by (simp add: filter_filter conj_commute)
  qed
  have d2: "distinct (map taskPod ?new)" using new(2) by (cases new) auto
  have "set (map taskPod ?old) \<inter> set (map taskPod ?new) = {}" using new(1) by fastforce
  then have "distinct (map taskPod ?old @ map taskPod ?new)" using d1 d2 by simp
  moreover have "filter (active s') (pv_tasks s') = ?old @ ?new" using L filt by simp
  ultimately have "distinct (map taskPod (filter (active s') (pv_tasks s')))" by (simp only: map_append)
  moreover have "\<forall>t \<in> set (pv_tasks s'). task_ok s' t" using ok new(1) L by auto
  ultimately have "inv_tasks s'" by (simp add: inv_tasks_def)
  with pods ctx show ?thesis by (simp add: prov_inv_def)
qed

section \<open>The end of a pod\<close>

text \<open>
  Pod \<open>i\<close> ends: it is finalized, or leaves the map; its slot is freed if it was live; contexts of
  its own may be cancelled.
\<close>

definition released :: "nat \<Rightarrow> 'f prov \<Rightarrow> 'f prov \<Rightarrow> bool" where
  "released i s s' \<longleftrightarrow>
     pv_clients s' = (if live s i then setAssigned (nat (slotOfPod s i)) False (pv_clients s) else pv_clients s) \<and>
     length (pv_store s') = length (pv_store s) \<and> (\<forall>j. j \<noteq> i \<longrightarrow> pv_store s' ! j = pv_store s ! j) \<and>
     buildKey (pd_pod (vpodAt i s')) = buildKey (pd_pod (vpodAt i s)) \<and>
     ce_provision (pv_store s' ! i) = ce_provision (pv_store s ! i) \<and>
     ce_lifecycle (pv_store s' ! i) = ce_lifecycle (pv_store s ! i) \<and>
     pv_nextCtx s' = pv_nextCtx s \<and> pv_tasks s' = pv_tasks s \<and>
     set (pv_cancelled s) \<subseteq> set (pv_cancelled s') \<and>
     (\<forall>c \<in> set (pv_cancelled s') - set (pv_cancelled s). ctxOf s i c)"

lemma known_unique: "inv_pods s \<Longrightarrow> pv_index s k = Some i \<Longrightarrow> pv_index s k' = Some i \<Longrightarrow> k' = k"
  unfolding inv_pods_def by metis

lemma inv_release:
  assumes inv: "prov_inv s" and r: "released i s s'"
    and idle: "\<And>t. t \<in> set (pv_tasks s) \<Longrightarrow> taskPod t = i \<Longrightarrow> \<not> active s' t"
    and out: "(pv_index s' = pv_index s \<and> pd_finalized (vpodAt i s') \<and> pd_provisioned (vpodAt i s')
                \<and> (\<forall>c ro. TaskInit i c ro \<notin> set (pv_tasks s)))
            \<or> (\<exists>k. pv_index s k = Some i \<and> pv_index s' = (pv_index s)(k := None))"
  shows "prov_inv s'"
proof -
  note R = r [unfolded released_def]
  have ip: "inv_pods s" using inv by (simp add: prov_inv_def)
  have at: "vpodAt j s' = vpodAt j s" if "j \<noteq> i" for j using R that by (simp add: vpodAt_def)
  have sub: "pv_index s' k = Some j \<Longrightarrow> pv_index s k = Some j" for k j
    using out by (auto split: if_splits)
  have out_cases: "(pv_index s' = pv_index s \<and> pd_finalized (vpodAt i s')) \<or> (known s i \<and> \<not> known s' i)"
    using out
  proof
    assume "\<exists>k. pv_index s k = Some i \<and> pv_index s' = (pv_index s)(k := None)"
    then obtain k where k: "pv_index s k = Some i" "pv_index s' = (pv_index s)(k := None)" by blast
    have "pv_index s' k' \<noteq> Some i" for k'
    proof (cases "k' = k")
      case True
      with k(2) show ?thesis by simp
    next
      case False
      with known_unique [OF ip k(1), of k'] k(2) show ?thesis by auto
    qed
    then show ?thesis using k(1) unfolding known_def by blast
  qed blast
  have kn: "known s' j = known s j" if "j \<noteq> i" for j
    using out
  proof
    assume "\<exists>k. pv_index s k = Some i \<and> pv_index s' = (pv_index s)(k := None)"
    then obtain k where k: "pv_index s k = Some i" "pv_index s' = (pv_index s)(k := None)" by blast
    have "pv_index s' k' = Some j \<longleftrightarrow> pv_index s k' = Some j" for k'
      using k that by (cases "k' = k") auto
    then show ?thesis by (simp add: known_def)
  qed (simp add: known_def)
  have lv: "live s' j \<longleftrightarrow> live s j \<and> j \<noteq> i" for j
  proof (cases "j = i")
    case True
    then show ?thesis using out_cases by (auto simp: live_def)
  next
    case False
    then show ?thesis using kn at by (simp add: live_def)
  qed
  have ne: "nat (slotOfPod s j) \<noteq> nat (slotOfPod s i)" if "live s j" "live s i" "j \<noteq> i" for j
  proof -
    have "0 \<le> slotOfPod s j" "0 \<le> slotOfPod s i" using ip that(1,2) by (auto simp: inv_pods_def)
    moreover have "slotOfPod s j \<noteq> slotOfPod s i" using ip that by (auto simp: inv_pods_def)
    ultimately show ?thesis by simp
  qed
  have pods: "inv_pods s'"
    unfolding inv_pods_def
  proof (intro conjI allI impI)
    fix k j
    assume k: "pv_index s' k = Some j"
    note old = sub [OF k]
    show "j < length (pv_store s')" using ip old R by (auto simp: inv_pods_def)
    show "buildKey (pd_pod (vpodAt j s')) = k"
      using ip old R at by (cases "j = i") (auto simp: inv_pods_def)
    assume f: "pd_finalized (vpodAt j s')"
    show "pd_provisioned (vpodAt j s')"
    proof (cases "j = i")
      case True
      with out k known_unique [OF ip] show ?thesis by (fastforce split: if_splits)
    next
      case False
      with ip old f at show ?thesis by (auto simp: inv_pods_def)
    qed
  next
    fix j
    assume "live s' j"
    then have j: "live s j" "j \<noteq> i" by (simp_all add: lv)
    then have a: "0 \<le> slotOfPod s j" "nat (slotOfPod s j) < length (pv_clients s)"
      "px_assigned (pv_clients s ! nat (slotOfPod s j))"
      using ip by (auto simp: inv_pods_def)
    have v: "vpodAt j s' = vpodAt j s" using at j by simp
    show "0 \<le> slotOfPod s' j" "nat (slotOfPod s' j) < length (pv_clients s')"
      "px_assigned (pv_clients s' ! nat (slotOfPod s' j))"
      using a v R ne [OF j(1)] j(2) by (auto simp: setAssigned_def nth_list_update)
  next
    fix a b
    assume "live s' a \<and> live s' b \<and> slotOfPod s' a = slotOfPod s' b"
    then show "a = b" using ip at by (auto simp: inv_pods_def lv)
  qed
  have co: "ctxOf s' j c = ctxOf s j c" for j c
    using R by (cases "j = i") (simp_all add: ctxOf_def)
  have "inv_ctx s'"
    unfolding inv_ctx_def co
  proof (intro conjI ballI)
    show "\<forall>j c. ctxOf s j c \<longrightarrow> c < pv_nextCtx s'" "\<forall>a b c. ctxOf s a c \<and> ctxOf s b c \<longrightarrow> a = b"
      using inv R by (simp_all add: prov_inv_def inv_ctx_def)
    show "c < pv_nextCtx s'" if "c \<in> set (pv_cancelled s')" for c
    proof (cases "c \<in> set (pv_cancelled s)")
      case True
      with inv R show ?thesis by (simp add: prov_inv_def inv_ctx_def)
    next
      case False
      with that R have "ctxOf s i c" by blast
      with inv R show ?thesis unfolding prov_inv_def inv_ctx_def by metis
    qed
  qed
  moreover have "inv_tasks s'"
  proof -
    have keep: "active s' t = active s t" if t: "t \<in> set (pv_tasks s)" "taskPod t \<noteq> i" for t
    proof -
      have "active s t \<Longrightarrow> active s' t"
      proof (rule ccontr)
        assume a: "active s t" "\<not> active s' t"
        then have "ctxOf s i (taskCtx t)" using R by (auto simp: active_def)
        moreover have "ctxOf s (taskPod t) (taskCtx t)"
          using active_ctx [OF _ a(1)] inv t(1) by (auto simp: prov_inv_def inv_tasks_def)
        ultimately show False using inv t(2) unfolding prov_inv_def inv_ctx_def by blast
      qed
      moreover have "active s' t \<Longrightarrow> active s t" using R by (auto simp: active_def)
      ultimately show ?thesis by blast
    qed
    have ok: "task_ok s' t" if t: "t \<in> set (pv_tasks s)" for t
    proof -
      have old: "task_ok s t" using inv t by (auto simp: prov_inv_def inv_tasks_def)
      show ?thesis
      proof (cases "taskPod t = i")
        case True
        with idle t have na: "\<not> active s' t" by blast
        show ?thesis
        proof (cases t)
          case (TaskInit j c ro)
          with True t have "TaskInit i c ro \<in> set (pv_tasks s)" by simp
          with out obtain k where "pv_index s k = Some i" "pv_index s' = (pv_index s)(k := None)" by blast
          then have "pv_index s' \<noteq> pv_index s" by (metis fun_upd_same option.distinct(1))
          with out_cases have "\<not> known s' i" by blast
          with TaskInit True old na R show ?thesis by (auto simp: active_def)
        next
          case (TaskLifecycle j c x)
          with True old na R show ?thesis by (auto simp: active_def)
        qed
      next
        case False
        then show ?thesis using old keep [OF t False] R kn lv at
          by (cases t) (auto simp: active_def split: if_splits)
      qed
    qed
    have "filter (active s') (pv_tasks s) = filter (\<lambda>t. taskPod t \<noteq> i) (filter (active s) (pv_tasks s))"
      using keep idle by (auto simp: filter_filter intro!: filter_cong)
    moreover have "distinct (map taskPod (filter (active s) (pv_tasks s)))"
      using inv by (simp add: prov_inv_def inv_tasks_def)
    ultimately have "distinct (map taskPod (filter (active s') (pv_tasks s)))"
      by (simp only: distinct_map_filter)
    with ok R show ?thesis by (simp add: inv_tasks_def)
  qed
  ultimately show ?thesis using pods by (simp add: prov_inv_def)
qed

section \<open>The steps\<close>

lemma inv_cloud [simp]: "prov_inv (snd (cloud env q s)) = prov_inv s"
proof -
  have v: "vpodAt i (s\<lparr>pv_log := w\<rparr>) = vpodAt i s" for i w by (simp add: vpodAt_def)
  have a: "active (s\<lparr>pv_log := w\<rparr>) = active s" for w by (simp add: active_def fun_eq_iff)
  have t: "task_ok (s\<lparr>pv_log := w\<rparr>) x = task_ok s x" for w x
    by (cases x) (simp_all add: live_def known_def v)
  show ?thesis
    by (simp add: cloud_def prov_inv_def inv_pods_def inv_ctx_def inv_tasks_def live_def known_def ctxOf_def v a t)
qed

lemma inv_notify [simp]: "prov_inv (notifyPodUpdate p s) = prov_inv s"
proof -
  have v: "vpodAt i (s\<lparr>pv_notified := w\<rparr>) = vpodAt i s" for i w by (simp add: vpodAt_def)
  have a: "active (s\<lparr>pv_notified := w\<rparr>) = active s" for w by (simp add: active_def fun_eq_iff)
  have t: "task_ok (s\<lparr>pv_notified := w\<rparr>) x = task_ok s x" for w x
    by (cases x) (simp_all add: live_def known_def v)
  show ?thesis
    by (simp add: notifyPodUpdate_def prov_inv_def inv_pods_def inv_ctx_def inv_tasks_def live_def known_def ctxOf_def v a t)
qed

text \<open>A new pod in a fresh cell, on a slot that was free.\<close>

lemma inv_new_pod:
  assumes inv: "prov_inv s" and free: "slot < length (pv_clients s)" "\<not> px_assigned (pv_clients s ! slot)"
    and key: "pv_index s k = None" and v: "buildKey (pd_pod v) = k" "pd_slot v = int slot" "\<not> pd_finalized v"
    and s': "pv_clients s' = setAssigned slot True (pv_clients s)"
      "pv_store s' = pv_store s @ [\<lparr>ce_pod = v, ce_provision = Some (pv_nextCtx s), ce_lifecycle = None\<rparr>]"
      "pv_index s' = (pv_index s)(k \<mapsto> length (pv_store s))" "pv_nextCtx s' = Suc (pv_nextCtx s)"
      "pv_cancelled s' = pv_cancelled s"
      "pv_tasks s' = pv_tasks s @ [TaskInit (length (pv_store s)) (pv_nextCtx s) False]"
  shows "prov_inv s'"
proof -
  let ?n = "length (pv_store s)"
  have ip: "inv_pods s" and ic: "inv_ctx s" and it: "inv_tasks s" using inv by (simp_all add: prov_inv_def)
  have at: "vpodAt i s' = vpodAt i s" "pv_store s' ! i = pv_store s ! i" if "i < ?n" for i
    using that by (simp_all add: vpodAt_def s' nth_append)
  have atn: "vpodAt ?n s' = v" by (simp add: vpodAt_def s' nth_append)
  have idx: "pv_index s k' = Some i \<Longrightarrow> i < ?n" for k' i using ip by (auto simp: inv_pods_def)
  have kn: "known s' i \<longleftrightarrow> known s i \<or> i = ?n" for i
  proof
    assume "known s i \<or> i = ?n"
    then show "known s' i"
    proof
      assume "known s i"
      then obtain k' where o: "pv_index s k' = Some i" by (auto simp: known_def)
      with key have "k' \<noteq> k" by auto
      with o show ?thesis by (auto simp: known_def s')
    qed (auto simp: known_def s')
  qed (auto simp: known_def s' split: if_splits)
  have kn_lt: "known s i \<Longrightarrow> i < ?n" for i using idx by (auto simp: known_def)
  have lv: "live s' i \<longleftrightarrow> live s i \<or> i = ?n" for i
    using kn kn_lt at(1) v(3) atn by (cases "i = ?n") (auto simp: live_def)
  have lv_lt: "live s i \<Longrightarrow> i < ?n" for i using kn_lt by (simp add: live_def)
  have old: "0 \<le> slotOfPod s i \<and> nat (slotOfPod s i) < length (pv_clients s) \<and>
      px_assigned (pv_clients s ! nat (slotOfPod s i))" if "live s i" for i
    using ip that by (auto simp: inv_pods_def)
  then have ne: "nat (slotOfPod s i) \<noteq> slot" if "live s i" for i using free(2) that by auto
  have "inv_pods s'"
    unfolding inv_pods_def
  proof (intro conjI allI impI)
    fix k' i
    assume k': "pv_index s' k' = Some i"
    show "i < length (pv_store s')" using k' idx by (auto simp: s' less_Suc_eq split: if_splits)
    show "buildKey (pd_pod (vpodAt i s')) = k'"
    proof (cases "k' = k")
      case True
      with k' have "i = ?n" by (simp add: s')
      with True atn v(1) show ?thesis by simp
    next
      case False
      with k' have o: "pv_index s k' = Some i" by (simp add: s')
      with at(1) [OF idx [OF o]] ip show ?thesis by (auto simp: inv_pods_def)
    qed
    assume f: "pd_finalized (vpodAt i s')"
    show "pd_provisioned (vpodAt i s')"
    proof (cases "k' = k")
      case True
      with k' f atn v(3) show ?thesis by (auto simp: s')
    next
      case False
      with k' have o: "pv_index s k' = Some i" by (simp add: s')
      with at(1) [OF idx [OF o]] ip f show ?thesis by (auto simp: inv_pods_def)
    qed
  next
    fix i
    assume "live s' i"
    then consider "live s i" | "i = ?n" using lv by blast
    then have "0 \<le> slotOfPod s' i \<and> nat (slotOfPod s' i) < length (pv_clients s') \<and>
        px_assigned (pv_clients s' ! nat (slotOfPod s' i))"
    proof cases
      case 1
      with old [OF 1] ne [OF 1] at(1) [OF lv_lt [OF 1]] show ?thesis
        by (simp add: s' setAssigned_def nth_list_update)
    next
      case 2
      with atn v(2) free(1) show ?thesis by (simp add: s' setAssigned_def)
    qed
    then show "0 \<le> slotOfPod s' i" "nat (slotOfPod s' i) < length (pv_clients s')"
      "px_assigned (pv_clients s' ! nat (slotOfPod s' i))" by blast+
  next
    fix a b
    assume ab: "live s' a \<and> live s' b \<and> slotOfPod s' a = slotOfPod s' b"
    have x: "slotOfPod s i \<noteq> int slot" if "live s i" for i using ne [OF that] by auto
    from ab show "a = b"
      using lv [of a] lv [of b] x [of a] x [of b] at(1) [OF lv_lt, of a] at(1) [OF lv_lt, of b] atn v(2) ip
      by (auto simp: inv_pods_def)
  qed
  moreover have "inv_ctx s'"
  proof -
    have co: "ctxOf s' i c \<longleftrightarrow> ctxOf s i c \<or> (i = ?n \<and> c = pv_nextCtx s)" for i c
      using at(2) by (cases "i < ?n"; cases "i = ?n") (auto simp: ctxOf_def s' nth_append less_Suc_eq)
    have lt: "ctxOf s i c \<Longrightarrow> c < pv_nextCtx s" for i c using ic by (auto simp: inv_ctx_def)
    show ?thesis
      unfolding inv_ctx_def co s'
    proof (intro conjI allI impI ballI)
      show "c < Suc (pv_nextCtx s)" if "ctxOf s i c \<or> i = ?n \<and> c = pv_nextCtx s" for i c
        using that lt [of i c] by auto
      show "c < Suc (pv_nextCtx s)" if "c \<in> set (pv_cancelled s)" for c
        using that ic by (auto simp: inv_ctx_def less_SucI)
      show "a = b" if "(ctxOf s a c \<or> a = ?n \<and> c = pv_nextCtx s) \<and> (ctxOf s b c \<or> b = ?n \<and> c = pv_nextCtx s)" for a b c
        using that lt [of a c] lt [of b c] ic unfolding inv_ctx_def by blast
    qed
  qed
  moreover have "inv_tasks s'"
  proof -
    have act: "active s' = active s" by (simp add: active_def s' fun_eq_iff)
    have nc: "pv_nextCtx s \<notin> set (pv_cancelled s)" using ic by (auto simp: inv_ctx_def)
    have ok: "task_ok s' t" if "t \<in> set (pv_tasks s)" for t
    proof -
      have o: "task_ok s t" using it that by (auto simp: inv_tasks_def)
      then show ?thesis
        using kn lv at less_SucI
        by (cases t) (auto simp: s' split: if_splits)
    qed
    have "taskPod t < ?n" if "t \<in> set (filter (active s) (pv_tasks s))" for t
    proof -
      have "task_ok s t" using it that by (auto simp: inv_tasks_def)
      then show ?thesis by (cases t) auto
    qed
    then have "?n \<notin> taskPod ` set (filter (active s) (pv_tasks s))" by (metis image_iff less_irrefl)
    then have "distinct (map taskPod (filter (active s') (pv_tasks s')))"
      using it by (auto simp: inv_tasks_def act s')
    moreover have "task_ok s' (TaskInit ?n (pv_nextCtx s) False)"
      using nc lv by (simp add: s' nth_append)
    ultimately show ?thesis using ok by (auto simp: inv_tasks_def s')
  qed
  ultimately show ?thesis by (simp add: prov_inv_def)
qed


text \<open>Work on pod \<open>i\<close> only, which leaves whether it is provisioned.\<close>

lemma inv_quiet:
  assumes inv: "prov_inv s" and q: "quiet i s s'" and p: "pd_provisioned (vpodAt i s') = pd_provisioned (vpodAt i s)"
  shows "prov_inv s'"
proof -
  note Q = q [unfolded quiet_def]
  have vs: "vsame (vpodAt j s) (vpodAt j s')" for j using vsame_cell [of i s' s j] Q by blast
  have pr: "pd_provisioned (vpodAt j s') = pd_provisioned (vpodAt j s)" for j
    using p Q by (cases "j = i") (simp_all add: vpodAt_def)
  have sl: "slotOfPod s' j = slotOfPod s j" and fi: "pd_finalized (vpodAt j s') = pd_finalized (vpodAt j s)"
    and bk: "buildKey (pd_pod (vpodAt j s')) = buildKey (pd_pod (vpodAt j s))" for j
    using vs [of j] by (simp_all add: vsame_def)
  have kn: "known s' = known s" using Q by (simp add: known_def fun_eq_iff)
  have lv: "live s' = live s" by (simp add: live_def fun_eq_iff kn fi)
  have ce: "ce_provision (pv_store s' ! j) = ce_provision (pv_store s ! j)"
    "ce_lifecycle (pv_store s' ! j) = ce_lifecycle (pv_store s ! j)" for j
    using Q by (cases "j = i"; simp)+
  have co: "ctxOf s' = ctxOf s" using Q by (simp add: ctxOf_def ce fun_eq_iff)
  have ac: "active s' = active s" using Q by (simp add: active_def fun_eq_iff)
  have "task_ok s' t = task_ok s t" for t
    using Q by (cases t) (simp_all add: ce lv kn pr)
  with inv Q show ?thesis
    by (simp add: prov_inv_def inv_pods_def inv_ctx_def inv_tasks_def co ac lv sl fi bk pr)
qed

lemma tasks_frame [simp]:
  "vpodAt i (s\<lparr>pv_tasks := w\<rparr>) = vpodAt i s" "active (s\<lparr>pv_tasks := w\<rparr>) = active s"
  "known (s\<lparr>pv_tasks := w\<rparr>) i = known s i" "live (s\<lparr>pv_tasks := w\<rparr>) i = live s i"
  "task_ok (s\<lparr>pv_tasks := w\<rparr>) t = task_ok s t" "ctxOf (s\<lparr>pv_tasks := w\<rparr>) i c = ctxOf s i c"
  "inv_pods (s\<lparr>pv_tasks := w\<rparr>) = inv_pods s" "inv_ctx (s\<lparr>pv_tasks := w\<rparr>) = inv_ctx s"
proof -
  show v: "vpodAt i (s\<lparr>pv_tasks := w\<rparr>) = vpodAt i s" for i by (simp add: vpodAt_def)
  show "active (s\<lparr>pv_tasks := w\<rparr>) = active s" by (simp add: active_def fun_eq_iff)
  show k: "known (s\<lparr>pv_tasks := w\<rparr>) i = known s i" for i by (simp add: known_def)
  show l: "live (s\<lparr>pv_tasks := w\<rparr>) i = live s i" for i by (simp add: live_def k v)
  show "task_ok (s\<lparr>pv_tasks := w\<rparr>) t = task_ok s t" by (cases t) (simp_all add: k l v)
  show c: "ctxOf (s\<lparr>pv_tasks := w\<rparr>) i c = ctxOf s i c" for i c by (simp add: ctxOf_def)
  show "inv_pods (s\<lparr>pv_tasks := w\<rparr>) = inv_pods s" by (simp add: inv_pods_def l v)
  show "inv_ctx (s\<lparr>pv_tasks := w\<rparr>) = inv_ctx s" by (simp add: inv_ctx_def c)
qed

lemma inv_append_task:
  assumes "prov_inv s" "task_ok s t" "\<And>u. active s t \<Longrightarrow> u \<in> set (pv_tasks s) \<Longrightarrow> taskPod u = taskPod t \<Longrightarrow> \<not> active s u"
  shows "prov_inv (s\<lparr>pv_tasks := pv_tasks s @ [t]\<rparr>)"
  using assms by (auto simp: prov_inv_def inv_tasks_def)

lemma take_drop_filter: "k < length xs \<Longrightarrow> filter P xs = filter P (take k xs) @ (if P (xs ! k) then [xs ! k] else []) @ filter P (drop (Suc k) xs)"
  by (subst id_take_nth_drop [of k xs]) auto

text \<open>Taking a task out to run it: no other task of its pod is active, if it was.\<close>

lemma inv_take_task:
  assumes "prov_inv s" and k: "k < length (pv_tasks s)"
  defines "s1 \<equiv> s\<lparr>pv_tasks := take k (pv_tasks s) @ drop (Suc k) (pv_tasks s)\<rparr>"
  shows "prov_inv s1" "task_ok s1 (pv_tasks s ! k)"
    "\<And>u. active s (pv_tasks s ! k) \<Longrightarrow> u \<in> set (pv_tasks s1) \<Longrightarrow> taskPod u = taskPod (pv_tasks s ! k) \<Longrightarrow> \<not> active s1 u"
proof -
  have sub: "set (take k (pv_tasks s) @ drop (Suc k) (pv_tasks s)) \<subseteq> set (pv_tasks s)"
    using set_take_subset [of k "pv_tasks s"] set_drop_subset [of "Suc k" "pv_tasks s"] by auto
  have inv: "inv_tasks s" using assms by (simp add: prov_inv_def)
  have d: "distinct (map taskPod (filter (active s) (pv_tasks s)))" using inv by (simp add: inv_tasks_def)
  note d' = d [unfolded take_drop_filter [OF k, of "active s"]]
  show "task_ok s1 (pv_tasks s ! k)" using inv k by (simp add: s1_def inv_tasks_def)
  show "prov_inv s1"
    using assms sub d' by (auto simp: s1_def prov_inv_def inv_tasks_def)
  show "\<not> active s1 u" if "active s (pv_tasks s ! k)" "u \<in> set (pv_tasks s1)" "taskPod u = taskPod (pv_tasks s ! k)" for u
  proof
    assume "active s1 u"
    with that have "taskPod (pv_tasks s ! k) \<in> taskPod ` (set (filter (active s) (take k (pv_tasks s))) \<union>
        set (filter (active s) (drop (Suc k) (pv_tasks s))))"
      unfolding that(3) [symmetric] by (auto simp: s1_def)
    with d' that(1) show False by (simp add: image_Un)
  qed
qed


section \<open>Goroutines\<close>

lemma quiet_local: "quiet i s s' \<Longrightarrow> local_change i [] s s'"
  by (simp add: quiet_def local_change_def ctxOf_def)

text \<open>The context that a goroutine's own deferred cancel is for.\<close>

lemma local_cancel:
  "local_change i new s s' \<Longrightarrow> ctxOf s i p \<Longrightarrow> local_change i new s (s'\<lparr>pv_cancelled := p # pv_cancelled s'\<rparr>)"
  by (auto simp: local_change_def ctxOf_def vpodAt_def)

lemma spawned_local:
  assumes "spawned i s s'" "i < length (pv_store s)"
  obtains t where "local_change i [TaskLifecycle i (pv_nextCtx s) t] s s'"
  using assms by (auto simp: spawned_def local_change_def ctxOf_def)

lemma inv_init:
  assumes bo: "backoff_ok env" and inv: "prov_inv s" and run: "initializeVirtualPod env i ctx ro s = Some (e, s')"
    and ok: "task_ok s (TaskInit i ctx ro)"
    and only: "\<And>u. active s (TaskInit i ctx ro) \<Longrightarrow> u \<in> set (pv_tasks s) \<Longrightarrow> taskPod u = i \<Longrightarrow> \<not> active s u"
  shows "prov_inv s'"
proof -
  have i: "i < length (pv_store s)" using ok by simp
  have ti: "task_ok s t" if "t \<in> set (pv_tasks s)" for t
    using inv that by (auto simp: prov_inv_def inv_tasks_def)
  have idle: "\<not> active s u" if "u \<in> set (pv_tasks s)" "taskPod u = i" for u
  proof (cases "active s (TaskInit i ctx ro)")
    case True
    with only that show ?thesis by blast
  next
    case False
    then have "\<not> known s i" using ok by (simp add: active_def)
    with active_ctx [OF ti [OF that(1)]] that(2) show ?thesis by (auto simp: live_def)
  qed
  have gone: "\<not> known s i" if "TaskInit i c r \<in> set (pv_tasks s)" for c r
    using ti [OF that] idle [OF that] by (auto simp: active_def)
  have lv: "known s i \<Longrightarrow> pd_finalized (vpodAt i s) \<Longrightarrow> False"
    using ok by (auto simp: live_def split: if_splits)
  from bo run i show ?thesis
  proof (cases rule: init_spec)
    case (failed p u)
    have l: "local_change i [] s s'"
      using local_cancel [OF quiet_local [OF failed(3)], of p] failed(1,4) i by (simp add: ctxOf_def)
    show ?thesis
      by (rule inv_local [OF inv l]) (use idle gone lv l in \<open>auto simp: local_change_def active_def\<close>)
  next
    case (started p u)
    obtain t where "local_change i [TaskLifecycle i (pv_nextCtx s) t] s u"
      using spawned_local [OF started(3) i] .
    with local_cancel [OF this, of p] started(1,6) i
    have l: "local_change i [TaskLifecycle i (pv_nextCtx s) t] s s'" by (simp add: ctxOf_def)
    have p: "p < pv_nextCtx s" and cs: "\<forall>c \<in> set (pv_cancelled s). c < pv_nextCtx s"
      using inv started(1) i by (auto simp: prov_inv_def inv_ctx_def ctxOf_def)
    have "live s i" using ok started(5) by simp
    then have "live s' i" using local_live [OF l] by simp
    moreover have "vpodAt i s' = vpodAt i u" by (simp add: started(6) vpodAt_def)
    ultimately have n: "task_ok s' (TaskLifecycle i (pv_nextCtx s) t)"
      using started i p cs by (auto simp: spawned_def)
    have "\<not> active s' u" if "u \<in> set (pv_tasks s)" "taskPod u = i" for u
      using idle [OF that] l by (auto simp: local_change_def active_def)
    then show ?thesis
      by (rule inv_local [OF inv l]) (use gone lv n in auto)
  qed
qed

lemma inv_restarted:
  assumes inv: "prov_inv s" and r: "restarted i lc s s'" and lc: "ce_lifecycle (pv_store s ! i) = Some lc"
    and l: "live s i" and idle: "\<And>u. u \<in> set (pv_tasks s) \<Longrightarrow> taskPod u = i \<Longrightarrow> \<not> active s u"
  shows "prov_inv s'"
proof -
  have i: "i < length (pv_store s)" using inv l known_lt [of s i] by (simp add: prov_inv_def live_def)
  note R = r [unfolded restarted_def]
  have ctx: "ctxOf s i lc" using lc i by (simp add: ctxOf_def)
  have lch: "local_change i [TaskInit i (pv_nextCtx s) True] s s'"
    using R ctx by (auto simp: local_change_def ctxOf_def)
  have "lc < pv_nextCtx s" "\<forall>c \<in> set (pv_cancelled s). c < pv_nextCtx s"
    using inv ctx by (auto simp: prov_inv_def inv_ctx_def)
  then have n: "task_ok s' (TaskInit i (pv_nextCtx s) True)"
    using R i l local_live [OF lch] by auto
  have gone: "\<not> known s i" if "TaskInit i c x \<in> set (pv_tasks s)" for c x
  proof -
    have "task_ok s (TaskInit i c x)" using inv that by (auto simp: prov_inv_def inv_tasks_def)
    with idle [OF that] show ?thesis by (auto simp: active_def)
  qed
  show ?thesis
    by (rule inv_local [OF inv lch]) (use idle gone l R n in \<open>auto simp: active_def live_def\<close>)
qed

lemma inv_ended:
  assumes inv: "prov_inv s" and e: "ended i lc s s'" and lc: "ce_lifecycle (pv_store s ! i) = Some lc"
    and l: "live s i" "pd_provisioned (vpodAt i s)"
    and idle: "\<And>u. u \<in> set (pv_tasks s) \<Longrightarrow> taskPod u = i \<Longrightarrow> \<not> active s u"
  shows "prov_inv s'"
proof -
  have i: "i < length (pv_store s)" using inv l known_lt [of s i] by (simp add: prov_inv_def live_def)
  note E = e [unfolded ended_def]
  have "released i s s'" using E l lc i by (auto simp: released_def ctxOf_def)
  moreover have "TaskInit i c x \<notin> set (pv_tasks s)" for c x
  proof
    assume t: "TaskInit i c x \<in> set (pv_tasks s)"
    then have "task_ok s (TaskInit i c x)" using inv by (auto simp: prov_inv_def inv_tasks_def)
    with idle [OF t] l show False by (auto simp: active_def live_def)
  qed
  ultimately show ?thesis
    using E l idle by (intro inv_release [OF inv, of i]) (auto simp: active_def)
qed


lemma inv_tick:
  assumes inv: "prov_inv s" and run: "reconcileTick env i ctx seen s = Some (l, s')"
    and ok: "task_ok s (TaskLifecycle i ctx seen)" and c: "ctx \<notin> set (pv_cancelled s)"
    and idle: "\<And>u. u \<in> set (pv_tasks s) \<Longrightarrow> taskPod u = i \<Longrightarrow> \<not> active s u"
  shows "prov_inv (s'\<lparr>pv_tasks := pv_tasks s' @ [TaskLifecycle i ctx l]\<rparr>)"
proof -
  have i: "i < length (pv_store s)" and n: "ctx < pv_nextCtx s" and lv: "live s i"
    and lc: "ce_lifecycle (pv_store s ! i) = Some ctx" and pr: "pd_provisioned (vpodAt i s)"
    using ok c by auto
  from run i c show ?thesis
  proof (cases rule: tick_cases)
    case quiet
    note Q = quiet(1) [unfolded quiet_def]
    have "task_ok s' (TaskLifecycle i ctx l)"
      using Q quiet(2) i n lv lc pr c local_live [OF quiet_local [OF quiet(1)]] by simp
    moreover have "\<not> active s' u" if "u \<in> set (pv_tasks s')" "taskPod u = i" for u
      using idle [of u] that Q by (simp add: active_def)
    ultimately show ?thesis by (intro inv_append_task [OF inv_quiet [OF inv quiet]]) auto
  next
    case (restart x)
    note R = restart(2) [unfolded restarted_def]
    have x: "x = ctx" using restart(1) lc by simp
    have "prov_inv s'" by (rule inv_restarted [OF inv restart(2,1) lv idle])
    then show ?thesis
      using R x i n by (intro inv_append_task) (auto simp: active_def)
  next
    case (ended t j x)
    note Q = ended(1) [unfolded quiet_def]
    have it: "prov_inv t" by (rule inv_quiet [OF inv ended(1,2)])
    have lt: "live t i" using lv local_live [OF quiet_local [OF ended(1)]] by simp
    then obtain k where k: "pv_index t k = Some i" by (auto simp: live_def known_def)
    then have "buildKey (pd_pod (vpodAt i t)) = k" using it by (auto simp: prov_inv_def inv_pods_def)
    with k ended(3) have "j = i" by simp
    with ended(4) have lci: "ce_lifecycle (pv_store t ! i) = Some x" by simp
    with Q lc have x: "x = ctx" by simp
    have idle': "\<not> active t u" if "u \<in> set (pv_tasks t)" "taskPod u = i" for u
      using idle [of u] that Q by (simp add: active_def)
    have "prov_inv s'"
      by (rule inv_ended [OF it ended(5) lci lt _ idle']) (use ended(2) pr in auto)
    then show ?thesis
      using ended(5) [unfolded ended_def] Q x i n by (intro inv_append_task) (auto simp: active_def)
  qed
qed

lemma inv_runTask:
  assumes bo: "backoff_ok env" and inv: "prov_inv s" and k: "k < length (pv_tasks s)"
    and run: "runTask env (pv_tasks s ! k) (s\<lparr>pv_tasks := take k (pv_tasks s) @ drop (Suc k) (pv_tasks s)\<rparr>) = Some s'"
  shows "prov_inv s'"
proof -
  let ?s = "s\<lparr>pv_tasks := take k (pv_tasks s) @ drop (Suc k) (pv_tasks s)\<rparr>"
  note t = inv_take_task [OF inv k]
  show ?thesis
  proof (cases "pv_tasks s ! k")
    case (TaskInit i c ro)
    with run obtain e where r: "initializeVirtualPod env i c ro ?s = Some (e, s')"
      by (auto simp: runTask_def)
    show ?thesis by (rule inv_init [OF bo t(1) r]) (use t TaskInit in auto)
  next
    case (TaskLifecycle i c seen)
    show ?thesis
    proof (cases "c \<in> set (pv_cancelled s)")
      case True
      with run t(1) TaskLifecycle show ?thesis by (simp add: runTask_def)
    next
      case False
      then obtain l s1 where r: "reconcileTick env i c seen ?s = Some (l, s1)"
        and s': "s' = s1\<lparr>pv_tasks := pv_tasks s1 @ [TaskLifecycle i c l]\<rparr>"
        using run TaskLifecycle by (auto simp: runTask_def)
      show ?thesis
        unfolding s'
        by (rule inv_tick [OF t(1) r]) (use t(2,3) TaskLifecycle False in \<open>auto simp: active_def\<close>)
    qed
  qed
qed

section \<open>Handlers\<close>

lemma reserve_free:
  "reserveGatewaySlot cs = (Inr i, cs') \<Longrightarrow> i < length cs \<and> \<not> px_assigned (cs ! i) \<and> cs' = setAssigned i True cs"
  by (auto simp: reserveGatewaySlot_def dest: findIndex_Some split: option.splits)

lemma NewVirtualPod_fields [simp]:
  "pd_pod (NewVirtualPod key p m slot cms mounts tok) = p" "pd_slot (NewVirtualPod key p m slot cms mounts tok) = slot"
  "pd_id (NewVirtualPod key p m slot cms mounts tok) = key"
  "\<not> pd_finalized (NewVirtualPod key p m slot cms mounts tok)"
  "\<not> pd_provisioned (NewVirtualPod key p m slot cms mounts tok)"
  by (simp_all add: NewVirtualPod_def)


lemma inv_CreatePod:
  assumes inv: "prov_inv s" and run: "CreatePod env p s = Some (e, s')" and fresh: "pv_index s (buildKey p) = None"
  shows "prov_inv s'"
proof (cases "length (pod_containers p) > 1")
  case True
  with run inv show ?thesis by (auto simp: CreatePod_def)
next
  case one: False
  show ?thesis
  proof (cases "reserveGatewaySlot (pv_clients s)")
    case (Pair r cs)
    show ?thesis
    proof (cases r)
      case (Inl er)
      with run inv one Pair show ?thesis by (auto simp: CreatePod_def)
    next
      case (Inr slot)
      note free = reserve_free [OF Pair [unfolded Inr]]
      obtain ann c rest where ac: "pod_annotations p = Some ann" "pod_containers p = c # rest"
        using run one Pair Inr by (auto simp: CreatePod_def split: option.splits list.splits)
      let ?p = "p\<lparr>pod_annotations := Some (fmupd ''anex.sh/proxy-slot-id'' (itoa (int slot)) ann), pod_status := newPodStatus\<rparr>"
      have bk: "buildKey ?p = buildKey p" by (simp add: buildKey_def)
      obtain mounts where m: "s' = (notifyPodUpdate ?p (s\<lparr>pv_clients := cs\<rparr>))
        \<lparr>pv_nextCtx := Suc (pv_nextCtx s),
         pv_store := pv_store s @ [\<lparr>ce_pod = NewVirtualPod (buildKey p) ?p (emptyMachine (pe_zero env)) (int slot)
            (loadMountedConfigMaps (pe_configMaps env) (referencedConfigMaps (pod_volumes ?p)) ?p) mounts (pe_token env),
            ce_provision = Some (pv_nextCtx s), ce_lifecycle = None\<rparr>],
         pv_index := (pv_index s)(buildKey p \<mapsto> length (pv_store s)),
         pv_tasks := pv_tasks s @ [TaskInit (length (pv_store s)) (pv_nextCtx s) False]\<rparr>"
        using run one Pair Inr ac bk
        by (auto simp: CreatePod_def Let_def newCtx_def notifyPodUpdate_def bind_eq_Some_conv)
      show ?thesis
        by (rule inv_new_pod [OF inv _ _ fresh, of slot]) (use m free bk in \<open>simp_all add: notifyPodUpdate_def\<close>)
    qed
  qed
qed

lemma inv_UpdatePod:
  assumes inv: "prov_inv s" and run: "UpdatePod p s = Some (e, s')"
  shows "prov_inv s'"
proof -
  obtain i where i: "pv_index s (buildKey p) = Some i"
    and s': "s' = notifyPodUpdate p (setVpod i (UpdatePodRef p (vpodAt i s)) s)"
    using run by (auto simp: UpdatePod_def split: option.splits)
  have l: "i < length (pv_store s)" and k: "buildKey (pd_pod (vpodAt i s)) = buildKey p"
    using inv i by (auto simp: prov_inv_def inv_pods_def)
  have "quiet i s (setVpod i (UpdatePodRef p (vpodAt i s)) s)"
    by (rule quiet_setVpod) (use k in \<open>simp add: vsame_def UpdatePodRef_def\<close>)
  then have "prov_inv (setVpod i (UpdatePodRef p (vpodAt i s)) s)"
    by (rule inv_quiet [OF inv]) (use l in \<open>simp add: UpdatePodRef_def\<close>)
  then show ?thesis by (simp add: s')
qed

lemma TerminatePod_provisioned: "TerminatePod t e v = Some v' \<Longrightarrow> pd_provisioned v' = pd_provisioned v"
  by (auto simp: TerminatePod_def Let_def setStatus_def split: if_splits option.splits)

text \<open>What a cancelled context of pod \<open>i\<close> leaves.\<close>

lemma quiet_cancel_local:
  assumes "ctxOf s i c" "quiet i (s\<lparr>pv_cancelled := c # pv_cancelled s\<rparr>) s'"
  shows "local_change i [] s s'"
  using assms by (auto simp: local_change_def quiet_def ctxOf_def vpodAt_def)

lemma inv_deleteProvisioned:
  assumes inv: "prov_inv s" and run: "deleteProvisioned env k i s = Some (e, s')" and key: "pv_index s k = Some i"
    and pr: "pd_provisioned (vpodAt i s)" and adm: "\<And>c ro. TaskInit i c ro \<in> set (pv_tasks s) \<Longrightarrow> c \<in> set (pv_cancelled s)"
  shows "prov_inv s'"
proof -
  have i: "i < length (pv_store s)" and kn: "known s i" using inv key by (auto simp: prov_inv_def inv_pods_def known_def)
  have ti: "task_ok s t" if "t \<in> set (pv_tasks s)" for t
    using inv that by (auto simp: prov_inv_def inv_tasks_def)
  show ?thesis
  proof (cases "pd_finalized (vpodAt i s)")
    case True
    have s': "s' = s\<lparr>pv_index := (pv_index s)(k := None)\<rparr>" using run True by (simp add: deleteProvisioned_def Finalized_def)
    have "\<not> active s t" if "t \<in> set (pv_tasks s)" "taskPod t = i" for t
      using active_ctx [OF ti [OF that(1)]] that(2) True by (auto simp: live_def)
    moreover have "released i s s'" using True by (simp add: released_def s' live_def vpodAt_def)
    ultimately show ?thesis
      using key by (intro inv_release [OF inv, of i]) (auto simp: s' active_def)
  next
    case False
    then have lv: "live s i" using kn by (simp add: live_def)
    obtain c where c: "ce_lifecycle (pv_store s ! i) = Some c"
      using run False by (cases "ce_lifecycle (pv_store s ! i)") (auto simp: deleteProvisioned_def Finalized_def cancelCtx_def)
    define s1 where "s1 = s\<lparr>pv_cancelled := c # pv_cancelled s\<rparr>"
    obtain now s2 where n: "cloud env CNow s1 = (now, s2)" by fastforce
    obtain v1 where v1: "TerminatePod (cr_time now) 0 (vpodAt i s2) = Some v1"
      using run False c n by (cases "TerminatePod (cr_time now) 0 (vpodAt i s2)")
        (auto simp: deleteProvisioned_def Finalized_def cancelCtx_def s1_def)
    obtain r s4 where d: "cloud env (CDestroy (MachineRentID v1)) (setVpod i v1 s2) = (r, s4)" by fastforce
    have "quiet i s1 s2" by (rule quiet_cloudD [OF n])
    also have "quiet i s2 (setVpod i v1 s2)" by (rule quiet_setVpod) (rule vsame_status_ops(3) [OF v1])
    also have "quiet i (setVpod i v1 s2) s4" by (rule quiet_cloudD [OF d])
    finally have q: "quiet i s1 s4" .
    have own: "ctxOf s i c" using c i by (simp add: ctxOf_def)
    have l: "local_change i [] s s4" by (rule quiet_cancel_local [OF own q [unfolded s1_def]])
    have idle: "\<not> active s4 t" if "t \<in> set (pv_tasks s)" "taskPod t = i" for t
      using ti [OF that(1)] that adm [of "taskCtx t"] c q by (cases t) (auto simp: active_def quiet_def s1_def)
    have gone: "\<not> known s i" if "TaskInit i x ro \<in> set (pv_tasks s)" for x ro
      using ti [OF that] adm [OF that] by simp
    have inv4: "prov_inv s4" by (rule inv_local [OF inv l]) (use idle gone lv in \<open>auto simp: live_def\<close>)
    show ?thesis
    proof (cases "cr_err r")
      case (Some er)
      with run False c n v1 d have "s' = s4"
        by (auto simp: deleteProvisioned_def Finalized_def cancelCtx_def s1_def)
      with inv4 show ?thesis by simp
    next
      case None
      have lv4: "live s4 i" using lv local_live [OF l] by simp
      have i4: "i < length (pv_store s4)" using i q by (simp add: quiet_def s1_def)
      have vs: "vpodAt i s4 = v1" using cloud_frame [OF d] cloud_frame [OF n] i
        by (simp add: vpodAt_def setVpod_def s1_def)
      have cl: "0 \<le> pd_slot v1 \<and> nat (pd_slot v1) < length (pv_clients s4)"
        using inv4 lv4 vs by (auto simp: prov_inv_def inv_pods_def)
      have s': "s' = (setVpod i (Finalize v1) (s4\<lparr>pv_clients := setAssigned (nat (pd_slot v1)) False (pv_clients s4)\<rparr>))
          \<lparr>pv_index := (pv_index s4)(k := None)\<rparr>"
        using run False c n v1 d None cl vs
        by (simp add: deleteProvisioned_def Finalized_def cancelCtx_def s1_def assignSlot_def clientAt_def
            ProxySlot_def vpodAt_def)
      have "released i s4 s'"
        using lv4 vs i4 by (auto simp: released_def s' vpodAt_def setVpod_def Finalize_def)
      moreover have "pv_index s4 k = Some i" "pv_tasks s4 = pv_tasks s" using l key by (simp_all add: local_change_def)
      ultimately show ?thesis
        using idle by (intro inv_release [OF inv4, of i]) (auto simp: s' active_def)
    qed
  qed
qed


lemma inv_deleteUnprovisioned:
  assumes inv: "prov_inv s" and run: "deleteUnprovisioned env k i s = Some (e, s')" and key: "pv_index s k = Some i"
    and pr: "\<not> pd_provisioned (vpodAt i s)"
  shows "prov_inv s'"
proof -
  have i: "i < length (pv_store s)" and kn: "known s i" and lv: "live s i"
    using inv key pr by (auto simp: prov_inv_def inv_pods_def known_def live_def)
  obtain c where c: "ce_provision (pv_store s ! i) = Some c"
    using run by (cases "ce_provision (pv_store s ! i)") (auto simp: deleteUnprovisioned_def cancelCtx_def)
  have cl: "0 \<le> slotOfPod s i \<and> nat (slotOfPod s i) < length (pv_clients s)"
    using inv lv by (auto simp: prov_inv_def inv_pods_def)
  define s3 where "s3 = s\<lparr>pv_cancelled := c # pv_cancelled s,
    pv_clients := setAssigned (nat (slotOfPod s i)) False (pv_clients s), pv_index := (pv_index s)(k := None)\<rparr>"
  obtain now s4 where n: "cloud env CNow s3 = (now, s4)" by fastforce
  obtain v1 where v1: "TerminatePod (cr_time now) 0 (vpodAt i s4) = Some v1" and s': "s' = setVpod i v1 s4"
    using run c cl n
    by (cases "TerminatePod (cr_time now) 0 (vpodAt i s4)")
      (auto simp: deleteUnprovisioned_def cancelCtx_def s3_def assignSlot_def clientAt_def ProxySlot_def vpodAt_def)
  have "quiet i s3 s4" by (rule quiet_cloudD [OF n])
  also have "quiet i s4 (setVpod i v1 s4)" by (rule quiet_setVpod) (rule vsame_status_ops(3) [OF v1])
  finally have q: "quiet i s3 s'" by (simp add: s')
  have own: "ctxOf s i c" using c i by (simp add: ctxOf_def)
  have "vpodAt i s3 = vpodAt i s" by (simp add: s3_def vpodAt_def)
  then have "released i s s'"
    using q lv own by (auto simp: quiet_def released_def s3_def vsame_def)
  moreover have "\<not> active s' t" if "t \<in> set (pv_tasks s)" "taskPod t = i" for t
  proof -
    have "task_ok s t" using inv that by (auto simp: prov_inv_def inv_tasks_def)
    then show ?thesis using that c pr q by (cases t) (auto simp: active_def quiet_def s3_def)
  qed
  moreover have "pv_index s' = (pv_index s)(k := None)" using q by (simp add: quiet_def s3_def)
  ultimately show ?thesis using key by (intro inv_release [OF inv, of i]) auto
qed

lemma inv_DeletePod:
  assumes inv: "prov_inv s" and run: "DeletePod env p s = Some (e, s')"
    and adm: "\<And>i c ro. pv_index s (buildKey p) = Some i \<Longrightarrow> pd_provisioned (vpodAt i s) \<Longrightarrow>
      TaskInit i c ro \<in> set (pv_tasks s) \<Longrightarrow> c \<in> set (pv_cancelled s)"
  shows "prov_inv s'"
proof (cases "pv_index s (buildKey p)")
  case None
  with run inv show ?thesis by (simp add: DeletePod_def)
next
  case (Some i)
  show ?thesis
  proof (cases "pd_provisioned (vpodAt i s)")
    case True
    obtain e1 s1 where d: "deleteProvisioned env (buildKey p) i s = Some (e1, s1)"
      using run Some True by (auto simp: DeletePod_def ProvisioningCompleted_def bind_eq_Some_conv)
    have "prov_inv s1" by (rule inv_deleteProvisioned [OF inv d Some True adm [OF Some True]])
    then show ?thesis
      using run Some True d by (cases e1) (auto simp: DeletePod_def ProvisioningCompleted_def)
  next
    case False
    obtain e1 s1 where d: "deleteUnprovisioned env (buildKey p) i s = Some (e1, s1)"
      using run Some False by (auto simp: DeletePod_def ProvisioningCompleted_def bind_eq_Some_conv)
    have "prov_inv s1" by (rule inv_deleteUnprovisioned [OF inv d Some False])
    then show ?thesis
      using run Some False d by (cases e1) (auto simp: DeletePod_def ProvisioningCompleted_def)
  qed
qed

section \<open>Runs\<close>

text \<open>
  What the kubelet and the scheduler have to respect: a pod is created once, and a pod is not deleted
  between the request of a restart and the first step of the goroutine that performs it (the pod
  still counts as provisioned then).
\<close>

fun admissible :: "'f prov \<Rightarrow> prov_event \<Rightarrow> bool" where
  "admissible s (EvCreate p) = (pv_index s (buildKey p) = None)"
| "admissible s (EvDelete p) =
     (case pv_index s (buildKey p) of
        None \<Rightarrow> True
      | Some i \<Rightarrow> \<not> pd_provisioned (vpodAt i s) \<or>
          list_all (\<lambda>t. case t of TaskInit j c ro \<Rightarrow> j \<noteq> i \<or> c \<in> set (pv_cancelled s) | _ \<Rightarrow> True) (pv_tasks s))"
| "admissible s _ = True"

fun admissible_run :: "'f prov_env \<Rightarrow> prov_event list \<Rightarrow> 'f prov \<Rightarrow> bool" where
  "admissible_run env [] s = True"
| "admissible_run env (e # es) s =
     (admissible s e \<and> (case prov_step env e s of None \<Rightarrow> True | Some s1 \<Rightarrow> admissible_run env es s1))"

lemma inv_step:
  assumes bo: "backoff_ok env" and inv: "prov_inv s" and adm: "admissible s ev" and run: "prov_step env ev s = Some s'"
  shows "prov_inv s'"
proof (cases ev)
  case (EvCreate p)
  then show ?thesis using run adm by (auto simp: prov_step_def intro: inv_CreatePod [OF inv])
next
  case (EvUpdate p)
  then show ?thesis using run by (auto simp: prov_step_def intro: inv_UpdatePod [OF inv])
next
  case (EvDelete p)
  then obtain e where d: "DeletePod env p s = Some (e, s')" using run by (auto simp: prov_step_def)
  show ?thesis
    by (rule inv_DeletePod [OF inv d]) (use adm EvDelete in \<open>auto simp: list_all_iff\<close>)
next
  case (EvTask k)
  then show ?thesis using run inv by (auto simp: prov_step_def split: if_splits intro: inv_runTask [OF bo inv])
next
  case (EvCollect ps)
  then show ?thesis using run inv by (auto simp: prov_step_def machineGarbageCollector_def split: sum.splits)
qed

lemma inv_run:
  "backoff_ok env \<Longrightarrow> prov_inv s \<Longrightarrow> admissible_run env es s \<Longrightarrow> prov_run env es s = Some s' \<Longrightarrow> prov_inv s'"
  by (induction es arbitrary: s) (auto split: option.splits intro: inv_step)

text \<open>A provider that has just started, without pods.\<close>

definition freshProv :: "proxy_server \<Rightarrow> proxy_client list \<Rightarrow> 'f prov" where
  "freshProv server clients =
     \<lparr>pv_server = server, pv_clients = clients, pv_store = [], pv_index = (\<lambda>_. None), pv_restored = [],
      pv_toRestart = [], pv_nextCtx = 0, pv_cancelled = [], pv_tasks = [], pv_notified = [], pv_log = [], pv_agent = []\<rparr>"

lemma inv_fresh [simp]: "prov_inv (freshProv server clients)"
  by (simp add: prov_inv_def inv_pods_def inv_ctx_def inv_tasks_def live_def known_def ctxOf_def freshProv_def)

end
