(* ===== verification/Rentals.thy ===== *)
theory Rentals
  imports ProviderInv
begin

text \<open>
  Which machines the provider pays for: what a provisioning goroutine rents, it either hands to its
  pod or destroys.
\<close>

section \<open>Machines that are rented\<close>

fun rent :: "string set \<Rightarrow> 'f cloud_req \<times> 'f cloud_resp \<Rightarrow> string set" where
  "rent R (CProvision sp p px b, r) = (if cr_err r = None then insert (cr_id r) R else R)"
| "rent R (CDestroy m, r) = R - {m}"
| "rent R _ = R"

text \<open>The machines rented and not destroyed, by the log of the cloud; the empty identifier names
  none.\<close>

definition outstanding :: "'f prov \<Rightarrow> string set" where
  "outstanding s = foldl rent {} (pv_log s) - {[]}"

text \<open>A machine is known to the cloud under the identifier it was asked for.\<close>

definition cloud_ids :: "'f prov_env \<Rightarrow> bool" where
  "cloud_ids env \<longleftrightarrow> (\<forall>w m x. cr_machine (pe_cloud env w (CGet m)) = Some x \<longrightarrow> mc_id x = m)"

lemma rent_cloud:
  "foldl rent {} (pv_log (snd (cloud env q s))) = rent (foldl rent {} (pv_log s)) (q, fst (cloud env q s))"
  by (simp add: cloud_def)

definition neutral :: "'f cloud_req \<Rightarrow> bool" where
  "neutral q \<longleftrightarrow> (case q of CProvision _ _ _ _ \<Rightarrow> False | CDestroy _ \<Rightarrow> False | _ \<Rightarrow> True)"

lemma outstanding_neutral: "neutral q \<Longrightarrow> outstanding (snd (cloud env q s)) = outstanding s"
  by (cases q) (simp_all add: outstanding_def rent_cloud neutral_def)

text \<open>\<open>B\<close> bounds what is rented beside the machine of pod \<open>i\<close>.\<close>

definition held :: "string set \<Rightarrow> nat \<Rightarrow> 'f prov \<Rightarrow> bool" where
  "held B i s \<longleftrightarrow> outstanding s \<subseteq> insert (MachineRentID (vpodAt i s)) B"

definition unready :: "nat \<Rightarrow> 'f prov \<Rightarrow> bool" where
  "unready i s \<longleftrightarrow> \<not> pd_provisioned (vpodAt i s) \<and> i < length (pv_store s)"

definition keeps_rent :: "nat \<Rightarrow> 'f prov \<Rightarrow> 'f prov \<Rightarrow> bool" where
  "keeps_rent i s s' \<longleftrightarrow> (\<forall>B. unready i s \<and> held B i s \<longrightarrow> unready i s' \<and> held B i s')"

lemma keeps_rent_refl [simp]: "keeps_rent i s s"
  by (simp add: keeps_rent_def)

lemma keeps_rent_trans [trans]: "keeps_rent i s t \<Longrightarrow> keeps_rent i t u \<Longrightarrow> keeps_rent i s u"
  unfolding keeps_rent_def by blast

lemma keeps_rent_neutral: "neutral q \<Longrightarrow> keeps_rent i s (snd (cloud env q s))"
  by (simp add: keeps_rent_def held_def unready_def outstanding_neutral)

lemma keeps_rent_neutralD: "cloud env q s = (r, s1) \<Longrightarrow> neutral q \<Longrightarrow> keeps_rent i s s1"
  using keeps_rent_neutral [of q i s env] by simp

lemma keeps_rent_ctxErr: "ctxErr env c s = (e, s1) \<Longrightarrow> keeps_rent i s s1"
  by (auto simp: ctxErr_def keeps_rent_neutralD neutral_def split: if_splits prod.splits)

lemma outstanding_setVpod [simp]: "outstanding (setVpod i v s) = outstanding s"
  by (simp add: outstanding_def setVpod_def)

lemma keeps_rent_setVpod:
  "MachineRentID v = MachineRentID (vpodAt i s) \<Longrightarrow> pd_provisioned v = pd_provisioned (vpodAt i s) \<Longrightarrow>
   keeps_rent i s (setVpod i v s)"
  by (auto simp: keeps_rent_def held_def unready_def)

lemma keeps_rent_agent [simp]: "keeps_rent i s (s\<lparr>pv_agent := w\<rparr>)"
  by (simp add: keeps_rent_def held_def unready_def outstanding_def vpodAt_def)

section \<open>The steps of an attempt\<close>

text \<open>The clean-up destroys the machine of a pod that is not provisioned, and forgets it.\<close>

lemma cleanup_rent:
  assumes "unready i s" "held B i s"
  shows "unready i (machineCleanup env i s)" "outstanding (machineCleanup env i s) \<subseteq> B"
    "MachineRentID (vpodAt i (machineCleanup env i s)) = []"
proof -
  let ?v = "vpodAt i s"
  obtain r s1 where c: "cloud env (CDestroy (MachineRentID ?v)) s = (r, s1)" by fastforce
  have s1: "pv_store s1 = pv_store s" "outstanding s1 = outstanding s - {MachineRentID ?v}" "vpodAt i s1 = ?v"
    using c by (auto simp: cloud_def outstanding_def vpodAt_def)
  have e: "machineCleanup env i s =
      (if MachineRentID ?v = [] then s else setVpod i (RemoveMachine (pe_zero env) (vpodAt i s1)) s1)"
    using assms(1) c by (simp add: machineCleanup_def unready_def ProvisioningCompleted_def Let_def)
  have nil: "[] \<notin> outstanding s" by (simp add: outstanding_def)
  have i: "i < length (pv_store s)" "i < length (pv_store s1)" and np: "\<not> pd_provisioned ?v"
    using assms(1) s1 by (auto simp: unready_def)
  have at: "vpodAt i (setVpod i (RemoveMachine (pe_zero env) (vpodAt i s1)) s1) = RemoveMachine (pe_zero env) ?v"
    using i s1 by simp
  have "unready i (machineCleanup env i s) \<and> outstanding (machineCleanup env i s) \<subseteq> B \<and>
      MachineRentID (vpodAt i (machineCleanup env i s)) = []"
  proof (cases "MachineRentID ?v = []")
    case True
    then show ?thesis using assms nil by (auto simp: e held_def)
  next
    case False
    then show ?thesis
      using assms(2) s1(2,3) i np
      by (auto simp: e at held_def unready_def RemoveMachine_def MachineRentID_def emptyMachine_def)
  qed
  then show "unready i (machineCleanup env i s)" "outstanding (machineCleanup env i s) \<subseteq> B"
    "MachineRentID (vpodAt i (machineCleanup env i s)) = []" by blast+
qed

lemma keeps_rent_cleanup: "keeps_rent i s (machineCleanup env i s)"
  unfolding keeps_rent_def
proof (intro allI impI conjI)
  fix B
  assume a: "unready i s \<and> held B i s"
  with cleanup_rent(1) show "unready i (machineCleanup env i s)" by blast
  from a cleanup_rent(2) [of i s B env] show "held B i (machineCleanup env i s)" by (auto simp: held_def)
qed

lemma ctxErr_outstanding: "ctxErr env c s = (e, s1) \<Longrightarrow> outstanding s1 = outstanding s"
proof -
  assume "ctxErr env c s = (e, s1)"
  then have "s1 = s \<or> s1 = snd (cloud env (CCtxErr c) s)"
    by (auto simp: ctxErr_def split: if_splits prod.splits)
  then show ?thesis using outstanding_neutral [of "CCtxErr c" env s] by (auto simp: neutral_def)
qed

text \<open>Selection rents at most the machine it returns, and none if it gives up.\<close>

lemma select_rent:
  assumes bo: "backoff_ok env" and "selectAndProvisionMachine env ctx p proxy s = Some ((m, e), s')"
  shows "outstanding s' \<subseteq> (if e = None then insert m (outstanding s) else outstanding s)"
proof -
  have r: "retry_run (selectOp env p proxy) (\<lambda>(m, t). case ctxErr env ctx t of (e, t1) \<Rightarrow> (e, m, t1))
      None ([], s) (e, m, s')"
    using assms by (auto simp: selectAndProvisionMachine_def backoff_runs)
  let ?J = "\<lambda>(m :: string, s) (m' :: string, s'). outstanding s' \<subseteq> outstanding s"
  have op: "(if a = Succeeded then outstanding (snd y) \<subseteq> insert (fst y) (outstanding (snd x))
        else outstanding (snd y) \<subseteq> outstanding (snd x))"
    if "selectOp env p proxy x = Some (a, y)" for x a y
    using that
    by (auto simp: selectOp_def Let_def cloud_def outstanding_def split: prod.splits option.splits if_splits)
  have "(e \<noteq> None \<and> ?J ([], s) (m, s')) \<or>
      (e = None \<and> (\<exists>x. ?J ([], s) x \<and> selectOp env p proxy x = Some (Succeeded, m, s')))"
  proof (rule retry_rel [OF r, where J = ?J])
    show "?J x y" if "(\<lambda>(m, t). case ctxErr env ctx t of (e, t1) \<Rightarrow> (e, m, t1)) x = (e, y)" for x e y
      using that by (auto split: prod.splits dest: ctxErr_outstanding)
    show "?J x y" if "selectOp env p proxy x = Some (a, y)" "a \<noteq> Succeeded" for x a y
      using op [OF that(1)] that(2) by (auto split: prod.splits)
  qed auto
  then show ?thesis
    using op by (fastforce split: prod.splits)
qed


lemma select_store:
  assumes bo: "backoff_ok env" and "selectAndProvisionMachine env ctx p proxy s = Some (r, s')"
  shows "pv_store s' = pv_store s"
proof -
  have q: "quiet j s s'" for j by (rule quiet_select [OF bo assms(2)])
  show ?thesis
  proof (rule nth_equalityI)
    show "length (pv_store s') = length (pv_store s)" using q by (simp add: quiet_def)
    show "pv_store s' ! i = pv_store s ! i" for i using q [of "Suc i"] by (simp add: quiet_def)
  qed
qed

lemma acquire_rent:
  assumes bo: "backoff_ok env" and run: "acquireMachine env ctx i ro s = Some ((again, e), s')"
    and i: "i < length (pv_store s)" and un: "ro \<or> unready i s" and h: "held B i s"
  shows "unready i s' \<and> held B i s'"
proof (cases ro)
  case True
  obtain now s1 where c: "cloud env CNow s = (now, s1)" by fastforce
  let ?v = "SetProvisioningCompleted (cr_time now) False (vpodAt i s1)"
  have s1: "outstanding s1 = outstanding s" "vpodAt i s1 = vpodAt i s" "pv_store s1 = pv_store s"
    using outstanding_neutral [of CNow env s] cloud_frame [OF c] c by (simp_all add: neutral_def vpodAt_def)
  obtain pull where p: "ImagePullAlways ?v = Some pull"
    using run True c by (cases "ImagePullAlways ?v") (auto simp: acquireMachine_def)
  have s': "s' = snd (cloud env (CRestart (MachineRentID ?v) pull) (setVpod i ?v s1))"
    using run True c p by (auto simp: acquireMachine_def Let_def split: prod.splits)
  have "outstanding s' = outstanding s"
    unfolding s' by (subst outstanding_neutral) (simp_all add: neutral_def s1)
  moreover have "vpodAt i s' = ?v" using i s1 by (simp add: s')
  ultimately show ?thesis
    using h i s1 by (simp add: unready_def held_def s' MachineRentID_def SetProvisioningCompleted_def)
next
  case False
  then have un: "unready i s" using un by simp
  define s1 where "s1 = (if MachineRentID (vpodAt i s) \<noteq> [] then machineCleanup env i s else s)"
  have o1: "unready i s1" "outstanding s1 \<subseteq> B"
    using cleanup_rent [OF un h, of env] un h by (auto simp: s1_def held_def outstanding_def)
  obtain proxy perr where g: "getPodProxyConfigById (ProxySlot (vpodAt i s1)) s1 = Some (proxy, perr)"
    using run False by (cases "getPodProxyConfigById (ProxySlot (vpodAt i s1)) s1")
      (auto simp: acquireMachine_def Let_def s1_def)
  obtain m e2 s2 where sel: "selectAndProvisionMachine env ctx (pd_pod (vpodAt i s1)) proxy s1 = Some ((m, e2), s2)"
    using run False g by (cases "selectAndProvisionMachine env ctx (pd_pod (vpodAt i s1)) proxy s1")
      (auto simp: acquireMachine_def Let_def s1_def)
  have o2: "outstanding s2 \<subseteq> (if e2 = None then insert m B else B)"
    using select_rent [OF bo sel] o1(2) by (auto split: if_splits)
  have i2: "i < length (pv_store s2)" and np: "\<not> pd_provisioned (vpodAt i s2)"
    using select_store [OF bo sel] o1(1) by (simp_all add: unready_def vpodAt_def)
  define s3 where "s3 = setVpod i (SetAgentPort (wrap64 (10000 + ProxySlot (vpodAt i s2) * 100)) (vpodAt i s2)) s2"
  have s3: "outstanding s3 = outstanding s2" "unready i s3"
    using i2 np by (simp_all add: s3_def unready_def SetAgentPort_def)
  show ?thesis
  proof (cases e2)
    case (Some er)
    then have "s' = s3" using run False g sel by (auto simp: acquireMachine_def Let_def s1_def s3_def)
    with s3 o2 Some show ?thesis by (auto simp: held_def)
  next
    case None
    obtain v where v: "SetMachine ((emptyMachine (pe_zero env))\<lparr>mc_id := m\<rparr>) (vpodAt i s3) = Some v"
      using run False g sel None
      by (cases "SetMachine ((emptyMachine (pe_zero env))\<lparr>mc_id := m\<rparr>) (vpodAt i s3)")
        (auto simp: acquireMachine_def Let_def s1_def s3_def)
    have vm: "MachineRentID v = m" "pd_provisioned v = pd_provisioned (vpodAt i s3)"
      using v by (auto simp: SetMachine_def MachineRentID_def split: option.splits)
    have "keeps_rent i (setVpod i v s3) s'"
      using run False g sel None v
      by (auto simp: acquireMachine_def Let_def s1_def s3_def neutral_def intro!: keeps_rent_neutral)
    moreover have "unready i (setVpod i v s3)" "held B i (setVpod i v s3)"
      using s3 vm o2 None by (auto simp: unready_def held_def)
    ultimately show ?thesis unfolding keeps_rent_def by blast
  qed
qed


lemma waitOp_rent:
  assumes ids: "cloud_ids env" and run: "waitOp env ctx i s = Some (a, s')"
  shows "keeps_rent i s s'"
proof -
  obtain e s1 where c: "ctxErr env ctx s = (e, s1)" by fastforce
  have k1: "keeps_rent i s s1" by (rule keeps_rent_ctxErr [OF c])
  show ?thesis
  proof (cases e)
    case (Some er)
    with run c k1 show ?thesis by (simp add: waitOp_def)
  next
    case None
    let ?q = "CGet (MachineRentID (vpodAt i s1))"
    obtain r s2 where g: "cloud env ?q s1 = (r, s2)" by fastforce
    have k2: "keeps_rent i s1 s2" by (rule keeps_rent_neutralD [OF g]) (simp add: neutral_def)
    have id: "mc_id x = MachineRentID (vpodAt i s2)" if "cr_machine r = Some x" for x
      using g ids that cloud_frame [OF g] by (auto simp: cloud_def cloud_ids_def vpodAt_def)
    have "keeps_rent i s2 s'"
    proof (cases "cr_err r = None \<and> cr_machine r \<noteq> None")
      case False
      then have "s' = s2" using run None c g by (simp add: waitOp_def split: option.splits)
      then show ?thesis by simp
    next
      case True
      then obtain x where x: "cr_err r = None" "cr_machine r = Some x" by blast
      obtain v where v: "SetMachine x (vpodAt i s2) = Some v"
        using run None c g x by (cases "SetMachine x (vpodAt i s2)") (simp_all add: waitOp_def)
      have s': "s' = setVpod i v s2" using run None c g x v by (simp add: waitOp_def)
      have "MachineRentID v = mc_id x" "pd_provisioned v = pd_provisioned (vpodAt i s2)"
        using v by (auto simp: SetMachine_def MachineRentID_def split: option.splits)
      with id [OF x(2)] show ?thesis unfolding s' by (intro keeps_rent_setVpod) simp_all
    qed
    with k1 k2 keeps_rent_trans show ?thesis by blast
  qed
qed

lemma wait_rent:
  assumes "cloud_ids env" and bo: "backoff_ok env" and "waitForMachineReady env ctx i s = Some (e, s')"
  shows "keeps_rent i s s'"
proof -
  have "(e \<noteq> None \<and> keeps_rent i s s') \<or> (e = None \<and> (\<exists>s0. keeps_rent i s s0 \<and>
      waitOp env (CtxTimeout ctx) i s0 = Some (Succeeded, s')))"
    by (rule retry_rel [OF assms(3) [unfolded waitForMachineReady_def backoff_runs [OF bo]]])
      (simp, erule (1) keeps_rent_trans, erule waitOp_rent [OF assms(1)], erule keeps_rent_ctxErr)
  with waitOp_rent [OF assms(1)] keeps_rent_trans show ?thesis by blast
qed

text \<open>Bringing up the runtime talks to the agent only.\<close>

lemma runtimeStep_frame: "runtimeStep f s = Some (e, s') \<Longrightarrow> \<exists>w. s' = s\<lparr>pv_agent := w\<rparr>"
  by (auto simp: runtimeStep_def split: option.splits prod.splits)

lemma agent_only_refl: "\<exists>w. s = s\<lparr>pv_agent := w\<rparr>"
  by (rule exI [of _ "pv_agent s"]) simp

lemma andThen_frame:
  assumes "\<And>s e s'. f s = Some (e, s') \<Longrightarrow> \<exists>w. s' = s\<lparr>pv_agent := w\<rparr>"
    and "\<And>s e s'. g s = Some (e, s') \<Longrightarrow> \<exists>w. s' = s\<lparr>pv_agent := w\<rparr>"
    and "andThen f g s = Some (e, s')"
  shows "\<exists>w. s' = s\<lparr>pv_agent := w\<rparr>"
  using assms(3)
  by (auto simp: andThen_def split: option.splits prod.splits dest!: assms(1) assms(2))

lemma startRuntime_frame:
  assumes "startRuntime env i s = Some (e, s')"
  shows "\<exists>w. s' = s\<lparr>pv_agent := w\<rparr>"
proof -
  have prom: "\<exists>w. t' = t\<lparr>pv_agent := w\<rparr>" if "pushPromtail env i t = Some (x, t')" for t x t'
    using that agent_only_refl [of t]
    by (auto simp: pushPromtail_def runtimeStep_frame split: option.splits list.splits prod.splits)
  show ?thesis
    using assms unfolding startRuntime_def Let_def
    by (elim andThen_frame [rotated 2])
      (auto intro: runtimeStep_frame prom split: option.splits prod.splits)
qed

lemma initOp_rent:
  assumes ids: "cloud_ids env" and bo: "backoff_ok env" and run: "initOp env ctx i (ro, s) = Some (a, ro', s')"
    and i: "i < length (pv_store s)" and un: "ro \<or> unready i s" and h: "held B i s"
  shows "unready i s' \<and> held B i s'"
proof -
  obtain again e s1 where acq: "acquireMachine env ctx i ro s = Some ((again, e), s1)"
    using run by (auto simp: initOp_def bind_eq_Some_conv)
  have r1: "unready i s1 \<and> held B i s1" by (rule acquire_rent [OF bo acq i un h])
  show ?thesis
  proof (cases e)
    case (Some er)
    with run acq r1 show ?thesis by (auto simp: initOp_def)
  next
    case None
    obtain we s2 where w: "waitForMachineReady env ctx i s1 = Some (we, s2)"
      using run acq None by (auto simp: initOp_def bind_eq_Some_conv)
    have r2: "unready i s2 \<and> held B i s2" using wait_rent [OF ids bo w] r1 unfolding keeps_rent_def by blast
    show ?thesis
    proof (cases we)
      case (Some er)
      let ?b = "snd (cloud env (CBan (MachineStableID (vpodAt i s2))) s2)"
      have "s' = machineCleanup env i s2 \<or> s' = machineCleanup env i ?b"
        using run acq None w Some by (auto simp: initOp_def split: if_splits)
      moreover have "keeps_rent i s2 ?b" by (rule keeps_rent_neutral) (simp add: neutral_def)
      ultimately show ?thesis using r2 keeps_rent_cleanup [of i _ env] unfolding keeps_rent_def by metis
    next
      case rd: None
      obtain re s3 where st: "startRuntime env i s2 = Some (re, s3)"
        using run acq None w rd by (auto simp: initOp_def bind_eq_Some_conv)
      have "keeps_rent i s2 s3" using startRuntime_frame [OF st] keeps_rent_agent by blast
      then have r3: "unready i s3 \<and> held B i s3" using r2 unfolding keeps_rent_def by blast
      show ?thesis
      proof (cases re)
        case (Some er)
        with run acq None w rd st r3 show ?thesis by (auto simp: initOp_def)
      next
        case fin: None
        have "outstanding s' = outstanding s3" "vpodAt i s' = vpodAt i s3" "length (pv_store s') = length (pv_store s3)"
          using run acq None w rd st fin r3
          by (auto simp: initOp_def newCtx_def cloud_def Let_def outstanding_def vpodAt_def unready_def)
        with r3 show ?thesis by (simp add: unready_def held_def)
      qed
    qed
  qed
qed


section \<open>A whole goroutine\<close>

text \<open>What the first attempt establishes and every further one keeps holds in the end.\<close>

lemma retry_keeps:
  assumes run: "retry_run op ctx left s (e, s')"
    and first: "\<And>a s1. op s = Some (a, s1) \<Longrightarrow> Q s1"
    and op: "\<And>t a u. op t = Some (a, u) \<Longrightarrow> Q t \<Longrightarrow> Q u"
    and ctx: "\<And>t x u. ctx t = (x, u) \<Longrightarrow> Q t \<Longrightarrow> Q u"
  shows "Q s'"
  using run first
proof (induction left s "(e, s')")
  case (again s er s1 s2 left)
  from again(1,6) have "Q s1" by blast
  with again(2) ctx have "Q s2" by blast
  with op again(5) show ?case by blast
qed (use ctx in blast)+

lemma attempts_rent:
  assumes ids: "cloud_ids env" and bo: "backoff_ok env"
    and run: "retry_run (initOp env (CtxId ctx) i)
      (\<lambda>(b, t). case ctxErr env (CtxId ctx) t of (x, t1) \<Rightarrow> (x, b, t1)) left (ro, s) (e, ro', s')"
    and i: "i < length (pv_store s)" and un: "ro \<or> unready i s" and h: "held B i s"
  shows "unready i s' \<and> held B i s'"
proof -
  let ?Q = "\<lambda>(b :: bool, t). unready i t \<and> held B i t"
  have "?Q (ro', s')"
  proof (rule retry_keeps [OF run])
    show "?Q u" if "initOp env (CtxId ctx) i (ro, s) = Some (a, u)" for a u
      using initOp_rent [OF ids bo _ i un h] that by (cases u) auto
    show "?Q u" if "initOp env (CtxId ctx) i t = Some (a, u)" "?Q t" for t a u
      using initOp_rent [OF ids bo, of "CtxId ctx" i "fst t" "snd t" a "fst u" "snd u" B] that
      by (cases t; cases u) (auto simp: unready_def)
    show "?Q u" if "(\<lambda>(b, t). case ctxErr env (CtxId ctx) t of (x, t1) \<Rightarrow> (x, b, t1)) t = (x, u)" "?Q t" for t x u
      using that by (auto simp: keeps_rent_def split: prod.splits dest!: keeps_rent_ctxErr [of _ _ _ _ _ i])
  qed
  then show ?thesis by simp
qed



section \<open>An example provider\<close>

text \<open>A cloud that answers every request with an error, or every request with success.\<close>

definition exResp :: "go_error option \<Rightarrow> int cloud_resp" where
  "exResp e = \<lparr>cr_err = e, cr_id = ''m1'', cr_machine = None,
     cr_state = \<lparr>st_waiting = None, st_running = None, st_terminated = None\<rparr>, cr_time = 0\<rparr>"

definition exProvEnv :: "go_error option \<Rightarrow> int prov_env" where
  "exProvEnv e = \<lparr>pe_cloud = (\<lambda>w q. exResp e), pe_agent = (\<lambda>w q. \<lparr>ar_status = 200, ar_err = None\<rparr>),
     pe_parseFloat = (\<lambda>t. None), pe_ff = \<lparr>ff_fmt = (\<lambda>x. []), ff_int = (\<lambda>x. x)\<rparr>, pe_zero = 0,
     pe_keys = (\<lambda>m. []), pe_decode = (\<lambda>t. ([], None)), pe_configMaps = (\<lambda>ns n. Inl (ErrNew ''none'')),
     pe_active = ''vastai'', pe_maxRetries = 2, pe_token = ''t'', pe_statusTimeout = 0, pe_promtail = None,
     pe_retrySelect = retry, pe_retryWait = retry, pe_retryInit = retry\<rparr>"

definition exClient :: "bool \<Rightarrow> proxy_client" where
  "exClient b = \<lparr>px_address = ''10.254.254.11/32'', px_privateKey = [], px_publicKey = [], px_offset = 10000,
     px_assigned = b\<rparr>"

definition exServer :: proxy_server where
  "exServer = \<lparr>px_endpoint = ''gw'', px_serverKey = [], px_portUDP = 51820, px_portTCP = 0\<rparr>"

text \<open>One pod in the store, with its provisioning context 0 cancelled.\<close>

definition exProv :: "int vpod \<Rightarrow> int prov" where
  "exProv v = (freshProv exServer [exClient True])\<lparr>
     pv_store := [\<lparr>ce_pod = v, ce_provision = Some 0, ce_lifecycle = Some 1\<rparr>],
     pv_index := (\<lambda>_. None)(''ns-job'' \<mapsto> 0), pv_nextCtx := 3, pv_cancelled := [0]\<rparr>"

lemma exProvEnv_simps [simp]:
  "pe_cloud (exProvEnv e) w q = exResp e" "pe_maxRetries (exProvEnv e) = 2" "pe_zero (exProvEnv e) = 0"
  "cr_err (exResp e) = e" "cr_id (exResp e) = ''m1''" "cr_machine (exResp e) = None" "cr_time (exResp e) = 0"
  "pe_retrySelect (exProvEnv e) = retry" "pe_retryInit (exProvEnv e) = retry" "backoff_ok (exProvEnv e)"
  by (simp_all add: exProvEnv_def exResp_def backoff_ok_def)

lemmas exProvEnv_backoff = exProvEnv_simps(10)

lemma exProv_cancelled_run:
  "\<exists>s'. initializeVirtualPod (exProvEnv (Some ErrDeadline)) 0 0 False (exProv exVPod) = Some (Some ErrCanceled, s')"
proof -
  have "MachineRentID exVPod \<noteq> []" "\<not> ProvisioningCompleted exVPod" "ProxySlot exVPod = 0"
    by (simp_all add: exVPod_def NewVirtualPod_def MachineRentID_def exMachine_def ProvisioningCompleted_def ProxySlot_def)
  then show ?thesis
    by (simp add: initializeVirtualPod_def retry.simps initOp_def acquireMachine_def selectAndProvisionMachine_def
        selectOp_def machineCleanup_def cloud_def setVpod_def vpodAt_def exProv_def freshProv_def Let_def
        getPodProxyConfigById_def clientAt_def RemoveMachine_def ctxErr_def cancelCtx_def exClient_def
        ProxySlot_def ProvisioningCompleted_def)
qed


end
