(* ===== verification/ProviderProperties.thy ===== *)
theory ProviderProperties
  imports Rentals
begin

text \<open>
  The properties of the virtual kubelet provider, as theorems about its handlers, its goroutines
  and its runs.
\<close>

section \<open>Runs\<close>

text \<open>In every admissible run of a provider that starts without pods, two pods that are not finalized
  never share a gateway slot, and the slot of each is a configured one that is marked assigned: the
  tunnel address and port range of a live pod are its own.\<close>

theorem live_pods_own_their_slots:
  assumes "backoff_ok env" "prov_run env evs (freshProv server clients) = Some s"
    and "admissible_run env evs (freshProv server clients)"
    and "pv_index s k = Some i" "pv_index s k' = Some j" "k \<noteq> k'"
    and "\<not> pd_finalized (vpodAt i s)" "\<not> pd_finalized (vpodAt j s)"
  shows "pd_slot (vpodAt i s) \<noteq> pd_slot (vpodAt j s) \<and>
    0 \<le> pd_slot (vpodAt i s) \<and> nat (pd_slot (vpodAt i s)) < length (pv_clients s) \<and>
    px_assigned (pv_clients s ! nat (pd_slot (vpodAt i s)))"
proof -
  have inv: "prov_inv s" by (rule inv_run [OF assms(1) inv_fresh assms(3,2)])
  then have ip: "inv_pods s" by (simp add: prov_inv_def)
  have "live s i" "live s j" using assms(4,5,7,8) by (auto simp: live_def known_def)
  moreover have "i \<noteq> j" using known_unique [OF ip assms(4)] assms(5,6) by blast
  ultimately show ?thesis using ip unfolding inv_pods_def by blast
qed

definition exPodB :: pod where
  "exPodB = exCrashPod\<lparr>pod_name := ''web''\<rparr>"

definition exTwo :: "int prov option" where
  "exTwo = prov_run (exProvEnv None) [EvCreate exCrashPod, EvCreate exPodB]
     (freshProv exServer [exClient False, exClient False])"

lemmas create_defs =
  prov_step_def CreatePod_def reserveGatewaySlot_def notifyPodUpdate_def newCtx_def Let_def
  referencedConfigMaps_def loadMountedConfigMaps_def buildMountedConfigMaps_def volumeDefs_def
  buildKey_def buildKeyFromNames_def setAssigned_def

theorem live_pods_own_their_slots_witness:
  "\<exists>s i j. exTwo = Some s \<and> pv_index s ''ns-job'' = Some i \<and> pv_index s ''ns-web'' = Some j \<and>
     pd_slot (vpodAt i s) \<noteq> pd_slot (vpodAt j s)"
proof -
  let ?s0 = "freshProv exServer [exClient False, exClient False] :: int prov"
  have adm: "admissible_run (exProvEnv None) [EvCreate exCrashPod, EvCreate exPodB] ?s0"
    by (simp add: create_defs exCrashPod_def exPodB_def freshProv_def exClient_def split: option.split)
  obtain s where s: "exTwo = Some s" "pv_index s ''ns-job'' = Some 0" "pv_index s ''ns-web'' = Some (Suc 0)"
    "\<not> pd_finalized (vpodAt 0 s)" "\<not> pd_finalized (vpodAt (Suc 0) s)"
    by (simp add: exTwo_def create_defs exCrashPod_def exPodB_def freshProv_def exClient_def vpodAt_def
        NewVirtualPod_def)
  from live_pods_own_their_slots [OF exProvEnv_backoff s(1) [unfolded exTwo_def] adm s(2,3) _ s(4,5)] s
  show ?thesis by auto
qed

text \<open>In such a run every goroutine that has not been cancelled works for a pod the provider knows and
  has not finalized, and no pod has two of them: provisioning and lifecycle of a pod never run side
  by side.\<close>

theorem one_goroutine_per_pod:
  assumes "backoff_ok env" "prov_run env evs (freshProv server clients) = Some s"
    and "admissible_run env evs (freshProv server clients)"
  shows "(\<forall>t \<in> set (pv_tasks s). active s t \<longrightarrow> live s (taskPod t)) \<and>
    distinct (map taskPod (filter (active s) (pv_tasks s)))"
proof -
  have "prov_inv s" by (rule inv_run [OF assms(1) inv_fresh assms(3,2)])
  then show ?thesis using active_ctx by (auto simp: prov_inv_def inv_tasks_def)
qed

theorem one_goroutine_per_pod_witness:
  "\<exists>s. exTwo = Some s \<and> length (pv_tasks s) = 2 \<and> distinct (map taskPod (filter (active s) (pv_tasks s)))"
proof -
  let ?s0 = "freshProv exServer [exClient False, exClient False] :: int prov"
  have adm: "admissible_run (exProvEnv None) [EvCreate exCrashPod, EvCreate exPodB] ?s0"
    by (simp add: create_defs exCrashPod_def exPodB_def freshProv_def exClient_def split: option.split)
  obtain s where s: "exTwo = Some s" "length (pv_tasks s) = 2"
    by (simp add: exTwo_def create_defs exCrashPod_def exPodB_def freshProv_def exClient_def)
  from one_goroutine_per_pod [OF exProvEnv_backoff s(1) [unfolded exTwo_def] adm] s show ?thesis by blast
qed

section \<open>Slots\<close>

text \<open>A slot reservation takes the first free slot and marks just that one; it is refused, with nothing
  changed, exactly when every configured slot is assigned.\<close>

theorem reservation_takes_first_free:
  "case reserveGatewaySlot cs of
     (Inr i, cs') \<Rightarrow> i < length cs \<and> \<not> px_assigned (cs ! i) \<and> (\<forall>j < i. px_assigned (cs ! j)) \<and>
       length cs' = length cs \<and> (\<forall>j < length cs. px_assigned (cs' ! j) = (j = i \<or> px_assigned (cs ! j)))
   | (Inl e, cs') \<Rightarrow> cs' = cs \<and> (\<forall>c \<in> set cs. px_assigned c)"
proof (cases "findIndex (\<lambda>c. \<not> px_assigned c) cs")
  case None
  then have "\<forall>c \<in> set cs. px_assigned c" by (simp add: findIndex_None_iff)
  with None show ?thesis by (simp add: reserveGatewaySlot_def)
next
  case (Some i)
  from findIndex_Some [OF Some] show ?thesis
    using Some by (auto simp: reserveGatewaySlot_def setAssigned_def nth_list_update)
qed

theorem reservation_takes_first_free_witness:
  "reserveGatewaySlot [exClient True, exClient False] = (Inr 1, [exClient True, exClient True])"
  using reservation_takes_first_free [of "[exClient True, exClient False]"]
  by (simp add: reserveGatewaySlot_def setAssigned_def exClient_def)


section \<open>Deletion\<close>

text \<open>How the deletion of a provisioned pod ends.\<close>

lemma deleteProvisioned_ends:
  assumes run: "deleteProvisioned env k i s = Some (e, s')" and live: "\<not> pd_finalized (vpodAt i s)"
    and i: "i < length (pv_store s)"
  obtains lc q where "ce_lifecycle (pv_store s ! i) = Some lc" "pv_cancelled s' = lc # pv_cancelled s"
    "pv_tasks s' = pv_tasks s" "last (pv_log s') = (CDestroy (MachineRentID (vpodAt i s)), q)" "cr_err q = e"
    "if e = None then pv_index s' = (pv_index s)(k := None) \<and> pd_finalized (vpodAt i s') \<and>
         0 \<le> pd_slot (vpodAt i s) \<and> nat (pd_slot (vpodAt i s)) < length (pv_clients s) \<and>
         pv_clients s' = setAssigned (nat (pd_slot (vpodAt i s))) False (pv_clients s)
       else pv_index s' = pv_index s \<and> pv_clients s' = pv_clients s"
proof -
  obtain lc where lc: "ce_lifecycle (pv_store s ! i) = Some lc"
    using run live by (cases "ce_lifecycle (pv_store s ! i)") (auto simp: deleteProvisioned_def Finalized_def cancelCtx_def)
  let ?s1 = "s\<lparr>pv_cancelled := lc # pv_cancelled s\<rparr>"
  obtain now s2 where n: "cloud env CNow ?s1 = (now, s2)" by fastforce
  have v2: "vpodAt i s2 = vpodAt i s" "pv_store s2 = pv_store s" "pv_clients s2 = pv_clients s" "pv_index s2 = pv_index s"
    "pv_cancelled s2 = lc # pv_cancelled s" "pv_tasks s2 = pv_tasks s"
    using cloud_frame [OF n] by (simp_all add: vpodAt_def)
  obtain v1 where v1: "TerminatePod (cr_time now) 0 (vpodAt i s) = Some v1"
    using run live lc n v2 by (cases "TerminatePod (cr_time now) 0 (vpodAt i s)")
      (auto simp: deleteProvisioned_def Finalized_def cancelCtx_def)
  have same: "MachineRentID v1 = MachineRentID (vpodAt i s)" "pd_slot v1 = pd_slot (vpodAt i s)"
    using v1 by (auto simp: TerminatePod_def Let_def setStatus_def MachineRentID_def split: if_splits option.splits)
  obtain r s4 where d: "cloud env (CDestroy (MachineRentID v1)) (setVpod i v1 s2) = (r, s4)" by fastforce
  have s4: "pv_log s4 = pv_log s2 @ [(CDestroy (MachineRentID v1), r)]" "pv_clients s4 = pv_clients s"
    "pv_index s4 = pv_index s" "pv_cancelled s4 = lc # pv_cancelled s" "pv_tasks s4 = pv_tasks s"
    "vpodAt i s4 = v1" "length (pv_store s4) = length (pv_store s)"
    using d v2 i by (auto simp: cloud_def setVpod_def vpodAt_def)
  show thesis
  proof (cases "cr_err r")
    case (Some er)
    then have "e = Some er" "s' = s4"
      using run live lc n v1 v2 d by (auto simp: deleteProvisioned_def Finalized_def cancelCtx_def)
    with Some s4 same lc show thesis by (intro that [of lc r]) auto
  next
    case None
    have cl: "0 \<le> pd_slot v1 \<and> nat (pd_slot v1) < length (pv_clients s)"
      using run live lc n v1 v2 d None s4
      by (auto simp: deleteProvisioned_def Finalized_def cancelCtx_def assignSlot_def clientAt_def ProxySlot_def
          split: if_splits)
    have e: "e = None" and s': "s' = (setVpod i (Finalize v1) (s4\<lparr>pv_clients := setAssigned (nat (pd_slot v1)) False (pv_clients s4)\<rparr>))
          \<lparr>pv_index := (pv_index s4)(k := None)\<rparr>"
      using run live lc n v1 v2 d None s4 cl
      by (simp_all add: deleteProvisioned_def Finalized_def cancelCtx_def assignSlot_def clientAt_def ProxySlot_def vpodAt_def)
    show thesis
      by (rule that [of lc r]) (use e s' None s4 same cl i in \<open>auto simp: Finalize_def setVpod_def vpodAt_def lc\<close>)
  qed
qed

text \<open>C14: Deleting a provisioned pod asks the cloud to destroy its machine and stands or falls with the
  answer: without an error the pod is gone from the map and finalized and exactly its slot is free
  again; with an error the pod stays known and keeps its slot, so that the deletion can be retried.\<close>

theorem delete_follows_the_cloud:
  assumes "DeletePod env p s = Some (e, s')" "pv_index s (buildKey p) = Some i" "i < length (pv_store s)"
    and "pd_provisioned (vpodAt i s)" "\<not> pd_finalized (vpodAt i s)"
  shows "\<exists>q. last (pv_log s') = (CDestroy (MachineRentID (vpodAt i s)), q) \<and> e = cr_err q \<and>
    (if e = None then pv_index s' = (pv_index s)(buildKey p := None) \<and>
        pv_clients s' = setAssigned (nat (pd_slot (vpodAt i s))) False (pv_clients s)
     else pv_index s' = pv_index s \<and> pv_clients s' = pv_clients s)"
proof -
  obtain e1 s1 where d1: "deleteProvisioned env (buildKey p) i s = Some (e1, s1)"
    using assms by (auto simp: DeletePod_def ProvisioningCompleted_def bind_eq_Some_conv)
  have e1: "e1 = e" and s': "s' = s1 \<or> (\<exists>x. s' = notifyPodUpdate x s1)"
    using assms d1 by (cases e1; auto simp: DeletePod_def ProvisioningCompleted_def)+
  note d = d1 [unfolded e1]
  show ?thesis
    by (rule deleteProvisioned_ends [OF d assms(5,3)])
      (use s' in \<open>auto simp: notifyPodUpdate_def split: if_splits\<close>)
qed

definition exReady :: "int vpod" where
  "exReady = exVPod\<lparr>pd_provisioned := True\<rparr>"

lemmas delete_defs =
  DeletePod_def deleteProvisioned_def Finalized_def ProvisioningCompleted_def cancelCtx_def cloud_def vpodAt_def
  setVpod_def assignSlot_def clientAt_def ProxySlot_def Finalize_def notifyPodUpdate_def setAssigned_def

lemmas exVPod_defs =
  exReady_def exVPod_def NewVirtualPod_def exCrashPod_def newPodStatus_def initialWaiting_def

theorem delete_follows_the_cloud_witness:
  "\<exists>s'. DeletePod (exProvEnv None) exCrashPod (exProv exReady) = Some (None, s') \<and>
     pv_index s' ''ns-job'' = None \<and> map px_assigned (pv_clients s') = [False]"
proof -
  let ?s = "exProv exReady"
  have k: "buildKey exCrashPod = ''ns-job''" by (simp add: buildKey_def buildKeyFromNames_def exCrashPod_def)
  have r: "pd_finalized exReady = False" "pd_provisioned exReady = True" "pd_slot exReady = 0"
    by (simp_all add: exVPod_defs)
  have i: "pv_index ?s (buildKey exCrashPod) = Some 0" "0 < length (pv_store ?s)"
    "pd_provisioned (vpodAt 0 ?s)" "\<not> pd_finalized (vpodAt 0 ?s)" "pd_slot (vpodAt 0 ?s) = 0"
    by (simp_all add: k exProv_def vpodAt_def r)
  have "TerminatePod 0 0 exReady \<noteq> None"
    by (simp add: TerminatePod_def Let_def vstatus_def exVPod_defs)
  then obtain v where v: "TerminatePod 0 0 exReady = Some v" by blast
  with r have "pd_slot v = 0" using vsame_status_ops(3) [OF v] by (simp add: vsame_def)
  with v obtain s' where s': "DeletePod (exProvEnv None) exCrashPod ?s = Some (None, s')"
    by (simp add: delete_defs exProv_def freshProv_def k exClient_def r)
  from delete_follows_the_cloud [OF s' i(1-4)] i(5) show ?thesis
    using s' by (auto simp: k exProv_def freshProv_def setAssigned_def exClient_def)
qed

text \<open>A deletion that comes between the request of a restart and the first step of the goroutine that
  performs it does not stop that goroutine. The pod still counts as provisioned, so only the old
  lifecycle context is cancelled: the provider forgets the pod and frees its slot, while the restart
  stays scheduled with a context that nobody will cancel.\<close>

theorem delete_leaves_restart:
  assumes "DeletePod env p s = Some (None, s')" "prov_inv s" "pv_index s (buildKey p) = Some i"
    and "pd_provisioned (vpodAt i s)" "\<not> pd_finalized (vpodAt i s)"
    and "TaskInit i c True \<in> set (pv_tasks s)" "c \<notin> set (pv_cancelled s)"
    and "ce_lifecycle (pv_store s ! i) = Some lc" "lc \<noteq> c"
  shows "\<not> known s' i \<and> \<not> px_assigned (pv_clients s' ! nat (pd_slot (vpodAt i s))) \<and>
    TaskInit i c True \<in> set (pv_tasks s') \<and> active s' (TaskInit i c True)"
proof -
  have ip: "inv_pods s" using assms(2) by (simp add: prov_inv_def)
  have i: "i < length (pv_store s)" using ip assms(3) by (auto simp: inv_pods_def)
  obtain s1 where d: "deleteProvisioned env (buildKey p) i s = Some (None, s1)"
    and s': "\<exists>x. s' = notifyPodUpdate x s1"
    using assms(1,3,4) by (auto simp: DeletePod_def ProvisioningCompleted_def bind_eq_Some_conv split: option.splits)
  have un: "k' = buildKey p" if "pv_index s k' = Some i" for k' using known_unique [OF ip assms(3) that] .
  show ?thesis
    by (rule deleteProvisioned_ends [OF d assms(5) i])
      (use s' un assms(6-9) in \<open>auto simp: notifyPodUpdate_def known_def active_def setAssigned_def split: if_splits\<close>)
qed


text \<open>As a lost agent leaves it: the lifecycle context 1 cancelled, the restart scheduled with context 2.\<close>

definition exRestarting :: "int prov" where
  "exRestarting = (exProv exReady)\<lparr>
     pv_store := [\<lparr>ce_pod = exReady, ce_provision = Some 2, ce_lifecycle = Some 1\<rparr>],
     pv_cancelled := [1, 0], pv_tasks := [TaskInit 0 2 True]\<rparr>"

lemma exReady_fields [simp]:
  "pd_finalized exReady = False" "pd_provisioned exReady = True" "pd_slot exReady = 0"
  by (simp_all add: exVPod_defs)

lemma exReady_key: "buildKey (pd_pod exReady) = ''ns-job''" "buildKey exCrashPod = ''ns-job''"
  by (simp_all add: buildKey_def buildKeyFromNames_def exVPod_defs)

lemma inv_exRestarting: "prov_inv exRestarting"
proof -
  have f: "pv_clients exRestarting = [exClient True]" "pv_index exRestarting = [''ns-job'' \<mapsto> 0]"
    "pv_store exRestarting = [\<lparr>ce_pod = exReady, ce_provision = Some 2, ce_lifecycle = Some 1\<rparr>]"
    "pv_nextCtx exRestarting = 3" "pv_cancelled exRestarting = [1, 0]" "pv_tasks exRestarting = [TaskInit 0 2 True]"
    by (simp_all add: exRestarting_def exProv_def freshProv_def)
  have at: "vpodAt 0 exRestarting = exReady" by (simp add: f vpodAt_def)
  have kn: "known exRestarting i \<longleftrightarrow> i = 0" for i by (auto simp: known_def f)
  have lv: "live exRestarting i \<longleftrightarrow> i = 0" for i using at by (auto simp: live_def kn)
  have co: "ctxOf exRestarting i c \<longleftrightarrow> i = 0 \<and> (c = 1 \<or> c = 2)" for i c
    by (auto simp: ctxOf_def f)
  have "inv_pods exRestarting"
    unfolding inv_pods_def lv using at by (auto simp: f exReady_key exClient_def split: if_splits)
  moreover have "inv_ctx exRestarting" unfolding inv_ctx_def co by (auto simp: f)
  moreover have "inv_tasks exRestarting" by (simp add: inv_tasks_def f lv active_def)
  ultimately show ?thesis by (simp add: prov_inv_def)
qed

theorem delete_leaves_restart_witness:
  "\<exists>s'. DeletePod (exProvEnv None) exCrashPod exRestarting = Some (None, s') \<and>
     map px_assigned (pv_clients s') = [False] \<and> active s' (TaskInit 0 2 True)"
proof -
  have i: "pv_index exRestarting (buildKey exCrashPod) = Some 0" "vpodAt 0 exRestarting = exReady"
    by (simp_all add: exReady_key exRestarting_def exProv_def vpodAt_def)
  have "TerminatePod 0 0 exReady \<noteq> None"
    by (simp add: TerminatePod_def Let_def vstatus_def exVPod_defs)
  then obtain v where v: "TerminatePod 0 0 exReady = Some v" by blast
  then have "pd_slot v = 0" using vsame_status_ops(3) [OF v] by (simp add: vsame_def)
  with v obtain s' where s': "DeletePod (exProvEnv None) exCrashPod exRestarting = Some (None, s')"
    and len: "length (pv_clients s') = 1"
    by (simp add: delete_defs exRestarting_def exProv_def freshProv_def exReady_key exClient_def)
  have "TaskInit 0 2 True \<in> set (pv_tasks exRestarting)" "2 \<notin> set (pv_cancelled exRestarting)"
    "ce_lifecycle (pv_store exRestarting ! 0) = Some 1" by (simp_all add: exRestarting_def)
  from delete_leaves_restart [OF s' inv_exRestarting i(1) _ _ this] i(2)
  have "\<not> px_assigned (pv_clients s' ! 0)" "active s' (TaskInit 0 2 True)" by auto
  with s' len show ?thesis by (auto simp: length_Suc_conv)
qed

section \<open>Goroutines\<close>

text \<open>C15: How a provisioning goroutine ends. It cancels its own context in any case. On success the pod
  is provisioned and exactly one lifecycle goroutine has been started, with a context of its own,
  and the goroutine's context had not been cancelled when it began; on failure none is started. It
  touches no other pod, no slot and not the map.\<close>

theorem provisioning_outcome:
  assumes "backoff_ok env" "initializeVirtualPod env i ctx ro s = Some (e, s')" "i < length (pv_store s)"
  shows "\<exists>p. ce_provision (pv_store s ! i) = Some p \<and> p \<in> set (pv_cancelled s') \<and>
    pv_clients s' = pv_clients s \<and> pv_index s' = pv_index s \<and>
    (\<forall>j. j \<noteq> i \<longrightarrow> pv_store s' ! j = pv_store s ! j) \<and>
    (if e = None then ctx \<notin> set (pv_cancelled s) \<and> pd_provisioned (vpodAt i s') \<and>
        ce_lifecycle (pv_store s' ! i) = Some (pv_nextCtx s) \<and>
        (\<exists>t. pv_tasks s' = pv_tasks s @ [TaskLifecycle i (pv_nextCtx s) t])
     else pv_tasks s' = pv_tasks s \<and> ce_lifecycle (pv_store s' ! i) = ce_lifecycle (pv_store s ! i))"
  using assms
proof (cases rule: init_spec)
  case (failed p u)
  then show ?thesis by (auto simp: quiet_def)
next
  case (started p u)
  then show ?thesis using assms(3) by (auto simp: spawned_def vpodAt_def)
qed

theorem provisioning_outcome_witness:
  "\<exists>s'. initializeVirtualPod (exProvEnv (Some ErrDeadline)) 0 0 False (exProv exVPod) = Some (Some ErrCanceled, s') \<and>
     0 \<in> set (pv_cancelled s') \<and> pv_tasks s' = []"
proof -
  obtain s' where s': "initializeVirtualPod (exProvEnv (Some ErrDeadline)) 0 0 False (exProv exVPod) = Some (Some ErrCanceled, s')"
    using exProv_cancelled_run by blast
  have "0 < length (pv_store (exProv exVPod))" by (simp add: exProv_def)
  from provisioning_outcome [OF exProvEnv_backoff s' this] s' show ?thesis
    by (auto simp: exProv_def freshProv_def)
qed


section \<open>Waiting ends\<close>

text \<open>A retry loop without limit ends when a measure of its state falls with every failed round.\<close>

lemma retry_ends:
  fixes mes :: "'s \<Rightarrow> nat"
  assumes total: "\<And>s. I s \<Longrightarrow> \<exists>a s1. op s = Some (a, s1) \<and> (a = Succeeded \<or> (\<exists>e. a = Permanent e) \<or>
      (\<exists>e. a = Again e \<and> (\<exists>x s2. ctx s1 = (x, s2) \<and> (x = None \<longrightarrow> I s2 \<and> mes s2 < mes s))))"
  shows "I s \<Longrightarrow> \<exists>y. retry_run op ctx None s y"
proof (induction "mes s" arbitrary: s rule: less_induct)
  case less
  obtain a s1 where o: "op s = Some (a, s1)" and a: "a = Succeeded \<or> (\<exists>e. a = Permanent e) \<or>
      (\<exists>e. a = Again e \<and> (\<exists>x s2. ctx s1 = (x, s2) \<and> (x = None \<longrightarrow> I s2 \<and> mes s2 < mes s)))"
    using total [OF less.prems] by blast
  from a consider "a = Succeeded" | e where "a = Permanent e"
    | e x s2 where "a = Again e" "ctx s1 = (x, s2)" "x = None \<longrightarrow> I s2 \<and> mes s2 < mes s" by blast
  then show ?case
  proof cases
    case (3 e x s2)
    show ?thesis
    proof (cases x)
      case None
      with 3 less.hyps obtain y where "retry_run op ctx None s2 y" by blast
      then have "retry_run op ctx None s y"
        using retry_run.again [of op s e s1 ctx s2 None y] o 3 None by simp
      then show ?thesis by (rule exI)
    next
      case (Some ce)
      with o 3 show ?thesis by (auto intro: retry_run.ctx_done)
    qed
  qed (use o in \<open>auto intro: retry_run.intros\<close>)
qed

lemma ctxErr_log: "ctxErr env c s = (e, s1) \<Longrightarrow> length (pv_log s) \<le> length (pv_log s1)"
  by (auto simp: ctxErr_def cloud_def split: if_splits)

text \<open>C16: Selection has no limit of its own, and needs none: if from some point of the exchange on the cloud
  accepts a request for a machine, the loop returns, however many refusals came before.\<close>

theorem selection_returns:
  assumes "backoff_ok env"
    and "\<And>w sp p px b. N \<le> length w \<Longrightarrow> cr_err (pe_cloud env w (CProvision sp p px b)) = None"
  shows "\<exists>r s'. selectAndProvisionMachine env ctx p proxy s = Some (r, s')"
proof -
  let ?c = "\<lambda>(m :: string, t). case ctxErr env ctx t of (e, t1) \<Rightarrow> (e, m, t1)"
  have "\<exists>y. retry_run (selectOp env p proxy) ?c None ([], s) y"
  proof (rule retry_ends [where I = "\<lambda>_. True" and mes = "\<lambda>(m, t). N - length (pv_log t)"])
    fix st :: "string \<times> 'a prov"
    obtain a m s1 where o: "selectOp env p proxy st = Some (a, m, s1)"
      by (cases "selectOp env p proxy st") (auto simp: selectOp_def Let_def case_prod_unfold)
    obtain e s2 where c: "ctxErr env ctx s1 = (e, s2)" by fastforce
    have log: "length (pv_log s1) = Suc (length (pv_log (snd st)))" and nperm: "\<nexists>e. a = Permanent e"
      and acc: "N \<le> length (pv_log (snd st)) \<Longrightarrow> a = Succeeded"
      using o assms(2) by (auto simp: selectOp_def Let_def cloud_def case_prod_unfold split: option.splits)
    have "length (pv_log s1) \<le> length (pv_log s2)" by (rule ctxErr_log [OF c])
    then have "a \<noteq> Succeeded \<Longrightarrow> N - length (pv_log s2) < N - length (pv_log (snd st))"
      using log acc by linarith
    then show "\<exists>a s1. selectOp env p proxy st = Some (a, s1) \<and> (a = Succeeded \<or> (\<exists>e. a = Permanent e) \<or>
      (\<exists>e. a = Again e \<and> (\<exists>x s2. ?c s1 = (x, s2) \<and> (x = None \<longrightarrow> True \<and>
         (case s2 of (m, t) \<Rightarrow> N - length (pv_log t)) < (case st of (m, t) \<Rightarrow> N - length (pv_log t))))))"
      using o c nperm by (cases a) (auto split: prod.splits)
  qed simp
  then show ?thesis
    using assms(1) by (auto simp: selectAndProvisionMachine_def backoff_runs)
qed

theorem selection_returns_witness:
  "\<exists>r s'. selectAndProvisionMachine (exProvEnv None) CtxBase exCrashPod zeroProxy (exProv exVPod) = Some (r, s')"
  by (rule selection_returns [where N = 0]) simp_all

lemma waitOp_total:
  assumes "pod_annotations (pd_pod (vpodAt i t)) \<noteq> None" "i < length (pv_store t)"
  shows "\<exists>a u. waitOp env c i t = Some (a, u) \<and>
    (pod_annotations (pd_pod (vpodAt i u)) \<noteq> None \<and> i < length (pv_store u)) \<and>
    length (pv_log t) \<le> length (pv_log u) \<and>
    ((\<exists>e. a = Again e) \<longrightarrow> ctxCancelled c u \<or> length (pv_log t) < length (pv_log u))"
proof -
  obtain e s1 where ce: "ctxErr env c t = (e, s1)" by fastforce
  have s1: "vpodAt i s1 = vpodAt i t" "pv_store s1 = pv_store t" "length (pv_log t) \<le> length (pv_log s1)"
    "ctxCancelled c s1 = ctxCancelled c t"
    using ce ctxErr_log [OF ce] ctxCancelled_cong [of s1 t c]
    by (auto simp: ctxErr_def cloud_def vpodAt_def split: if_splits)
  have grow: "ctxCancelled c t \<or> length (pv_log t) < length (pv_log s1)"
    using ce by (auto simp: ctxErr_def cloud_def split: if_splits)
  show ?thesis
  proof (cases e)
    case (Some er)
    then show ?thesis using ce s1 grow assms by (auto simp: waitOp_def)
  next
    case None
    obtain r s2 where g: "cloud env (CGet (MachineRentID (vpodAt i s1))) s1 = (r, s2)" by fastforce
    have s2: "vpodAt i s2 = vpodAt i t" "pv_store s2 = pv_store t" "length (pv_log t) < length (pv_log s2)"
      using g s1 by (auto simp: cloud_def vpodAt_def)
    show ?thesis
    proof (cases "cr_err r = None \<and> cr_machine r \<noteq> None")
      case False
      then show ?thesis using ce None g s2 assms by (auto simp: waitOp_def split: option.splits)
    next
      case True
      then obtain x where x: "cr_err r = None" "cr_machine r = Some x" by blast
      obtain v where v: "SetMachine x (vpodAt i s2) = Some v" "pod_annotations (pd_pod v) \<noteq> None"
        using assms(1) s2(1) by (auto simp: SetMachine_def)
      have w: "waitOp env c i t = Some (case mc_state x of MachineRunning \<Rightarrow> Succeeded
          | MachineFailed \<Rightarrow> Permanent ErrMachineFailed | _ \<Rightarrow> Again ErrMachineNotRunning, setVpod i v s2)"
        using ce None g x v by (simp add: waitOp_def)
      have "pv_log (setVpod i v s2) = pv_log s2" by (simp add: setVpod_def)
      with w v s2 assms(2) show ?thesis by auto
    qed
  qed
qed

text \<open>Waiting for a machine ends with the deadline: if from some point on the context of the wait reports
  an error, the loop returns, whatever the machine does.\<close>

theorem machine_wait_returns:
  assumes "backoff_ok env"
    and "\<And>w c. N \<le> length w \<Longrightarrow> cr_err (pe_cloud env w (CCtxErr c)) \<noteq> None"
    and "pod_annotations (pd_pod (vpodAt i s)) \<noteq> None" "i < length (pv_store s)"
  shows "\<exists>r. waitForMachineReady env ctx i s = Some r"
proof -
  let ?I = "\<lambda>t. pod_annotations (pd_pod (vpodAt i t)) \<noteq> None \<and> i < length (pv_store t)"
  let ?c = "CtxTimeout ctx"
  have "\<exists>y. retry_run (waitOp env ?c i) (ctxErr env ?c) None s y"
  proof (rule retry_ends [where I = ?I and mes = "\<lambda>t. N - length (pv_log t)"])
    fix t :: "'a prov"
    assume I: "?I t"
    have late: "e \<noteq> None" if "ctxErr env ?c u = (e, u')" "N \<le> length (pv_log u)" for e u u'
      using that assms(2) by (auto simp: ctxErr_def cloud_def split: if_splits)
    have step: "\<exists>a u. waitOp env ?c i t = Some (a, u) \<and> ?I u \<and> length (pv_log t) \<le> length (pv_log u) \<and>
        ((\<exists>e. a = Again e) \<longrightarrow> ctxCancelled ?c u \<or> length (pv_log t) < length (pv_log u))"
      by (rule waitOp_total [OF conjunct1 [OF I] conjunct2 [OF I]])
    then obtain a u where o: "waitOp env ?c i t = Some (a, u)" "?I u" "length (pv_log t) \<le> length (pv_log u)"
      "(\<exists>e. a = Again e) \<longrightarrow> ctxCancelled ?c u \<or> length (pv_log t) < length (pv_log u)" by blast
    obtain x v where c: "ctxErr env ?c u = (x, v)" by fastforce
    have "x = None \<longrightarrow> ?I v \<and> ((\<exists>e. a = Again e) \<longrightarrow> N - length (pv_log v) < N - length (pv_log t))"
    proof
      assume x: "x = None"
      have "\<not> ctxCancelled ?c u" using c x by (auto simp: ctxErr_def)
      moreover have "length (pv_log u) \<le> length (pv_log v)" by (rule ctxErr_log [OF c])
      moreover have "\<not> N \<le> length (pv_log u)" using late [OF c] x by blast
      moreover have "?I v" using c o(2) by (auto simp: ctxErr_def cloud_def vpodAt_def split: if_splits)
      ultimately show "?I v \<and> ((\<exists>e. a = Again e) \<longrightarrow> N - length (pv_log v) < N - length (pv_log t))"
        using o(4) by auto
    qed
    with o(1) c show "\<exists>a s1. waitOp env ?c i t = Some (a, s1) \<and> (a = Succeeded \<or> (\<exists>e. a = Permanent e) \<or>
      (\<exists>e. a = Again e \<and> (\<exists>x s2. ctxErr env ?c s1 = (x, s2) \<and>
         (x = None \<longrightarrow> ?I s2 \<and> N - length (pv_log s2) < N - length (pv_log t)))))"
      by (cases a) blast+
  qed (use assms(3,4) in simp)
  then show ?thesis using assms(1) by (auto simp: waitForMachineReady_def backoff_runs)
qed

theorem machine_wait_returns_witness:
  "\<exists>r. waitForMachineReady (exProvEnv (Some ErrDeadline)) CtxBase 0 (exProv exVPod) = Some r"
  by (rule machine_wait_returns [where N = 0])
    (simp_all add: exProvEnv_backoff exResp_def exProv_def vpodAt_def exVPod_def NewVirtualPod_def exCrashPod_def)

end
