(* ===== verification/AllocatorSpec.thy ===== *)
theory AllocatorSpec
  imports PortAlloc
begin

text \<open>
  The abstract pool that the port allocator implements: its state is the owner of each port, and an
  allocation answers with the least free port. The allocator refines it through \<open>ownerOf\<close>.
\<close>

fun pool_step :: "int \<Rightarrow> int \<Rightarrow> (int \<rightharpoonup> string) \<Rightarrow> alloc_op \<Rightarrow> (int \<rightharpoonup> string) \<times> int option" where
  "pool_step s e m (OpAllocate k) =
     (case filter (\<lambda>p. m p = None) [s..e] of
        [] \<Rightarrow> (m, None)
      | p # _ \<Rightarrow> (m(p \<mapsto> k), Some p))"
| "pool_step s e m (OpRelease k p) = (if m p = Some k then m(p := None) else m, None)"
| "pool_step s e m (OpReleaseAll k) = (\<lambda>p. if m p = Some k then None else m p, None)"

fun pool_run :: "int \<Rightarrow> int \<Rightarrow> (int \<rightharpoonup> string) \<Rightarrow> alloc_op list \<Rightarrow> (int \<rightharpoonup> string) \<times> int option list" where
  "pool_run s e m [] = (m, [])"
| "pool_run s e m (x # xs) =
     (case pool_step s e m x of (m1, r) \<Rightarrow> case pool_run s e m1 xs of (m2, rs) \<Rightarrow> (m2, r # rs))"

text \<open>The answers of a run of the allocator: the port of a successful allocation.\<close>

fun alloc_answer :: "allocator \<Rightarrow> alloc_op \<Rightarrow> int option" where
  "alloc_answer a (OpAllocate k) = (case snd (Allocate a k) of Inl _ \<Rightarrow> None | Inr p \<Rightarrow> Some p)"
| "alloc_answer a _ = None"

fun alloc_answers :: "allocator \<Rightarrow> alloc_op list \<Rightarrow> int option list" where
  "alloc_answers a [] = []"
| "alloc_answers a (x # xs) = alloc_answer a x # alloc_answers (alloc_step a x) xs"

lemma firstFree_filter:
  "firstFree m s e = (case filter (\<lambda>p. fmlookup m p = None) [s..e] of [] \<Rightarrow> None | p # _ \<Rightarrow> Some p)"
proof (induction m s e rule: firstFree.induct)
  case (1 m s e)
  show ?case
    by (cases "s \<le> e") (use 1 in \<open>auto simp: firstFree.simps [of m s e] upto_rec1\<close>)
qed

lemma Allocate_pool:
  "pool_step (rangeStart a) (rangeEnd a) (ownerOf a) (OpAllocate k) =
     (ownerOf (fst (Allocate a k)), alloc_answer a (OpAllocate k))"
  by (auto simp: Allocate_def firstFree_filter ownerOf_def fun_eq_iff split: list.splits)

lemma alloc_step_pool:
  "alloc_inv a \<Longrightarrow> pool_step (rangeStart a) (rangeEnd a) (ownerOf a) x =
     (ownerOf (alloc_step a x), alloc_answer a x)"
proof (cases x)
  case (OpAllocate k)
  then show ?thesis using Allocate_pool by simp
next
  case (OpReleaseAll k)
  assume "alloc_inv a"
  with OpReleaseAll show ?thesis by (simp add: ownerOf_ReleaseAll fun_eq_iff)
qed (simp add: ownerOf_Release)

lemma alloc_run_pool:
  "alloc_inv a \<Longrightarrow>
   pool_run (rangeStart a) (rangeEnd a) (ownerOf a) ops = (ownerOf (alloc_run a ops), alloc_answers a ops)"
proof (induction ops arbitrary: a)
  case (Cons x xs)
  then have "pool_run (rangeStart a) (rangeEnd a) (ownerOf (alloc_step a x)) xs =
      (ownerOf (alloc_run (alloc_step a x) xs), alloc_answers (alloc_step a x) xs)"
    using alloc_step_inv [of a x] by (metis alloc_step_range)
  with Cons.prems show ?case by (simp add: alloc_step_pool alloc_run_def)
qed (simp add: alloc_run_def)

text \<open>C17: The allocator refines the abstract pool: in every sequence of operations from a new allocator,
  each allocation answers with the least free port of the range, or fails exactly when none is
  free, and who owns what afterwards is what the abstract pool says; the list the allocator keeps
  for a key is the set of ports the abstract pool gives to it.\<close>

theorem allocator_refines_pool:
  "pool_run s e Map.empty ops =
     (ownerOf (alloc_run (NewAllocator s e) ops), alloc_answers (NewAllocator s e) ops) \<and>
   set (GetAllocatedPorts (alloc_run (NewAllocator s e) ops) k) =
     {p. fst (pool_run s e Map.empty ops) p = Some k} \<and>
   distinct (GetAllocatedPorts (alloc_run (NewAllocator s e) ops) k)"
proof -
  let ?a = "NewAllocator s e"
  have o: "ownerOf ?a = Map.empty" "rangeStart ?a = s" "rangeEnd ?a = e"
    by (simp_all add: NewAllocator_def ownerOf_def fun_eq_iff)
  have run: "pool_run s e Map.empty ops = (ownerOf (alloc_run ?a ops), alloc_answers ?a ops)"
    using alloc_run_pool [OF alloc_inv_New [of s e], of ops] o by simp
  have inv: "alloc_inv (alloc_run ?a ops)" by (rule alloc_run_inv [OF alloc_inv_New])
  have "distinct (portsOf (alloc_run ?a ops) k)"
    using alloc_invD(2) [OF inv] by (auto simp: portsOf_def split: option.splits)
  then show ?thesis
    using run alloc_invD(1) [OF inv, of _ k] by (auto simp: GetAllocatedPorts_def)
qed

end
