(* ===== verification/Base64.thy ===== *)
theory Base64
  imports Prelude
begin

text \<open>
  The standard encoding of \<open>encoding/base64\<close>, which the provisioning code uses to carry files in
  environment variables and registry tokens.
\<close>

definition b64Alphabet :: string where
  "b64Alphabet = ''ABCDEFGHIJKLMNOPQRSTUVWXYZabcdefghijklmnopqrstuvwxyz0123456789+/''"

definition b64Char :: "nat \<Rightarrow> char" where
  "b64Char n = b64Alphabet ! n"

definition b64Val :: "char \<Rightarrow> nat option" where
  "b64Val c = findIndex (\<lambda>x. x = c) b64Alphabet"

definition b64Pad :: char where "b64Pad = CHR ''=''"

text \<open>Three bytes are one number of four digits to the base 64; a rest of one or two bytes is padded.\<close>

fun b64encode :: "string \<Rightarrow> string" where
  "b64encode [] = []"
| "b64encode [a] =
     (let n = of_char a * 16 in [b64Char (n div 64), b64Char (n mod 64), b64Pad, b64Pad])"
| "b64encode [a, b] =
     (let n = (of_char a * 256 + of_char b) * 4
      in [b64Char (n div 4096), b64Char (n div 64 mod 64), b64Char (n mod 64), b64Pad])"
| "b64encode (a # b # c # s) =
     (let n = (of_char a * 256 + of_char b) * 256 + of_char c
      in [b64Char (n div 262144), b64Char (n div 4096 mod 64), b64Char (n div 64 mod 64), b64Char (n mod 64)]
         @ b64encode s)"

fun b64groups :: "string \<Rightarrow> string option" where
  "b64groups [] = Some []"
| "b64groups (p # q # r # t # s) =
     (if s = [] \<and> r = b64Pad \<and> t = b64Pad then
        (case (b64Val p, b64Val q) of
           (Some x, Some y) \<Rightarrow> Some [char_of ((x * 64 + y) div 16)]
         | _ \<Rightarrow> None)
      else if s = [] \<and> t = b64Pad then
        (case (b64Val p, b64Val q, b64Val r) of
           (Some x, Some y, Some z) \<Rightarrow>
             (let n = ((x * 64 + y) * 64 + z) div 4 in Some [char_of (n div 256), char_of (n mod 256)])
         | _ \<Rightarrow> None)
      else
        (case (b64Val p, b64Val q, b64Val r, b64Val t, b64groups s) of
           (Some x, Some y, Some z, Some w, Some rest) \<Rightarrow>
             (let n = ((x * 64 + y) * 64 + z) * 64 + w
              in Some ([char_of (n div 65536), char_of (n div 256 mod 256), char_of (n mod 256)] @ rest))
         | _ \<Rightarrow> None))"
| "b64groups _ = None"

text \<open>The decoder ignores line ends.\<close>

definition b64decode :: "string \<Rightarrow> string option" where
  "b64decode s = b64groups (filter (\<lambda>c. c \<noteq> CHR 0x0A \<and> c \<noteq> CHR 0x0D) s)"

lemma b64Alphabet_facts:
  "length b64Alphabet = 64" "distinct b64Alphabet" "b64Pad \<notin> set b64Alphabet"
  "CHR 0x0A \<notin> set b64Alphabet" "CHR 0x0D \<notin> set b64Alphabet"
  by code_simp+

lemma b64Val_Char [simp]: "n < 64 \<Longrightarrow> b64Val (b64Char n) = Some n"
  using findIndex_distinct [of b64Alphabet n] b64Alphabet_facts by (simp add: b64Val_def b64Char_def)

lemma b64Char_in: "n < 64 \<Longrightarrow> b64Char n \<in> set b64Alphabet"
  using b64Alphabet_facts(1) by (simp add: b64Char_def)

lemma b64Char_neq [simp]:
  "n < 64 \<Longrightarrow> b64Char n \<noteq> b64Pad" "n < 64 \<Longrightarrow> b64Char n \<noteq> CHR 0x0A" "n < 64 \<Longrightarrow> b64Char n \<noteq> CHR 0x0D"
  using b64Char_in [of n] b64Alphabet_facts(3-5) by metis+

lemmas byte_less = nat_of_char_less_256

lemma digit_join: "(n :: nat) div (64 * k) * 64 + n div k mod 64 = n div k"
  using div_mult_mod_eq [of "n div k" 64] by (simp add: div_mult2_eq [symmetric] mult.commute)

lemma four_digits:
  fixes n :: nat
  shows "((n div 262144 * 64 + n div 4096 mod 64) * 64 + n div 64 mod 64) * 64 + n mod 64 = n"
  using digit_join [of n 4096] digit_join [of n 64] digit_join [of n 1] by simp

lemma three_digits:
  fixes n :: nat
  shows "(n div 4096 * 64 + n div 64 mod 64) * 64 + n mod 64 = n"
  using digit_join [of n 64] digit_join [of n 1] by simp

lemma three_bytes:
  fixes a b c :: nat
  assumes "a < 256" "b < 256" "c < 256" and n: "n = (a * 256 + b) * 256 + c"
  shows "n div 65536 = a" "n div 256 mod 256 = b" "n mod 256 = c" "n div 262144 < 64"
proof -
  have d: "n div 256 = a * 256 + b" using n assms(3) by simp
  moreover have "n div 65536 = n div 256 div 256" by (simp add: div_mult2_eq [symmetric])
  ultimately show "n div 65536 = a" "n div 256 mod 256 = b" using assms(2) by simp_all
  have "n mod 256 = c mod 256" unfolding n by (rule mod_mult_self3)
  then show "n mod 256 = c" using assms(3) by simp
  show "n div 262144 < 64" using n assms by (simp add: div_less_iff_less_mult)
qed

lemma b64encode_chars: "c \<in> set (b64encode s) \<Longrightarrow> c \<in> set b64Alphabet \<or> c = b64Pad"
proof (induction s rule: b64encode.induct)
  case (2 a)
  have "of_char a div 4 < (64 :: nat)" using byte_less [of a] by (simp add: div_less_iff_less_mult)
  with 2 show ?case by (auto simp: Let_def intro!: b64Char_in)
next
  case (3 a b)
  have "(1024 * of_char a + of_char b * 4) div 4096 < (64 :: nat)"
    using byte_less [of a] byte_less [of b] by linarith
  with 3 show ?case by (auto simp: Let_def intro!: b64Char_in)
next
  case (4 a b c s)
  have "((of_char a * 256 + of_char b) * 256 + of_char c) div 262144 < (64 :: nat)"
    by (rule three_bytes(4) [OF byte_less byte_less byte_less refl])
  with 4 show ?case by (auto simp: Let_def intro!: b64Char_in)
qed simp

lemma b64groups_encode: "b64groups (b64encode s) = Some s"
proof (induction s rule: b64encode.induct)
  case (2 a)
  have "of_char a div 4 < (64 :: nat)" using byte_less [of a] by (simp add: div_less_iff_less_mult)
  moreover have "of_char a div 4 * 64 + of_char a * 16 mod 64 = of_char a * (16 :: nat)"
    using digit_join [of "of_char a * 16" 1] by simp
  ultimately show ?case by (simp add: Let_def)
next
  case (3 a b)
  define n where "n = (of_char a * 256 + of_char b) * (4 :: nat)"
  have "n = 1024 * of_char a + of_char b * 4" by (simp add: n_def)
  then have "n div 4096 < 64" using byte_less [of a] byte_less [of b] by linarith
  moreover have "n div 4 div 256 = of_char a" "n div 4 mod 256 = of_char b"
    by (simp_all add: n_def)
  ultimately have d: "n div 4096 < 64" "n div 4 div 256 = of_char a" "n div 4 mod 256 = of_char b" .
  have "b64encode [a, b] = [b64Char (n div 4096), b64Char (n div 64 mod 64), b64Char (n mod 64), b64Pad]"
    by (simp add: n_def Let_def)
  moreover have "char_of (n div 4) = b" using d(3) by (metis char_of_mod_256 char_of_char)
  ultimately show ?case using d three_digits [of n] by (simp add: Let_def)
next
  case (4 a b c s)
  define n where "n = (of_char a * 256 + of_char b) * 256 + (of_char c :: nat)"
  note d = three_bytes [OF byte_less [of a] byte_less [of b] byte_less [of c] n_def]
  have e: "b64encode (a # b # c # s) = [b64Char (n div 262144), b64Char (n div 4096 mod 64),
      b64Char (n div 64 mod 64), b64Char (n mod 64)] @ b64encode s"
    by (simp add: n_def Let_def)
  have "char_of (n div 256) = b" "char_of n = c" using d(2,3) by (metis char_of_mod_256 char_of_char)+
  then show ?case using d four_digits [of n] 4 by (subst e) (simp add: Let_def)
qed simp

theorem b64decode_encode: "b64decode (b64encode s) = Some s"
proof -
  have "filter (\<lambda>c. c \<noteq> CHR 0x0A \<and> c \<noteq> CHR 0x0D) (b64encode s) = b64encode s"
    using b64encode_chars [of _ s] b64Alphabet_facts(4,5) by (auto simp: filter_id_conv b64Pad_def)
  then show ?thesis by (simp add: b64decode_def b64groups_encode)
qed

end
