(* ===== verification/CloudHttp.thy ===== *)
theory CloudHttp
  imports Base64
begin

text \<open>
  The HTTP helper of the cloud clients (\<open>internal/utils/http.go\<close>) and the registry credentials
  (\<open>internal/utils/aws.go\<close>).

  The retrying HTTP client is a third-party package: a service from requests to an error or a
  response whose body may fail to be read. \<open>encoding/json\<close> decodes a body into the type a caller
  asks for: the decoder is an argument, and so is the test whether a payload can be encoded (a
  float that is not a number cannot). AWS is a record of the two calls the code makes.
\<close>

section \<open>Requests\<close>

text \<open>The values of a \<open>map[string]interface{}\<close> payload.\<close>

datatype 'f gval =
    VStr string
  | VInt int
  | VFloat 'f
  | VBool bool
  | VStrs "string list"
  | VRows "string list list"
  | VMap "(string, 'f gval) fmap"

type_synonym 'f payload = "(string, 'f gval) fmap"

record 'f http_req =
  hq_method :: string
  hq_url :: string
  hq_body :: "'f gval option"
  hq_headers :: "(string \<times> string) list"

record raw_resp =
  rr_status :: int
  rr_body :: "string result"

type_synonym 'f http_log = "('f http_req, raw_resp result) log"
type_synonym 'f http_service = "('f http_req, raw_resp result) service"

definition ErrUnauthorized :: go_error where "ErrUnauthorized = ErrNew ''unauthorized''"
definition ErrBadPayload :: go_error where "ErrBadPayload = ErrNew ''bad payload''"

text \<open>The answer to a request: what the response, read and decoded, amounts to. A code that is not a
  success comes with the first 8192 bytes of the body, as far as they can be read.\<close>

definition readResponse :: "(string \<Rightarrow> 'a result) \<Rightarrow> 'a \<Rightarrow> raw_resp \<Rightarrow> int \<times> 'a \<times> go_error option" where
  "readResponse decode zero resp =
     (if rr_status resp < 200 \<or> rr_status resp \<ge> 300 then
        (rr_status resp, zero,
         Some (ErrNew (''http '' @ itoa (rr_status resp) @ '': ''
           @ trimSpace (take 8192 (case rr_body resp of Inl _ \<Rightarrow> [] | Inr b \<Rightarrow> b)))))
      else if rr_status resp = 204 then (204, zero, None)
      else
        (case rr_body resp of
           Inl e \<Rightarrow> (rr_status resp, zero, Some (ErrWrap ''read body'' e))
         | Inr raw \<Rightarrow>
             (case decode raw of
                Inl e \<Rightarrow> (rr_status resp, zero,
                  Some (ErrWrap ''unmarshal response'' (ErrNew (err_msg e @ ''; raw='' @ trimSpace raw))))
              | Inr out \<Rightarrow> (rr_status resp, out, None))))"

definition newRequest :: "string \<Rightarrow> string \<Rightarrow> 'f gval option \<Rightarrow> (string \<times> string) list \<Rightarrow> 'f http_req" where
  "newRequest method url body headers =
     \<lparr>hq_method = method, hq_url = url, hq_body = body,
      hq_headers = [(''Accept'', ''application/json'')]
        @ (if body = None then [] else [(''Content-Type'', ''application/json'')]) @ headers\<rparr>"

lemma newRequest_simps [simp]:
  "hq_method (newRequest m u b h) = m" "hq_url (newRequest m u b h) = u" "hq_body (newRequest m u b h) = b"
  by (simp_all add: newRequest_def)

definition MakeRequest ::
  "('f gval \<Rightarrow> go_error option) \<Rightarrow> 'f http_service \<Rightarrow> (string \<Rightarrow> 'a result) \<Rightarrow> 'a \<Rightarrow> string \<Rightarrow> string \<Rightarrow>
   'f gval option \<Rightarrow> (string \<times> string) list \<Rightarrow> 'f http_log \<Rightarrow> (int \<times> 'a \<times> go_error option) \<times> 'f http_log" where
  "MakeRequest marshal srv decode zero method url body headers w =
     (case Option.bind body marshal of
        Some e \<Rightarrow> ((0, zero, Some (ErrWrap ''marshal body'' e)), w)
      | None \<Rightarrow>
          (case call srv (newRequest method url body headers) w of
             (Inl e, w1) \<Rightarrow> ((0, zero, Some e), w1)
           | (Inr resp, w1) \<Rightarrow> (readResponse decode zero resp, w1)))"

text \<open>What a request whose body can be encoded leaves, in the log and as its answer.\<close>

lemma MakeRequest_sent:
  assumes "Option.bind body marshal = None"
  shows "MakeRequest marshal srv decode zero m url body h w =
    (case srv w (newRequest m url body h) of
       Inl e \<Rightarrow> ((0, zero, Some e), w @ [(newRequest m url body h, Inl e)])
     | Inr resp \<Rightarrow> (readResponse decode zero resp, w @ [(newRequest m url body h, Inr resp)]))"
  using assms by (simp add: MakeRequest_def call_def split: sum.split)

text \<open>A request is sent at most once, and an answer without an error was decoded from a success.\<close>

lemma MakeRequest_log:
  "MakeRequest marshal srv decode zero m url body h w = (r, w1) \<Longrightarrow>
   w1 = w \<or> (\<exists>q. w1 = w @ [(q, srv w q)] \<and> hq_method q = m \<and> hq_url q = url \<and> hq_body q = body)"
  by (cases "Option.bind body marshal")
    (auto simp: MakeRequest_sent split: sum.splits, auto simp: MakeRequest_def)

lemma MakeRequest_nobody:
  "MakeRequest marshal srv decode zero m url None h w = (r, w1) \<Longrightarrow>
   \<exists>q. w1 = w @ [(q, srv w q)] \<and> hq_method q = m \<and> hq_url q = url \<and> hq_body q = None"
  by (rule exI [of _ "newRequest m url None h"]) (auto simp: MakeRequest_sent split: sum.splits)

lemma MakeRequest_ok:
  assumes "MakeRequest marshal srv decode zero m url body h w = ((code, x, None), w1)"
  obtains q resp where "w1 = w @ [(q, Inr resp)]" "hq_method q = m" "hq_url q = url" "hq_body q = body"
    "rr_status resp = code" "200 \<le> code" "code < 300"
    "code = 204 \<and> x = zero \<or> (\<exists>raw. rr_body resp = Inr raw \<and> decode raw = Inr x)"
proof -
  have b: "Option.bind body marshal = None"
    using assms by (cases "Option.bind body marshal") (auto simp: MakeRequest_def)
  let ?q = "newRequest m url body h"
  obtain resp where r: "srv w ?q = Inr resp" "readResponse decode zero resp = (code, x, None)"
    "w1 = w @ [(?q, Inr resp)]"
    using assms by (cases "srv w ?q") (auto simp: MakeRequest_sent [OF b])
  have "rr_status resp = code" "200 \<le> code" "code < 300"
    "code = 204 \<and> x = zero \<or> (\<exists>raw. rr_body resp = Inr raw \<and> decode raw = Inr x)"
    using r(2) by (auto simp: readResponse_def split: if_splits sum.splits)
  with r(3) that [of ?q resp] show thesis by simp
qed

section \<open>Registry credentials\<close>

record ecr_credentials =
  ec_username :: string
  ec_password :: string
  ec_registry :: string

text \<open>The calls to AWS: loading the configuration of a region, and the authorization tokens.\<close>

record aws_lib =
  aw_config :: "string \<Rightarrow> go_error option"
  aw_tokens :: "string \<Rightarrow> string list result"

definition IsAWSECRImage :: "string \<Rightarrow> bool" where
  "IsAWSECRImage img \<longleftrightarrow> containsSub img ''.dkr.ecr.'' \<and> containsSub img ''.amazonaws.com''"

definition getECRCredentials :: "aws_lib \<Rightarrow> string \<Rightarrow> string \<Rightarrow> ecr_credentials result" where
  "getECRCredentials aws accountId region =
     (case aw_config aws region of
        Some e \<Rightarrow> Inl (ErrWrap ''failed to load AWS config'' e)
      | None \<Rightarrow>
          (case aw_tokens aws region of
             Inl e \<Rightarrow> Inl (ErrWrap ''failed to get ECR authorization token'' e)
           | Inr [] \<Rightarrow> Inl (ErrNew ''no authorization data returned from ECR'')
           | Inr (token # _) \<Rightarrow>
               (case b64decode token of
                  None \<Rightarrow> Inl (ErrWrap ''failed to decode authorization token'' (ErrNew ''illegal base64 data''))
                | Some decoded \<Rightarrow>
                    (case cutAt (CHR '':'') decoded of
                       None \<Rightarrow> Inl (ErrNew ''invalid authorization token format'')
                     | Some (user, password) \<Rightarrow>
                         Inr \<lparr>ec_username = user, ec_password = password,
                              ec_registry = ''https://'' @ accountId @ ''.dkr.ecr.'' @ region @ ''.amazonaws.com''\<rparr>))))"

definition GetAWSECRCredentials :: "aws_lib \<Rightarrow> string \<Rightarrow> ecr_credentials result" where
  "GetAWSECRCredentials aws img =
     (let parts = splitOn (CHR ''.'') img
      in if length parts < 4 then Inl (ErrNew (''unexpected ECR image reference: '' @ img))
         else getECRCredentials aws (parts ! 0) (parts ! 3))"

definition GetAWSECRLogin :: "aws_lib \<Rightarrow> string \<Rightarrow> string" where
  "GetAWSECRLogin aws img =
     (case GetAWSECRCredentials aws img of
        Inl _ \<Rightarrow> []
      | Inr c \<Rightarrow> ''-u '' @ ec_username c @ '' -p '' @ ec_password c @ '' '' @ ec_registry c)"

text \<open>The credentials of an image are those of its own account and region: for a reference
  \<open>account.dkr.ecr.region...\<close> the token that AWS issued as user and password comes back, with the
  registry of that reference.\<close>

lemma ecr_roundtrip:
  assumes "aw_config aws region = None" "aw_tokens aws region = Inr (b64encode (user @ '':'' @ password) # ts)"
    and "CHR '':'' \<notin> set user" "CHR ''.'' \<notin> set account" "CHR ''.'' \<notin> set region"
  shows "GetAWSECRCredentials aws (account @ ''.dkr.ecr.'' @ region @ ''.'' @ rest) =
     Inr \<lparr>ec_username = user, ec_password = password,
          ec_registry = ''https://'' @ account @ ''.dkr.ecr.'' @ region @ ''.amazonaws.com''\<rparr>"
proof -
  have "splitOn (CHR ''.'') (account @ ''.dkr.ecr.'' @ region @ ''.'' @ rest) =
      account # ''dkr'' # ''ecr'' # region # splitOn (CHR ''.'') rest"
    using assms(4,5) by (simp add: splitOn_append_sep)
  then show ?thesis
    using assms(1-3) by (simp add: GetAWSECRCredentials_def getECRCredentials_def b64decode_encode cutAt_append)
qed

end
