(* ===== verification/VastRequest.thy ===== *)
theory VastRequest
  imports CloudHttp MachineSpec Wireproxy
begin

text \<open>
  What the Vast.ai client sends (\<open>cloudprovider/vastai/machine.go\<close>, \<open>regions.go\<close>, \<open>cdn.go\<close>,
  \<open>onstart.go\<close> and the payload part of \<open>client.go\<close>): the machine as the API describes it, the search
  filters made from a machine specification, the country lists, the command line of the agent and
  the script that a new machine runs.

  Floats are of an abstract type. A script is text: the template is written out line by line, with
  the tunnels rendered by the functions of the wireproxy component, whose text is the same.
\<close>

section \<open>Machines\<close>

record 'f vast_machine =
  va_id :: int
  va_machineID :: int
  va_publicIP :: string
  va_actualStatus :: string
  va_statusMessage :: string
  va_label :: string
  va_stats :: "'f machine_stats"

definition GenericMachineAdapter :: "'f vast_machine \<Rightarrow> 'f machine" where
  "GenericMachineAdapter m =
     \<lparr>mc_id = itoa (va_id m), mc_machineID = itoa (va_machineID m), mc_publicIP = va_publicIP m,
      mc_agentPort = 0, mc_stats = va_stats m,
      mc_state =
        (if va_actualStatus m = ''running'' then MachineRunning
         else if va_actualStatus m = ''created'' \<and> hasPrefix (va_statusMessage m) ''Error'' then MachineFailed
         else MachinePending)\<rparr>"

text \<open>Of an offer the client uses the identifiers and the price.\<close>

record 'f bundle_offer =
  bo_id :: int
  bo_dph :: 'f
  bo_machineID :: int

section \<open>Regions\<close>

definition RegionToCountryMapping :: "(string \<times> string list) list" where
  "RegionToCountryMapping = [
     (''europe'', [''AD'', ''AL'', ''AT'', ''BA'', ''BE'', ''BG'', ''CH'', ''CY'', ''CZ'', ''DE'', ''DK'', 
        ''EE'', ''ES'', ''FI'', ''FR'', ''GB'', ''GR'', ''HR'', ''HU'', ''IE'', ''IS'', ''IT'', 
        ''LI'', ''LT'', ''LU'', ''LV'', ''MC'', ''MD'', ''ME'', ''MK'', ''MT'', ''NL'', ''NO'', 
        ''PL'', ''PT'', ''RO'', ''RS'', ''SE'', ''SI'', ''SK'', ''SM'', ''TR'', ''VA'', ''XK'']),
     (''north-america'', [''US'', ''CA'', ''MX'']),
     (''asia'', [''AF'', ''AM'', ''AZ'', ''BD'', ''BH'', ''BN'', ''BT'', ''CN'', ''GE'', ''HK'', ''ID'', 
        ''IN'', ''IQ'', ''IR'', ''JO'', ''JP'', ''KG'', ''KH'', ''KP'', ''KR'', ''KW'', ''KZ'', 
        ''LA'', ''LB'', ''LK'', ''MM'', ''MN'', ''MO'', ''MV'', ''MY'', ''NP'', ''OM'', ''PH'', 
        ''PK'', ''PS'', ''QA'', ''RU'', ''SA'', ''SG'', ''SY'', ''TH'', ''TJ'', ''TM'', ''TW'', 
        ''UZ'', ''VN'', ''YE'']),
     (''africa'', [''AO'', ''BF'', ''BI'', ''BJ'', ''BW'', ''CD'', ''CF'', ''CG'', ''CI'', ''CM'', ''CV'', 
        ''DJ'', ''DZ'', ''EG'', ''EH'', ''ER'', ''ET'', ''GA'', ''GH'', ''GM'', ''GN'', ''GQ'', 
        ''GW'', ''KE'', ''KM'', ''LR'', ''LS'', ''LY'', ''MA'', ''MG'', ''ML'', ''MR'', ''MU'', 
        ''MW'', ''MZ'', ''NA'', ''NE'', ''NG'', ''RW'', ''SC'', ''SD'', ''SL'', ''SN'', ''SO'', 
        ''SS'', ''ST'', ''SZ'', ''TD'', ''TG'', ''TN'', ''TZ'', ''UG'', ''ZA'', ''ZM'', ''ZW'']),
     (''south-america'', [''AR'', ''BO'', ''BR'', ''CL'', ''CO'', ''EC'', ''FK'', ''GF'', ''GY'', ''PE'', ''PY'', 
        ''SR'', ''UY'', ''VE'']),
     (''oceania'', [''AS'', ''AU'', ''CK'', ''FJ'', ''FM'', ''GU'', ''KI'', ''MH'', ''MP'', ''NC'', ''NF'', 
        ''NR'', ''NU'', ''NZ'', ''PF'', ''PG'', ''PN'', ''PW'', ''SB'', ''TK'', ''TO'', ''TV'', 
        ''VU'', ''WF'', ''WS''])]"

fun mapRegion :: "region \<Rightarrow> string" where
  "mapRegion RegionEurope = ''europe''"
| "mapRegion RegionNorthAmerica = ''north-america''"
| "mapRegion RegionSouthAmerica = ''south-america''"
| "mapRegion RegionAsia = ''asia''"
| "mapRegion RegionAfrica = ''africa''"
| "mapRegion RegionOceania = ''oceania''"
| "mapRegion RegionAny = []"

definition countriesOf :: "region \<Rightarrow> string list" where
  "countriesOf r =
     (if mapRegion r = [] then []
      else (case map_of RegionToCountryMapping (mapRegion r) of None \<Rightarrow> [] | Some cs \<Rightarrow> cs))"

definition addNew :: "'a list \<Rightarrow> 'a \<Rightarrow> 'a list" where
  "addNew acc x = (if x \<in> set acc then acc else acc @ [x])"

definition getAllowedCountries :: "region list \<Rightarrow> string list" where
  "getAllowedCountries regions = foldl addNew [] (concat (map countriesOf regions))"

section \<open>Search filters\<close>

definition opFilter :: "(string \<times> 'f gval) list \<Rightarrow> 'f gval" where
  "opFilter ops = VMap (fmap_of_list ops)"

text \<open>The filter of one quantity: an exact value, else the bounds that are given.\<close>

definition rangeFilter :: "('a \<Rightarrow> 'f gval) \<Rightarrow> string \<Rightarrow> 'a bounds \<Rightarrow> 'f payload \<Rightarrow> 'f payload" where
  "rangeFilter con name b filters =
     (case bd_exact b of
        Some v \<Rightarrow> fmupd name (opFilter [(''eq'', con v)]) filters
      | None \<Rightarrow>
          (case (bd_min b, bd_max b) of
             (Some l, Some u) \<Rightarrow> fmupd name (opFilter [(''gte'', con l), (''lte'', con u)]) filters
           | (Some l, None) \<Rightarrow> fmupd name (opFilter [(''gte'', con l)]) filters
           | (None, Some u) \<Rightarrow> fmupd name (opFilter [(''lte'', con u)]) filters
           | (None, None) \<Rightarrow> filters))"

definition listFilter :: "string \<Rightarrow> string list \<Rightarrow> 'f payload \<Rightarrow> 'f payload" where
  "listFilter name vs filters =
     (if vs = [] then filters else fmupd name (opFilter [(''in'', VStrs vs)]) filters)"

definition flagFilter :: "string \<Rightarrow> bool \<Rightarrow> 'f payload \<Rightarrow> 'f payload" where
  "flagFilter name b filters =
     (if b then fmupd name (opFilter [(''eq'', VBool True)]) filters else filters)"

definition buildInstanceFilters :: "'f machine_spec \<Rightarrow> 'f payload" where
  "buildInstanceFilters s =
     (let f0 = fmap_of_list [(''rentable'', opFilter [(''eq'', VBool True)]),
                             (''rented'', opFilter [(''eq'', VBool False)]),
                             (''order'', VRows [[''dph_total'', ''asc'']])];
          f1 = flagFilter ''datacenter'' (sp_datacenterOnly s) (flagFilter ''verified'' (sp_verifiedOnly s) f0);
          f2 = listFilter ''geolocation'' (getAllowedCountries (sp_regions s)) f1;
          f3 = listFilter ''compute_cap'' (sp_computeCap s) (listFilter ''gpu_name'' (sp_gpuNames s) f2);
          f4 = rangeFilter VInt ''gpu_total_ram'' (sp_ints s QVRAMTotal)
                 (rangeFilter VInt ''gpu_ram'' (sp_ints s QVRAM)
                   (rangeFilter VInt ''num_gpus'' (sp_ints s QGPUCount) f3));
          f5 = rangeFilter VFloat ''cuda_max_good'' (sp_floats s QCUDA)
                 (rangeFilter VFloat ''total_flops'' (sp_floats s QTFLOPS)
                   (rangeFilter VFloat ''gpu_mem_bw'' (sp_floats s QVRAMBandwidth) f4));
          f6 = rangeFilter VInt ''cpu_ram'' (sp_ints s QRAM)
                 (rangeFilter VInt ''cpu_cores_effective'' (sp_ints s QCPU) f5);
          f7 = rangeFilter VFloat ''dph_total'' (sp_floats s QPrice) f6;
          f8 = (case sp_diskSpaceGB s of
                  None \<Rightarrow> f7
                | Some d \<Rightarrow> fmupd ''disk_space'' (opFilter [(''gte'', VFloat d)]) f7)
      in rangeFilter VFloat ''inet_down'' (sp_floats s QDownloadSpeed)
           (rangeFilter VFloat ''inet_up'' (sp_floats s QUploadSpeed)
             (rangeFilter VFloat ''dlperf'' (sp_dlperf s) f8)))"

section \<open>Text that goes to the machine\<close>

definition resolveCDNURL :: "string \<Rightarrow> string \<Rightarrow> string \<Rightarrow> string" where
  "resolveCDNURL custom defaultURL token =
     (if custom \<noteq> [] then custom
      else if token = [] then defaultURL
      else defaultURL @ ''?token='' @ token)"

definition shellQuote :: "string \<Rightarrow> string" where
  "shellQuote s =
     (if s = [] then [CHR 0x27, CHR 0x27]
      else [CHR 0x27] @ replaceChar (CHR 0x27) [CHR 0x27, CHR 0x22, CHR 0x27, CHR 0x22, CHR 0x27] s @ [CHR 0x27])"

definition joinShellArgs :: "string list \<Rightarrow> string" where
  "joinShellArgs args = joinWith '' '' (map shellQuote args)"

text \<open>The arguments of the first container: its command, or its arguments through a shell.\<close>

definition podArgv :: "pod \<Rightarrow> string list" where
  "podArgv p =
     (case pod_containers p of
        [] \<Rightarrow> []
      | c # _ \<Rightarrow>
          if pn_command c \<noteq> [] then pn_command c @ pn_args c
          else if pn_args c \<noteq> [] then [''/bin/sh'', ''-lc'', joinWith '' '' (pn_args c)]
          else [])"

definition commandWrapper :: "pod_proxy \<Rightarrow> bool \<Rightarrow> string list \<Rightarrow> string" where
  "commandWrapper proxy promtail argv =
     ''/usr/bin/container_agent run -p 8080''
     @ (if pp_enabled proxy then '' --proxy'' else [])
     @ (if promtail then '' --promtail'' else [])
     @ (if argv = [] then [] else '' -- '' @ joinShellArgs argv)"

text \<open>The sorted ports of all containers.\<close>

definition podPorts :: "pod \<Rightarrow> int list" where
  "podPorts p = sort (concat (map pn_ports (pod_containers p)))"

text \<open>The client tunnels that the environment of a container asks for: address and local port.\<close>

definition tunnelPrefix :: string where "tunnelPrefix = ''GW_TUNNEL_''"

definition envTunnels :: "(string \<times> string) list \<Rightarrow> (string \<times> int) list" where
  "envTunnels env = List.map_filter
     (\<lambda>(name, value).
        if \<not> hasPrefix name tunnelPrefix \<or> value = [] then None
        else map_option (\<lambda>port. (value, port)) (atoi (trimPrefix name tunnelPrefix))) env"

section \<open>The script of a new machine\<close>

record onstart_params =
  os_workdir :: string
  os_command :: string
  os_agentURL :: string
  os_wireproxyURL :: string
  os_promtailURL :: string
  os_proxy :: pod_proxy
  os_ports :: "int list"
  os_tunnels :: "(string \<times> int) list"

definition bootstrapLines :: "onstart_params \<Rightarrow> string list" where
  "bootstrapLines ps = [
     [],
     ''#!/bin/bash'',
     ''set -euo pipefail'',
     ''sleep 3'',
     [],
     ''touch ~/.no_auto_tmux'',
     [],
     ''# Not every image ships SSH key material. Guard each step: under set -e a'',
     ''# chown/chmod on a missing path would abort the bootstrap before the agent,'',
     ''# the tunnels or the provider environment ever come up.'',
     ''chown root:root /root'',
     ''if [ -d /root/.ssh ]; then'',
     ''    chown -R root:root /root/.ssh'',
     ''    chmod 700 /root/.ssh'',
     ''    if [ -f /root/.ssh/authorized_keys ]; then'',
     ''        chmod 600 /root/.ssh/authorized_keys'',
     ''    fi'',
     ''fi'',
     [],
     ''ensure_curl() {'',
     ''    if command -v curl >/dev/null 2>&1; then'',
     ''        return 0'',
     ''    fi'',
     [],
     ''    if command -v apt-get >/dev/null 2>&1; then'',
     ''        apt-get update -y'',
     ''        apt-get install -y curl'',
     ''    elif command -v dnf >/dev/null 2>&1; then'',
     ''        dnf install -y curl'',
     ''    elif command -v apk >/dev/null 2>&1; then'',
     ''        apk add --no-cache curl'',
     ''    else'',
     ''        echo \"No supported package manager found (apt-get, dnf, apk)\" >&2'',
     ''        return 1'',
     ''    fi'',
     ''}'',
     [],
     ''ensure_curl || {'',
     ''    echo \"curl is required but could not be installed\"'',
     ''    exit 1'',
     ''}'',
     []]"

definition downloadLines :: "onstart_params \<Rightarrow> string list" where
  "downloadLines ps = [
     ''[ -e /usr/bin/wireproxy ] || { curl '' @ os_wireproxyURL ps @ '' -o /usr/bin/wireproxy && chmod +x /usr/bin/wireproxy; }'',
     ''[ -e /usr/bin/promtail ] || { curl '' @ os_promtailURL ps @ '' -o /usr/bin/promtail && chmod +x /usr/bin/promtail; }'',
     ''[ -e /usr/bin/container_agent ] || { curl '' @ os_agentURL ps @ '' -o /usr/bin/container_agent && chmod +x /usr/bin/container_agent; }'',
     [],
     [],
     ''export GPU_PROVIDER_GATEWAY_CLIENT_ADDRESS='' @ px_address (pp_client (os_proxy ps)),
     ''export GPU_PROVIDER_GATEWAY_CLIENT_PK='' @ px_privateKey (pp_client (os_proxy ps)),
     ''export GPU_PROVIDER_GATEWAY_CLIENT_SERVER_ENDPOINT='' @ px_endpoint (pp_server (os_proxy ps)),
     ''export GPU_PROVIDER_GATEWAY_CLIENT_SERVER_PORT='' @ itoa (px_portUDP (pp_server (os_proxy ps))),
     ''export GPU_PROVIDER_GATEWAY_CLIENT_SERVER_PK='' @ px_serverKey (pp_server (os_proxy ps)),
     [],
     ''mkdir -p /etc/virtualpod'']"

definition tunnelLines :: "onstart_params \<Rightarrow> string list" where
  "tunnelLines ps = [
     ''cat <<EOF > /etc/virtualpod/wireproxy.tpl'',
     ''[Interface]'',
     ''Address     = ${GPU_PROVIDER_GATEWAY_CLIENT_ADDRESS}'',
     ''PrivateKey  = ${GPU_PROVIDER_GATEWAY_CLIENT_PK}'',
     ''ListenPort  = ${VAST_UDP_PORT_72000}'',
     ''DNS         = 10.254.254.1'',
     [],
     ''[Peer]'',
     ''PublicKey           = ${GPU_PROVIDER_GATEWAY_CLIENT_SERVER_PK}'',
     ''Endpoint            = ${GPU_PROVIDER_GATEWAY_CLIENT_SERVER_ENDPOINT}:${GPU_PROVIDER_GATEWAY_CLIENT_SERVER_PORT}'',
     ''AllowedIPs          = 0.0.0.0/0'',
     ''PersistentKeepalive = 25'',
     [],
     ''[HTTP]'',
     ''BindAddress = 127.0.0.1:3128'',
     [],
     ''[TCPServerTunnel]'',
     ''ListenPort = '' @ itoa (px_offset (pp_client (os_proxy ps))),
     ''Target = 127.0.0.1:8080'',
     []]"

definition closingLines :: "onstart_params \<Rightarrow> string list" where
  "closingLines ps = [
     ''EOF'',
     [],
     ''# rm -rf /etc/pip.conf'',
     ''export PIP_PROXY=\"http://127.0.0.1:3128\"'',
     ''unset AWS_WEB_IDENTITY_TOKEN_FILE'']"

text \<open>The template trims the blanks before the client tunnels, before the change of directory and before
  its end.\<close>

definition GenerateOnStartScript :: "onstart_params \<Rightarrow> string" where
  "GenerateOnStartScript ps =
     concat (map (\<lambda>l. l @ nl) (bootstrapLines ps @ downloadLines ps @ tunnelLines ps))
     @ concat (map renderServerTunnel (serverTunnels (px_offset (pp_client (os_proxy ps))) (os_ports ps)))
     @ concat (map renderClientTunnel (os_tunnels ps))
     @ nl @ joinWith nl (closingLines ps)
     @ (if os_workdir ps = [] then [] else nl @ ''cd '' @ os_workdir ps)
     @ nl @ nl @ os_command ps @ nl"

end
