(* ===== verification/VastFilters.thy ===== *)
theory VastFilters
  imports VastRequest
begin

text \<open>
  The meaning of the search filters: the operators as the search API documents them, read on the
  attributes of an offer, against the machine specification they were built from.
\<close>

fun leValue :: "('f \<Rightarrow> 'f \<Rightarrow> bool) \<Rightarrow> 'f gval \<Rightarrow> 'f gval \<Rightarrow> bool" where
  "leValue le (VInt a) (VInt b) = (a \<le> b)"
| "leValue le (VFloat a) (VFloat b) = le a b"
| "leValue le _ _ = False"

definition opHolds :: "('f \<Rightarrow> 'f \<Rightarrow> bool) \<Rightarrow> string \<Rightarrow> 'f gval \<Rightarrow> 'f gval \<Rightarrow> bool" where
  "opHolds le oper v x =
     (if oper = ''eq'' then x = v
      else if oper = ''gte'' then leValue le v x
      else if oper = ''lte'' then leValue le x v
      else if oper = ''in'' then (case (v, x) of (VStrs vs, VStr t) \<Rightarrow> t \<in> set vs | _ \<Rightarrow> False)
      else False)"

text \<open>An offer passes a filter if every operator of it holds; \<open>order\<close> is not a filter.\<close>

definition passes :: "('f \<Rightarrow> 'f \<Rightarrow> bool) \<Rightarrow> 'f gval \<Rightarrow> 'f gval \<Rightarrow> bool" where
  "passes le f x = (case f of VMap ops \<Rightarrow> fmpred (\<lambda>oper v. opHolds le oper v x) ops | _ \<Rightarrow> True)"

definition offered :: "('f \<Rightarrow> 'f \<Rightarrow> bool) \<Rightarrow> 'f payload \<Rightarrow> (string \<Rightarrow> 'f gval) \<Rightarrow> bool" where
  "offered le filters attrs = fmpred (\<lambda>name f. passes le f (attrs name)) filters"

definition withinBounds :: "('f \<Rightarrow> 'f \<Rightarrow> bool) \<Rightarrow> ('a \<Rightarrow> 'f gval) \<Rightarrow> 'a bounds \<Rightarrow> 'f gval \<Rightarrow> bool" where
  "withinBounds le con b x =
     (case bd_exact b of
        Some v \<Rightarrow> x = con v
      | None \<Rightarrow> (case bd_min b of None \<Rightarrow> True | Some l \<Rightarrow> leValue le (con l) x) \<and>
                (case bd_max b of None \<Rightarrow> True | Some u \<Rightarrow> leValue le x (con u)))"

definition oneOf :: "string list \<Rightarrow> 'f gval \<Rightarrow> bool" where
  "oneOf vs x \<longleftrightarrow> vs = [] \<or> (\<exists>t \<in> set vs. x = VStr t)"

definition demanded :: "bool \<Rightarrow> 'f gval \<Rightarrow> bool" where
  "demanded b x \<longleftrightarrow> (b \<longrightarrow> x = VBool True)"

section \<open>Filters one by one\<close>

lemma offered_base [simp]: "offered le fmempty attrs" "passes le (VRows rows) x"
  by (simp_all add: offered_def passes_def)

lemma offered_fmupd:
  "fmlookup fs name = None \<Longrightarrow> offered le (fmupd name f fs) attrs \<longleftrightarrow> passes le f (attrs name) \<and> offered le fs attrs"
  by (auto simp: offered_def fmpred_iff split: if_splits)

lemma passes_opFilter:
  "passes le (opFilter [(o1, v1)]) x = opHolds le o1 v1 x"
  "o1 \<noteq> o2 \<Longrightarrow> passes le (opFilter [(o1, v1), (o2, v2)]) x = (opHolds le o1 v1 x \<and> opHolds le o2 v2 x)"
  by (auto simp: passes_def opFilter_def fmpred_iff fmlookup_of_list split: if_splits)

lemma opHolds_simps [simp]:
  "opHolds le ''eq'' v x = (x = v)" "opHolds le ''gte'' v x = leValue le v x"
  "opHolds le ''lte'' v x = leValue le x v" "opHolds le ''in'' (VStrs vs) x = (\<exists>t \<in> set vs. x = VStr t)"
  by (cases x; simp add: opHolds_def)+

lemma offered_range:
  "fmlookup fs name = None \<Longrightarrow>
   offered le (rangeFilter con name b fs) attrs \<longleftrightarrow> withinBounds le con b (attrs name) \<and> offered le fs attrs"
  by (auto simp: rangeFilter_def withinBounds_def offered_fmupd passes_opFilter split: option.split)

lemma offered_list:
  "fmlookup fs name = None \<Longrightarrow>
   offered le (listFilter name vs fs) attrs \<longleftrightarrow> oneOf vs (attrs name) \<and> offered le fs attrs"
  by (auto simp: listFilter_def oneOf_def offered_fmupd passes_opFilter)

lemma offered_flag:
  "fmlookup fs name = None \<Longrightarrow>
   offered le (flagFilter name b fs) attrs \<longleftrightarrow> demanded b (attrs name) \<and> offered le fs attrs"
  by (auto simp: demanded_def flagFilter_def offered_fmupd passes_opFilter)

text \<open>A filter leaves the others alone.\<close>

lemma lookup_other [simp]:
  "n \<noteq> name \<Longrightarrow> fmlookup (rangeFilter con name b fs) n = fmlookup fs n"
  "n \<noteq> name \<Longrightarrow> fmlookup (listFilter name vs fs) n = fmlookup fs n"
  "n \<noteq> name \<Longrightarrow> fmlookup (flagFilter name c fs) n = fmlookup fs n"
  by (auto simp: rangeFilter_def listFilter_def flagFilter_def split: option.split)

section \<open>All filters\<close>

lemmas offered_steps = offered_range offered_list offered_flag offered_fmupd

text \<open>C20: The filters that the client sends select exactly the offers that meet the specification: rentable,
  not rented, in an allowed country, of a named model and capability, and with each of the thirteen
  quantities equal to the exact value or within the bounds given for it; no filter overwrites
  another.\<close>

theorem filters_select_specification:
  "offered le (buildInstanceFilters s) attrs \<longleftrightarrow>
     attrs ''rentable'' = VBool True \<and> attrs ''rented'' = VBool False \<and>
     demanded (sp_verifiedOnly s) (attrs ''verified'') \<and>
     demanded (sp_datacenterOnly s) (attrs ''datacenter'') \<and>
     oneOf (getAllowedCountries (sp_regions s)) (attrs ''geolocation'') \<and>
     oneOf (sp_gpuNames s) (attrs ''gpu_name'') \<and> oneOf (sp_computeCap s) (attrs ''compute_cap'') \<and>
     withinBounds le VInt (sp_ints s QGPUCount) (attrs ''num_gpus'') \<and>
     withinBounds le VInt (sp_ints s QVRAM) (attrs ''gpu_ram'') \<and>
     withinBounds le VInt (sp_ints s QVRAMTotal) (attrs ''gpu_total_ram'') \<and>
     withinBounds le VInt (sp_ints s QCPU) (attrs ''cpu_cores_effective'') \<and>
     withinBounds le VInt (sp_ints s QRAM) (attrs ''cpu_ram'') \<and>
     withinBounds le VFloat (sp_floats s QVRAMBandwidth) (attrs ''gpu_mem_bw'') \<and>
     withinBounds le VFloat (sp_floats s QTFLOPS) (attrs ''total_flops'') \<and>
     withinBounds le VFloat (sp_floats s QCUDA) (attrs ''cuda_max_good'') \<and>
     withinBounds le VFloat (sp_floats s QPrice) (attrs ''dph_total'') \<and>
     withinBounds le VFloat (sp_floats s QUploadSpeed) (attrs ''inet_up'') \<and>
     withinBounds le VFloat (sp_floats s QDownloadSpeed) (attrs ''inet_down'') \<and>
     withinBounds le VFloat (sp_dlperf s) (attrs ''dlperf'') \<and>
     (case sp_diskSpaceGB s of None \<Rightarrow> True | Some d \<Rightarrow> leValue le (VFloat d) (attrs ''disk_space''))"
  by (cases "sp_diskSpaceGB s")
    (simp_all add: buildInstanceFilters_def Let_def offered_steps passes_opFilter conj_ac)

end
