(* ===== verification/VastClient.thy ===== *)
theory VastClient
  imports VastRequest "HOL-Library.Monad_Syntax"
begin

text \<open>
  The Vast.ai client (\<open>cloudprovider/vastai/client.go\<close>, \<open>bans.go\<close>): machine labels, the paged list
  of machines, the choice and rental of a machine, bans, destruction, restart, key renewal and the
  garbage collection of machines without a pod.

  Every HTTP request goes through \<open>MakeRequest\<close>; the decoders of the response types are fields of
  the environment, as are the clock, the context of the call (both a function of the exchange so
  far), \<open>sort.Slice\<close> by price (the order of equal prices is not specified) and the comparison of
  floats. \<open>None\<close> is a panic, or a listing that does not end. Null entries in the decoded lists are
  not modelled.
\<close>

section \<open>Environment and state\<close>

record vast_urls =
  vu_agent :: string
  vu_wireproxy :: string
  vu_promtail :: string
  vu_token :: string

record bans_config =
  bc_enable :: bool
  bc_path :: string
  bc_duration :: int

text \<open>Time stamps of the bans are nanoseconds. The bans file is JSON: encoder and decoder are
  arguments. A file operation may fail; the directory of a path is made as a whole.\<close>

datatype file_op = FMkdirAll string | FWrite string | FRename string string | FRead string

record 'f vast_env =
  ve_http :: "'f http_service"
  ve_marshal :: "'f gval \<Rightarrow> go_error option"
  ve_baseURL :: string
  ve_auth :: "(string \<times> string) list"
  ve_cluster :: string
  ve_node :: string
  ve_urls :: vast_urls
  ve_bans :: bans_config
  ve_decodeList :: "string \<Rightarrow> ('f vast_machine list \<times> string) result"
  ve_decodeMachine :: "string \<Rightarrow> 'f vast_machine option result"
  ve_decodeOffers :: "string \<Rightarrow> 'f bundle_offer list result"
  ve_decodeProvision :: "string \<Rightarrow> (bool \<times> int) result"
  ve_decodeGeneric :: "string \<Rightarrow> (bool \<times> string) result"
  ve_sortOffers :: "'f bundle_offer list \<Rightarrow> 'f bundle_offer list"
  ve_less :: "'f \<Rightarrow> 'f \<Rightarrow> bool"
  ve_parseFloat :: "string \<Rightarrow> 'f option"
  ve_zero :: 'f
  ve_hundred :: 'f
  ve_ctxErr :: "'f http_log \<Rightarrow> go_error option"
  ve_now :: "'f http_log \<Rightarrow> int"
  ve_aws :: aws_lib
  ve_encodeBans :: "(string, int) fmap \<Rightarrow> string"
  ve_decodeBans :: "string \<Rightarrow> (string, int) fmap result"
  ve_fileErr :: "file_op \<Rightarrow> go_error option"

record 'f vast_state =
  vt_bans :: "(string, int) fmap"
  vt_files :: "string \<rightharpoonup> string"
  vt_log :: "'f http_log"

definition newVastClient :: "(string \<rightharpoonup> string) \<Rightarrow> 'f vast_state" where
  "newVastClient files = \<lparr>vt_bans = fmempty, vt_files = files, vt_log = []\<rparr>"

type_synonym ('a, 'f) vast_io = "'f vast_state \<Rightarrow> ('a \<times> 'f vast_state) option"

text \<open>A request without retry options, for a decoder and the zero of its type.\<close>

definition vreq ::
  "'f vast_env \<Rightarrow> (string \<Rightarrow> 'a result) \<Rightarrow> 'a \<Rightarrow> string \<Rightarrow> string \<Rightarrow> 'f gval option \<Rightarrow> 'f http_log \<Rightarrow>
   (int \<times> 'a \<times> go_error option) \<times> 'f http_log" where
  "vreq env decode zero method url body w =
     MakeRequest (ve_marshal env) (ve_http env) decode zero method url body (ve_auth env) w"

definition setLog :: "'f http_log \<Rightarrow> 'f vast_state \<Rightarrow> 'f vast_state" where
  "setLog w s = s\<lparr>vt_log := w\<rparr>"

section \<open>Labels\<close>

definition buildMachineLabel :: "'f vast_env \<Rightarrow> string \<Rightarrow> string" where
  "buildMachineLabel env uid = ''vk'' @ '':'' @ ve_cluster env @ '':'' @ ve_node env @ '':'' @ uid"

record label_info =
  li_prefix :: string
  li_cluster :: string
  li_node :: string
  li_uid :: string

definition parseMachineLabel :: "string \<Rightarrow> label_info option" where
  "parseMachineLabel label =
     (case splitOn (CHR '':'') label of
        [p, c, n, u] \<Rightarrow>
          if p = ''vk'' then Some \<lparr>li_prefix = p, li_cluster = c, li_node = n, li_uid = u\<rparr> else None
      | _ \<Rightarrow> None)"

section \<open>Machines\<close>

definition v1URL :: "'f vast_env \<Rightarrow> string \<Rightarrow> string" where
  "v1URL env path = trimSuffix (ve_baseURL env) ''/v0'' @ ''/v1'' @ path"

text \<open>\<open>url.QueryEscape\<close>.\<close>

definition hexDigit :: "nat \<Rightarrow> char" where
  "hexDigit n = ''0123456789ABCDEF'' ! n"

definition queryEscape :: "string \<Rightarrow> string" where
  "queryEscape s = concat (map (\<lambda>c.
     if isDigit c \<or> isUpperChar c \<or> isLowerChar c \<or> c \<in> set ''-_.~'' then [c]
     else if c = CHR '' '' then ''+''
     else [CHR ''%'', hexDigit (of_char c div 16), hexDigit (of_char c mod 16)]) s)"

definition pageURL :: "'f vast_env \<Rightarrow> string \<Rightarrow> string" where
  "pageURL env after =
     v1URL env ''/instances/'' @ (if after = [] then [] else ''?after_token='' @ queryEscape after)"

partial_function (option) listPages ::
  "'f vast_env \<Rightarrow> string \<Rightarrow> 'f vast_machine list \<Rightarrow> 'f http_log \<Rightarrow>
   ('f vast_machine list result \<times> 'f http_log) option" where
  "listPages env after acc w =
     (case vreq env (ve_decodeList env) ([], []) ''GET'' (pageURL env after) None w of
        ((_, (ms, next), err), w1) \<Rightarrow>
          (case err of
             Some e \<Rightarrow> Some (Inl e, w1)
           | None \<Rightarrow>
               if next = [] \<or> next = after then Some (Inr (acc @ ms), w1)
               else listPages env next (acc @ ms) w1))"

declare listPages.simps [code]

text \<open>Only machines with a label of this cluster and node are kept.\<close>

definition ownMachine :: "'f vast_env \<Rightarrow> 'f vast_machine \<Rightarrow> bool" where
  "ownMachine env m =
     (case parseMachineLabel (va_label m) of
        None \<Rightarrow> False
      | Some l \<Rightarrow> li_cluster l = ve_cluster env \<and> li_node l = ve_node env)"

definition listMachinesInternal :: "'f vast_env \<Rightarrow> ('f vast_machine list result, 'f) vast_io" where
  "listMachinesInternal env s =
     do {
       (r, w1) \<leftarrow> listPages env [] [] (vt_log s);
       Some (map_sum id (filter (ownMachine env)) r, setLog w1 s)
     }"

definition ListMachines :: "'f vast_env \<Rightarrow> ('f machine list result, 'f) vast_io" where
  "ListMachines env s =
     do {
       (r, s1) \<leftarrow> listMachinesInternal env s;
       Some (map_sum id (\<lambda>ms. map GenericMachineAdapter
               (filter (\<lambda>m. hasPrefix (va_label m) (buildMachineLabel env [])) ms)) r, s1)
     }"

definition GetMachine :: "'f vast_env \<Rightarrow> string \<Rightarrow> ('f machine result, 'f) vast_io" where
  "GetMachine env machineID s =
     (case vreq env (ve_decodeMachine env) None ''GET''
             (ve_baseURL env @ ''/instances/'' @ machineID @ ''/'') None (vt_log s) of
        ((_, response, err), w1) \<Rightarrow>
          Some (case err of
                  Some e \<Rightarrow> Inl e
                | None \<Rightarrow>
                    (case response of
                       None \<Rightarrow> Inl (ErrNew (''machine ID='' @ machineID @ '' not found''))
                     | Some m \<Rightarrow> Inr (GenericMachineAdapter m)),
                setLog w1 s))"

definition instanceURL :: "'f vast_env \<Rightarrow> string \<Rightarrow> string" where
  "instanceURL env i = ve_baseURL env @ ''/instances/'' @ i @ ''/''"

definition DestroyMachine :: "'f vast_env \<Rightarrow> string \<Rightarrow> (go_error option, 'f) vast_io" where
  "DestroyMachine env i s =
     (case vreq env (ve_decodeGeneric env) (False, []) ''DELETE'' (instanceURL env i) None (vt_log s) of
        ((_, (success, message), err), w1) \<Rightarrow>
          Some (case err of
                  Some e \<Rightarrow> Some e
                | None \<Rightarrow>
                    if success then None else Some (ErrNew (''failed to destroy instance: '' @ message)),
                setLog w1 s))"

text \<open>A restart first asks for the machine.\<close>

definition RestartMachine :: "'f vast_env \<Rightarrow> string \<Rightarrow> bool \<Rightarrow> (go_error option, 'f) vast_io" where
  "RestartMachine env i pullImage s =
     do {
       (m, s1) \<leftarrow> GetMachine env i s;
       (case m of
          Inl e \<Rightarrow> Some (Some e, s1)
        | Inr _ \<Rightarrow>
            (let url = ve_baseURL env @ (if pullImage then ''/instances/recycle/'' else ''/instances/reboot/'') @ i
             in case vreq env (ve_decodeGeneric env) (False, []) ''PUT'' url None (vt_log s1) of
                  ((_, (success, message), err), w2) \<Rightarrow>
                    Some (case err of
                            Some e \<Rightarrow> Some e
                          | None \<Rightarrow>
                              if success then None
                              else Some (ErrNew (''failed to restart machine '' @ i @ '': '' @ message)),
                          setLog w2 s1)))
     }"

definition keyLine :: "string \<Rightarrow> string \<Rightarrow> string \<Rightarrow> string" where
  "keyLine name v target = ''echo '' @ [CHR 0x27] @ name @ ''='' @ v @ nl @ [CHR 0x27] @ target"

definition renewCommand :: "pod_proxy \<Rightarrow> string" where
  "renewCommand proxy =
     keyLine ''GPU_PROVIDER_GATEWAY_CLIENT_ADDRESS'' (px_address (pp_client proxy)) '' > /etc/virtualpod/wireproxy.keys;''
     @ keyLine ''GPU_PROVIDER_GATEWAY_CLIENT_PK'' (px_privateKey (pp_client proxy)) '' >> /etc/virtualpod/wireproxy.tpl;''
     @ keyLine ''GPU_PROVIDER_GATEWAY_CLIENT_SERVER_ENDPOINT'' (px_endpoint (pp_server proxy)) '' >> /etc/virtualpod/wireproxy.tpl;''
     @ keyLine ''GPU_PROVIDER_GATEWAY_CLIENT_SERVER_PK'' (px_serverKey (pp_server proxy)) '' >> /etc/virtualpod/wireproxy.tpl''"

definition RenewMachineKeys :: "'f vast_env \<Rightarrow> string \<Rightarrow> pod_proxy \<Rightarrow> (go_error option, 'f) vast_io" where
  "RenewMachineKeys env i proxy s =
     (case vreq env (ve_decodeGeneric env) (False, []) ''PUT'' (ve_baseURL env @ ''/instances/command/'' @ i)
             (Some (VMap (fmap_of_list [(''command'', VStr (renewCommand proxy))]))) (vt_log s) of
        ((_, (success, _), err), w1) \<Rightarrow>
          Some (case err of
                  Some e \<Rightarrow> Some e
                | None \<Rightarrow>
                    if success then None else Some (ErrNew (''failed to renew keys for machine '' @ i)),
                setLog w1 s))"

section \<open>Bans\<close>

text \<open>The whole file is written beside the old one and then renamed over it.\<close>

definition persistMachineBansToFile :: "'f vast_env \<Rightarrow> 'f vast_state \<Rightarrow> go_error option \<times> 'f vast_state" where
  "persistMachineBansToFile env s =
     (let path = bc_path (ve_bans env); tmp = path @ ''.tmp''
      in if \<not> bc_enable (ve_bans env) then (None, s)
         else (case ve_fileErr env (FMkdirAll path) of
                 Some e \<Rightarrow> (Some e, s)
               | None \<Rightarrow>
                   (case ve_fileErr env (FWrite tmp) of
                      Some e \<Rightarrow> (Some e, s)
                    | None \<Rightarrow>
                        (let s1 = s\<lparr>vt_files := (vt_files s)(tmp \<mapsto> ve_encodeBans env (vt_bans s))\<rparr>
                         in case ve_fileErr env (FRename tmp path) of
                              Some e \<Rightarrow> (Some e, s1)
                            | None \<Rightarrow> (None, s1\<lparr>vt_files := ((vt_files s1)(path := vt_files s1 tmp))(tmp := None)\<rparr>)))))"

definition BanMachine :: "'f vast_env \<Rightarrow> string \<Rightarrow> 'f vast_state \<Rightarrow> 'f vast_state" where
  "BanMachine env stableID s =
     snd (persistMachineBansToFile env
       (s\<lparr>vt_bans := fmupd stableID (ve_now env (vt_log s)) (vt_bans s)\<rparr>))"

definition LoadMachineBansFromFile :: "'f vast_env \<Rightarrow> 'f vast_state \<Rightarrow> go_error option \<times> 'f vast_state" where
  "LoadMachineBansFromFile env s =
     (if \<not> bc_enable (ve_bans env) then (None, s)
      else (case vt_files s (bc_path (ve_bans env)) of
              None \<Rightarrow> (None, s)
            | Some text \<Rightarrow>
                (case ve_fileErr env (FRead (bc_path (ve_bans env))) of
                   Some e \<Rightarrow> (Some e, s)
                 | None \<Rightarrow>
                     (case ve_decodeBans env text of
                        Inl e \<Rightarrow> (Some e, s)
                      | Inr bans \<Rightarrow> (None, s\<lparr>vt_bans := vt_bans s ++\<^sub>f bans\<rparr>)))))"

text \<open>A ban without a duration does not expire.\<close>

definition bannedNow :: "'f vast_env \<Rightarrow> int \<Rightarrow> (string, int) fmap \<Rightarrow> string \<Rightarrow> bool" where
  "bannedNow env now bans stableID =
     (case fmlookup bans stableID of
        None \<Rightarrow> False
      | Some t \<Rightarrow> \<not> (bc_duration (ve_bans env) > 0 \<and> now - t > bc_duration (ve_bans env)))"

section \<open>Renting a machine\<close>

definition sortCandidates :: "'f vast_env \<Rightarrow> 'f bundle_offer list \<Rightarrow> 'f bundle_offer list" where
  "sortCandidates env candidates = ve_sortOffers env candidates"

definition tooExpensive :: "'f vast_env \<Rightarrow> 'f machine_spec \<Rightarrow> 'f bundle_offer \<Rightarrow> bool" where
  "tooExpensive env spec c =
     (case bd_max (sp_floats spec QPrice) of None \<Rightarrow> False | Some m \<Rightarrow> ve_less env m (bo_dph c))"

definition GetRentalCandidates :: "'f vast_env \<Rightarrow> 'f machine_spec \<Rightarrow> 'f http_log \<Rightarrow> offer list result \<times> 'f http_log" where
  "GetRentalCandidates env spec w =
     (case vreq env (ve_decodeOffers env) [] ''POST'' (ve_baseURL env @ ''/bundles/'')
             (Some (VMap (buildInstanceFilters spec))) w of
        ((_, candidates, err), w1) \<Rightarrow>
          (case err of
             Some e \<Rightarrow> (Inl e, w1)
           | None \<Rightarrow>
               (Inr (map (\<lambda>c. \<lparr>of_offerID = itoa (bo_id c), of_machineID = itoa (bo_machineID c)\<rparr>)
                      (filter (\<lambda>c. \<not> tooExpensive env spec c) (sortCandidates env candidates))), w1)))"

definition diskSize :: "'f vast_env \<Rightarrow> pod \<Rightarrow> 'f" where
  "diskSize env p =
     (case annLookup (pod_annotations p) ''anex.sh/disk-space-gb'' of
        None \<Rightarrow> ve_hundred env
      | Some t \<Rightarrow> (case ve_parseFloat env t of None \<Rightarrow> ve_zero env | Some d \<Rightarrow> d))"

definition DefaultAgentURL :: string where
  "DefaultAgentURL = ''https://glami-gpu-provider.glami-ml.com/container_agent_v0.4.2''"
definition DefaultWireproxyURL :: string where
  "DefaultWireproxyURL = ''https://glami-gpu-provider.glami-ml.com/wireproxy''"
definition DefaultPromtailURL :: string where
  "DefaultPromtailURL = ''https://glami-gpu-provider.glami-ml.com/promtail''"

definition onStartParams :: "'f vast_env \<Rightarrow> pod \<Rightarrow> pod_container \<Rightarrow> pod_proxy \<Rightarrow> bool \<Rightarrow> onstart_params" where
  "onStartParams env p c proxy promtail =
     \<lparr>os_workdir = pn_workdir c, os_command = commandWrapper proxy promtail (podArgv p),
      os_agentURL = resolveCDNURL (vu_agent (ve_urls env)) DefaultAgentURL (vu_token (ve_urls env)),
      os_wireproxyURL = resolveCDNURL (vu_wireproxy (ve_urls env)) DefaultWireproxyURL (vu_token (ve_urls env)),
      os_promtailURL = resolveCDNURL (vu_promtail (ve_urls env)) DefaultPromtailURL (vu_token (ve_urls env)),
      os_proxy = proxy, os_ports = podPorts p, os_tunnels = envTunnels (pn_env c)\<rparr>"

definition provisionPayload :: "'f vast_env \<Rightarrow> pod \<Rightarrow> pod_container \<Rightarrow> pod_proxy \<Rightarrow> bool \<Rightarrow> 'f payload" where
  "provisionPayload env p c proxy promtail =
     (let payload = fmap_of_list
            [(''client_id'', VStr ''me''), (''image'', VStr (pn_image c)),
             (''onstart'', VStr (GenerateOnStartScript (onStartParams env p c proxy promtail))),
             (''label'', VStr (buildMachineLabel env (pod_uid p))),
             (''disk'', VFloat (diskSize env p)), (''runtype'', VStr ''ssh''),
             (''env'', VMap (fmap_of_list [(''-p 72000:72000/udp'', VStr ''1'')]))]
      in if IsAWSECRImage (pn_image c)
         then fmupd ''image_login'' (VStr (GetAWSECRLogin (ve_aws env) (pn_image c))) payload
         else payload)"

definition askURL :: "'f vast_env \<Rightarrow> string \<Rightarrow> string" where
  "askURL env i = ve_baseURL env @ ''/asks/'' @ i @ ''/''"

text \<open>The candidates are tried in order: a refusal is skipped, an authorization error stops, and so
  does a context that is done.\<close>

fun tryCandidates :: "'f vast_env \<Rightarrow> 'f payload \<Rightarrow> string list \<Rightarrow> 'f http_log \<Rightarrow> string result \<times> 'f http_log" where
  "tryCandidates env payload [] w = (Inl (ErrNew ''failed to provision instance''), w)"
| "tryCandidates env payload (i # ids) w =
     (case ve_ctxErr env w of
        Some e \<Rightarrow> (Inl e, w)
      | None \<Rightarrow>
          (case vreq env (ve_decodeProvision env) (False, 0) ''PUT'' (askURL env i) (Some (VMap payload)) w of
             ((code, (success, machine), err), w1) \<Rightarrow>
               if code = 400 then tryCandidates env payload ids w1
               else if code = 401 then (Inl ErrUnauthorized, w1)
               else if err \<noteq> None \<or> \<not> success then tryCandidates env payload ids w1
               else (Inr (itoa machine), w1)))"

definition ProvisionMachine ::
  "'f vast_env \<Rightarrow> string list \<Rightarrow> pod \<Rightarrow> pod_proxy \<Rightarrow> bool \<Rightarrow> (string result, 'f) vast_io" where
  "ProvisionMachine env candidates p proxy promtail s =
     (if candidates = [] then Some (Inl (ErrNew ''no instance candidates provided''), s)
      else (case pod_containers p of
              [] \<Rightarrow> None
            | c # _ \<Rightarrow>
                (case tryCandidates env (provisionPayload env p c proxy promtail) candidates (vt_log s) of
                   (r, w1) \<Rightarrow> Some (r, setLog w1 s))))"

definition SelectAndProvisionMachine ::
  "'f vast_env \<Rightarrow> 'f machine_spec \<Rightarrow> pod \<Rightarrow> pod_proxy \<Rightarrow> bool \<Rightarrow> (string result, 'f) vast_io" where
  "SelectAndProvisionMachine env spec p proxy promtail s =
     (case GetRentalCandidates env spec (vt_log s) of
        (Inl e, w1) \<Rightarrow> Some (Inl e, setLog w1 s)
      | (Inr offers, w1) \<Rightarrow>
          ProvisionMachine env
            (map of_offerID (filter (\<lambda>x. \<not> bannedNow env (ve_now env w1) (vt_bans s) (of_machineID x)) offers))
            p proxy promtail (setLog w1 s))"

section \<open>Recovery and garbage collection\<close>

definition MapRunningMachines :: "'f vast_env \<Rightarrow> pod list \<Rightarrow> ((string, 'f machine) fmap result, 'f) vast_io" where
  "MapRunningMachines env pods s =
     do {
       (r, s1) \<leftarrow> listMachinesInternal env s;
       Some (map_sum id (\<lambda>ms. foldl (\<lambda>acc m.
               case parseMachineLabel (va_label m) of
                 None \<Rightarrow> acc
               | Some l \<Rightarrow>
                   if li_uid l \<in> set (map pod_uid pods) then fmupd (li_uid l) (GenericMachineAdapter m) acc
                   else acc) fmempty ms) r, s1)
     }"

text \<open>A machine whose label is of this cluster and names none of the given pods; an error of its
  destruction is only logged.\<close>

definition danglingLabel :: "'f vast_env \<Rightarrow> string list \<Rightarrow> 'f vast_machine \<Rightarrow> bool" where
  "danglingLabel env uids m =
     (case parseMachineLabel (va_label m) of
        None \<Rightarrow> False
      | Some l \<Rightarrow> li_cluster l = ve_cluster env \<and> li_uid l \<notin> set uids)"

fun pruneMachines :: "'f vast_env \<Rightarrow> string list \<Rightarrow> 'f vast_machine list \<Rightarrow> 'f vast_state \<Rightarrow> 'f vast_state option" where
  "pruneMachines env uids [] s = Some s"
| "pruneMachines env uids (m # ms) s =
     (if danglingLabel env uids m
      then do { (e, s1) \<leftarrow> DestroyMachine env (itoa (va_id m)) s; pruneMachines env uids ms s1 }
      else pruneMachines env uids ms s)"

definition PruneDanglingMachines :: "'f vast_env \<Rightarrow> string list \<Rightarrow> (go_error option, 'f) vast_io" where
  "PruneDanglingMachines env uids s =
     do {
       (r, s1) \<leftarrow> listMachinesInternal env s;
       (case r of
          Inl e \<Rightarrow> Some (Some e, s1)
        | Inr ms \<Rightarrow> do { s2 \<leftarrow> pruneMachines env uids ms s1; Some (None, s2) })
     }"

end
