(* ===== verification/OwnerLabels.thy ===== *)
theory OwnerLabels
  imports Prelude
begin

text \<open>
  The interface of a machine label: the text a cloud client attaches to the machine of a pod, from
  which it later reads whose machine it is. The kubelet relies on two laws: reading a label that was
  built for a legal identifier gives the identifier back, and only labels that were built are read.
  What the garbage collection needs follows once, for every client.
\<close>

locale owner_label =
  fixes build :: "string \<Rightarrow> string"
    and uid_of :: "string \<Rightarrow> string option"
    and legal :: "string \<Rightarrow> bool"
  assumes uid_build: "legal u \<Longrightarrow> uid_of (build u) = Some u"
    and build_uid: "uid_of l = Some u \<Longrightarrow> l = build u \<and> legal u"
begin

lemma uid_iff: "uid_of l = Some u \<longleftrightarrow> l = build u \<and> legal u"
  using uid_build build_uid by blast

lemma build_inject: "legal u \<Longrightarrow> legal v \<Longrightarrow> build u = build v \<longleftrightarrow> u = v"
  using uid_build by (metis option.inject)

text \<open>The labels that a collection with the live identifiers \<open>uids\<close> takes.\<close>

lemma taken_iff:
  "(case uid_of l of None \<Rightarrow> False | Some u \<Rightarrow> u \<notin> set uids) \<longleftrightarrow>
     (\<exists>u. l = build u \<and> legal u \<and> u \<notin> set uids)"
proof (cases "uid_of l")
  case None
  then show ?thesis using uid_build by force
next
  case (Some v)
  with build_uid [OF this] show ?thesis by (auto simp: build_inject)
qed

lemma live_not_taken:
  "u \<in> set uids \<Longrightarrow> legal u \<Longrightarrow> \<not> (\<exists>v. build u = build v \<and> legal v \<and> v \<notin> set uids)"
  by (auto simp: build_inject)

end

text \<open>Four fields joined by a separator.\<close>

lemma splitOn_four:
  "splitOn sep l = [a, b, c, d] \<longleftrightarrow>
     l = a @ [sep] @ b @ [sep] @ c @ [sep] @ d \<and> sep \<notin> set a \<union> set b \<union> set c \<union> set d"
proof
  assume s: "splitOn sep l = [a, b, c, d]"
  have "l = joinWith [sep] [a, b, c, d]" by (metis s joinWith_splitOn)
  moreover have "x \<in> {a, b, c, d} \<Longrightarrow> sep \<notin> set x" for x
    using splitOn_pieces [of x sep l] s by auto
  ultimately show "l = a @ [sep] @ b @ [sep] @ c @ [sep] @ d \<and> sep \<notin> set a \<union> set b \<union> set c \<union> set d" by simp
qed (auto simp: splitOn_append_sep splitOn_none)

end
