(* ===== verification/VastFacts.thy ===== *)
theory VastFacts
  imports VastClient OwnerLabels
begin

text \<open>
  What the Vast.ai client guarantees: labels name their pod, the garbage collection destroys exactly
  the machines of vanished pods, a rental tries the allowed offers in order and reports every
  contract it makes, bans survive a restart, and the paged listing ends when the API's pages do.
\<close>

section \<open>Labels\<close>

text \<open>Identifiers that contain no separator.\<close>

definition legalLabel :: "'f vast_env \<Rightarrow> string \<Rightarrow> bool" where
  "legalLabel env u \<longleftrightarrow> CHR '':'' \<notin> set (ve_cluster env) \<union> set (ve_node env) \<union> set u"

definition ownUid :: "'f vast_env \<Rightarrow> string \<Rightarrow> string option" where
  "ownUid env l =
     (case parseMachineLabel l of
        None \<Rightarrow> None
      | Some x \<Rightarrow> if li_cluster x = ve_cluster env \<and> li_node x = ve_node env then Some (li_uid x) else None)"

lemma parse_label_iff:
  "parseMachineLabel l = Some x \<longleftrightarrow>
     li_prefix x = ''vk'' \<and> l = ''vk'' @ '':'' @ li_cluster x @ '':'' @ li_node x @ '':'' @ li_uid x \<and>
     CHR '':'' \<notin> set (li_cluster x) \<union> set (li_node x) \<union> set (li_uid x)"
proof -
  have "parseMachineLabel l = Some x \<longleftrightarrow>
      li_prefix x = ''vk'' \<and> splitOn (CHR '':'') l = [''vk'', li_cluster x, li_node x, li_uid x]"
    by (cases x) (auto simp: parseMachineLabel_def split: list.splits)
  then show ?thesis by (simp add: splitOn_four)
qed

interpretation vast_label: owner_label "buildMachineLabel env" "ownUid env" "legalLabel env" for env :: "'f vast_env"
proof
  fix u
  assume "legalLabel env u"
  then have "parseMachineLabel (buildMachineLabel env u) =
      Some \<lparr>li_prefix = ''vk'', li_cluster = ve_cluster env, li_node = ve_node env, li_uid = u\<rparr>"
    by (simp add: parse_label_iff buildMachineLabel_def legalLabel_def)
  then show "ownUid env (buildMachineLabel env u) = Some u" by (simp add: ownUid_def)
next
  fix l u
  assume "ownUid env l = Some u"
  then obtain x where "parseMachineLabel l = Some x" "li_cluster x = ve_cluster env" "li_node x = ve_node env" "li_uid x = u"
    by (auto simp: ownUid_def split: option.splits if_splits)
  then show "l = buildMachineLabel env u \<and> legalLabel env u"
    by (simp add: parse_label_iff buildMachineLabel_def legalLabel_def)
qed

lemma ownMachine_uid: "ownMachine env m \<longleftrightarrow> ownUid env (va_label m) \<noteq> None"
  by (auto simp: ownMachine_def ownUid_def split: option.splits)

lemma dangling_own:
  "ownMachine env m \<Longrightarrow> danglingLabel env uids m \<longleftrightarrow>
     (\<exists>u. va_label m = buildMachineLabel env u \<and> legalLabel env u \<and> u \<notin> set uids)"
proof -
  assume "ownMachine env m"
  then have "danglingLabel env uids m \<longleftrightarrow> (case ownUid env (va_label m) of None \<Rightarrow> False | Some u \<Rightarrow> u \<notin> set uids)"
    by (auto simp: danglingLabel_def ownUid_def ownMachine_def split: option.splits)
  then show ?thesis by (simp add: vast_label.taken_iff)
qed

section \<open>Garbage collection\<close>

definition asRequest :: "('f http_req \<times> raw_resp result) \<Rightarrow> string \<times> string" where
  "asRequest x = (hq_method (fst x), hq_url (fst x))"

lemma vreq_log:
  "vreq env decode zero method url None w = (r, w1) \<Longrightarrow> \<exists>x. w1 = w @ [x] \<and> asRequest x = (method, url)"
  unfolding vreq_def using MakeRequest_nobody by (fastforce simp: asRequest_def)

lemma DestroyMachine_log:
  "\<exists>e x. DestroyMachine env i s = Some (e, s\<lparr>vt_log := vt_log s @ [x]\<rparr>) \<and> asRequest x = (''DELETE'', instanceURL env i)"
proof -
  obtain r w1 where v: "vreq env (ve_decodeGeneric env) (False, []) ''DELETE'' (instanceURL env i) None (vt_log s) = (r, w1)"
    by fastforce
  from vreq_log [OF this] obtain x where "w1 = vt_log s @ [x]" "asRequest x = (''DELETE'', instanceURL env i)" by blast
  moreover obtain code ok msg err where "r = (code, (ok, msg), err)" by (cases r) auto
  ultimately have "DestroyMachine env i s = Some (case err of Some e \<Rightarrow> Some e
      | None \<Rightarrow> if ok then None else Some (ErrNew (''failed to destroy instance: '' @ msg)),
      s\<lparr>vt_log := vt_log s @ [x]\<rparr>)"
    using v by (simp add: DestroyMachine_def setLog_def)
  then show ?thesis using \<open>asRequest x = (''DELETE'', instanceURL env i)\<close> by blast
qed

lemma pruneMachines_log:
  "\<exists>ext. pruneMachines env uids ms s = Some (s\<lparr>vt_log := vt_log s @ ext\<rparr>) \<and>
     map asRequest ext = map (\<lambda>m. (''DELETE'', instanceURL env (itoa (va_id m)))) (filter (danglingLabel env uids) ms)"
proof (induction ms arbitrary: s)
  case (Cons m ms)
  show ?case
  proof (cases "danglingLabel env uids m")
    case True
    obtain e x where x: "DestroyMachine env (itoa (va_id m)) s = Some (e, s\<lparr>vt_log := vt_log s @ [x]\<rparr>)"
      "asRequest x = (''DELETE'', instanceURL env (itoa (va_id m)))"
      using DestroyMachine_log by blast
    obtain ext where "pruneMachines env uids ms (s\<lparr>vt_log := vt_log s @ [x]\<rparr>) = Some (s\<lparr>vt_log := vt_log s @ [x] @ ext\<rparr>)"
      "map asRequest ext = map (\<lambda>m. (''DELETE'', instanceURL env (itoa (va_id m)))) (filter (danglingLabel env uids) ms)"
      using Cons.IH [of "s\<lparr>vt_log := vt_log s @ [x]\<rparr>"] by auto
    with x True show ?thesis by (intro exI [of _ "x # ext"]) simp
  qed (use Cons.IH in simp)
qed simp

lemma listed_own:
  assumes "listMachinesInternal env s = Some (Inr ms, s1)" "m \<in> set ms"
  shows "ownMachine env m"
proof -
  obtain r w1 where "listPages env [] [] (vt_log s) = Some (r, w1)" "map_sum id (filter (ownMachine env)) r = Inr ms"
    using assms(1) by (auto simp: listMachinesInternal_def split: bind_splits)
  then show ?thesis using assms(2) by (cases r) auto
qed

text \<open>A machine of this cluster and node whose pod is not in the list.\<close>

definition vanished :: "'f vast_env \<Rightarrow> string list \<Rightarrow> 'f vast_machine \<Rightarrow> bool" where
  "vanished env uids m \<longleftrightarrow> (\<exists>u. va_label m = buildMachineLabel env u \<and> legalLabel env u \<and> u \<notin> set uids)"

text \<open>C18: The garbage collection of the Vast.ai client, once the listing has succeeded, returns without an
  error and sends exactly one destruction for each listed machine whose label was built by this
  cluster and node for an identifier that is not in the given list, in listing order, and nothing
  else; a machine labelled for an identifier in the list is never among them.\<close>

theorem vast_prune_exact:
  assumes "listMachinesInternal env s = Some (Inr ms, s1)"
  shows "\<exists>ext. PruneDanglingMachines env uids s = Some (None, s1\<lparr>vt_log := vt_log s1 @ ext\<rparr>) \<and>
    map asRequest ext = map (\<lambda>m. (''DELETE'', instanceURL env (itoa (va_id m)))) (filter (vanished env uids) ms) \<and>
    (\<forall>m \<in> set (filter (vanished env uids) ms). \<forall>u \<in> set uids.
       legalLabel env u \<longrightarrow> va_label m \<noteq> buildMachineLabel env u)"
proof -
  obtain ext where e: "pruneMachines env uids ms s1 = Some (s1\<lparr>vt_log := vt_log s1 @ ext\<rparr>)"
    "map asRequest ext = map (\<lambda>m. (''DELETE'', instanceURL env (itoa (va_id m)))) (filter (danglingLabel env uids) ms)"
    using pruneMachines_log by blast
  have same: "filter (danglingLabel env uids) ms = filter (vanished env uids) ms"
    by (rule filter_cong) (simp_all add: vanished_def dangling_own [OF listed_own [OF assms]])
  have "PruneDanglingMachines env uids s = Some (None, s1\<lparr>vt_log := vt_log s1 @ ext\<rparr>)"
    using e(1) assms by (simp add: PruneDanglingMachines_def)
  moreover have "va_label m \<noteq> buildMachineLabel env u"
    if "vanished env uids m" "u \<in> set uids" "legalLabel env u" for m u
    using vast_label.live_not_taken [OF that(2,3)] that(1) by (auto simp: vanished_def)
  ultimately show ?thesis using e(2) same by auto
qed

section \<open>Listing\<close>

lemma vreq_grows:
  "vreq env decode zero method url None w = (r, w1) \<Longrightarrow> length w1 = Suc (length w)"
  using vreq_log by fastforce

lemma listPages_ends:
  assumes last: "\<And>url w c ms next e w1. N \<le> length w \<Longrightarrow>
      vreq env (ve_decodeList env) ([], []) ''GET'' url None w = ((c, (ms, next), e), w1) \<Longrightarrow> e \<noteq> None \<or> next = []"
  shows "\<exists>r. listPages env after acc w = Some r"
proof (induction "N - length w" arbitrary: after acc w rule: less_induct)
  case less
  obtain c ms nxt e w1 where v: "vreq env (ve_decodeList env) ([], []) ''GET'' (pageURL env after) None w = ((c, (ms, nxt), e), w1)"
    by (metis surj_pair)
  show ?case
  proof (cases "e = None \<and> nxt \<noteq> [] \<and> nxt \<noteq> after")
    case True
    then have "\<not> N \<le> length w" using last [OF _ v] by auto
    then have "N - length w1 < N - length w" using vreq_grows [OF v] by simp
    from less [OF this] show ?thesis
      using True v by (subst listPages.simps) auto
  next
    case False
    then show ?thesis
      using v by (subst listPages.simps) (auto split: option.splits)
  qed
qed


section \<open>Rentals\<close>

text \<open>The contract that an answer to a rental makes, as far as the client can read it.\<close>

definition contractOf :: "'f vast_env \<Rightarrow> raw_resp result \<Rightarrow> int option" where
  "contractOf env r =
     (case r of
        Inl _ \<Rightarrow> None
      | Inr resp \<Rightarrow>
          (case readResponse (ve_decodeProvision env) (False, 0) resp of
             (_, (success, m), err) \<Rightarrow> if err = None \<and> success then Some m else None))"

definition contracts :: "'f vast_env \<Rightarrow> 'f http_log \<Rightarrow> int list" where
  "contracts env w = List.map_filter (\<lambda>x. contractOf env (snd x)) w"

lemma contracts_simps [simp]:
  "contracts env [] = []"
  "contracts env (x # w) = (case contractOf env (snd x) of None \<Rightarrow> contracts env w | Some m \<Rightarrow> m # contracts env w)"
  by (simp_all add: contracts_def map_filter_simps split: option.split)

lemma readResponse_code:
  "readResponse decode zero resp = (code, x, None) \<Longrightarrow> 200 \<le> code \<and> code < 300"
  by (auto simp: readResponse_def split: if_splits sum.splits)

lemma vreq_put:
  assumes "ve_marshal env b = None" "vreq env decode zero method url (Some b) w = ((code, x, err), w1)"
  shows "\<exists>q r. w1 = w @ [(q, r)] \<and> asRequest (q, r) = (method, url) \<and>
    (case r of Inl e \<Rightarrow> code = 0 \<and> x = zero \<and> err = Some e | Inr resp \<Rightarrow> readResponse decode zero resp = (code, x, err))"
proof -
  let ?q = "newRequest method url (Some b) (ve_auth env)"
  show ?thesis
    using assms by (cases "ve_http env w ?q") (auto simp: vreq_def MakeRequest_sent asRequest_def)
qed

lemma tryCandidates_unencodable:
  "ve_marshal env (VMap payload) \<noteq> None \<Longrightarrow> \<exists>e. tryCandidates env payload ids w = (Inl e, w)"
  by (induction ids) (auto simp: vreq_def MakeRequest_def split: option.split)

lemma tryCandidates_log:
  assumes "ve_marshal env (VMap payload) = None"
  shows "tryCandidates env payload ids w = (r, w1) \<Longrightarrow>
    \<exists>ext n. w1 = w @ ext \<and> map asRequest ext = map (\<lambda>i. (''PUT'', askURL env i)) (take n ids) \<and>
      map itoa (contracts env ext) = (case r of Inl _ \<Rightarrow> [] | Inr m \<Rightarrow> [m])"
proof (induction ids arbitrary: w)
  case Nil
  then show ?case by auto
next
  case (Cons i ids)
  show ?case
  proof (cases "ve_ctxErr env w")
    case (Some e)
    with Cons.prems show ?thesis by (intro exI [of _ "[]"] exI [of _ 0]) auto
  next
    case None
    obtain code ok m err w2 where v: "vreq env (ve_decodeProvision env) (False, 0) ''PUT'' (askURL env i) (Some (VMap payload)) w
        = ((code, (ok, m), err), w2)" by (metis surj_pair)
    from vreq_put [OF assms v] obtain q res where x: "w2 = w @ [(q, res)]" "asRequest (q, res) = (''PUT'', askURL env i)"
      and res: "case res of Inl e \<Rightarrow> code = 0 \<and> (ok, m) = (False, 0) \<and> err = Some e
        | Inr resp \<Rightarrow> readResponse (ve_decodeProvision env) (False, 0) resp = (code, (ok, m), err)" by blast
    have c: "contractOf env res = (if err = None \<and> ok then Some m else None)"
      using res by (auto simp: contractOf_def split: sum.splits)
    have good: "err = None \<Longrightarrow> code \<noteq> 400 \<and> code \<noteq> 401"
      using res readResponse_code by (fastforce split: sum.splits)
    show ?thesis
    proof (cases "err = None \<and> ok")
      case True
      with Cons.prems None v good have "r = Inr (itoa m)" "w1 = w2" by auto
      with x c True show ?thesis
        by (intro exI [of _ "[(q, res)]"] exI [of _ 1]) simp
    next
      case no: False
      show ?thesis
      proof (cases "code = 401")
        case True
        with Cons.prems None v have "r = Inl ErrUnauthorized" "w1 = w2" by auto
        with x c no show ?thesis by (intro exI [of _ "[(q, res)]"] exI [of _ 1]) auto
      next
        case False
        with Cons.prems None v no have "tryCandidates env payload ids w2 = (r, w1)" by (auto split: if_splits)
        from Cons.IH [OF this] obtain ext n where e: "w1 = w2 @ ext"
          "map asRequest ext = map (\<lambda>i. (''PUT'', askURL env i)) (take n ids)"
          "map itoa (contracts env ext) = (case r of Inl _ \<Rightarrow> [] | Inr m \<Rightarrow> [m])" by blast
        with x c no show ?thesis
          by (intro exI [of _ "(q, res) # ext"] exI [of _ "Suc n"]) auto
      qed
    qed
  qed
qed


text \<open>A pod with a container never makes the client panic.\<close>

lemma select_no_panic:
  "pod_containers p \<noteq> [] \<Longrightarrow> \<exists>r s'. SelectAndProvisionMachine env spec p proxy promtail s = Some (r, s')"
  by (auto simp: SelectAndProvisionMachine_def ProvisionMachine_def split: list.split prod.split sum.split)

section \<open>Bans\<close>

text \<open>C22: A ban is durable: if the bans file could be written, a client started later on the same file loads
  exactly the bans of the one that wrote it, the new one included; if it could not, the file is
  untouched. The banned machine is then refused until the duration has passed, and for ever when
  no duration is configured.\<close>

theorem ban_is_durable:
  assumes "bc_enable (ve_bans env)"
    and "ve_decodeBans env (ve_encodeBans env (fmupd i t (vt_bans s))) = Inr (fmupd i t (vt_bans s))"
    and "\<And>f. ve_fileErr env (FRead f) = None" and t: "t = ve_now env (vt_log s)"
    and s1: "s1 = BanMachine env i s"
  shows "if fst (persistMachineBansToFile env (s\<lparr>vt_bans := fmupd i t (vt_bans s)\<rparr>)) = None
    then vt_bans (snd (LoadMachineBansFromFile env (newVastClient (vt_files s1)))) = fmupd i t (vt_bans s) \<and>
         (\<forall>now. bannedNow env now (fmupd i t (vt_bans s)) i \<longleftrightarrow>
            bc_duration (ve_bans env) \<le> 0 \<or> now - t \<le> bc_duration (ve_bans env))
    else vt_files s1 (bc_path (ve_bans env)) = vt_files s (bc_path (ve_bans env))"
proof -
  have tmp: "bc_path (ve_bans env) @ ''.tmp'' \<noteq> bc_path (ve_bans env)" by simp
  show ?thesis
    using assms tmp
    by (auto simp: BanMachine_def persistMachineBansToFile_def Let_def LoadMachineBansFromFile_def
        newVastClient_def bannedNow_def split: option.splits)
qed

end
