(* ===== verification/RunPodRequest.thy ===== *)
theory RunPodRequest
  imports VastRequest
begin

text \<open>
  What the RunPod client sends (\<open>cloudprovider/runpod/machine.go\<close>, \<open>onstart.go\<close>, \<open>cdn.go\<close>): the query
  made from a machine specification, with the price list and the CUDA versions it filters by, and
  the environment of a new pod.

  Prices are listed in cents; \<open>float64\<close> arithmetic and comparison are arguments. A division by a
  count of zero panics, which is \<open>None\<close>.
\<close>

section \<open>Floats\<close>

record 'f float_ops =
  fo_cents :: "int \<Rightarrow> 'f"
  fo_times :: "'f \<Rightarrow> int \<Rightarrow> 'f"
  fo_less :: "'f \<Rightarrow> 'f \<Rightarrow> bool"
  fo_scan :: "string \<Rightarrow> 'f"

section \<open>Prices and versions\<close>

definition securePrices :: "(string \<times> int) list" where
  "securePrices = [(''NVIDIA H200'', 359),
     (''NVIDIA B200'', 499),
     (''NVIDIA RTX Pro 6000'', 189),
     (''NVIDIA H100 NVL'', 307),
     (''NVIDIA H100 80GB HBM3'', 239),
     (''NVIDIA H100 SXM'', 269),
     (''NVIDIA A100 80GB PCIe'', 139),
     (''NVIDIA A100-SXM4-80GB'', 149),
     (''NVIDIA L40S'', 86),
     (''NVIDIA RTX 6000 Ada Generation'', 77),
     (''NVIDIA A40'', 40),
     (''NVIDIA L40'', 99),
     (''NVIDIA RTX A6000'', 49),
     (''NVIDIA GeForce RTX 5090'', 89),
     (''NVIDIA L4'', 39),
     (''NVIDIA GeForce RTX 3090'', 46),
     (''NVIDIA GeForce RTX 4090'', 59),
     (''NVIDIA RTX A5000'', 27)]"

definition communityPrices :: "(string \<times> int) list" where
  "communityPrices = [(''NVIDIA H200'', 359),
     (''NVIDIA B200'', 499),
     (''NVIDIA RTX Pro 6000'', 189),
     (''NVIDIA H100 NVL'', 307),
     (''NVIDIA H100 80GB HBM3'', 239),
     (''NVIDIA H100 SXM'', 269),
     (''NVIDIA A100 80GB PCIe'', 139),
     (''NVIDIA A100-SXM4-80GB'', 149),
     (''NVIDIA L40S'', 86),
     (''NVIDIA RTX 6000 Ada Generation'', 77),
     (''NVIDIA A40'', 40),
     (''NVIDIA L40'', 99),
     (''NVIDIA RTX A6000'', 49),
     (''NVIDIA GeForce RTX 5090'', 89),
     (''NVIDIA L4'', 39),
     (''NVIDIA GeForce RTX 3090'', 46),
     (''NVIDIA GeForce RTX 4090'', 59),
     (''NVIDIA RTX A5000'', 27)]"

definition pricesOf :: "string \<Rightarrow> (string \<times> int) list" where
  "pricesOf cloudType = (if cloudType = ''COMMUNITY'' then communityPrices else securePrices)"

definition knownGPUNames :: "string list" where
  "knownGPUNames = remdups (map fst securePrices @ map fst communityPrices)"

definition knownCUDAVersions :: "string list" where
  "knownCUDAVersions = [''11.8'', ''12.0'', ''12.1'', ''12.2'', ''12.3'', ''12.4'', ''12.5'', ''12.6'', ''12.7'',
     ''12.8'', ''12.9'', ''13.0'']"

section \<open>Filters\<close>

definition gpuWarning :: "string \<Rightarrow> string" where
  "gpuWarning name = ''unknown RunPod GPU type '' @ [CHR 0x22] @ name @ [CHR 0x22] @ '', skipping''"

definition validateGPUNames :: "string list \<Rightarrow> string list \<times> string list" where
  "validateGPUNames names =
     (filter (\<lambda>n. n \<in> set knownGPUNames) names,
      map gpuWarning (filter (\<lambda>n. n \<notin> set knownGPUNames) names))"

definition outside :: "'f float_ops \<Rightarrow> 'f option \<Rightarrow> 'f option \<Rightarrow> 'f \<Rightarrow> bool" where
  "outside fo lo hi x =
     ((case lo of None \<Rightarrow> False | Some l \<Rightarrow> fo_less fo x l) \<or> (case hi of None \<Rightarrow> False | Some h \<Rightarrow> fo_less fo h x))"

definition filterGPUsByPrice ::
  "'f float_ops \<Rightarrow> string list \<Rightarrow> string \<Rightarrow> int \<Rightarrow> 'f option \<Rightarrow> 'f option \<Rightarrow> string list" where
  "filterGPUsByPrice fo names cloudType gpuCount lo hi =
     filter (\<lambda>n. case map_of (pricesOf cloudType) n of
                    None \<Rightarrow> False
                  | Some cents \<Rightarrow> \<not> outside fo lo hi (fo_times fo (fo_cents fo cents) gpuCount)) names"

definition filterCUDAVersions :: "'f float_ops \<Rightarrow> 'f option \<Rightarrow> 'f option \<Rightarrow> string list" where
  "filterCUDAVersions fo lo hi =
     (if lo = None \<and> hi = None then []
      else filter (\<lambda>v. \<not> outside fo lo hi (fo_scan fo v)) knownCUDAVersions)"

definition optField :: "string \<Rightarrow> ('a \<Rightarrow> 'f gval) \<Rightarrow> 'a option \<Rightarrow> 'f payload \<Rightarrow> 'f payload" where
  "optField name con v query = (case v of None \<Rightarrow> query | Some x \<Rightarrow> fmupd name (con x) query)"

definition listField :: "string \<Rightarrow> string list \<Rightarrow> 'f payload \<Rightarrow> 'f payload" where
  "listField name vs query = (if vs = [] then query else fmupd name (VStrs vs) query)"

text \<open>A total divided by the number of devices, at least one. The outer option is the division by zero.\<close>

definition perGPU :: "int option \<Rightarrow> int option" where
  "perGPU q = map_option (\<lambda>x. if x < 1 then 1 else x) q"

definition perGPUField :: "string \<Rightarrow> (int \<Rightarrow> int option) \<Rightarrow> int option \<Rightarrow> 'f payload \<Rightarrow> 'f payload option" where
  "perGPUField name quot v query =
     (case v of
        None \<Rightarrow> Some query
      | Some x \<Rightarrow> map_option (\<lambda>n. fmupd name (VInt n) query) (perGPU (quot x)))"

definition vramWarning :: string where
  "vramWarning = ''RunPod API does not support vRAM filtering directly; use gpu-names instead''"

definition cudaError :: go_error where
  "cudaError = ErrNew (''no RunPod CUDA version satisfies the requested range (RunPod offers ''
     @ hd knownCUDAVersions @ '' through '' @ last knownCUDAVersions @ '')'')"

text \<open>The devices of the query: validated names or all known ones, then the price filter.\<close>

definition gpuSelection :: "'f float_ops \<Rightarrow> 'f machine_spec \<Rightarrow> string \<Rightarrow> int \<Rightarrow> string list \<times> string list" where
  "gpuSelection fo spec cloudType gpuCount =
     (let (names, warnings) =
            (if sp_gpuNames spec = [] then (sort knownGPUNames, []) else validateGPUNames (sp_gpuNames spec));
          price = sp_floats spec QPrice
      in (if bd_min price \<noteq> None \<or> bd_max price \<noteq> None
          then filterGPUsByPrice fo names cloudType gpuCount (bd_min price) (bd_max price) else names,
          warnings))"

definition queryHead :: "string \<Rightarrow> int \<Rightarrow> string list \<Rightarrow> bool \<Rightarrow> 'f payload" where
  "queryHead cloudType gpuCount names keepPriority =
     (let q0 = fmap_of_list [(''gpuCount'', VInt gpuCount), (''cloudType'', VStr cloudType)];
          q1 = (if toUpper cloudType = ''COMMUNITY'' then fmupd ''supportPublicIp'' (VBool True) q0 else q0);
          q2 = listField ''gpuTypeIds'' names q1
      in if keepPriority then fmupd ''gpuTypePriority'' (VStr ''custom'') q2 else q2)"

text \<open>The totals of memory and cores become amounts per device.\<close>

definition queryQuantities :: "'f machine_spec \<Rightarrow> int \<Rightarrow> 'f payload \<Rightarrow> 'f payload option" where
  "queryQuantities spec gpuCount query =
     Option.bind (perGPUField ''minRAMPerGPU'' (\<lambda>x. Option.bind (go_div x 1024) (\<lambda>y. go_div y gpuCount))
                    (bd_min (sp_ints spec QRAM)) query)
       (perGPUField ''minVCPUPerGPU'' (\<lambda>x. go_div x gpuCount) (bd_min (sp_ints spec QCPU)))"

definition queryTail :: "'f machine_spec \<Rightarrow> 'f payload \<Rightarrow> 'f payload" where
  "queryTail spec query =
     listField ''dataCenterIds'' (sp_dataCenterIds spec)
       (optField ''minDiskBandwidthMBps'' VFloat (sp_diskBW spec)
         (optField ''minUploadMbps'' VFloat (bd_min (sp_floats spec QUploadSpeed))
           (optField ''minDownloadMbps'' VFloat (bd_min (sp_floats spec QDownloadSpeed))
             (optField ''containerDiskInGb'' VFloat (sp_diskSpaceGB spec) query))))"

definition BuildProvisionQuery ::
  "'f float_ops \<Rightarrow> 'f machine_spec \<Rightarrow> ('f payload result \<times> string list) option" where
  "BuildProvisionQuery fo spec =
     (let cloudType = (if sp_cloudType spec = [] then ''SECURE'' else sp_cloudType spec);
          gpuCount = (case bd_exact (sp_ints spec QGPUCount) of None \<Rightarrow> 1 | Some n \<Rightarrow> n);
          selection = gpuSelection fo spec cloudType gpuCount;
          query = queryHead cloudType gpuCount (fst selection) (sp_keepGPUTypePriority spec);
          cuda = sp_floats spec QCUDA;
          limited = (bd_min cuda \<noteq> None \<or> bd_max cuda \<noteq> None);
          versions = filterCUDAVersions fo (bd_min cuda) (bd_max cuda)
      in if limited \<and> versions = [] then Some (Inl cudaError, snd selection)
         else map_option (\<lambda>q. (Inr (queryTail spec q),
                              snd selection @ (if bd_min (sp_ints spec QVRAM) = None then [] else [vramWarning])))
                (queryQuantities spec gpuCount
                  (if limited then fmupd ''allowedCudaVersions'' (VStrs versions) query else query)))"

section \<open>The environment of a new pod\<close>

definition rp_resolveCDNURL :: "string \<Rightarrow> string \<Rightarrow> string \<Rightarrow> string" where
  "rp_resolveCDNURL custom defaultURL token =
     (if custom \<noteq> [] then custom
      else if token = [] then defaultURL
      else defaultURL @ ''?token='' @ token)"

definition rp_shellQuote :: "string \<Rightarrow> string" where
  "rp_shellQuote s =
     (if s = [] then [CHR 0x27, CHR 0x27]
      else [CHR 0x27] @ replaceChar (CHR 0x27) [CHR 0x27, CHR 0x22, CHR 0x27, CHR 0x22, CHR 0x27] s @ [CHR 0x27])"

definition rp_joinShellArgs :: "string list \<Rightarrow> string" where
  "rp_joinShellArgs args = joinWith '' '' (map rp_shellQuote args)"

text \<open>The tunnel configuration; the tunnels render as in the wireproxy component.\<close>

definition rp_generateWireproxyConfig :: "pod_proxy \<Rightarrow> int list \<Rightarrow> (string \<times> int) list \<Rightarrow> string" where
  "rp_generateWireproxyConfig proxy ports tunnels =
     concat (map (\<lambda>l. l @ nl)
       [''[Interface]'', ''Address     = '' @ px_address (pp_client proxy),
        ''PrivateKey  = '' @ px_privateKey (pp_client proxy), ''DNS         = 10.254.254.1'', ''MTU         = 1400'', [],
        ''[Peer]'', ''PublicKey           = '' @ px_serverKey (pp_server proxy),
        ''Endpoint            = 127.0.0.1:51820'', ''AllowedIPs          = 0.0.0.0/0'', ''PersistentKeepalive = 25'', [],
        ''[HTTP]'', ''BindAddress = 127.0.0.1:3128'', [],
        ''[TCPServerTunnel]'', ''ListenPort = '' @ itoa (px_offset (pp_client proxy)), ''Target = 127.0.0.1:8080''])
     @ concat (map renderServerTunnel (serverTunnels (px_offset (pp_client proxy)) ports))
     @ concat (map renderClientTunnel tunnels)"

record provision_env =
  en_wireproxyConfig :: string
  en_agentCmd :: string
  en_workdir :: string
  en_agentURL :: string
  en_wireproxyURL :: string
  en_wstunnelURL :: string
  en_promtailURL :: string
  en_initURL :: string
  en_gatewayEndpoint :: string
  en_gatewayWSPort :: string

record rp_urls =
  ru_init :: string
  ru_agent :: string
  ru_wireproxy :: string
  ru_wstunnel :: string
  ru_promtail :: string
  ru_token :: string

definition cdnBase :: string where "cdnBase = ''https://glami-gpu-provider.glami-ml.com/''"

definition rp_agentCmd :: "pod_proxy \<Rightarrow> bool \<Rightarrow> string list \<Rightarrow> string" where
  "rp_agentCmd proxy promtail argv =
     ''/usr/bin/container_agent run -p 8080''
     @ (if pp_enabled proxy then '' --proxy'' else [])
     @ (if promtail then '' --promtail'' else [])
     @ (if argv = [] then [] else '' -- '' @ rp_joinShellArgs argv)"

definition BuildProvisionEnv :: "pod \<Rightarrow> pod_proxy \<Rightarrow> bool \<Rightarrow> rp_urls \<Rightarrow> provision_env" where
  "BuildProvisionEnv p proxy promtail urls =
     (let tunnels = (case pod_containers p of [] \<Rightarrow> [] | c # _ \<Rightarrow> envTunnels (pn_env c))
      in \<lparr>en_wireproxyConfig = b64encode (rp_generateWireproxyConfig proxy (podPorts p) tunnels),
          en_agentCmd = rp_agentCmd proxy promtail (podArgv p),
          en_workdir = (case pod_containers p of [] \<Rightarrow> [] | c # _ \<Rightarrow> pn_workdir c),
          en_agentURL = rp_resolveCDNURL (ru_agent urls) (cdnBase @ ''container_agent_v0.4.2'') (ru_token urls),
          en_wireproxyURL = rp_resolveCDNURL (ru_wireproxy urls) (cdnBase @ ''wireproxy'') (ru_token urls),
          en_wstunnelURL = rp_resolveCDNURL (ru_wstunnel urls) (cdnBase @ ''wstunnel'') (ru_token urls),
          en_promtailURL = rp_resolveCDNURL (ru_promtail urls) (cdnBase @ ''promtail'') (ru_token urls),
          en_initURL = rp_resolveCDNURL (ru_init urls) (cdnBase @ ''runpod_init.sh'') (ru_token urls),
          en_gatewayEndpoint = px_endpoint (pp_server proxy),
          en_gatewayWSPort = itoa (px_portTCP (pp_server proxy))\<rparr>)"

definition ToEnvMap :: "provision_env \<Rightarrow> (string, string) fmap" where
  "ToEnvMap e =
     (let env = fmap_of_list
            [(''GPU_PROVIDER_WIREPROXY_CONFIG'', en_wireproxyConfig e), (''GPU_PROVIDER_AGENT_CMD'', en_agentCmd e),
             (''GPU_PROVIDER_AGENT_URL'', en_agentURL e), (''GPU_PROVIDER_WIREPROXY_URL'', en_wireproxyURL e),
             (''GPU_PROVIDER_WSTUNNEL_URL'', en_wstunnelURL e), (''GPU_PROVIDER_INIT_URL'', en_initURL e),
             (''GPU_PROVIDER_GATEWAY_ENDPOINT'', en_gatewayEndpoint e),
             (''GPU_PROVIDER_GATEWAY_WS_PORT'', en_gatewayWSPort e)];
          env1 = (if en_promtailURL e = [] then env else fmupd ''GPU_PROVIDER_PROMTAIL_URL'' (en_promtailURL e) env)
      in if en_workdir e = [] then env1 else fmupd ''GPU_PROVIDER_WORKDIR'' (en_workdir e) env1)"

text \<open>Both clients quote and build the command of the agent alike.\<close>

lemma rp_same_text:
  "rp_resolveCDNURL = resolveCDNURL" "rp_shellQuote = shellQuote" "rp_joinShellArgs = joinShellArgs"
  "rp_agentCmd = commandWrapper"
proof -
  show u: "rp_resolveCDNURL = resolveCDNURL" by (intro ext) (simp add: rp_resolveCDNURL_def resolveCDNURL_def)
  show q: "rp_shellQuote = shellQuote" by (intro ext) (simp add: rp_shellQuote_def shellQuote_def)
  show j: "rp_joinShellArgs = joinShellArgs" by (intro ext) (simp add: rp_joinShellArgs_def joinShellArgs_def q)
  show "rp_agentCmd = commandWrapper" by (intro ext) (simp add: rp_agentCmd_def commandWrapper_def j)
qed

end
