(* ===== verification/RunPodClient.thy ===== *)
theory RunPodClient
  imports RunPodRequest OwnerLabels
begin

text \<open>
  The RunPod client (\<open>cloudprovider/runpod/client.go\<close>, \<open>registryauth.go\<close>): pod names, the creation of
  a pod, its translation into a machine, listing, recovery, registry credentials stored in the
  account, and garbage collection.

  The decoders of the response types are fields of the environment. The health check of an agent is
  an HTTP request outside the retrying client: its outcome is a function of the exchange so far and
  the address, \<open>None\<close> for an error. \<open>None\<close> as the result of an operation is a panic.
\<close>

section \<open>Environment and state\<close>

definition rpBaseURL :: string where "rpBaseURL = ''https://rest.runpod.io/v1''"

record 'f pod_response =
  pr_id :: string
  pr_name :: string
  pr_desiredStatus :: string
  pr_publicIP :: string
  pr_machineID :: string
  pr_costPerHr :: 'f
  pr_gpuName :: string
  pr_vcpuCount :: 'f
  pr_memoryInGb :: 'f

record registry_auth =
  ra_id :: string
  ra_name :: string

record 'f rp_env =
  re_http :: "'f http_service"
  re_marshal :: "'f gval \<Rightarrow> go_error option"
  re_auth :: "(string \<times> string) list"
  re_cluster :: string
  re_node :: string
  re_urls :: rp_urls
  re_floats :: "'f float_ops"
  re_zero :: 'f
  re_decodePod :: "string \<Rightarrow> 'f pod_response result"
  re_decodePods :: "string \<Rightarrow> 'f pod_response list result"
  re_decodeCreated :: "string \<Rightarrow> string result"
  re_decodeAuth :: "string \<Rightarrow> registry_auth result"
  re_decodeAuths :: "string \<Rightarrow> registry_auth list result"
  re_decodeEmpty :: "string \<Rightarrow> unit result"
  re_health :: "'f http_log \<Rightarrow> string \<Rightarrow> int option"
  re_aws :: aws_lib

record 'f rp_state =
  rs_endpoints :: "string \<rightharpoonup> string"
  rs_log :: "'f http_log"

definition rreq ::
  "'f rp_env \<Rightarrow> (string \<Rightarrow> 'a result) \<Rightarrow> 'a \<Rightarrow> string \<Rightarrow> string \<Rightarrow> 'f gval option \<Rightarrow> 'f rp_state \<Rightarrow>
   (int \<times> 'a \<times> go_error option) \<times> 'f rp_state" where
  "rreq env decode zero method url body s =
     (case MakeRequest (re_marshal env) (re_http env) decode zero method url body (re_auth env) (rs_log s) of
        (r, w) \<Rightarrow> (r, s\<lparr>rs_log := w\<rparr>))"

definition emptyPod :: "'f rp_env \<Rightarrow> 'f pod_response" where
  "emptyPod env = \<lparr>pr_id = [], pr_name = [], pr_desiredStatus = [], pr_publicIP = [], pr_machineID = [],
     pr_costPerHr = re_zero env, pr_gpuName = [], pr_vcpuCount = re_zero env, pr_memoryInGb = re_zero env\<rparr>"

section \<open>Names\<close>

definition buildPodName :: "'f rp_env \<Rightarrow> string \<Rightarrow> string" where
  "buildPodName env uid = ''vk:'' @ re_cluster env @ '':'' @ re_node env @ '':'' @ uid"

record pod_name_info =
  ni_prefix :: string
  ni_cluster :: string
  ni_node :: string
  ni_uid :: string

definition parsePodName :: "string \<Rightarrow> pod_name_info option" where
  "parsePodName name =
     (case splitOn (CHR '':'') name of
        [p, c, n, u] \<Rightarrow>
          if p = ''vk'' then Some \<lparr>ni_prefix = p, ni_cluster = c, ni_node = n, ni_uid = u\<rparr> else None
      | _ \<Rightarrow> None)"

section \<open>Machines\<close>

definition RegisterAgentEndpoint :: "string \<Rightarrow> string \<Rightarrow> 'f rp_state \<Rightarrow> 'f rp_state" where
  "RegisterAgentEndpoint machineID endpoint s = s\<lparr>rs_endpoints := (rs_endpoints s)(machineID \<mapsto> endpoint)\<rparr>"

definition checkAgentHealth :: "'f rp_env \<Rightarrow> string \<Rightarrow> 'f rp_state \<Rightarrow> bool" where
  "checkAgentHealth env endpoint s = (re_health env (rs_log s) (endpoint @ ''/healthz'') = Some 200)"

definition podToMachine :: "'f rp_env \<Rightarrow> 'f pod_response \<Rightarrow> bool \<Rightarrow> 'f rp_state \<Rightarrow> 'f machine" where
  "podToMachine env p skipHealthCheck s =
     \<lparr>mc_id = pr_id p, mc_machineID = pr_machineID p, mc_publicIP = pr_publicIP p, mc_agentPort = 0,
      mc_stats = \<lparr>ms_gpuName = pr_gpuName p, ms_gpuVRAM = re_zero env, ms_gpuTFLOPS = re_zero env,
        ms_gpuMemoryBandwidth = re_zero env, ms_cpuCores = pr_vcpuCount p,
        ms_cpuRam = fo_times (re_floats env) (pr_memoryInGb p) 1024, ms_pricePerHr = pr_costPerHr p\<rparr>,
      mc_state =
        (if pr_desiredStatus p = ''EXITED'' then MachineFailed
         else if pr_desiredStatus p = ''RUNNING'' then
           (if skipHealthCheck then MachineRunning
            else (case rs_endpoints s (pr_id p) of
                    None \<Rightarrow> MachinePending
                  | Some ep \<Rightarrow> if checkAgentHealth env ep s then MachineRunning else MachinePending))
         else MachinePending)\<rparr>"

definition rp_GetMachine :: "'f rp_env \<Rightarrow> string \<Rightarrow> 'f rp_state \<Rightarrow> 'f machine result \<times> 'f rp_state" where
  "rp_GetMachine env machineID s =
     (case rreq env (re_decodePod env) (emptyPod env) ''GET'' (rpBaseURL @ ''/pods/'' @ machineID) None s of
        ((_, p, err), s1) \<Rightarrow>
          (case err of
             Some e \<Rightarrow> (Inl e, s1)
           | None \<Rightarrow>
               if pr_id p = [] then (Inl (ErrNew (''machine ID='' @ machineID @ '' not found'')), s1)
               else (Inr (podToMachine env p False s1), s1)))"

definition listPodsInternal :: "'f rp_env \<Rightarrow> 'f rp_state \<Rightarrow> 'f pod_response list result \<times> 'f rp_state" where
  "listPodsInternal env s =
     (case rreq env (re_decodePods env) [] ''GET'' (rpBaseURL @ ''/pods'') None s of
        ((_, ps, err), s1) \<Rightarrow>
          (case err of
             Some e \<Rightarrow> (Inl e, s1)
           | None \<Rightarrow> (Inr (filter (\<lambda>p. hasPrefix (pr_name p) (buildPodName env [])) ps), s1)))"

definition rp_ListMachines :: "'f rp_env \<Rightarrow> 'f rp_state \<Rightarrow> 'f machine list result \<times> 'f rp_state" where
  "rp_ListMachines env s =
     (case listPodsInternal env s of
        (r, s1) \<Rightarrow> (map_sum id (map (\<lambda>p. podToMachine env p False s1)) r, s1))"

definition rp_MapRunningMachines ::
  "'f rp_env \<Rightarrow> pod list \<Rightarrow> 'f rp_state \<Rightarrow> (string, 'f machine) fmap result \<times> 'f rp_state" where
  "rp_MapRunningMachines env pods s =
     (case listPodsInternal env s of
        (r, s1) \<Rightarrow>
          (map_sum id (\<lambda>ps. foldl (\<lambda>acc p.
             case parsePodName (pr_name p) of
               None \<Rightarrow> acc
             | Some i \<Rightarrow>
                 if ni_uid i \<in> set (map pod_uid pods) then fmupd (ni_uid i) (podToMachine env p True s1) acc
                 else acc) fmempty ps) r, s1))"

definition rp_DestroyMachine :: "'f rp_env \<Rightarrow> string \<Rightarrow> 'f rp_state \<Rightarrow> go_error option \<times> 'f rp_state" where
  "rp_DestroyMachine env i s =
     (case rreq env (re_decodeEmpty env) () ''DELETE'' (rpBaseURL @ ''/pods/'' @ i) None s of
        ((_, _, err), s1) \<Rightarrow> (err, s1))"

definition rp_RestartMachine :: "'f rp_env \<Rightarrow> string \<Rightarrow> 'f rp_state \<Rightarrow> go_error option \<times> 'f rp_state" where
  "rp_RestartMachine env i s =
     (case rreq env (re_decodeEmpty env) () ''POST'' (rpBaseURL @ ''/pods/'' @ i @ ''/reset'') None s of
        ((_, _, err), s1) \<Rightarrow> (err, s1))"

section \<open>Registry credentials\<close>

definition registryAuthNamePrefix :: "'f rp_env \<Rightarrow> string" where
  "registryAuthNamePrefix env = ''anex-'' @ re_cluster env @ ''-'' @ re_node env @ ''-''"

definition buildRegistryAuthName :: "'f rp_env \<Rightarrow> string \<Rightarrow> string" where
  "buildRegistryAuthName env uid = registryAuthNamePrefix env @ uid"

definition listRegistryAuths :: "'f rp_env \<Rightarrow> 'f rp_state \<Rightarrow> (registry_auth list \<times> go_error option) \<times> 'f rp_state" where
  "listRegistryAuths env s =
     (case rreq env (re_decodeAuths env) [] ''GET'' (rpBaseURL @ ''/containerregistryauth'') None s of
        ((_, auths, err), s1) \<Rightarrow> ((auths, err), s1))"

definition createRegistryAuth ::
  "'f rp_env \<Rightarrow> string \<Rightarrow> string \<Rightarrow> string \<Rightarrow> 'f rp_state \<Rightarrow> string result \<times> 'f rp_state" where
  "createRegistryAuth env name user password s =
     (case rreq env (re_decodeAuth env) \<lparr>ra_id = [], ra_name = []\<rparr> ''POST'' (rpBaseURL @ ''/containerregistryauth'')
             (Some (VMap (fmap_of_list [(''name'', VStr name), (''username'', VStr user), (''password'', VStr password)]))) s of
        ((_, a, err), s1) \<Rightarrow>
          (case err of
             Some e \<Rightarrow> (Inl e, s1)
           | None \<Rightarrow>
               if ra_id a = [] then (Inl (ErrNew ''RunPod returned empty registry auth ID''), s1)
               else (Inr (ra_id a), s1)))"

definition deleteRegistryAuth :: "'f rp_env \<Rightarrow> string \<Rightarrow> 'f rp_state \<Rightarrow> go_error option \<times> 'f rp_state" where
  "deleteRegistryAuth env i s =
     (case rreq env (re_decodeEmpty env) () ''DELETE'' (rpBaseURL @ ''/containerregistryauth/'' @ i) None s of
        ((_, _, err), s1) \<Rightarrow> (err, s1))"

text \<open>An error of the listing leaves nothing to replace; an error of a deletion is only logged.\<close>

definition ensureRegistryAuth ::
  "'f rp_env \<Rightarrow> string \<Rightarrow> string \<Rightarrow> string \<Rightarrow> 'f rp_state \<Rightarrow> string result \<times> 'f rp_state" where
  "ensureRegistryAuth env name user password s =
     (case listRegistryAuths env s of
        ((auths, _), s1) \<Rightarrow>
          createRegistryAuth env name user password
            (foldl (\<lambda>t a. snd (deleteRegistryAuth env (ra_id a) t)) s1 (filter (\<lambda>a. ra_name a = name) auths)))"

definition danglingAuth :: "'f rp_env \<Rightarrow> string list \<Rightarrow> registry_auth \<Rightarrow> bool" where
  "danglingAuth env uids a \<longleftrightarrow>
     hasPrefix (ra_name a) (registryAuthNamePrefix env) \<and>
     trimPrefix (ra_name a) (registryAuthNamePrefix env) \<notin> set uids"

definition pruneRegistryAuths :: "'f rp_env \<Rightarrow> string list \<Rightarrow> 'f rp_state \<Rightarrow> 'f rp_state" where
  "pruneRegistryAuths env uids s =
     (case listRegistryAuths env s of
        ((auths, err), s1) \<Rightarrow>
          if err \<noteq> None then s1
          else foldl (\<lambda>t a. snd (deleteRegistryAuth env (ra_id a) t)) s1 (filter (danglingAuth env uids) auths))"

section \<open>Creating a pod\<close>

definition rp_diskSize :: "pod \<Rightarrow> int" where
  "rp_diskSize p =
     (case annLookup (pod_annotations p) ''anex.sh/disk-space-gb'' of
        None \<Rightarrow> 30
      | Some t \<Rightarrow> (case atoi t of None \<Rightarrow> 30 | Some d \<Rightarrow> d))"

definition startCmd :: string where
  "startCmd = ''apt-get update && apt-get install -y curl && curl -fsSL '' @ [CHR 0x22] @ ''$GPU_PROVIDER_INIT_URL''
     @ [CHR 0x22] @ '' -o /tmp/init.sh && bash /tmp/init.sh''"

definition podQuery :: "'f rp_env \<Rightarrow> pod \<Rightarrow> pod_container \<Rightarrow> pod_proxy \<Rightarrow> bool \<Rightarrow> 'f payload \<Rightarrow> 'f payload" where
  "podQuery env p c proxy promtail query =
     fmupd ''env'' (VMap (fmmap VStr (ToEnvMap (BuildProvisionEnv p proxy promtail (re_urls env)))))
       (fmupd ''dockerStartCmd'' (VStrs [startCmd])
         (fmupd ''dockerEntrypoint'' (VStrs [''/bin/bash'', ''-c''])
           (fmupd ''containerDiskInGb'' (VInt (rp_diskSize p))
             (fmupd ''imageName'' (VStr (pn_image c))
               (fmupd ''name'' (VStr (buildPodName env (pod_uid p))) query)))))"

text \<open>For an image of a private registry fresh credentials are registered first.\<close>

definition withRegistryAuth ::
  "'f rp_env \<Rightarrow> pod \<Rightarrow> string \<Rightarrow> 'f payload \<Rightarrow> 'f rp_state \<Rightarrow> 'f payload result \<times> 'f rp_state" where
  "withRegistryAuth env p img query s =
     (if \<not> IsAWSECRImage img then (Inr query, s)
      else (case GetAWSECRCredentials (re_aws env) img of
              Inl e \<Rightarrow> (Inl (ErrWrap ''failed to get ECR credentials'' e), s)
            | Inr creds \<Rightarrow>
                (case ensureRegistryAuth env (buildRegistryAuthName env (pod_uid p)) (ec_username creds) (ec_password creds) s of
                   (Inl e, s1) \<Rightarrow> (Inl (ErrWrap ''failed to create RunPod registry auth'' e), s1)
                 | (Inr authID, s1) \<Rightarrow> (Inr (fmupd ''containerRegistryAuthId'' (VStr authID) query), s1))))"

definition createPod :: "'f rp_env \<Rightarrow> 'f payload \<Rightarrow> 'f rp_state \<Rightarrow> string result \<times> 'f rp_state" where
  "createPod env query s =
     (case rreq env (re_decodeCreated env) [] ''POST'' (rpBaseURL @ ''/pods'') (Some (VMap query)) s of
        ((code, i, err), s1) \<Rightarrow>
          if code = 401 then (Inl ErrUnauthorized, s1)
          else (case err of
                  Some e \<Rightarrow> (Inl e, s1)
                | None \<Rightarrow> if i = [] then (Inl (ErrNew ''RunPod returned empty pod ID''), s1) else (Inr i, s1)))"

definition rp_SelectAndProvisionMachine ::
  "'f rp_env \<Rightarrow> 'f machine_spec \<Rightarrow> pod \<Rightarrow> pod_proxy \<Rightarrow> bool \<Rightarrow> 'f rp_state \<Rightarrow> (string result \<times> 'f rp_state) option" where
  "rp_SelectAndProvisionMachine env spec p proxy promtail s =
     (case BuildProvisionQuery (re_floats env) spec of
        None \<Rightarrow> None
      | Some (Inl e, _) \<Rightarrow> Some (Inl (ErrWrap ''invalid machine specification'' e), s)
      | Some (Inr query, _) \<Rightarrow>
          (case pod_containers p of
             [] \<Rightarrow> None
           | c # _ \<Rightarrow>
               (case withRegistryAuth env p (pn_image c) (podQuery env p c proxy promtail query) s of
                  (Inl e, s1) \<Rightarrow> Some (Inl e, s1)
                | (Inr q, s1) \<Rightarrow> Some (createPod env q s1))))"

section \<open>Garbage collection\<close>

definition danglingPod :: "string list \<Rightarrow> 'f pod_response \<Rightarrow> bool" where
  "danglingPod uids p =
     (case parsePodName (pr_name p) of None \<Rightarrow> False | Some i \<Rightarrow> ni_uid i \<notin> set uids)"

definition rp_PruneDanglingMachines :: "'f rp_env \<Rightarrow> string list \<Rightarrow> 'f rp_state \<Rightarrow> go_error option \<times> 'f rp_state" where
  "rp_PruneDanglingMachines env uids s =
     (case listPodsInternal env s of
        (Inl e, s1) \<Rightarrow> (Some e, s1)
      | (Inr ps, s1) \<Rightarrow>
          (None, pruneRegistryAuths env uids
             (foldl (\<lambda>t p. snd (rp_DestroyMachine env (pr_id p) t)) s1 (filter (danglingPod uids) ps))))"

end
