(* ===== verification/ShellWords.thy ===== *)
theory ShellWords
  imports VastRequest
begin

text \<open>
  How a POSIX shell reads the command line that the client builds for the agent: word splitting with
  single and double quotes. Everything the shell would expand or treat as an operator is rejected,
  so that an accepted line is read literally.
\<close>

datatype quoting = Unquoted | SingleQuoted | DoubleQuoted

definition plainChar :: "char \<Rightarrow> bool" where
  "plainChar c \<longleftrightarrow> isDigit c \<or> isUpperChar c \<or> isLowerChar c \<or> c \<in> set ''-_./:,+@%''"

text \<open>The state of the reader: the quoting, and the word being read, backwards, if one has begun.\<close>

fun readWords :: "quoting \<Rightarrow> string option \<Rightarrow> string \<Rightarrow> string list option" where
  "readWords Unquoted cur [] = Some (case cur of None \<Rightarrow> [] | Some w \<Rightarrow> [rev w])"
| "readWords Unquoted cur (c # s) =
     (let w = (case cur of None \<Rightarrow> [] | Some w \<Rightarrow> w)
      in if c = CHR '' '' then
           map_option (\<lambda>ws. (case cur of None \<Rightarrow> ws | Some w \<Rightarrow> rev w # ws)) (readWords Unquoted None s)
         else if c = CHR 0x27 then readWords SingleQuoted (Some w) s
         else if c = CHR 0x22 then readWords DoubleQuoted (Some w) s
         else if plainChar c then readWords Unquoted (Some (c # w)) s
         else None)"
| "readWords SingleQuoted cur [] = None"
| "readWords SingleQuoted cur (c # s) =
     (let w = (case cur of None \<Rightarrow> [] | Some w \<Rightarrow> w)
      in if c = CHR 0x27 then readWords Unquoted (Some w) s
         else readWords SingleQuoted (Some (c # w)) s)"
| "readWords DoubleQuoted cur [] = None"
| "readWords DoubleQuoted cur (c # s) =
     (let w = (case cur of None \<Rightarrow> [] | Some w \<Rightarrow> w)
      in if c = CHR 0x22 then readWords Unquoted (Some w) s
         else if c \<in> {CHR ''$'', CHR 0x60, CHR 0x5C} then None
         else readWords DoubleQuoted (Some (c # w)) s)"

definition shellWords :: "string \<Rightarrow> string list option" where
  "shellWords = readWords Unquoted None"

text \<open>An embedded quote leaves the single quotes, is read in double quotes, and enters them again.\<close>

lemma readWords_quoted:
  "readWords SingleQuoted (Some w)
     (replaceChar (CHR 0x27) [CHR 0x27, CHR 0x22, CHR 0x27, CHR 0x22, CHR 0x27] s @ CHR 0x27 # rest) =
   readWords Unquoted (Some (rev s @ w)) rest"
  by (induction s arbitrary: w) (simp_all add: replaceChar_def)

lemma readWords_shellQuote:
  "readWords Unquoted None (shellQuote s @ rest) = readWords Unquoted (Some (rev s)) rest"
  using readWords_quoted [of "[]" s rest] by (simp add: shellQuote_def)

lemma readWords_space:
  "readWords Unquoted (Some w) ('' '' @ s) = map_option (\<lambda>ws. rev w # ws) (readWords Unquoted None s)"
  by simp

lemma readWords_joinShellArgs: "readWords Unquoted None (joinShellArgs args) = Some args"
proof (induction args)
  case Nil
  show ?case by (simp add: joinShellArgs_def)
next
  case (Cons a as)
  show ?case
  proof (cases as)
    case Nil
    then show ?thesis using readWords_shellQuote [of a "[]"] by (simp add: joinShellArgs_def)
  next
    case (Cons b bs)
    then have "joinShellArgs (a # as) = shellQuote a @ '' '' @ joinShellArgs as"
      by (simp add: joinShellArgs_def)
    then show ?thesis
      by (simp only: readWords_shellQuote readWords_space Cons.IH) simp
  qed
qed

lemma readWords_plain:
  "list_all plainChar p \<Longrightarrow> readWords Unquoted (Some w) (p @ s) = readWords Unquoted (Some (rev p @ w)) s"
proof (induction p arbitrary: w)
  case (Cons c p)
  then have "plainChar c" "c \<noteq> CHR '' ''" "c \<noteq> CHR 0x27" "c \<noteq> CHR 0x22"
    by (auto simp: plainChar_def isDigit_def isUpperChar_def isLowerChar_def)
  with Cons show ?case by simp
qed simp

lemma readWords_word:
  "p \<noteq> [] \<Longrightarrow> list_all plainChar p \<Longrightarrow>
     readWords Unquoted None (p @ s) = readWords Unquoted (Some (rev p)) s"
proof (cases p)
  case (Cons c q)
  assume "list_all plainChar p"
  with Cons have "plainChar c" "c \<noteq> CHR '' ''" "c \<noteq> CHR 0x27" "c \<noteq> CHR 0x22"
    by (auto simp: plainChar_def isDigit_def isUpperChar_def isLowerChar_def)
  with Cons \<open>list_all plainChar p\<close> readWords_plain [of q "[c]" s] show ?thesis by simp
qed simp

text \<open>A rest of the line that is empty or begins with a blank closes the word before it.\<close>

lemma readWords_rest:
  assumes "t = [] \<and> ws = [] \<or> (\<exists>u. t = '' '' @ u \<and> readWords Unquoted None u = Some ws)"
  shows "readWords Unquoted (Some w) t = Some (rev w # ws)"
  using assms by auto

text \<open>What the shell of the machine executes is what the pod asks for: read by a shell, the command line
  is the agent with its flags and, behind the separator, the arguments of the container, each as it
  stands in the specification, whatever characters it contains.\<close>

lemma commandWrapper_words:
  "shellWords (commandWrapper proxy promtail argv) =
     Some ([''/usr/bin/container_agent'', ''run'', ''-p'', ''8080'']
           @ (if pp_enabled proxy then [''--proxy''] else []) @ (if promtail then [''--promtail''] else [])
           @ (if argv = [] then [] else ''--'' # argv))"
proof -
  have plain: "list_all plainChar ''/usr/bin/container_agent''" "list_all plainChar ''run''" "list_all plainChar ''-p''"
    "list_all plainChar ''8080''" "list_all plainChar ''--proxy''" "list_all plainChar ''--promtail''"
    "list_all plainChar ''--''"
    by code_simp+
  have word: "readWords Unquoted None (p @ t) = Some (p # ws)"
    if "list_all plainChar p" "p \<noteq> []" "t = [] \<and> ws = [] \<or> (\<exists>u. t = '' '' @ u \<and> readWords Unquoted None u = Some ws)"
    for p t ws
    using readWords_word [OF that(2,1)] readWords_rest [OF that(3), of "rev p"] by simp
  define t1 where "t1 = (if argv = [] then [] else '' -- '' @ joinShellArgs argv)"
  define w1 where "w1 = (if argv = [] then [] else ''--'' # argv)"
  have 1: "t1 = [] \<and> w1 = [] \<or> (\<exists>u. t1 = '' '' @ u \<and> readWords Unquoted None u = Some w1)"
    using word [OF plain(7), of "'' '' @ joinShellArgs argv" argv] readWords_joinShellArgs [of argv]
    by (auto simp: t1_def w1_def)
  define t2 where "t2 = (if promtail then '' --promtail'' else []) @ t1"
  define w2 where "w2 = (if promtail then [''--promtail''] else []) @ w1"
  have 2: "t2 = [] \<and> w2 = [] \<or> (\<exists>u. t2 = '' '' @ u \<and> readWords Unquoted None u = Some w2)"
    using word [OF plain(6) _ 1] 1 by (auto simp: t2_def w2_def)
  define t3 where "t3 = (if pp_enabled proxy then '' --proxy'' else []) @ t2"
  define w3 where "w3 = (if pp_enabled proxy then [''--proxy''] else []) @ w2"
  have 3: "t3 = [] \<and> w3 = [] \<or> (\<exists>u. t3 = '' '' @ u \<and> readWords Unquoted None u = Some w3)"
    using word [OF plain(5) _ 2] 2 by (auto simp: t3_def w3_def)
  have 4: "readWords Unquoted None (''8080'' @ t3) = Some (''8080'' # w3)" using word [OF plain(4) _ 3] by simp
  have 5: "readWords Unquoted None (''-p'' @ '' '' @ ''8080'' @ t3) = Some (''-p'' # ''8080'' # w3)"
    by (rule word [OF plain(3)]) (use 4 in auto)
  have 6: "readWords Unquoted None (''run'' @ '' '' @ ''-p'' @ '' '' @ ''8080'' @ t3) = Some (''run'' # ''-p'' # ''8080'' # w3)"
    by (rule word [OF plain(2)]) (use 5 in auto)
  have 7: "readWords Unquoted None (''/usr/bin/container_agent'' @ '' '' @ ''run'' @ '' '' @ ''-p'' @ '' '' @ ''8080'' @ t3)
      = Some (''/usr/bin/container_agent'' # ''run'' # ''-p'' # ''8080'' # w3)"
    by (rule word [OF plain(1)]) (use 6 in auto)
  have "commandWrapper proxy promtail argv =
      ''/usr/bin/container_agent'' @ '' '' @ ''run'' @ '' '' @ ''-p'' @ '' '' @ ''8080'' @ t3"
    by (simp add: commandWrapper_def t3_def t2_def t1_def)
  then show ?thesis using 7 by (simp add: shellWords_def w3_def w2_def w1_def)
qed

end
