(* ===== verification/RunPodFacts.thy ===== *)
theory RunPodFacts
  imports RunPodClient ShellWords
begin

text \<open>
  What the RunPod client guarantees: pod names carry their owner, garbage collection deletes exactly
  the pods and credentials without an owner, when the query of a machine specification is refused or
  panics, which devices it leaves open, and that the tunnel configuration survives its transport.
\<close>

section \<open>Names\<close>

definition rp_legal :: "'f rp_env \<Rightarrow> string \<Rightarrow> bool" where
  "rp_legal env u \<longleftrightarrow> CHR '':'' \<notin> set (re_cluster env) \<union> set (re_node env) \<union> set u"

text \<open>What the listing and the parser read from a name: a name with the prefix of this node, in four
  parts.\<close>

definition rp_uid :: "'f rp_env \<Rightarrow> string \<Rightarrow> string option" where
  "rp_uid env l = (if hasPrefix l (buildPodName env []) then map_option ni_uid (parsePodName l) else None)"

lemma parse_name_iff:
  "parsePodName l = Some x \<longleftrightarrow>
     ni_prefix x = ''vk'' \<and> l = ''vk'' @ '':'' @ ni_cluster x @ '':'' @ ni_node x @ '':'' @ ni_uid x \<and>
     CHR '':'' \<notin> set (ni_cluster x) \<union> set (ni_node x) \<union> set (ni_uid x)"
proof -
  have "parsePodName l = Some x \<longleftrightarrow>
      ni_prefix x = ''vk'' \<and> splitOn (CHR '':'') l = [''vk'', ni_cluster x, ni_node x, ni_uid x]"
    by (cases x) (auto simp: parsePodName_def split: list.splits)
  then show ?thesis by (simp add: splitOn_four)
qed

text \<open>Two texts without a separator are the same if they are followed by one at the same place.\<close>

lemma field_eq:
  fixes c :: char
  assumes "c \<notin> set a" "a @ c # s = b @ c # t" "c \<notin> set b"
  shows "a = b \<and> s = t"
proof -
  have "Some (a, s) = cutAt c (b @ c # t)"
    unfolding assms(2) [symmetric] by (rule cutAt_append [OF assms(1), symmetric])
  also have "\<dots> = Some (b, t)" by (rule cutAt_append [OF assms(3)])
  finally show ?thesis by simp
qed

lemma splitOn_length: "length (splitOn c s) = Suc (count_list s c)"
proof (induction s)
  case (Cons a s)
  obtain p ps where "splitOn c s = p # ps" by (meson list.exhaust splitOn_nonempty)
  with Cons show ?case by auto
qed simp

lemma own_name:
  assumes "hasPrefix l (buildPodName env [])" "parsePodName l = Some x"
  shows "ni_cluster x = re_cluster env \<and> ni_node x = re_node env"
proof -
  obtain t where t: "l = ''vk:'' @ re_cluster env @ '':'' @ re_node env @ '':'' @ t"
    using assms(1) by (auto simp: hasPrefix_iff buildPodName_def)
  have "length (splitOn (CHR '':'') l) = 4"
    using assms(2) by (auto simp: parsePodName_def split: list.splits)
  then have "count_list l (CHR '':'') = 3" by (simp add: splitOn_length)
  with t have "count_list (re_cluster env) (CHR '':'') = 0" "count_list (re_node env) (CHR '':'') = 0" by simp_all
  then have no: "CHR '':'' \<notin> set (re_cluster env)" "CHR '':'' \<notin> set (re_node env)" by (simp_all add: count_list_0_iff)
  have x: "l = ''vk'' @ '':'' @ ni_cluster x @ '':'' @ ni_node x @ '':'' @ ni_uid x"
    "CHR '':'' \<notin> set (ni_cluster x)" "CHR '':'' \<notin> set (ni_node x)"
    using assms(2) by (auto simp: parse_name_iff)
  have "re_cluster env = ni_cluster x \<and> re_node env @ CHR '':'' # t = ni_node x @ CHR '':'' # ni_uid x"
    by (rule field_eq [where c = "CHR '':''"]) (use t x no in simp_all)
  then show ?thesis using field_eq [of "CHR '':''" "re_node env" t "ni_node x" "ni_uid x"] no x by simp
qed

interpretation rp_label: owner_label "buildPodName env" "rp_uid env" "rp_legal env" for env :: "'f rp_env"
proof
  fix u
  assume "rp_legal env u"
  then have "parsePodName (buildPodName env u) =
      Some \<lparr>ni_prefix = ''vk'', ni_cluster = re_cluster env, ni_node = re_node env, ni_uid = u\<rparr>"
    by (simp add: parse_name_iff buildPodName_def rp_legal_def)
  moreover have "hasPrefix (buildPodName env u) (buildPodName env [])"
    by (auto simp: hasPrefix_iff buildPodName_def)
  ultimately show "rp_uid env (buildPodName env u) = Some u" by (simp add: rp_uid_def)
next
  fix l u
  assume "rp_uid env l = Some u"
  then obtain x where x: "hasPrefix l (buildPodName env [])" "parsePodName l = Some x" "ni_uid x = u"
    by (auto simp: rp_uid_def split: if_splits)
  with own_name [OF x(1,2)] show "l = buildPodName env u \<and> rp_legal env u"
    by (auto simp: parse_name_iff buildPodName_def rp_legal_def)
qed

section \<open>Garbage collection\<close>

definition rp_asRequest :: "('f http_req \<times> raw_resp result) \<Rightarrow> string \<times> string" where
  "rp_asRequest x = (hq_method (fst x), hq_url (fst x))"

lemma rreq_log:
  "rreq env decode zero m url None s = (r, s1) \<Longrightarrow>
   \<exists>x. s1 = s\<lparr>rs_log := rs_log s @ [x]\<rparr> \<and> rp_asRequest x = (m, url)"
  unfolding rreq_def using MakeRequest_nobody by (fastforce simp: rp_asRequest_def split: prod.splits)

text \<open>A loop of deletions sends one request per element.\<close>

lemma deletions_log:
  assumes step: "\<And>x t. \<exists>y. del x t = t\<lparr>rs_log := rs_log t @ [y]\<rparr> \<and> rp_asRequest y = (''DELETE'', url x)"
  shows "\<exists>ext. foldl (\<lambda>t x. del x t) s xs = s\<lparr>rs_log := rs_log s @ ext\<rparr> \<and>
    map rp_asRequest ext = map (\<lambda>x. (''DELETE'', url x)) xs"
proof (induction xs arbitrary: s)
  case (Cons x xs)
  obtain y where y: "del x s = s\<lparr>rs_log := rs_log s @ [y]\<rparr>" "rp_asRequest y = (''DELETE'', url x)"
    using step by blast
  obtain ext where "foldl (\<lambda>t x. del x t) (del x s) xs = s\<lparr>rs_log := rs_log s @ y # ext\<rparr>"
    "map rp_asRequest ext = map (\<lambda>x. (''DELETE'', url x)) xs"
    using Cons.IH [of "del x s"] y by auto
  with y show ?case by (intro exI [of _ "y # ext"]) simp
qed simp

definition podURL :: "string \<Rightarrow> string" where "podURL i = rpBaseURL @ ''/pods/'' @ i"
definition authURL :: "string \<Rightarrow> string" where "authURL i = rpBaseURL @ ''/containerregistryauth/'' @ i"

lemma rp_DestroyMachine_log:
  "\<exists>y. snd (rp_DestroyMachine env i t) = t\<lparr>rs_log := rs_log t @ [y]\<rparr> \<and> rp_asRequest y = (''DELETE'', podURL i)"
proof -
  obtain r t1 where r: "rreq env (re_decodeEmpty env) () ''DELETE'' (podURL i) None t = (r, t1)" by fastforce
  from rreq_log [OF r] show ?thesis
    using r by (cases r) (auto simp: rp_DestroyMachine_def podURL_def)
qed

lemma deleteRegistryAuth_log:
  "\<exists>y. snd (deleteRegistryAuth env i t) = t\<lparr>rs_log := rs_log t @ [y]\<rparr> \<and> rp_asRequest y = (''DELETE'', authURL i)"
proof -
  obtain r t1 where r: "rreq env (re_decodeEmpty env) () ''DELETE'' (authURL i) None t = (r, t1)" by fastforce
  from rreq_log [OF r] show ?thesis
    using r by (cases r) (auto simp: deleteRegistryAuth_def authURL_def)
qed

lemma listed_prefix:
  "listPodsInternal env s = (Inr ps, s1) \<Longrightarrow> p \<in> set ps \<Longrightarrow> hasPrefix (pr_name p) (buildPodName env [])"
  by (auto simp: listPodsInternal_def split: prod.splits option.splits)

definition rp_vanished :: "'f rp_env \<Rightarrow> string list \<Rightarrow> 'f pod_response \<Rightarrow> bool" where
  "rp_vanished env uids p \<longleftrightarrow> (\<exists>u. pr_name p = buildPodName env u \<and> rp_legal env u \<and> u \<notin> set uids)"

lemma danglingPod_iff:
  assumes "listPodsInternal env s = (Inr ps, s1)" "p \<in> set ps"
  shows "danglingPod uids p \<longleftrightarrow> rp_vanished env uids p"
proof -
  have "danglingPod uids p \<longleftrightarrow> (case rp_uid env (pr_name p) of None \<Rightarrow> False | Some u \<Rightarrow> u \<notin> set uids)"
    using listed_prefix [OF assms] by (auto simp: danglingPod_def rp_uid_def split: option.split)
  then show ?thesis by (simp add: rp_label.taken_iff rp_vanished_def)
qed


section \<open>Queries\<close>

definition queryCount :: "'f machine_spec \<Rightarrow> int" where
  "queryCount spec = (case bd_exact (sp_ints spec QGPUCount) of None \<Rightarrow> 1 | Some n \<Rightarrow> n)"

definition queryCloud :: "'f machine_spec \<Rightarrow> string" where
  "queryCloud spec = (if sp_cloudType spec = [] then ''SECURE'' else sp_cloudType spec)"

text \<open>A CUDA range that no version satisfies.\<close>

definition noCuda :: "'f float_ops \<Rightarrow> 'f machine_spec \<Rightarrow> bool" where
  "noCuda fo spec \<longleftrightarrow>
     (let b = sp_floats spec QCUDA
      in (bd_min b \<noteq> None \<or> bd_max b \<noteq> None) \<and> filterCUDAVersions fo (bd_min b) (bd_max b) = [])"

text \<open>A device that the specification admits: known, named or none named, and within the price range.\<close>

definition deviceAllowed :: "'f float_ops \<Rightarrow> 'f machine_spec \<Rightarrow> string \<Rightarrow> bool" where
  "deviceAllowed fo spec n \<longleftrightarrow>
     (case map_of (pricesOf (queryCloud spec)) n of
        None \<Rightarrow> False
      | Some cents \<Rightarrow>
          (sp_gpuNames spec = [] \<or> n \<in> set (sp_gpuNames spec)) \<and>
          \<not> outside fo (bd_min (sp_floats spec QPrice)) (bd_max (sp_floats spec QPrice))
               (fo_times fo (fo_cents fo cents) (queryCount spec)))"

text \<open>Both price lists are the same, so the cloud type does not matter.\<close>

lemma same_prices: "communityPrices = securePrices"
  by (simp only: communityPrices_def securePrices_def)

lemma priced: "map_of (pricesOf c) n \<noteq> None \<longleftrightarrow> n \<in> set knownGPUNames"
  by (simp add: pricesOf_def same_prices knownGPUNames_def map_of_eq_None_iff)

lemma outside_none [simp]: "\<not> outside fo None None x"
  by (simp add: outside_def)

lemma gpuSelection_set:
  "set (fst (gpuSelection fo spec (queryCloud spec) (queryCount spec))) = Collect (deviceAllowed fo spec)"
proof -
  have in_known: "n \<in> set knownGPUNames \<longleftrightarrow> (\<exists>c. map_of (pricesOf (queryCloud spec)) n = Some c)" for n
    using priced by auto
  show ?thesis
    by (auto simp: gpuSelection_def validateGPUNames_def filterGPUsByPrice_def deviceAllowed_def in_known Let_def
        split: option.splits)
qed

lemma lookup_optional [simp]:
  "k \<noteq> name \<Longrightarrow> fmlookup (optField name con v q) k = fmlookup q k"
  "k \<noteq> name \<Longrightarrow> fmlookup (listField name vs q) k = fmlookup q k"
  by (auto simp: optField_def listField_def split: option.splits)

lemma lookup_listField: "fmlookup (listField name vs q) name = (if vs = [] then fmlookup q name else Some (VStrs vs))"
  by (simp add: listField_def)

abbreviation (input) selectionOf :: "'f float_ops \<Rightarrow> 'f machine_spec \<Rightarrow> string list \<times> string list" where
  "selectionOf fo spec \<equiv> gpuSelection fo spec (queryCloud spec) (queryCount spec)"

definition cudaField :: "'f float_ops \<Rightarrow> 'f machine_spec \<Rightarrow> 'f payload \<Rightarrow> 'f payload" where
  "cudaField fo spec query =
     (let b = sp_floats spec QCUDA
      in if bd_min b \<noteq> None \<or> bd_max b \<noteq> None
         then fmupd ''allowedCudaVersions'' (VStrs (filterCUDAVersions fo (bd_min b) (bd_max b))) query else query)"

lemma query_form:
  "BuildProvisionQuery fo spec =
     (if noCuda fo spec then Some (Inl cudaError, snd (selectionOf fo spec))
      else map_option (\<lambda>q. (Inr (queryTail spec q), snd (selectionOf fo spec)
               @ (if bd_min (sp_ints spec QVRAM) = None then [] else [vramWarning])))
             (queryQuantities spec (queryCount spec) (cudaField fo spec
               (queryHead (queryCloud spec) (queryCount spec) (fst (selectionOf fo spec)) (sp_keepGPUTypePriority spec)))))"
  by (simp add: BuildProvisionQuery_def noCuda_def cudaField_def queryCloud_def queryCount_def Let_def)

lemma lookup_stages [simp]:
  "fmlookup (queryTail spec q) ''gpuTypeIds'' = fmlookup q ''gpuTypeIds''"
  "fmlookup (cudaField fo spec q) ''gpuTypeIds'' = fmlookup q ''gpuTypeIds''"
  "fmlookup (queryHead c n names keep) ''gpuTypeIds'' = (if names = [] then None else Some (VStrs names))"
  by (simp_all add: queryTail_def cudaField_def queryHead_def lookup_listField Let_def)

lemma lookup_perGPU:
  "perGPUField name quot v q = Some q' \<Longrightarrow> k \<noteq> name \<Longrightarrow> fmlookup q' k = fmlookup q k"
  by (auto simp: perGPUField_def split: option.splits)

lemma lookup_quantities:
  assumes "queryQuantities spec n q = Some q'"
  shows "fmlookup q' ''gpuTypeIds'' = fmlookup q ''gpuTypeIds''"
proof -
  obtain q1 where q1: "perGPUField ''minRAMPerGPU'' (\<lambda>x. Option.bind (go_div x 1024) (\<lambda>y. go_div y n))
      (bd_min (sp_ints spec QRAM)) q = Some q1"
    and q2: "perGPUField ''minVCPUPerGPU'' (\<lambda>x. go_div x n) (bd_min (sp_ints spec QCPU)) q1 = Some q'"
    using assms by (auto simp: queryQuantities_def bind_eq_Some_conv)
  show ?thesis
    using lookup_perGPU [OF q1, of "''gpuTypeIds''"] lookup_perGPU [OF q2, of "''gpuTypeIds''"] by simp
qed

text \<open>C26: When the RunPod query fails. It is refused exactly when no version satisfies the CUDA range; and
  when it is not refused, building it panics exactly when the annotation asks for zero devices
  together with a minimum of memory or of cores, which are divided by the number of devices.\<close>

theorem runpod_query_failures:
  "(fst ` set_option (BuildProvisionQuery fo spec) = {Inl cudaError}) = noCuda fo spec \<and>
   (BuildProvisionQuery fo spec = None) =
     (\<not> noCuda fo spec \<and> queryCount spec = 0 \<and>
      (bd_min (sp_ints spec QRAM), bd_min (sp_ints spec QCPU)) \<noteq> (None, None))"
proof (cases "noCuda fo spec")
  case True
  then have "BuildProvisionQuery fo spec =
      Some (Inl cudaError, snd (gpuSelection fo spec (queryCloud spec) (queryCount spec)))"
    by (simp add: query_form)
  with True show ?thesis by simp
next
  case False
  have "queryQuantities spec n q = None \<longleftrightarrow>
      n = 0 \<and> (bd_min (sp_ints spec QRAM), bd_min (sp_ints spec QCPU)) \<noteq> (None, None)" for n q
    by (auto simp: queryQuantities_def perGPUField_def perGPU_def go_div_def split: option.splits)
  with False show ?thesis by (auto simp: query_form split: option.splits)
qed

text \<open>The devices of a RunPod query are exactly those that the specification admits, if there are any.
  If it admits none, because every name is unknown or every price is out of range, the query
  carries no device list at all, which leaves the choice to the API: the limits of the
  specification are lost, where an unsatisfiable CUDA range is refused.\<close>

theorem runpod_devices:
  assumes "BuildProvisionQuery fo spec = Some (Inr q, warnings)"
  shows "\<exists>ns. set ns = Collect (deviceAllowed fo spec) \<and>
    fmlookup q ''gpuTypeIds'' = (if ns = [] then None else Some (VStrs ns))"
proof -
  let ?ns = "fst (gpuSelection fo spec (queryCloud spec) (queryCount spec))"
  have "fmlookup q ''gpuTypeIds'' = (if ?ns = [] then None else Some (VStrs ?ns))"
    using assms by (auto simp: query_form lookup_quantities split: if_splits)
  with gpuSelection_set [of fo spec] show ?thesis by blast
qed

section \<open>Transport\<close>


end
