(* ===== verification/MockCloud.thy ===== *)
theory MockCloud
  imports Provider
begin

text \<open>
  The mock cloud (\<open>cloudprovider/mock/inventory.go\<close>, \<open>client.go\<close>): a fixed inventory, the test of an
  entry against a machine specification, and a client that keeps its machines in a map.

  Prices are listed in cents and versions in tenths; conversions to floats and their comparison are
  arguments. Case folding is that of ASCII. The agent that the client starts for a machine runs on
  its own and is not modelled; creating a directory and writing a file may fail.
\<close>

section \<open>Inventory\<close>

record mock_offer =
  mo_id :: int
  mo_machineID :: int
  mo_dphCents :: int
  mo_geolocation :: string
  mo_gpuName :: string
  mo_numGPUs :: int
  mo_gpuRam :: int
  mo_gpuTotalRam :: int
  mo_cudaTenths :: int
  mo_cpuName :: string
  mo_cpuCores :: int
  mo_cpuRam :: int
  mo_diskSpace :: int
  mo_verification :: string

definition inventory :: "mock_offer list" where
  "inventory = [
     \<lparr>mo_id = 1001, mo_machineID = 1001, mo_dphCents = 22, mo_geolocation = ''CZ'', mo_gpuName = ''RTX 3090'', mo_numGPUs = 1,
      mo_gpuRam = 24576, mo_gpuTotalRam = 24576, mo_cudaTenths = 122, mo_cpuName = ''AMD EPYC 7402'', mo_cpuCores = 8,
      mo_cpuRam = 65536, mo_diskSpace = 200, mo_verification = ''verified''\<rparr>,
     \<lparr>mo_id = 1002, mo_machineID = 1002, mo_dphCents = 38, mo_geolocation = ''DE'', mo_gpuName = ''RTX 4090'', mo_numGPUs = 1,
      mo_gpuRam = 24576, mo_gpuTotalRam = 24576, mo_cudaTenths = 124, mo_cpuName = ''Intel Xeon Gold 6338'', mo_cpuCores = 12,
      mo_cpuRam = 131072, mo_diskSpace = 500, mo_verification = ''verified''\<rparr>,
     \<lparr>mo_id = 1003, mo_machineID = 1003, mo_dphCents = 74, mo_geolocation = ''US'', mo_gpuName = ''RTX 4090'', mo_numGPUs = 2,
      mo_gpuRam = 24576, mo_gpuTotalRam = 49152, mo_cudaTenths = 124, mo_cpuName = ''AMD EPYC 7763'', mo_cpuCores = 24,
      mo_cpuRam = 262144, mo_diskSpace = 1000, mo_verification = ''verified''\<rparr>,
     \<lparr>mo_id = 1004, mo_machineID = 1004, mo_dphCents = 145, mo_geolocation = ''US'', mo_gpuName = ''A100 SXM4'', mo_numGPUs = 1,
      mo_gpuRam = 81920, mo_gpuTotalRam = 81920, mo_cudaTenths = 124, mo_cpuName = ''AMD EPYC 7543'', mo_cpuCores = 16,
      mo_cpuRam = 262144, mo_diskSpace = 1000, mo_verification = ''verified''\<rparr>,
     \<lparr>mo_id = 1005, mo_machineID = 1005, mo_dphCents = 295, mo_geolocation = ''NL'', mo_gpuName = ''H100 SXM5'', mo_numGPUs = 1,
      mo_gpuRam = 81920, mo_gpuTotalRam = 81920, mo_cudaTenths = 126, mo_cpuName = ''Intel Xeon Platinum 8480+'', mo_cpuCores = 20,
      mo_cpuRam = 524288, mo_diskSpace = 2000, mo_verification = ''verified''\<rparr>]"

record 'f mock_floats =
  mf_int :: "int \<Rightarrow> 'f"
  mf_cents :: "int \<Rightarrow> 'f"
  mf_less :: "'f \<Rightarrow> 'f \<Rightarrow> bool"

definition lookupOffer :: "string \<Rightarrow> mock_offer option" where
  "lookupOffer i = find (\<lambda>x. itoa (mo_id x) = i) inventory"

definition gpuNameMatches :: "string \<Rightarrow> string \<Rightarrow> bool" where
  "gpuNameMatches gpu name \<longleftrightarrow> toLower gpu = toLower name \<or> containsSub (toLower gpu) (toLower name)"

text \<open>A quantity against an exact value and bounds, each of which counts if it is given.\<close>

definition intMatches :: "int bounds \<Rightarrow> int \<Rightarrow> bool" where
  "intMatches b x \<longleftrightarrow>
     (case bd_exact b of None \<Rightarrow> True | Some v \<Rightarrow> x = v) \<and>
     (case bd_min b of None \<Rightarrow> True | Some l \<Rightarrow> l \<le> x) \<and>
     (case bd_max b of None \<Rightarrow> True | Some u \<Rightarrow> x \<le> u)"

definition matchesSpec :: "'f mock_floats \<Rightarrow> mock_offer \<Rightarrow> 'f machine_spec \<Rightarrow> bool" where
  "matchesSpec mf x s \<longleftrightarrow>
     (sp_gpuNames s = [] \<or> list_ex (gpuNameMatches (mo_gpuName x)) (sp_gpuNames s)) \<and>
     intMatches (sp_ints s QGPUCount) (mo_numGPUs x) \<and>
     intMatches (sp_ints s QVRAM) (mo_gpuRam x) \<and>
     (case bd_max (sp_floats s QPrice) of None \<Rightarrow> True | Some m \<Rightarrow> \<not> mf_less mf m (mf_cents mf (mo_dphCents x)))"

section \<open>The client\<close>

record 'f mock_state =
  mk_counter :: int
  mk_machines :: "string \<rightharpoonup> 'f machine"
  mk_files :: "string \<rightharpoonup> string"

record 'f mock_env =
  me_floats :: "'f mock_floats"
  me_zero :: 'f
  me_mkdirErr :: "string \<Rightarrow> go_error option"
  me_writeErr :: "string \<Rightarrow> go_error option"

definition NewMockClient :: "'f mock_state" where
  "NewMockClient = \<lparr>mk_counter = 0, mk_machines = Map.empty, mk_files = Map.empty\<rparr>"

definition BasePortWireproxy :: int where "BasePortWireproxy = 51900"
definition BasePortAgent :: int where "BasePortAgent = 31000"

text \<open>In the order in which the map is visited.\<close>

definition mock_ListMachines :: "string list \<Rightarrow> 'f mock_state \<Rightarrow> 'f machine list" where
  "mock_ListMachines keys s = List.map_filter (mk_machines s) keys"

definition mock_GetMachine :: "string \<Rightarrow> 'f mock_state \<Rightarrow> 'f machine result" where
  "mock_GetMachine i s =
     (case mk_machines s i of
        Some m \<Rightarrow> Inr m
      | None \<Rightarrow> Inl (ErrNew (''machine '' @ i @ '' not found'')))"

definition mock_GetRentalCandidates :: "'f mock_env \<Rightarrow> 'f machine_spec \<Rightarrow> offer list" where
  "mock_GetRentalCandidates env spec =
     map (\<lambda>x. \<lparr>of_offerID = itoa (mo_id x), of_machineID = itoa (mo_machineID x)\<rparr>)
       (filter (\<lambda>x. matchesSpec (me_floats env) x spec) inventory)"

definition mock_wireproxyConfig :: "pod_proxy \<Rightarrow> string \<Rightarrow> string" where
  "mock_wireproxyConfig proxy wireproxyPort =
     concat (map (\<lambda>l. l @ nl)
       [[], ''[Interface]'', ''Address     = '' @ px_address (pp_client proxy),
        ''PrivateKey  = '' @ px_privateKey (pp_client proxy), ''ListenPort  = '' @ wireproxyPort,
        ''DNS         = 10.254.254.1'', [],
        ''[Peer]'', ''PublicKey           = '' @ px_serverKey (pp_server proxy),
        ''Endpoint            = '' @ px_endpoint (pp_server proxy) @ '':'' @ itoa (px_portUDP (pp_server proxy)),
        ''AllowedIPs          = 0.0.0.0/0'', ''PersistentKeepalive = 25'', [],
        ''[TCPServerTunnel]'', ''ListenPort = '' @ itoa (px_offset (pp_client proxy)), ''Target = 127.0.0.1:8080''])"

definition mock_machine :: "'f mock_env \<Rightarrow> mock_offer \<Rightarrow> int \<Rightarrow> 'f machine" where
  "mock_machine env x slot =
     \<lparr>mc_id = itoa slot, mc_machineID = itoa (mo_machineID x), mc_publicIP = ''127.0.0.1'',
      mc_agentPort = BasePortAgent + slot,
      mc_stats = \<lparr>ms_gpuName = mo_gpuName x, ms_gpuVRAM = mf_int (me_floats env) (mo_gpuRam x),
        ms_gpuTFLOPS = me_zero env, ms_gpuMemoryBandwidth = me_zero env,
        ms_cpuCores = mf_int (me_floats env) (mo_cpuCores x), ms_cpuRam = mf_int (me_floats env) (mo_cpuRam x),
        ms_pricePerHr = mf_cents (me_floats env) (mo_dphCents x)\<rparr>,
      mc_state = MachineRunning\<rparr>"

text \<open>The counter is advanced before the directory and the file are made.\<close>

definition mock_ProvisionMachine ::
  "'f mock_env \<Rightarrow> string list \<Rightarrow> pod_proxy \<Rightarrow> 'f mock_state \<Rightarrow> string result \<times> 'f mock_state" where
  "mock_ProvisionMachine env candidates proxy s =
     (case candidates of
        [] \<Rightarrow> (Inl (ErrNew ''no instance candidates provided''), s)
      | offerID # _ \<Rightarrow>
          (case lookupOffer offerID of
             None \<Rightarrow> (Inl (ErrNew (''offer '' @ offerID @ '' not found in inventory'')), s)
           | Some x \<Rightarrow>
               (let slot = mk_counter s + 1;
                    s1 = s\<lparr>mk_counter := slot\<rparr>;
                    dir = ''/tmp/gpu-provider/pod-'' @ itoa slot;
                    cfg = mock_wireproxyConfig proxy (itoa (BasePortWireproxy + slot))
                in case me_mkdirErr env dir of
                     Some e \<Rightarrow> (Inl (ErrNew (''failed to create directory: '' @ err_msg e)), s1)
                   | None \<Rightarrow>
                       (case me_writeErr env (dir @ ''/wireproxy.tpl'') of
                          Some e \<Rightarrow> (Inl (ErrNew (''failed to write wireproxy template: '' @ err_msg e)), s1)
                        | None \<Rightarrow>
                            (Inr (itoa slot),
                             s1\<lparr>mk_files := (mk_files s1)(dir @ ''/wireproxy.tpl'' \<mapsto> cfg),
                                mk_machines := (mk_machines s1)(itoa slot \<mapsto> mock_machine env x slot)\<rparr>)))))"

definition mock_SelectAndProvisionMachine ::
  "'f mock_env \<Rightarrow> 'f machine_spec \<Rightarrow> pod_proxy \<Rightarrow> 'f mock_state \<Rightarrow> string result \<times> 'f mock_state" where
  "mock_SelectAndProvisionMachine env spec proxy s =
     (let offers = mock_GetRentalCandidates env spec
      in if offers = [] then (Inl (ErrNew ''no candidates match spec''), s)
         else mock_ProvisionMachine env (map of_offerID offers) proxy s)"

definition mock_DestroyMachine :: "string \<Rightarrow> 'f mock_state \<Rightarrow> go_error option \<times> 'f mock_state" where
  "mock_DestroyMachine i s = (None, s\<lparr>mk_machines := (mk_machines s)(i := None)\<rparr>)"

text \<open>The parser of labels is a copy of the one of the Vast.ai client and has no caller.\<close>

definition mock_parseMachineLabel :: "string \<Rightarrow> (string \<times> string \<times> string \<times> string) option" where
  "mock_parseMachineLabel label =
     (case splitOn (CHR '':'') label of
        [p, c, n, u] \<Rightarrow> if p = ''vk'' then Some (p, c, n, u) else None
      | _ \<Rightarrow> None)"

text \<open>Recovery finds nothing, and garbage collection, restart, key renewal and file copies do nothing.\<close>

definition mock_MapRunningMachines :: "pod list \<Rightarrow> 'f mock_state \<Rightarrow> (string, 'f machine) fmap result" where
  "mock_MapRunningMachines pods s = Inr fmempty"

definition mock_PruneDanglingMachines :: "string list \<Rightarrow> 'f mock_state \<Rightarrow> go_error option \<times> 'f mock_state" where
  "mock_PruneDanglingMachines uids s = (None, s)"

definition mock_RestartMachine :: "string \<Rightarrow> bool \<Rightarrow> 'f mock_state \<Rightarrow> go_error option \<times> 'f mock_state" where
  "mock_RestartMachine i pullImage s = (None, s)"

end
