(* ===== verification/CloudClient.thy ===== *)
theory CloudClient
  imports MockCloud Rentals
begin

text \<open>
  The interface between the provider and a cloud client (\<open>cloudprovider/client.go\<close>): what renting,
  reading and destroying a machine do to the set of rented machines. From a client that keeps the
  contract a cloud for the provider is made, and the accounting by the log of requests, in which the
  provider's guarantees are stated, is the state of the client. The mock client keeps the contract.
\<close>

section \<open>A client as a service\<close>

record ('s, 'f) cloud_ops =
  co_provision :: "'f machine_spec \<Rightarrow> pod \<Rightarrow> pod_proxy \<Rightarrow> bool \<Rightarrow> 's \<Rightarrow> string result \<times> 's"
  co_get :: "string \<Rightarrow> 's \<Rightarrow> 'f machine result \<times> 's"
  co_destroy :: "string \<Rightarrow> 's \<Rightarrow> go_error option \<times> 's"
  co_restart :: "string \<Rightarrow> bool \<Rightarrow> 's \<Rightarrow> go_error option \<times> 's"
  co_ban :: "string \<Rightarrow> 's \<Rightarrow> 's"
  co_prune :: "string list \<Rightarrow> 's \<Rightarrow> go_error option \<times> 's"

text \<open>Requests that are not the client's (clock, context, status of the agent) are answered by the
  surroundings.\<close>

type_synonym 'f surroundings = "'f cloud_log \<Rightarrow> 'f cloud_req \<Rightarrow> 'f cloud_resp"

definition blankResp :: "'f cloud_resp" where
  "blankResp = \<lparr>cr_err = None, cr_id = [], cr_machine = None,
     cr_state = \<lparr>st_waiting = None, st_running = None, st_terminated = None\<rparr>, cr_time = 0\<rparr>"

fun serve :: "('s, 'f) cloud_ops \<Rightarrow> 'f surroundings \<Rightarrow> 'f cloud_log \<Rightarrow> 'f cloud_req \<Rightarrow> 's \<Rightarrow> 'f cloud_resp \<times> 's" where
  "serve ops other w (CProvision spec p px b) s =
     (case co_provision ops spec p px b s of
        (Inl e, s1) \<Rightarrow> (blankResp\<lparr>cr_err := Some e\<rparr>, s1)
      | (Inr i, s1) \<Rightarrow> (blankResp\<lparr>cr_id := i\<rparr>, s1))"
| "serve ops other w (CGet i) s =
     (case co_get ops i s of
        (Inl e, s1) \<Rightarrow> (blankResp\<lparr>cr_err := Some e\<rparr>, s1)
      | (Inr m, s1) \<Rightarrow> (blankResp\<lparr>cr_machine := Some m\<rparr>, s1))"
| "serve ops other w (CDestroy i) s = (case co_destroy ops i s of (e, s1) \<Rightarrow> (blankResp\<lparr>cr_err := e\<rparr>, s1))"
| "serve ops other w (CRestart i b) s = (case co_restart ops i b s of (e, s1) \<Rightarrow> (blankResp\<lparr>cr_err := e\<rparr>, s1))"
| "serve ops other w (CBan i) s = (blankResp, co_ban ops i s)"
| "serve ops other w (CPrune uids) s = (case co_prune ops uids s of (e, s1) \<Rightarrow> (blankResp\<lparr>cr_err := e\<rparr>, s1))"
| "serve ops other w q s = (other w q, s)"

definition clientAfter :: "('s, 'f) cloud_ops \<Rightarrow> 'f surroundings \<Rightarrow> 's \<Rightarrow> 'f cloud_log \<Rightarrow> 's" where
  "clientAfter ops other s0 w = foldl (\<lambda>s x. snd (serve ops other [] (fst x) s)) s0 w"

definition clientCloud ::
  "('s, 'f) cloud_ops \<Rightarrow> 'f surroundings \<Rightarrow> 's \<Rightarrow> ('f cloud_req, 'f cloud_resp) service" where
  "clientCloud ops other s0 w q = fst (serve ops other w q (clientAfter ops other s0 w))"

text \<open>A log is of this cloud if every answer in it is the one the cloud gives at that point.\<close>

definition logOf :: "('q, 'r) service \<Rightarrow> ('q, 'r) log \<Rightarrow> bool" where
  "logOf srv w \<longleftrightarrow> (\<forall>n < length w. snd (w ! n) = srv (take n w) (fst (w ! n)))"

lemma logOf_Nil [simp]: "logOf srv []"
  by (simp add: logOf_def)

lemma logOf_snoc: "logOf srv (w @ [x]) \<longleftrightarrow> logOf srv w \<and> snd x = srv w (fst x)"
  by (auto simp: logOf_def nth_append less_Suc_eq)

lemma serve_state: "snd (serve ops other w q s) = snd (serve ops other w' q s)"
  by (cases q) (auto split: prod.splits sum.splits)

section \<open>The contract\<close>

locale cloud_client =
  fixes ops :: "('s, 'f) cloud_ops"
    and rented :: "'s \<Rightarrow> string set"
    and inv :: "'s \<Rightarrow> bool"
  assumes provision_ok: "inv s \<Longrightarrow> co_provision ops spec p px b s = (Inr i, s') \<Longrightarrow>
      i \<noteq> [] \<and> i \<notin> rented s \<and> rented s' = insert i (rented s) \<and> inv s'"
    and provision_err: "inv s \<Longrightarrow> co_provision ops spec p px b s = (Inl er, s') \<Longrightarrow> rented s' = rented s \<and> inv s'"
    and get_ok: "inv s \<Longrightarrow> co_get ops i s = (r, s') \<Longrightarrow>
      rented s' = rented s \<and> inv s' \<and> (case r of Inl _ \<Rightarrow> True | Inr m \<Rightarrow> mc_id m = i \<and> i \<in> rented s)"
    and destroy_ok: "inv s \<Longrightarrow> co_destroy ops i s = (e, s') \<Longrightarrow>
      inv s' \<and> rented s' \<subseteq> rented s \<and> rented s - {i} \<subseteq> rented s' \<and> (e = None \<longrightarrow> i \<notin> rented s')"
    and restart_ok: "inv s \<Longrightarrow> co_restart ops i pull s = (e, s') \<Longrightarrow> rented s' = rented s \<and> inv s'"
    and ban_ok: "inv s \<Longrightarrow> rented (co_ban ops i s) = rented s \<and> inv (co_ban ops i s)"
    and prune_ok: "inv s \<Longrightarrow> co_prune ops uids s = (e, s') \<Longrightarrow> rented s' \<subseteq> rented s \<and> inv s'"
begin

lemma serve_inv:
  assumes "inv s"
  shows "inv (snd (serve ops other w q s))"
proof (cases q)
  case (CProvision spec p px b)
  obtain r s' where r: "co_provision ops spec p px b s = (r, s')" by fastforce
  then have "inv s'"
    using provision_ok [OF assms, of spec p px b] provision_err [OF assms, of spec p px b] by (cases r) auto
  with r CProvision show ?thesis by (cases r) simp_all
next
  case (CGet i)
  obtain r s' where r: "co_get ops i s = (r, s')" by fastforce
  with get_ok [OF assms r] CGet show ?thesis by (cases r) simp_all
next
  case (CDestroy i)
  obtain x s' where r: "co_destroy ops i s = (x, s')" by fastforce
  with destroy_ok [OF assms r] CDestroy show ?thesis by simp
next
  case (CRestart i b)
  obtain x s' where r: "co_restart ops i b s = (x, s')" by fastforce
  with restart_ok [OF assms r] CRestart show ?thesis by simp
next
  case (CPrune uids)
  obtain x s' where r: "co_prune ops uids s = (x, s')" by fastforce
  with prune_ok [OF assms r] CPrune show ?thesis by simp
qed (simp_all add: assms ban_ok)

lemma clientAfter_inv: "inv s0 \<Longrightarrow> inv (clientAfter ops other s0 w)"
  unfolding clientAfter_def by (induction w arbitrary: s0) (simp_all add: serve_inv)

lemma clientAfter_snoc:
  "clientAfter ops other s0 (w @ [x]) = snd (serve ops other w (fst x) (clientAfter ops other s0 w))"
  by (simp add: clientAfter_def serve_state [of ops other "[]" _ _ w])

text \<open>A machine is known under the identifier it was asked for.\<close>

lemma client_get:
  "inv s0 \<Longrightarrow> cr_machine (clientCloud ops other s0 w (CGet i)) = Some m \<Longrightarrow> mc_id m = i"
  using get_ok [OF clientAfter_inv, of s0 i other w]
  by (auto simp: clientCloud_def blankResp_def split: prod.splits sum.splits)

text \<open>One request, as the accounting by the log sees it: nothing is rented that it misses.\<close>

lemma serve_rent:
  assumes "inv s"
  shows "rented (snd (serve ops other w q s)) \<subseteq> rent (rented s) (q, fst (serve ops other w q s)) \<union>
    (case q of CDestroy i \<Rightarrow> if cr_err (fst (serve ops other w q s)) = None then {} else {i} | _ \<Rightarrow> {})"
proof (cases q)
  case (CProvision spec p px b)
  show ?thesis
  proof (cases "co_provision ops spec p px b s")
    case (Pair r s')
    show ?thesis
    proof (cases r)
      case (Inl e)
      with provision_err [OF assms, of spec p px b e s'] Pair CProvision show ?thesis by (simp add: blankResp_def)
    next
      case (Inr i)
      with provision_ok [OF assms, of spec p px b i s'] Pair CProvision show ?thesis by (simp add: blankResp_def)
    qed
  qed
next
  case (CGet i)
  then show ?thesis using get_ok [OF assms, of i] by (auto split: prod.split sum.split)
next
  case (CDestroy i)
  obtain e s' where "co_destroy ops i s = (e, s')" by fastforce
  with destroy_ok [OF assms this] CDestroy show ?thesis by (auto simp: blankResp_def)
next
  case (CRestart i b)
  then show ?thesis using restart_ok [OF assms, of i b] by (auto split: prod.split)
next
  case (CBan i)
  then show ?thesis using ban_ok [OF assms] by auto
next
  case (CPrune uids)
  then show ?thesis using prune_ok [OF assms, of uids] by (auto split: prod.split)
qed simp_all

text \<open>Destructions that the client refused.\<close>

definition refused :: "'f cloud_log \<Rightarrow> string set" where
  "refused w = {i. \<exists>r. (CDestroy i, r) \<in> set w \<and> cr_err r \<noteq> None}"

text \<open>What is rented at the client is rented by the log, except for what it refused to destroy.\<close>

lemma accounting:
  assumes "inv s0" "logOf (clientCloud ops other s0) w"
  shows "rented (clientAfter ops other s0 w) \<subseteq> foldl rent (rented s0) w \<union> refused w"
  using assms(2)
proof (induction w rule: rev_induct)
  case Nil
  then show ?case by (simp add: clientAfter_def)
next
  case (snoc x w)
  let ?s = "clientAfter ops other s0 w"
  have ih: "rented ?s \<subseteq> foldl rent (rented s0) w \<union> refused w" and ans: "snd x = fst (serve ops other w (fst x) ?s)"
    using snoc by (simp_all add: logOf_snoc clientCloud_def)
  have mono: "rent A y \<subseteq> rent B y \<union> C" if "A \<subseteq> B \<union> C" for A B C :: "string set" and y :: "'f cloud_req \<times> 'f cloud_resp"
    using that by (cases "fst y"; cases y) auto
  have grow: "refused w \<subseteq> refused (w @ [x])" by (auto simp: refused_def)
  have "rented (snd (serve ops other w (fst x) ?s)) \<subseteq> rent (rented ?s) x \<union> refused (w @ [x])"
    using serve_rent [OF clientAfter_inv [OF assms(1), of other w], of other w "fst x"] ans
    by (cases x; cases "fst x") (auto simp: refused_def split: if_splits)
  moreover have "rent (rented ?s) x \<subseteq> rent (foldl rent (rented s0) w) x \<union> refused w" by (rule mono [OF ih])
  ultimately show ?case using grow by (auto simp: clientAfter_snoc)
qed

end

section \<open>The mock client keeps the contract\<close>

definition mockOps :: "'f mock_env \<Rightarrow> ('f mock_state, 'f) cloud_ops" where
  "mockOps env =
     \<lparr>co_provision = (\<lambda>spec p px b s. mock_SelectAndProvisionMachine env spec px s),
      co_get = (\<lambda>i s. (mock_GetMachine i s, s)), co_destroy = mock_DestroyMachine, co_restart = mock_RestartMachine,
      co_ban = (\<lambda>i s. s), co_prune = mock_PruneDanglingMachines\<rparr>"

text \<open>Machines are known under their own identifier, and no identifier is ahead of the counter.\<close>

definition mock_inv :: "'f mock_state \<Rightarrow> bool" where
  "mock_inv s \<longleftrightarrow> (\<forall>i m. mk_machines s i = Some m \<longrightarrow> mc_id m = i \<and> (\<exists>n \<le> mk_counter s. i = itoa n))"

lemma itoa_nonempty [simp]: "itoa n \<noteq> []"
  by (simp add: itoa_def)

lemma mock_provision_cases:
  assumes "mock_SelectAndProvisionMachine env spec px s = (r, s')"
  obtains (ok) x where "r = Inr (itoa (mk_counter s + 1))" "mk_counter s' = mk_counter s + 1"
      "mk_machines s' = (mk_machines s)(itoa (mk_counter s + 1) \<mapsto> mock_machine env x (mk_counter s + 1))"
  | (err) e where "r = Inl e" "mk_machines s' = mk_machines s" "mk_counter s \<le> mk_counter s'"
proof (cases "mock_GetRentalCandidates env spec")
  case Nil
  with assms have "r = Inl (ErrNew ''no candidates match spec'')" "s' = s"
    by (auto simp: mock_SelectAndProvisionMachine_def)
  then show thesis using err by simp
next
  case (Cons y ys)
  let ?n = "mk_counter s + 1"
  have run: "mock_ProvisionMachine env (of_offerID y # map of_offerID ys) px s = (r, s')"
    using assms Cons by (simp add: mock_SelectAndProvisionMachine_def)
  show thesis
  proof (cases "lookupOffer (of_offerID y)")
    case None
    with run show thesis using err by (auto simp: mock_ProvisionMachine_def)
  next
    case (Some x)
    let ?dir = "''/tmp/gpu-provider/pod-'' @ itoa ?n"
    show thesis
    proof (cases "me_mkdirErr env ?dir = None \<and> me_writeErr env (?dir @ ''/wireproxy.tpl'') = None")
      case True
      with run Some show thesis using ok [of x] by (auto simp: mock_ProvisionMachine_def Let_def)
    next
      case False
      with run Some show thesis using err by (auto simp: mock_ProvisionMachine_def Let_def split: option.splits)
    qed
  qed
qed

lemma mock_inv_fresh: "mock_inv s \<Longrightarrow> mk_machines s (itoa (mk_counter s + 1)) = None"
proof (rule ccontr)
  assume inv: "mock_inv s" and "mk_machines s (itoa (mk_counter s + 1)) \<noteq> None"
  then obtain n where "n \<le> mk_counter s" "itoa (mk_counter s + 1) = itoa n" unfolding mock_inv_def by blast
  then show False by simp
qed

lemma mock_inv_mono:
  "mock_inv s \<Longrightarrow> mk_machines s' \<subseteq>\<^sub>m mk_machines s \<Longrightarrow> mk_counter s \<le> mk_counter s' \<Longrightarrow> mock_inv s'"
  unfolding mock_inv_def map_le_def by (metis domI order_trans)

interpretation mock: cloud_client "mockOps env" "\<lambda>s. dom (mk_machines s)" mock_inv for env :: "'f mock_env"
proof
  fix spec :: "'f machine_spec" and p px b i s s'
  assume inv: "mock_inv s" and run: "co_provision (mockOps env) spec p px b s = (Inr i, s')"
  from run have "mock_SelectAndProvisionMachine env spec px s = (Inr i, s')" by (simp add: mockOps_def)
  then show "i \<noteq> [] \<and> i \<notin> dom (mk_machines s) \<and> dom (mk_machines s') = insert i (dom (mk_machines s)) \<and> mock_inv s'"
  proof (cases rule: mock_provision_cases)
    case (ok x)
    then have i: "i = itoa (mk_counter s + 1)" by simp
    have "mock_inv s'"
      unfolding mock_inv_def
    proof (intro allI impI)
      fix j m
      assume "mk_machines s' j = Some m"
      then have "j = i \<and> m = mock_machine env x (mk_counter s + 1) \<or> mk_machines s j = Some m"
        unfolding ok(3) i by (simp split: if_splits)
      then consider "j = i" "m = mock_machine env x (mk_counter s + 1)" | "mk_machines s j = Some m" by blast
      then show "mc_id m = j \<and> (\<exists>n \<le> mk_counter s'. j = itoa n)"
      proof cases
        case 1
        moreover have "\<exists>n \<le> mk_counter s'. i = itoa n"
          using ok(2) i by (intro exI [of _ "mk_counter s + 1"]) simp
        ultimately show ?thesis using i by (simp add: mock_machine_def)
      next
        case 2
        with inv obtain n where "mc_id m = j" "n \<le> mk_counter s" "j = itoa n" unfolding mock_inv_def by blast
        moreover have "n \<le> mk_counter s'" using \<open>n \<le> mk_counter s\<close> ok(2) by simp
        ultimately show ?thesis by blast
      qed
    qed
    with ok(3) i mock_inv_fresh [OF inv] show ?thesis by auto
  qed simp
next
  fix spec :: "'f machine_spec" and p px b er s s'
  assume inv: "mock_inv s" and run: "co_provision (mockOps env) spec p px b s = (Inl er, s')"
  from run have "mock_SelectAndProvisionMachine env spec px s = (Inl er, s')" by (simp add: mockOps_def)
  then show "dom (mk_machines s') = dom (mk_machines s) \<and> mock_inv s'"
    by (cases rule: mock_provision_cases) (auto intro: mock_inv_mono [OF inv])
next
  fix i r s s'
  assume "mock_inv s" "co_get (mockOps env) i s = (r, s')"
  then show "dom (mk_machines s') = dom (mk_machines s) \<and> mock_inv s' \<and>
      (case r of Inl _ \<Rightarrow> True | Inr m \<Rightarrow> mc_id m = i \<and> i \<in> dom (mk_machines s))"
    by (auto simp: mockOps_def mock_GetMachine_def mock_inv_def split: option.splits)
next
  fix i e s s'
  assume "mock_inv s" "co_destroy (mockOps env) i s = (e, s')"
  then show "mock_inv s' \<and> dom (mk_machines s') \<subseteq> dom (mk_machines s) \<and>
      dom (mk_machines s) - {i} \<subseteq> dom (mk_machines s') \<and> (e = None \<longrightarrow> i \<notin> dom (mk_machines s'))"
    by (auto simp: mockOps_def mock_DestroyMachine_def mock_inv_def split: if_splits)
qed (auto simp: mockOps_def mock_RestartMachine_def mock_PruneDanglingMachines_def)

lemma mock_inv_new: "mock_inv NewMockClient"
  by (simp add: mock_inv_def NewMockClient_def)

text \<open>The accounting of the provider is right about the mock cloud: in every exchange with it, each machine
  the client still keeps was rented by a request of the log that no later request destroyed, and a
  machine it returns is the one that was asked for.\<close>

theorem mock_machines_accounted:
  assumes "logOf (clientCloud (mockOps env) other NewMockClient) w"
  shows "dom (mk_machines (clientAfter (mockOps env) other NewMockClient w)) \<subseteq> foldl rent {} w \<and>
    (\<forall>m i. cr_machine (clientCloud (mockOps env) other NewMockClient w (CGet i)) = Some m \<longrightarrow> mc_id m = i)"
proof -
  have none: "mock.refused w = {}"
  proof -
    have "cr_err r = None" if "(CDestroy i, r) \<in> set w" for i r
    proof -
      obtain n where n: "n < length w" "w ! n = (CDestroy i, r)" using \<open>(CDestroy i, r) \<in> set w\<close> by (auto simp: in_set_conv_nth)
      with assms have "r = clientCloud (mockOps env) other NewMockClient (take n w) (CDestroy i)"
        by (auto simp: logOf_def)
      then show ?thesis by (simp add: clientCloud_def mockOps_def mock_DestroyMachine_def blankResp_def)
    qed
    then show ?thesis by (auto simp: mock.refused_def)
  qed
  have "dom (mk_machines (NewMockClient :: 'a mock_state)) = {}" by (simp add: NewMockClient_def)
  then have "dom (mk_machines (clientAfter (mockOps env) other NewMockClient w)) \<subseteq> foldl rent {} w"
    using mock.accounting [OF mock_inv_new assms] none by simp
  then show ?thesis using mock.client_get [OF mock_inv_new] by blast
qed

text \<open>What the mock client rents: it succeeds exactly when some entry of the inventory matches the
  specification and the directory and file of the new machine can be written; it then takes the first
  matching entry in inventory order, and the machine is running at once under a new identifier.\<close>

theorem mock_rents_first_match:
  "case filter (\<lambda>x. matchesSpec (me_floats env) x spec) inventory of
     [] \<Rightarrow> (\<exists>e. mock_SelectAndProvisionMachine env spec px s = (Inl e, s))
   | x # _ \<Rightarrow>
       (let n = mk_counter s + 1; dir = ''/tmp/gpu-provider/pod-'' @ itoa n
        in if me_mkdirErr env dir = None \<and> me_writeErr env (dir @ ''/wireproxy.tpl'') = None
           then \<exists>s'. mock_SelectAndProvisionMachine env spec px s = (Inr (itoa n), s') \<and>
                  mock_GetMachine (itoa n) s' = Inr (mock_machine env x n) \<and>
                  mc_state (mock_machine env x n) = MachineRunning
           else \<exists>e s'. mock_SelectAndProvisionMachine env spec px s = (Inl e, s') \<and> mk_machines s' = mk_machines s)"
proof (cases "filter (\<lambda>x. matchesSpec (me_floats env) x spec) inventory")
  case Nil
  then show ?thesis by (simp add: mock_SelectAndProvisionMachine_def mock_GetRentalCandidates_def)
next
  case (Cons x xs)
  have ids: "list_all (\<lambda>y. lookupOffer (itoa (mo_id y)) = Some y) inventory" by code_simp
  have "x \<in> set (filter (\<lambda>x. matchesSpec (me_floats env) x spec) inventory)" unfolding Cons by simp
  then have "lookupOffer (itoa (mo_id x)) = Some x" using ids by (simp add: list_all_iff)
  with Cons show ?thesis
    by (auto simp: mock_SelectAndProvisionMachine_def mock_GetRentalCandidates_def mock_ProvisionMachine_def
        mock_GetMachine_def mock_machine_def Let_def split: option.split)
qed

end
