(* ===== verification/Config.thy ===== *)
theory Config
  imports VastClient RunPodClient
begin

text \<open>
  The configuration of the provider (\<open>internal/provider/anex/config.go\<close>): its structure, the
  environment variables that override it, the defaults and the validation of \<open>LoadConfig\<close>, the
  durations, the tunnel keys, and the choice of the cloud client that \<open>NewGlamiProvider\<close> makes from it.

  YAML decoding and the parsing of Kubernetes quantities are arguments. \<open>time.ParseDuration\<close> is
  modelled byte by byte, with the one multiplication of floats in it as an argument; its error
  messages do not quote the text. Keys and values are ASCII.
\<close>

section \<open>The structure\<close>

record cloud_config =
  cc_active :: string
  cc_vastKey :: string
  cc_runpodKey :: string

record cdn_config =
  cd_agentURL :: string
  cd_wireproxyURL :: string
  cd_wstunnelURL :: string
  cd_promtailURL :: string
  cd_initURL :: string
  cd_authToken :: string

record bans_file =
  bf_enable :: bool
  bf_path :: string
  bf_timeout :: string

record provisioning_config =
  pn_maxRetries :: int
  pn_startupTimeout :: string
  pn_statusReportTimeout :: string
  pn_bansFile :: bans_file

record taint_config =
  tc_key :: string
  tc_operator :: string
  tc_effect :: string
  tc_value :: string

record node_config =
  nc_nodeName :: string
  nc_podLimit :: string
  nc_cpu :: string
  nc_memory :: string
  nc_labels :: "(string, string) fmap"
  nc_taints :: "taint_config list"

record gateway_config =
  gc_enable :: bool
  gc_configPath :: string

record promtail_client =
  pl_url :: string
  pl_basicAuth :: "(string \<times> string) option"

record promtail_config =
  pf_enable :: bool
  pf_clients :: "promtail_client list"

record tls_config =
  tl_certPath :: string
  tl_keyPath :: string
  tl_caCertPath :: string

record provider_config =
  cf_logLevel :: string
  cf_clusterUUID :: string
  cf_cloud :: cloud_config
  cf_cdn :: cdn_config
  cf_provisioning :: provisioning_config
  cf_node :: node_config
  cf_gateway :: gateway_config
  cf_promtail :: promtail_config
  cf_tls :: tls_config
  cf_agentAuthToken :: string

section \<open>Environment variables\<close>

fun snakeFrom :: "char option \<Rightarrow> string \<Rightarrow> string" where
  "snakeFrom prev [] = []"
| "snakeFrom prev (c # cs) =
     (case prev of
        None \<Rightarrow> []
      | Some p \<Rightarrow> if isUpperChar c \<and> isLowerChar p then ''_'' else []) @ c # snakeFrom (Some c) cs"

definition camelToSnake :: "string \<Rightarrow> string" where
  "camelToSnake s = toUpper (snakeFrom None s)"

definition getEnvWithPrefix :: "string list \<Rightarrow> string" where
  "getEnvWithPrefix keys = joinWith ''_'' (map camelToSnake keys)"

text \<open>One override: a variable that is set and not empty replaces the value.\<close>

definition override :: "(string \<Rightarrow> string) \<Rightarrow> string list \<Rightarrow> (string \<Rightarrow> 'c \<Rightarrow> 'c) \<Rightarrow> 'c \<Rightarrow> 'c" where
  "override getenv keys put c =
     (let val = getenv (getEnvWithPrefix keys) in if val \<noteq> [] then put val c else c)"

definition overrideCDN :: "(string \<Rightarrow> string) \<Rightarrow> cdn_config \<Rightarrow> cdn_config" where
  "overrideCDN ge c =
     override ge [''cdn'', ''anexAuthToken''] (\<lambda>v c. c\<lparr>cd_authToken := v\<rparr>)
     (override ge [''cdn'', ''initURL''] (\<lambda>v c. c\<lparr>cd_initURL := v\<rparr>)
     (override ge [''cdn'', ''promtailURL''] (\<lambda>v c. c\<lparr>cd_promtailURL := v\<rparr>)
     (override ge [''cdn'', ''wstunnelURL''] (\<lambda>v c. c\<lparr>cd_wstunnelURL := v\<rparr>)
     (override ge [''cdn'', ''wireproxyURL''] (\<lambda>v c. c\<lparr>cd_wireproxyURL := v\<rparr>)
     (override ge [''cdn'', ''agentURL''] (\<lambda>v c. c\<lparr>cd_agentURL := v\<rparr>) c)))))"

definition overrideBans :: "(string \<Rightarrow> string) \<Rightarrow> bans_file \<Rightarrow> bans_file" where
  "overrideBans ge c =
     override ge [''provisioning'', ''machineBansStore'', ''localFile'', ''timeout''] (\<lambda>v c. c\<lparr>bf_timeout := v\<rparr>)
     (override ge [''provisioning'', ''machineBansStore'', ''localFile'', ''path''] (\<lambda>v c. c\<lparr>bf_path := v\<rparr>)
     (override ge [''provisioning'', ''machineBansStore'', ''localFile'', ''enable''] (\<lambda>v c. c\<lparr>bf_enable := (v = ''true'')\<rparr>) c))"

definition overrideProvisioning :: "(string \<Rightarrow> string) \<Rightarrow> provisioning_config \<Rightarrow> provisioning_config" where
  "overrideProvisioning ge c0 =
     (let c1 = override ge [''provisioning'', ''maxRetries'']
            (\<lambda>v c. case sscanfInt v of None \<Rightarrow> c | Some n \<Rightarrow> c\<lparr>pn_maxRetries := n\<rparr>) c0;
          c2 = override ge [''provisioning'', ''startupTimeout''] (\<lambda>v c. c\<lparr>pn_startupTimeout := v\<rparr>) c1;
          c3 = override ge [''provisioning'', ''statusReportTimeout''] (\<lambda>v c. c\<lparr>pn_statusReportTimeout := v\<rparr>) c2
      in c3\<lparr>pn_bansFile := overrideBans ge (pn_bansFile c3)\<rparr>)"

definition overrideNode :: "(string \<Rightarrow> string) \<Rightarrow> node_config \<Rightarrow> node_config" where
  "overrideNode ge c =
     override ge [''virtualNode'', ''memory''] (\<lambda>v c. c\<lparr>nc_memory := v\<rparr>)
     (override ge [''virtualNode'', ''cpu''] (\<lambda>v c. c\<lparr>nc_cpu := v\<rparr>)
     (override ge [''virtualNode'', ''pods''] (\<lambda>v c. c\<lparr>nc_podLimit := v\<rparr>)
     (override ge [''virtualNode'', ''nodeName''] (\<lambda>v c. c\<lparr>nc_nodeName := v\<rparr>) c)))"

definition overrideCloud :: "(string \<Rightarrow> string) \<Rightarrow> cloud_config \<Rightarrow> cloud_config" where
  "overrideCloud ge c =
     override ge [''cloudProvider'', ''runPod'', ''apiKey''] (\<lambda>v c. c\<lparr>cc_runpodKey := v\<rparr>)
     (override ge [''cloudProvider'', ''vastAI'', ''apiKey''] (\<lambda>v c. c\<lparr>cc_vastKey := v\<rparr>)
     (override ge [''cloudProvider'', ''active''] (\<lambda>v c. c\<lparr>cc_active := v\<rparr>) c))"

definition overrideTLS :: "(string \<Rightarrow> string) \<Rightarrow> tls_config \<Rightarrow> tls_config" where
  "overrideTLS ge c =
     override ge [''tls'', ''caCertPath''] (\<lambda>v c. c\<lparr>tl_caCertPath := v\<rparr>)
     (override ge [''tls'', ''keyPath''] (\<lambda>v c. c\<lparr>tl_keyPath := v\<rparr>)
     (override ge [''tls'', ''certPath''] (\<lambda>v c. c\<lparr>tl_certPath := v\<rparr>) c))"

definition overrideGateway :: "(string \<Rightarrow> string) \<Rightarrow> gateway_config \<Rightarrow> gateway_config" where
  "overrideGateway ge c =
     override ge [''gateway'', ''configPath''] (\<lambda>v c. c\<lparr>gc_configPath := v\<rparr>)
     (override ge [''gateway'', ''enable''] (\<lambda>v c. c\<lparr>gc_enable := (v = ''true'')\<rparr>) c)"

definition overrideWithEnv :: "(string \<Rightarrow> string) \<Rightarrow> provider_config \<Rightarrow> provider_config" where
  "overrideWithEnv ge c0 =
     (let c1 = override ge [''logLevel''] (\<lambda>v c. c\<lparr>cf_logLevel := v\<rparr>) c0;
          c2 = override ge [''cluster'', ''clusterUUID''] (\<lambda>v c. c\<lparr>cf_clusterUUID := v\<rparr>) c1;
          c3 = c2\<lparr>cf_cloud := overrideCloud ge (cf_cloud c2), cf_cdn := overrideCDN ge (cf_cdn c2),
                 cf_provisioning := overrideProvisioning ge (cf_provisioning c2),
                 cf_node := overrideNode ge (cf_node c2), cf_gateway := overrideGateway ge (cf_gateway c2)\<rparr>;
          c4 = override ge [''promtail'', ''enable''] (\<lambda>v c. c\<lparr>cf_promtail := (cf_promtail c)\<lparr>pf_enable := (v = ''true'')\<rparr>\<rparr>) c3;
          c5 = c4\<lparr>cf_tls := overrideTLS ge (cf_tls c4)\<rparr>
      in override ge [''agentAuthToken''] (\<lambda>v c. c\<lparr>cf_agentAuthToken := v\<rparr>) c5)"

section \<open>Durations\<close>

definition limit63 :: nat where "limit63 = 9223372036854775808"

text \<open>\<open>leadingInt\<close>: the number in front, and the rest; \<open>None\<close> on overflow.\<close>

fun leadingInt :: "nat \<Rightarrow> string \<Rightarrow> (nat \<times> string) option" where
  "leadingInt x [] = Some (x, [])"
| "leadingInt x (c # cs) =
     (if \<not> isDigit c then Some (x, c # cs)
      else if x > limit63 div 10 then None
      else (let y = x * 10 + digitVal c in if y > limit63 then None else leadingInt y cs))"

text \<open>\<open>leadingFraction\<close>: the digits as a number, how many of them count, and the rest; digits that would
  overflow are ignored.\<close>

fun leadingFraction :: "nat \<Rightarrow> nat \<Rightarrow> bool \<Rightarrow> string \<Rightarrow> nat \<times> nat \<times> string" where
  "leadingFraction x k over [] = (x, k, [])"
| "leadingFraction x k over (c # cs) =
     (if \<not> isDigit c then (x, k, c # cs)
      else if over \<or> x > (limit63 - 1) div 10 then leadingFraction x k True cs
      else (let y = x * 10 + digitVal c
            in if y > limit63 then leadingFraction x k True cs else leadingFraction y (Suc k) False cs))"

definition durationUnits :: "(string \<times> nat) list" where
  "durationUnits = [(''ns'', 1), (''us'', 1000), ([CHR 0xC2, CHR 0xB5, CHR ''s''], 1000),
     ([CHR 0xCE, CHR 0xBC, CHR ''s''], 1000), (''ms'', 1000000), (''s'', 1000000000),
     (''m'', 60000000000), (''h'', 3600000000000)]"

definition isUnitChar :: "char \<Rightarrow> bool" where
  "isUnitChar c \<longleftrightarrow> c \<noteq> CHR ''.'' \<and> \<not> isDigit c"

lemma leadingInt_length: "leadingInt x s = Some (v, r) \<Longrightarrow> length r \<le> length s"
  by (induction x s rule: leadingInt.induct) (auto split: if_splits simp: Let_def)

lemma leadingFraction_length: "leadingFraction x k b s = (f, n, r) \<Longrightarrow> length r \<le> length s"
  by (induction x k b s rule: leadingFraction.induct) (auto split: if_splits simp: Let_def)

text \<open>One number with its unit: what it adds, and the rest of the text. \<open>fr f u k\<close> is the integer part
  of the float product of the fraction \<open>f / 10 ^ k\<close> and the unit \<open>u\<close>.\<close>

definition durationPart :: "(nat \<Rightarrow> nat \<Rightarrow> nat \<Rightarrow> nat) \<Rightarrow> string \<Rightarrow> (nat \<times> string) option" where
  "durationPart fr s =
     (if s = [] \<or> \<not> (hd s = CHR ''.'' \<or> isDigit (hd s)) then None
      else
        (case leadingInt 0 s of
           None \<Rightarrow> None
         | Some (v, s1) \<Rightarrow>
             (let pre = (length s1 \<noteq> length s);
                  (f, k, s2) = (if s1 \<noteq> [] \<and> hd s1 = CHR ''.'' then leadingFraction 0 0 False (tl s1) else (0, 0, s1));
                  post = (s1 \<noteq> [] \<and> hd s1 = CHR ''.'' \<and> length s2 \<noteq> length (tl s1));
                  u = takeWhile isUnitChar s2
              in if \<not> pre \<and> \<not> post then None
                 else if u = [] then None
                 else
                   (case map_of durationUnits u of
                      None \<Rightarrow> None
                    | Some unit \<Rightarrow>
                        if v > limit63 div unit then None
                        else
                          (let w = v * unit + (if f > 0 then fr f unit k else 0)
                           in if f > 0 \<and> w > limit63 then None else Some (w, dropWhile isUnitChar s2))))))"

lemma durationPart_length:
  assumes "durationPart fr s = Some (w, r)"
  shows "length r < length s"
proof -
  obtain v s1 where 1: "leadingInt 0 s = Some (v, s1)" "s \<noteq> []"
    using assms by (auto simp: durationPart_def split: if_splits option.splits)
  define t where "t = (if s1 \<noteq> [] \<and> hd s1 = CHR ''.'' then leadingFraction 0 0 False (tl s1) else (0, 0, s1))"
  obtain f k s2 where 2: "t = (f, k, s2)" by (metis prod_cases3)
  have le: "length s2 \<le> length s1"
    using 2 leadingFraction_length [of 0 0 False "tl s1" f k s2] by (auto simp: t_def split: if_splits)
  have u: "takeWhile isUnitChar s2 \<noteq> []" "r = dropWhile isUnitChar s2"
    using assms 1 2 by (auto simp: durationPart_def Let_def t_def [symmetric] split: if_splits option.splits)
  have "length s2 = length (takeWhile isUnitChar s2) + length (dropWhile isUnitChar s2)"
    by (metis length_append takeWhile_dropWhile_id)
  with u le leadingInt_length [OF 1(1)] show ?thesis by (cases "takeWhile isUnitChar s2") auto
qed

function durationSum :: "(nat \<Rightarrow> nat \<Rightarrow> nat \<Rightarrow> nat) \<Rightarrow> nat \<Rightarrow> string \<Rightarrow> nat option" where
  "durationSum fr d s =
     (if s = [] then Some d
      else (case durationPart fr s of
              None \<Rightarrow> None
            | Some (w, r) \<Rightarrow> if d + w > limit63 then None else durationSum fr (d + w) r))"
  by pat_completeness auto
termination by (relation "measure (\<lambda>(f, d, s). length s)") (auto dest: durationPart_length)

declare durationSum.simps [simp del]

definition invalidDuration :: "string \<Rightarrow> go_error" where
  "invalidDuration s = ErrNew (''time: invalid duration '' @ s)"

text \<open>\<open>time.ParseDuration\<close>, in nanoseconds.\<close>

definition parseGoDuration :: "(nat \<Rightarrow> nat \<Rightarrow> nat \<Rightarrow> nat) \<Rightarrow> string \<Rightarrow> int result" where
  "parseGoDuration fr orig =
     (let neg = (orig \<noteq> [] \<and> hd orig = CHR ''-'');
          s = (if orig \<noteq> [] \<and> (hd orig = CHR ''-'' \<or> hd orig = CHR ''+'') then tl orig else orig)
      in if s = ''0'' then Inr 0
         else if s = [] then Inl (invalidDuration orig)
         else
           (case durationSum fr 0 s of
              None \<Rightarrow> Inl (invalidDuration orig)
            | Some d \<Rightarrow>
                if neg then Inr (- int d)
                else if d > limit63 - 1 then Inl (invalidDuration orig)
                else Inr (int d)))"

definition nsPerHour :: int where "nsPerHour = 3600000000000"
definition nsPerMinute :: int where "nsPerMinute = 60000000000"
definition nsPerSecond :: int where "nsPerSecond = 1000000000"

text \<open>A number of days is what can be scanned before the final \<open>d\<close>; the product wraps.\<close>

definition parseDuration :: "(nat \<Rightarrow> nat \<Rightarrow> nat \<Rightarrow> nat) \<Rightarrow> string \<Rightarrow> int result" where
  "parseDuration fr s =
     (if s = [] then Inr 0
      else if hasSuffix s ''d'' then
        (case sscanfInt (trimSuffix s ''d'') of
           None \<Rightarrow> Inl (ErrNew ''expected integer'')
         | Some d \<Rightarrow> Inr (wrap64 (wrap64 (d * 24) * nsPerHour)))
      else parseGoDuration fr s)"

text \<open>\<open>uint64(duration.Seconds())\<close> goes through a float: the argument \<open>secs\<close>.\<close>

definition GetMachineBanDuration ::
  "(nat \<Rightarrow> nat \<Rightarrow> nat \<Rightarrow> nat) \<Rightarrow> (int \<Rightarrow> int) \<Rightarrow> provider_config \<Rightarrow> int" where
  "GetMachineBanDuration fr secs c =
     (let b = pn_bansFile (cf_provisioning c)
      in if \<not> bf_enable b then 0
         else (case parseDuration fr (bf_timeout b) of Inl _ \<Rightarrow> 0 | Inr d \<Rightarrow> secs d))"

definition GetStartupTimeout :: "(nat \<Rightarrow> nat \<Rightarrow> nat \<Rightarrow> nat) \<Rightarrow> provider_config \<Rightarrow> int" where
  "GetStartupTimeout fr c =
     (let t = pn_startupTimeout (cf_provisioning c)
      in if t = [] then 10 * nsPerMinute
         else (case parseDuration fr t of Inl _ \<Rightarrow> 10 * nsPerMinute | Inr d \<Rightarrow> d))"

definition GetStatusReportTimeout :: "(nat \<Rightarrow> nat \<Rightarrow> nat \<Rightarrow> nat) \<Rightarrow> provider_config \<Rightarrow> int" where
  "GetStatusReportTimeout fr c =
     (let t = pn_statusReportTimeout (cf_provisioning c)
      in if t = [] then 5 * nsPerMinute
         else (case parseDuration fr t of Inl _ \<Rightarrow> 5 * nsPerMinute | Inr d \<Rightarrow> d))"

section \<open>Loading\<close>

record config_env =
  ce_readFile :: "string \<Rightarrow> string result"
  ce_decode :: "string \<Rightarrow> provider_config \<times> go_error option"
  ce_getenv :: "string \<Rightarrow> string"
  ce_quantity :: "string \<Rightarrow> go_error option"
  ce_keys :: "string \<Rightarrow> (proxy_server \<times> proxy_client list) result"

definition orDefault :: "string \<Rightarrow> string \<Rightarrow> string" where
  "orDefault d s = (if s = [] then d else s)"

definition provisioningDefaults :: "provisioning_config \<Rightarrow> provisioning_config" where
  "provisioningDefaults p =
     \<lparr>pn_maxRetries = (if pn_maxRetries p = 0 then 10 else pn_maxRetries p),
      pn_startupTimeout = orDefault ''10m'' (pn_startupTimeout p),
      pn_statusReportTimeout = orDefault ''2m'' (pn_statusReportTimeout p),
      pn_bansFile = (pn_bansFile p)\<lparr>bf_path := orDefault ''/tmp/machine-bans.json'' (bf_path (pn_bansFile p)),
                                    bf_timeout := orDefault ''1d'' (bf_timeout (pn_bansFile p))\<rparr>\<rparr>"

definition nodeDefaults :: "node_config \<Rightarrow> node_config" where
  "nodeDefaults n =
     n\<lparr>nc_nodeName := orDefault ''virtual-node'' (nc_nodeName n), nc_cpu := orDefault ''20'' (nc_cpu n),
       nc_memory := orDefault ''100Gi'' (nc_memory n), nc_podLimit := orDefault ''20'' (nc_podLimit n)\<rparr>"

definition applyDefaults :: "provider_config \<Rightarrow> provider_config" where
  "applyDefaults c =
     c\<lparr>cf_logLevel := orDefault ''info'' (cf_logLevel c), cf_gateway := (cf_gateway c)\<lparr>gc_enable := True\<rparr>,
       cf_provisioning := provisioningDefaults (cf_provisioning c), cf_node := nodeDefaults (cf_node c)\<rparr>"

text \<open>The warnings about binaries that cannot be downloaded, by the fields they name.\<close>

definition cdnWarnings :: "provider_config \<Rightarrow> string list" where
  "cdnWarnings c =
     (let active = toLower (cc_active (cf_cloud c)); d = cf_cdn c
      in if (active = ''vastai'' \<or> active = ''runpod'') \<and> cd_authToken d = [] then
           (if cd_agentURL d = [] \<or> cd_wireproxyURL d = [] then [''agentURL or wireproxyURL''] else []) @
           (if pf_enable (cf_promtail c) \<and> cd_promtailURL d = [] then [''promtailURL''] else []) @
           (if active = ''runpod'' \<and> (cd_wstunnelURL d = [] \<or> cd_initURL d = []) then [''wstunnelURL or initURL''] else [])
         else [])"

definition validateConfig :: "config_env \<Rightarrow> provider_config \<Rightarrow> go_error option" where
  "validateConfig env c =
     (if toLower (cc_active (cf_cloud c)) \<notin> {''vastai'', ''runpod'', ''mock''} then
        Some (ErrNew (''cloudProvider.active must be one of: vastai, runpod, mock (got '' @ cc_active (cf_cloud c) @ '')''))
      else if ce_quantity env (nc_cpu (cf_node c)) \<noteq> None then Some (ErrNew (''invalid CPU value '' @ nc_cpu (cf_node c)))
      else if ce_quantity env (nc_memory (cf_node c)) \<noteq> None then Some (ErrNew (''invalid memory value '' @ nc_memory (cf_node c)))
      else if ce_quantity env (nc_podLimit (cf_node c)) \<noteq> None then Some (ErrNew (''invalid pods value '' @ nc_podLimit (cf_node c)))
      else if pf_enable (cf_promtail c) \<and> pf_clients (cf_promtail c) = [] then
        Some (ErrNew ''promtail.enable is true but promtail.clients list is empty'')
      else None)"

text \<open>The configuration is returned with an error too, as far as it was read. An unreadable file leaves
  the zero value, the argument \<open>zero\<close>.\<close>

definition LoadConfig :: "config_env \<Rightarrow> provider_config \<Rightarrow> string \<Rightarrow> provider_config \<times> go_error option" where
  "LoadConfig env zero path =
     (case ce_readFile env path of
        Inl e \<Rightarrow> (zero, Some e)
      | Inr data \<Rightarrow>
          (case ce_decode env data of
             (c, Some e) \<Rightarrow> (c, Some e)
           | (c, None) \<Rightarrow>
               (let c1 = applyDefaults (overrideWithEnv (ce_getenv env) c) in (c1, validateConfig env c1))))"

definition loadProxyConfig :: "config_env \<Rightarrow> provider_config \<Rightarrow> (proxy_server \<times> proxy_client list) result" where
  "loadProxyConfig env c =
     (let path = gc_configPath (cf_gateway c)
      in if path = [] then Inl (ErrNew ''proxy.configPath is required when proxy is enabled'')
         else (case ce_readFile env path of Inl e \<Rightarrow> Inl e | Inr data \<Rightarrow> ce_keys env data))"

section \<open>The cloud client\<close>

datatype cloud_choice =
    UseMock string string
  | UseRunPod string string string rp_urls
  | UseVast string string string string vast_urls bans_config

definition runpodURLs :: "cdn_config \<Rightarrow> rp_urls" where
  "runpodURLs d = \<lparr>ru_init = cd_initURL d, ru_agent = cd_agentURL d, ru_wireproxy = cd_wireproxyURL d,
     ru_wstunnel = cd_wstunnelURL d, ru_promtail = cd_promtailURL d, ru_token = cd_authToken d\<rparr>"

definition vastURLs :: "cdn_config \<Rightarrow> vast_urls" where
  "vastURLs d = \<lparr>vu_agent = cd_agentURL d, vu_wireproxy = cd_wireproxyURL d, vu_promtail = cd_promtailURL d, vu_token = cd_authToken d\<rparr>"

definition vastBans :: "(nat \<Rightarrow> nat \<Rightarrow> nat \<Rightarrow> nat) \<Rightarrow> (int \<Rightarrow> int) \<Rightarrow> provider_config \<Rightarrow> bans_config" where
  "vastBans fr secs c =
     (let b = pn_bansFile (cf_provisioning c)
      in \<lparr>bc_enable = bf_enable b, bc_path = bf_path b,
          bc_duration = wrap64 (wrap64 (GetMachineBanDuration fr secs c) * nsPerSecond)\<rparr>)"

definition chooseClient ::
  "(nat \<Rightarrow> nat \<Rightarrow> nat \<Rightarrow> nat) \<Rightarrow> (int \<Rightarrow> int) \<Rightarrow> provider_config \<Rightarrow> cloud_choice result" where
  "chooseClient fr secs c =
     (let active = toLower (cc_active (cf_cloud c)); uuid = cf_clusterUUID c; node = nc_nodeName (cf_node c)
      in if uuid = [] then Inl (ErrNew ''cluster.clusterUUID is not set in config'')
         else if active = ''mock'' then Inr (UseMock uuid node)
         else if active = ''runpod'' then Inr (UseRunPod (cc_runpodKey (cf_cloud c)) uuid node (runpodURLs (cf_cdn c)))
         else if active = ''vastai'' then
           Inr (UseVast ''https://console.vast.ai/api/v0'' (cc_vastKey (cf_cloud c)) uuid node (vastURLs (cf_cdn c))
             (vastBans fr secs c))
         else Inl (ErrNew (''unknown cloud provider: '' @ cc_active (cf_cloud c))))"

end
