(* ===== verification/ConfigFacts.thy ===== *)
theory ConfigFacts
  imports Config
begin

text \<open>
  What a configuration that is loaded without an error satisfies, which environment variable
  overrides which field, what durations in days and the machine bans amount to.
\<close>

section \<open>Environment variables\<close>

lemma env_names:
  "getEnvWithPrefix [''logLevel''] = ''LOG_LEVEL''"
  "getEnvWithPrefix [''cluster'', ''clusterUUID''] = ''CLUSTER_CLUSTER_UUID''"
  "getEnvWithPrefix [''cloudProvider'', ''active''] = ''CLOUD_PROVIDER_ACTIVE''"
  "getEnvWithPrefix [''cloudProvider'', ''vastAI'', ''apiKey''] = ''CLOUD_PROVIDER_VAST_AI_API_KEY''"
  "getEnvWithPrefix [''cloudProvider'', ''runPod'', ''apiKey''] = ''CLOUD_PROVIDER_RUN_POD_API_KEY''"
  "getEnvWithPrefix [''cdn'', ''agentURL''] = ''CDN_AGENT_URL''"
  "getEnvWithPrefix [''cdn'', ''wireproxyURL''] = ''CDN_WIREPROXY_URL''"
  "getEnvWithPrefix [''cdn'', ''wstunnelURL''] = ''CDN_WSTUNNEL_URL''"
  "getEnvWithPrefix [''cdn'', ''promtailURL''] = ''CDN_PROMTAIL_URL''"
  "getEnvWithPrefix [''cdn'', ''initURL''] = ''CDN_INIT_URL''"
  "getEnvWithPrefix [''cdn'', ''anexAuthToken''] = ''CDN_ANEX_AUTH_TOKEN''"
  "getEnvWithPrefix [''provisioning'', ''maxRetries''] = ''PROVISIONING_MAX_RETRIES''"
  "getEnvWithPrefix [''provisioning'', ''startupTimeout''] = ''PROVISIONING_STARTUP_TIMEOUT''"
  "getEnvWithPrefix [''provisioning'', ''statusReportTimeout''] = ''PROVISIONING_STATUS_REPORT_TIMEOUT''"
  "getEnvWithPrefix [''provisioning'', ''machineBansStore'', ''localFile'', ''enable''] =
     ''PROVISIONING_MACHINE_BANS_STORE_LOCAL_FILE_ENABLE''"
  "getEnvWithPrefix [''provisioning'', ''machineBansStore'', ''localFile'', ''path''] =
     ''PROVISIONING_MACHINE_BANS_STORE_LOCAL_FILE_PATH''"
  "getEnvWithPrefix [''provisioning'', ''machineBansStore'', ''localFile'', ''timeout''] =
     ''PROVISIONING_MACHINE_BANS_STORE_LOCAL_FILE_TIMEOUT''"
  "getEnvWithPrefix [''virtualNode'', ''nodeName''] = ''VIRTUAL_NODE_NODE_NAME''"
  "getEnvWithPrefix [''virtualNode'', ''pods''] = ''VIRTUAL_NODE_PODS''"
  "getEnvWithPrefix [''virtualNode'', ''cpu''] = ''VIRTUAL_NODE_CPU''"
  "getEnvWithPrefix [''virtualNode'', ''memory''] = ''VIRTUAL_NODE_MEMORY''"
  "getEnvWithPrefix [''gateway'', ''enable''] = ''GATEWAY_ENABLE''"
  "getEnvWithPrefix [''gateway'', ''configPath''] = ''GATEWAY_CONFIG_PATH''"
  "getEnvWithPrefix [''promtail'', ''enable''] = ''PROMTAIL_ENABLE''"
  "getEnvWithPrefix [''tls'', ''certPath''] = ''TLS_CERT_PATH''"
  "getEnvWithPrefix [''tls'', ''keyPath''] = ''TLS_KEY_PATH''"
  "getEnvWithPrefix [''tls'', ''caCertPath''] = ''TLS_CA_CERT_PATH''"
  "getEnvWithPrefix [''agentAuthToken''] = ''AGENT_AUTH_TOKEN''"
  by (simp_all add: getEnvWithPrefix_def camelToSnake_def toUpper_def toUpperChar_def isUpperChar_def isLowerChar_def char_of_def bit_0)

definition given :: "(string \<Rightarrow> string) \<Rightarrow> string \<Rightarrow> string \<Rightarrow> string" where
  "given ge name old = (if ge name = [] then old else ge name)"

definition givenFlag :: "(string \<Rightarrow> string) \<Rightarrow> string \<Rightarrow> bool \<Rightarrow> bool" where
  "givenFlag ge name old = (if ge name = [] then old else ge name = ''true'')"

lemma overrideCloud_fields: "overrideCloud ge c = c\<lparr>
    cc_active := given ge ''CLOUD_PROVIDER_ACTIVE'' (cc_active c),
    cc_vastKey := given ge ''CLOUD_PROVIDER_VAST_AI_API_KEY'' (cc_vastKey c),
    cc_runpodKey := given ge ''CLOUD_PROVIDER_RUN_POD_API_KEY'' (cc_runpodKey c)\<rparr>"
  by (cases c) (simp add: overrideCloud_def override_def env_names Let_def given_def)

lemma overrideCDN_fields: "overrideCDN ge c = c\<lparr>
    cd_agentURL := given ge ''CDN_AGENT_URL'' (cd_agentURL c),
    cd_wireproxyURL := given ge ''CDN_WIREPROXY_URL'' (cd_wireproxyURL c),
    cd_wstunnelURL := given ge ''CDN_WSTUNNEL_URL'' (cd_wstunnelURL c),
    cd_promtailURL := given ge ''CDN_PROMTAIL_URL'' (cd_promtailURL c),
    cd_initURL := given ge ''CDN_INIT_URL'' (cd_initURL c),
    cd_authToken := given ge ''CDN_ANEX_AUTH_TOKEN'' (cd_authToken c)\<rparr>"
  by (cases c) (simp add: overrideCDN_def override_def env_names Let_def given_def)

lemma overrideBans_fields: "overrideBans ge c = c\<lparr>
    bf_enable := givenFlag ge ''PROVISIONING_MACHINE_BANS_STORE_LOCAL_FILE_ENABLE'' (bf_enable c),
    bf_path := given ge ''PROVISIONING_MACHINE_BANS_STORE_LOCAL_FILE_PATH'' (bf_path c),
    bf_timeout := given ge ''PROVISIONING_MACHINE_BANS_STORE_LOCAL_FILE_TIMEOUT'' (bf_timeout c)\<rparr>"
  by (cases c) (simp add: overrideBans_def override_def env_names Let_def given_def givenFlag_def)

lemma sscanfInt_Nil [simp]: "sscanfInt [] = None"
  by (simp add: sscanfInt_def atoi_def)

lemma overrideProvisioning_fields: "overrideProvisioning ge c = c\<lparr>
    pn_maxRetries := (case sscanfInt (ge ''PROVISIONING_MAX_RETRIES'') of None \<Rightarrow> pn_maxRetries c | Some n \<Rightarrow> n),
    pn_startupTimeout := given ge ''PROVISIONING_STARTUP_TIMEOUT'' (pn_startupTimeout c),
    pn_statusReportTimeout := given ge ''PROVISIONING_STATUS_REPORT_TIMEOUT'' (pn_statusReportTimeout c),
    pn_bansFile := overrideBans ge (pn_bansFile c)\<rparr>"
  by (cases c) (simp add: overrideProvisioning_def override_def env_names Let_def given_def split: option.split)

lemma overrideNode_fields: "overrideNode ge c = c\<lparr>
    nc_nodeName := given ge ''VIRTUAL_NODE_NODE_NAME'' (nc_nodeName c),
    nc_podLimit := given ge ''VIRTUAL_NODE_PODS'' (nc_podLimit c),
    nc_cpu := given ge ''VIRTUAL_NODE_CPU'' (nc_cpu c),
    nc_memory := given ge ''VIRTUAL_NODE_MEMORY'' (nc_memory c)\<rparr>"
  by (cases c) (simp add: overrideNode_def override_def env_names Let_def given_def)

lemma overrideGateway_fields: "overrideGateway ge c = c\<lparr>
    gc_enable := givenFlag ge ''GATEWAY_ENABLE'' (gc_enable c),
    gc_configPath := given ge ''GATEWAY_CONFIG_PATH'' (gc_configPath c)\<rparr>"
  by (cases c) (simp add: overrideGateway_def override_def env_names Let_def given_def givenFlag_def)

lemma overrideTLS_fields: "overrideTLS ge c = c\<lparr>
    tl_certPath := given ge ''TLS_CERT_PATH'' (tl_certPath c),
    tl_keyPath := given ge ''TLS_KEY_PATH'' (tl_keyPath c),
    tl_caCertPath := given ge ''TLS_CA_CERT_PATH'' (tl_caCertPath c)\<rparr>"
  by (cases c) (simp add: overrideTLS_def override_def env_names Let_def given_def)

lemma override_top:
  "override ge [''logLevel''] (\<lambda>v c. c\<lparr>cf_logLevel := v\<rparr>) c = c\<lparr>cf_logLevel := given ge ''LOG_LEVEL'' (cf_logLevel c)\<rparr>"
  "override ge [''cluster'', ''clusterUUID''] (\<lambda>v c. c\<lparr>cf_clusterUUID := v\<rparr>) c =
     c\<lparr>cf_clusterUUID := given ge ''CLUSTER_CLUSTER_UUID'' (cf_clusterUUID c)\<rparr>"
  "override ge [''promtail'', ''enable''] (\<lambda>v c. c\<lparr>cf_promtail := (cf_promtail c)\<lparr>pf_enable := (v = ''true'')\<rparr>\<rparr>) c =
     c\<lparr>cf_promtail := (cf_promtail c)\<lparr>pf_enable := givenFlag ge ''PROMTAIL_ENABLE'' (pf_enable (cf_promtail c))\<rparr>\<rparr>"
  "override ge [''agentAuthToken''] (\<lambda>v c. c\<lparr>cf_agentAuthToken := v\<rparr>) c =
     c\<lparr>cf_agentAuthToken := given ge ''AGENT_AUTH_TOKEN'' (cf_agentAuthToken c)\<rparr>"
  by (simp_all add: override_def env_names Let_def given_def givenFlag_def)

lemmas override_fields = overrideCloud_fields overrideCDN_fields overrideBans_fields overrideProvisioning_fields
  overrideNode_fields overrideGateway_fields overrideTLS_fields

text \<open>Which environment variable overrides what: each variable replaces the one field it stands for
  when it is set to a non-empty value, a flag being set by the text \<open>true\<close> alone and the number of
  retries by a number only; no variable touches any other field. The pod limit is overridden by
  \<open>VIRTUAL_NODE_PODS\<close>, not by the name its key would give.\<close>

theorem environment_overrides:
  "overrideWithEnv ge c = c\<lparr>
     cf_logLevel := given ge ''LOG_LEVEL'' (cf_logLevel c),
     cf_clusterUUID := given ge ''CLUSTER_CLUSTER_UUID'' (cf_clusterUUID c),
     cf_cloud := (cf_cloud c)\<lparr>
       cc_active := given ge ''CLOUD_PROVIDER_ACTIVE'' (cc_active (cf_cloud c)),
       cc_vastKey := given ge ''CLOUD_PROVIDER_VAST_AI_API_KEY'' (cc_vastKey (cf_cloud c)),
       cc_runpodKey := given ge ''CLOUD_PROVIDER_RUN_POD_API_KEY'' (cc_runpodKey (cf_cloud c))\<rparr>,
     cf_cdn := (cf_cdn c)\<lparr>
       cd_agentURL := given ge ''CDN_AGENT_URL'' (cd_agentURL (cf_cdn c)),
       cd_wireproxyURL := given ge ''CDN_WIREPROXY_URL'' (cd_wireproxyURL (cf_cdn c)),
       cd_wstunnelURL := given ge ''CDN_WSTUNNEL_URL'' (cd_wstunnelURL (cf_cdn c)),
       cd_promtailURL := given ge ''CDN_PROMTAIL_URL'' (cd_promtailURL (cf_cdn c)),
       cd_initURL := given ge ''CDN_INIT_URL'' (cd_initURL (cf_cdn c)),
       cd_authToken := given ge ''CDN_ANEX_AUTH_TOKEN'' (cd_authToken (cf_cdn c))\<rparr>,
     cf_provisioning := (cf_provisioning c)\<lparr>
       pn_maxRetries := (case sscanfInt (ge ''PROVISIONING_MAX_RETRIES'') of
         None \<Rightarrow> pn_maxRetries (cf_provisioning c) | Some n \<Rightarrow> n),
       pn_startupTimeout := given ge ''PROVISIONING_STARTUP_TIMEOUT'' (pn_startupTimeout (cf_provisioning c)),
       pn_statusReportTimeout := given ge ''PROVISIONING_STATUS_REPORT_TIMEOUT'' (pn_statusReportTimeout (cf_provisioning c)),
       pn_bansFile := (pn_bansFile (cf_provisioning c))\<lparr>
         bf_enable := givenFlag ge ''PROVISIONING_MACHINE_BANS_STORE_LOCAL_FILE_ENABLE'' (bf_enable (pn_bansFile (cf_provisioning c))),
         bf_path := given ge ''PROVISIONING_MACHINE_BANS_STORE_LOCAL_FILE_PATH'' (bf_path (pn_bansFile (cf_provisioning c))),
         bf_timeout := given ge ''PROVISIONING_MACHINE_BANS_STORE_LOCAL_FILE_TIMEOUT'' (bf_timeout (pn_bansFile (cf_provisioning c)))\<rparr>\<rparr>,
     cf_node := (cf_node c)\<lparr>
       nc_nodeName := given ge ''VIRTUAL_NODE_NODE_NAME'' (nc_nodeName (cf_node c)),
       nc_podLimit := given ge ''VIRTUAL_NODE_PODS'' (nc_podLimit (cf_node c)),
       nc_cpu := given ge ''VIRTUAL_NODE_CPU'' (nc_cpu (cf_node c)),
       nc_memory := given ge ''VIRTUAL_NODE_MEMORY'' (nc_memory (cf_node c))\<rparr>,
     cf_gateway := (cf_gateway c)\<lparr>
       gc_enable := givenFlag ge ''GATEWAY_ENABLE'' (gc_enable (cf_gateway c)),
       gc_configPath := given ge ''GATEWAY_CONFIG_PATH'' (gc_configPath (cf_gateway c))\<rparr>,
     cf_promtail := (cf_promtail c)\<lparr>pf_enable := givenFlag ge ''PROMTAIL_ENABLE'' (pf_enable (cf_promtail c))\<rparr>,
     cf_tls := (cf_tls c)\<lparr>
       tl_certPath := given ge ''TLS_CERT_PATH'' (tl_certPath (cf_tls c)),
       tl_keyPath := given ge ''TLS_KEY_PATH'' (tl_keyPath (cf_tls c)),
       tl_caCertPath := given ge ''TLS_CA_CERT_PATH'' (tl_caCertPath (cf_tls c))\<rparr>,
     cf_agentAuthToken := given ge ''AGENT_AUTH_TOKEN'' (cf_agentAuthToken c)\<rparr>"
  by (rule provider_config.equality)
    (simp_all add: overrideWithEnv_def override_fields override_top Let_def cong: option.case_cong)

section \<open>Loading\<close>

lemma loaded_config_active:
  "LoadConfig env zero path = (c, None) \<Longrightarrow> toLower (cc_active (cf_cloud c)) \<in> {''vastai'', ''runpod'', ''mock''}"
  by (auto simp: LoadConfig_def validateConfig_def Let_def split: sum.splits prod.splits option.splits if_splits)

lemma loaded_config_chooses:
  "LoadConfig env zero path = (c, None) \<Longrightarrow> cf_clusterUUID c \<noteq> [] \<Longrightarrow> \<exists>choice. chooseClient fr secs c = Inr choice"
  by (drule loaded_config_active) (auto simp: chooseClient_def Let_def)

text \<open>A configuration that is loaded without an error is usable: the cloud provider is one of the three
  that exist, in any case of letters, so that a client is chosen whenever a cluster is named; the
  quantities of the node parse, promtail has a client if it is enabled, the gateway is enabled, and
  retries, timeouts, names and paths that have a default are not empty.\<close>

theorem loaded_config_valid:
  assumes "LoadConfig env zero path = (c, None)"
  shows "(cf_clusterUUID c \<noteq> [] \<longrightarrow> (\<exists>choice. chooseClient fr secs c = Inr choice)) \<and>
    toLower (cc_active (cf_cloud c)) \<in> {''vastai'', ''runpod'', ''mock''} \<and>
    ce_quantity env (nc_cpu (cf_node c)) = None \<and> ce_quantity env (nc_memory (cf_node c)) = None \<and>
    ce_quantity env (nc_podLimit (cf_node c)) = None \<and>
    (pf_enable (cf_promtail c) \<longrightarrow> pf_clients (cf_promtail c) \<noteq> []) \<and> gc_enable (cf_gateway c) \<and>
    pn_maxRetries (cf_provisioning c) \<noteq> 0 \<and> pn_startupTimeout (cf_provisioning c) \<noteq> [] \<and>
    pn_statusReportTimeout (cf_provisioning c) \<noteq> [] \<and> bf_path (pn_bansFile (cf_provisioning c)) \<noteq> [] \<and>
    bf_timeout (pn_bansFile (cf_provisioning c)) \<noteq> [] \<and> nc_nodeName (cf_node c) \<noteq> [] \<and> cf_logLevel c \<noteq> []"
proof -
  obtain c0 where c: "c = applyDefaults c0" and v: "validateConfig env c = None"
    using assms by (auto simp: LoadConfig_def Let_def split: sum.splits prod.splits option.splits)
  note loaded_config_active [OF assms] loaded_config_chooses [OF assms]
  moreover have "ce_quantity env (nc_cpu (cf_node c)) = None" "ce_quantity env (nc_memory (cf_node c)) = None"
    "ce_quantity env (nc_podLimit (cf_node c)) = None" "pf_enable (cf_promtail c) \<longrightarrow> pf_clients (cf_promtail c) \<noteq> []"
    using v by (auto simp: validateConfig_def split: if_splits)
  ultimately show ?thesis
    by (simp add: c applyDefaults_def provisioningDefaults_def nodeDefaults_def orDefault_def)
qed

definition exConfigEnv :: config_env where
  "exConfigEnv = \<lparr>ce_readFile = \<lambda>_. Inr [],
     ce_decode = \<lambda>_. (\<lparr>cf_logLevel = [], cf_clusterUUID = ''u'', cf_cloud = \<lparr>cc_active = ''VastAI'', cc_vastKey = [], cc_runpodKey = []\<rparr>,
        cf_cdn = \<lparr>cd_agentURL = [], cd_wireproxyURL = [], cd_wstunnelURL = [], cd_promtailURL = [], cd_initURL = [], cd_authToken = []\<rparr>,
        cf_provisioning = \<lparr>pn_maxRetries = 0, pn_startupTimeout = [], pn_statusReportTimeout = [],
          pn_bansFile = \<lparr>bf_enable = True, bf_path = [], bf_timeout = []\<rparr>\<rparr>,
        cf_node = \<lparr>nc_nodeName = [], nc_podLimit = [], nc_cpu = [], nc_memory = [], nc_labels = fmempty, nc_taints = []\<rparr>,
        cf_gateway = \<lparr>gc_enable = False, gc_configPath = []\<rparr>, cf_promtail = \<lparr>pf_enable = False, pf_clients = []\<rparr>,
        cf_tls = \<lparr>tl_certPath = [], tl_keyPath = [], tl_caCertPath = []\<rparr>, cf_agentAuthToken = []\<rparr>, None),
     ce_getenv = \<lambda>_. [], ce_quantity = \<lambda>_. None, ce_keys = \<lambda>_. Inl (ErrNew [])\<rparr>"

definition exConfig :: provider_config where
  "exConfig = fst (LoadConfig exConfigEnv (fst (ce_decode exConfigEnv [])) [])"

lemma toLower_VastAI: "toLower ''VastAI'' = ''vastai''"
  by code_simp

lemma exConfig_loads: "LoadConfig exConfigEnv (fst (ce_decode exConfigEnv [])) [] = (exConfig, None)"
  and exConfig_fields: "cc_active (cf_cloud exConfig) = ''VastAI''" "cf_clusterUUID exConfig = ''u''"
    "pn_bansFile (cf_provisioning exConfig) = \<lparr>bf_enable = True, bf_path = ''/tmp/machine-bans.json'', bf_timeout = ''1d''\<rparr>"
    "tl_certPath (cf_tls exConfig) = []"
proof -
  have e: "exConfig = applyDefaults (overrideWithEnv (\<lambda>_. []) (fst (ce_decode exConfigEnv [])))"
    by (simp add: exConfig_def LoadConfig_def exConfigEnv_def Let_def)
  show f: "cc_active (cf_cloud exConfig) = ''VastAI''" "cf_clusterUUID exConfig = ''u''"
    "pn_bansFile (cf_provisioning exConfig) = \<lparr>bf_enable = True, bf_path = ''/tmp/machine-bans.json'', bf_timeout = ''1d''\<rparr>"
    "tl_certPath (cf_tls exConfig) = []"
    by (simp_all add: e environment_overrides given_def givenFlag_def applyDefaults_def provisioningDefaults_def
        nodeDefaults_def orDefault_def exConfigEnv_def)
  have "pf_enable (cf_promtail exConfig) = False"
    by (simp add: e environment_overrides givenFlag_def applyDefaults_def exConfigEnv_def)
  moreover have q: "ce_quantity exConfigEnv x = None" "ce_readFile exConfigEnv p = Inr []" "ce_getenv exConfigEnv = (\<lambda>_. [])"
    "snd (ce_decode exConfigEnv []) = None" for x p
    by (simp_all add: exConfigEnv_def)
  ultimately have "validateConfig exConfigEnv exConfig = None"
    by (simp add: validateConfig_def f toLower_VastAI)
  then show "LoadConfig exConfigEnv (fst (ce_decode exConfigEnv [])) [] = (exConfig, None)"
    using q(4) by (cases "ce_decode exConfigEnv []") (simp add: LoadConfig_def e q(2,3) Let_def)
qed

theorem loaded_config_valid_witness:
  "\<exists>choice. chooseClient (\<lambda>_ _ _. 0) (\<lambda>d. d div nsPerSecond) exConfig = Inr choice"
proof (rule loaded_config_valid [OF exConfig_loads, THEN conjunct1, THEN mp])
  show "cf_clusterUUID exConfig \<noteq> []" by (simp add: exConfig_fields(2))
qed

section \<open>Durations\<close>

lemma wrap64_mod: "wrap64 a mod 18446744073709551616 = a mod 18446744073709551616"
  unfolding wrap64_def by (simp add: mod_diff_left_eq)

lemma wrap64_cong: "a mod 18446744073709551616 = b mod 18446744073709551616 \<Longrightarrow> wrap64 a = wrap64 b"
  unfolding wrap64_def by (subst (1 2) mod_add_left_eq [symmetric]) simp

lemma wrap64_mult: "wrap64 (wrap64 a * b) = wrap64 (a * b)"
proof (rule wrap64_cong)
  let ?M = "18446744073709551616 :: int"
  have "wrap64 a * b mod ?M = (wrap64 a mod ?M) * b mod ?M" by (rule mod_mult_left_eq [symmetric])
  also have "\<dots> = (a mod ?M) * b mod ?M" by (simp only: wrap64_mod)
  also have "\<dots> = a * b mod ?M" by (rule mod_mult_left_eq)
  finally show "wrap64 a * b mod ?M = a * b mod ?M" .
qed

definition nsPerDay :: int where "nsPerDay = 86400000000000"

lemma parse_days:
  assumes "n > 0" and "in_int64 n"
  shows "parseDuration fr (itoa n @ ''d'') = Inr (wrap64 (n * nsPerDay))"
proof -
  have "parseDuration fr (itoa n @ ''d'') = Inr (wrap64 (wrap64 (n * 24) * nsPerHour))"
    using sscanfInt_itoa [OF less_imp_le [OF assms(1)] assms(2)] by (simp add: parseDuration_def)
  also have "wrap64 (wrap64 (n * 24) * nsPerHour) = wrap64 (n * nsPerDay)"
    by (simp add: wrap64_mult nsPerHour_def nsPerDay_def mult.assoc mult.commute)
  finally show ?thesis .
qed

text \<open>A timeout in days: up to 106751 days it is what it says; from there on the product overflows,
  and the next 106752 numbers of days give a negative timeout, so that a start with one of them has
  timed out before it begins.\<close>

theorem day_timeouts:
  assumes "pn_startupTimeout (cf_provisioning c) = itoa n @ ''d''" and "0 < n" and "in_int64 n"
  shows "GetStartupTimeout fr c = wrap64 (n * nsPerDay) \<and>
    (n \<le> 106751 \<longrightarrow> GetStartupTimeout fr c = n * nsPerDay) \<and>
    (106751 < n \<and> n \<le> 213503 \<longrightarrow> GetStartupTimeout fr c < 0)"
proof -
  have t: "GetStartupTimeout fr c = wrap64 (n * nsPerDay)"
    using assms parse_days [OF assms(2,3)] by (simp add: GetStartupTimeout_def Let_def)
  moreover have "wrap64 (n * nsPerDay) = n * nsPerDay" if "n \<le> 106751"
    using that assms(2) by (intro wrap64_id) (simp add: in_int64_def nsPerDay_def)
  moreover have "wrap64 (n * nsPerDay) < 0" if "106751 < n" "n \<le> 213503"
  proof -
    have "(n * nsPerDay + 9223372036854775808) mod 18446744073709551616 =
        n * nsPerDay + 9223372036854775808 - 18446744073709551616"
      using that minus_mod_self2 [of "n * nsPerDay + 9223372036854775808" 18446744073709551616]
        mod_pos_pos_trivial [of "n * nsPerDay + 9223372036854775808 - 18446744073709551616" 18446744073709551616]
      by (simp add: nsPerDay_def)
    with that show ?thesis by (simp add: wrap64_def nsPerDay_def)
  qed
  ultimately show ?thesis by simp
qed

theorem day_timeouts_witness:
  "GetStartupTimeout fr (exConfig\<lparr>cf_provisioning := (cf_provisioning exConfig)\<lparr>pn_startupTimeout := itoa 200000 @ ''d''\<rparr>\<rparr>) < 0"
  using day_timeouts [of "exConfig\<lparr>cf_provisioning := (cf_provisioning exConfig)\<lparr>pn_startupTimeout := itoa 200000 @ ''d''\<rparr>\<rparr>" 200000 fr]
  by (simp add: in_int64_def)

section \<open>Bans\<close>

text \<open>How long a ban of the Vast.ai client made from a configuration lasts: for a timeout in days, that
  many days, up to the overflow; for a timeout that cannot be parsed, and for one below a second,
  for ever, since the client takes no duration as no end.\<close>

theorem ban_duration_effect:
  assumes "chooseClient fr secs c = Inr (UseVast url key uuid node urls bans)"
    and "bf_enable (pn_bansFile (cf_provisioning c))" and "ve_bans env = bans" and "fmlookup known m = Some t"
    and "\<And>k. 0 \<le> k \<Longrightarrow> k < 9007199254740992 \<Longrightarrow> secs (k * nsPerSecond) = k"
  shows "(\<forall>n. bf_timeout (pn_bansFile (cf_provisioning c)) = itoa n @ ''d'' \<and> 0 < n \<and> n \<le> 106751 \<longrightarrow>
      (bannedNow env now known m \<longleftrightarrow> now - t \<le> n * nsPerDay)) \<and>
    (is_err (parseDuration fr (bf_timeout (pn_bansFile (cf_provisioning c)))) \<longrightarrow> bannedNow env now known m) \<and>
    (\<forall>d. parseDuration fr (bf_timeout (pn_bansFile (cf_provisioning c))) = Inr d \<and> secs d = 0 \<longrightarrow> bannedNow env now known m)"
proof -
  let ?b = "pn_bansFile (cf_provisioning c)"
  let ?d = "wrap64 (wrap64 (GetMachineBanDuration fr secs c) * nsPerSecond)"
  have "bans = vastBans fr secs c"
    using assms(1) by (auto simp: chooseClient_def Let_def split: if_splits)
  then have dur: "bc_duration (ve_bans env) = ?d" by (simp add: assms(3) vastBans_def Let_def)
  have ban: "bannedNow env now known m \<longleftrightarrow> \<not> (?d > 0 \<and> now - t > ?d)"
    by (simp add: bannedNow_def assms(4) dur)
  have zero: "GetMachineBanDuration fr secs c = 0 \<Longrightarrow> bannedNow env now known m"
    by (simp add: ban wrap64_def)
  have days: "?d = n * nsPerDay" if n: "bf_timeout ?b = itoa n @ ''d''" "0 < n" "n \<le> 106751" for n
  proof -
    have "in_int64 n" using n by (simp add: in_int64_def)
    moreover have "wrap64 (n * nsPerDay) = (n * 86400) * nsPerSecond"
      using n by (subst wrap64_id) (simp_all add: in_int64_def nsPerDay_def nsPerSecond_def)
    ultimately have "parseDuration fr (bf_timeout ?b) = Inr ((n * 86400) * nsPerSecond)"
      using parse_days [OF n(2), of fr] n(1) by simp
    moreover have "secs ((n * 86400) * nsPerSecond) = n * 86400" using n by (intro assms(5)) simp_all
    ultimately have "GetMachineBanDuration fr secs c = n * 86400"
      using assms(2) by (simp add: GetMachineBanDuration_def Let_def)
    then show ?thesis
      using n by (simp add: wrap64_id in_int64_def nsPerSecond_def nsPerDay_def)
  qed
  show ?thesis
  proof (intro conjI allI impI)
    show "bannedNow env now known m \<longleftrightarrow> now - t \<le> n * nsPerDay"
      if "bf_timeout ?b = itoa n @ ''d'' \<and> 0 < n \<and> n \<le> 106751" for n
      using that days [of n] by (auto simp: ban nsPerDay_def)
    show "bannedNow env now known m" if "is_err (parseDuration fr (bf_timeout ?b))"
      using that by (intro zero) (auto simp: GetMachineBanDuration_def Let_def is_err_def split: sum.splits)
    show "bannedNow env now known m" if "parseDuration fr (bf_timeout ?b) = Inr d \<and> secs d = 0" for d
      using that by (intro zero) (simp add: GetMachineBanDuration_def Let_def)
  qed
qed

end
