(* ===== verification/CloudExamples.thy ===== *)
theory CloudExamples
  imports VastFacts RunPodFacts CloudClient VirtualPodFacts ConfigFacts
begin

text \<open>
  Small accounts at the cloud providers, on which the properties of the clients are instantiated.
\<close>

section \<open>Vast.ai\<close>

text \<open>An API that answers every request with success: three machines in one page, one of them of another
  cluster, one offer, and contract 7 for who asks.\<close>

definition exVastMachine :: "int \<Rightarrow> string \<Rightarrow> int vast_machine" where
  "exVastMachine i label =
     \<lparr>va_id = i, va_machineID = 40 + i, va_publicIP = [], va_actualStatus = ''running'', va_statusMessage = [],
      va_label = label,
      va_stats = \<lparr>ms_gpuName = [], ms_gpuVRAM = 0, ms_gpuTFLOPS = 0, ms_gpuMemoryBandwidth = 0, ms_cpuCores = 0,
        ms_cpuRam = 0, ms_pricePerHr = 0\<rparr>\<rparr>"

definition exVast :: "int vast_env" where
  "exVast =
     \<lparr>ve_http = (\<lambda>w q. Inr \<lparr>rr_status = 200, rr_body = Inr []\<rparr>), ve_marshal = (\<lambda>v. None),
      ve_baseURL = ''api/v0'', ve_auth = [], ve_cluster = ''c'', ve_node = ''n'',
      ve_urls = \<lparr>vu_agent = [], vu_wireproxy = [], vu_promtail = [], vu_token = []\<rparr>,
      ve_bans = \<lparr>bc_enable = True, bc_path = ''bans'', bc_duration = 0\<rparr>,
      ve_decodeList = (\<lambda>t. Inr ([exVastMachine 1 ''vk:c:n:u1'', exVastMachine 2 ''vk:c:n:u2'',
        exVastMachine 3 ''vk:other:n:u3''], [])),
      ve_decodeMachine = (\<lambda>t. Inr None), ve_decodeOffers = (\<lambda>t. Inr [\<lparr>bo_id = 5, bo_dph = 3, bo_machineID = 45\<rparr>]),
      ve_decodeProvision = (\<lambda>t. Inr (True, 7)), ve_decodeGeneric = (\<lambda>t. Inr (True, [])),
      ve_sortOffers = sort_key bo_dph, ve_less = (<), ve_parseFloat = (\<lambda>t. None), ve_zero = 0, ve_hundred = 100,
      ve_ctxErr = (\<lambda>w. None), ve_now = (\<lambda>w. 0), ve_aws = \<lparr>aw_config = (\<lambda>r. None), aw_tokens = (\<lambda>r. Inr [])\<rparr>,
      ve_encodeBans = (\<lambda>m. []), ve_decodeBans = (\<lambda>t. Inr fmempty), ve_fileErr = (\<lambda>f. None)\<rparr>"

lemma exVast_page:
  "\<exists>x. vreq exVast (ve_decodeList exVast) ([], []) ''GET'' url None w =
     ((200, ([exVastMachine 1 ''vk:c:n:u1'', exVastMachine 2 ''vk:c:n:u2'', exVastMachine 3 ''vk:other:n:u3''], []), None), w @ [x])"
  by (simp add: vreq_def MakeRequest_sent exVast_def readResponse_def)

lemma exVast_own:
  "map (ownMachine exVast) [exVastMachine 1 ''vk:c:n:u1'', exVastMachine 2 ''vk:c:n:u2'', exVastMachine 3 ''vk:other:n:u3'']
     = [True, True, False]"
  by code_simp

lemma exVast_list:
  "\<exists>s1. listMachinesInternal exVast s =
     Some (Inr [exVastMachine 1 ''vk:c:n:u1'', exVastMachine 2 ''vk:c:n:u2''], s1)"
proof -
  obtain x where "vreq exVast (ve_decodeList exVast) ([], []) ''GET'' (pageURL exVast []) None (vt_log s) =
     ((200, ([exVastMachine 1 ''vk:c:n:u1'', exVastMachine 2 ''vk:c:n:u2'', exVastMachine 3 ''vk:other:n:u3''], []), None),
      vt_log s @ [x])" using exVast_page by blast
  then have "listPages exVast [] [] (vt_log s) = Some (Inr [exVastMachine 1 ''vk:c:n:u1'', exVastMachine 2 ''vk:c:n:u2'',
      exVastMachine 3 ''vk:other:n:u3''], vt_log s @ [x])"
    by (subst listPages.simps) simp
  then show ?thesis using exVast_own by (auto simp: listMachinesInternal_def)
qed

theorem vast_prune_exact_witness:
  "\<exists>s1 ext. PruneDanglingMachines exVast [''u1''] (newVastClient Map.empty) = Some (None, s1\<lparr>vt_log := vt_log s1 @ ext\<rparr>) \<and>
     map asRequest ext = [(''DELETE'', instanceURL exVast (itoa 2))]"
proof -
  obtain s1 where l: "listMachinesInternal exVast (newVastClient Map.empty) =
      Some (Inr [exVastMachine 1 ''vk:c:n:u1'', exVastMachine 2 ''vk:c:n:u2''], s1)" using exVast_list by blast
  have label: "buildMachineLabel exVast u = ''vk:c:n:'' @ u" "legalLabel exVast ''u2''" for u
    by (simp_all add: buildMachineLabel_def legalLabel_def exVast_def)
  then have "filter (vanished exVast [''u1'']) [exVastMachine 1 ''vk:c:n:u1'', exVastMachine 2 ''vk:c:n:u2''] =
      [exVastMachine 2 ''vk:c:n:u2'']"
    by (auto simp: vanished_def exVastMachine_def)
  moreover have "va_id (exVastMachine 2 t) = 2" for t by (simp add: exVastMachine_def)
  moreover obtain ext where "PruneDanglingMachines exVast [''u1''] (newVastClient Map.empty) =
      Some (None, s1\<lparr>vt_log := vt_log s1 @ ext\<rparr>)"
    "map asRequest ext = map (\<lambda>m. (''DELETE'', instanceURL exVast (itoa (va_id m))))
       (filter (vanished exVast [''u1'']) [exVastMachine 1 ''vk:c:n:u1'', exVastMachine 2 ''vk:c:n:u2''])"
    using vast_prune_exact [OF l, of "[''u1'']"] by blast
  ultimately show ?thesis by (intro exI [of _ s1] exI [of _ ext]) simp
qed


text \<open>The only offer is not banned and is rented.\<close>

lemma exVast_candidates:
  "\<exists>w1. GetRentalCandidates exVast emptySpec w = (Inr [\<lparr>of_offerID = itoa 5, of_machineID = itoa 45\<rparr>], w1)"
  by (simp add: GetRentalCandidates_def vreq_def MakeRequest_sent exVast_def readResponse_def tooExpensive_def
      sortCandidates_def emptySpec_def noBounds_def)


text \<open>One machine is banned, and a new client reads the ban from the file.\<close>

definition exBans :: "(string, int) fmap" where
  "exBans = fmupd ''45'' 0 fmempty"

definition exBansEnv :: "int vast_env" where
  "exBansEnv = exVast\<lparr>ve_decodeBans := (\<lambda>t. Inr exBans)\<rparr>"

definition exVastStart :: "int vast_state" where
  "exVastStart = newVastClient Map.empty"

theorem ban_is_durable_witness:
  "vt_bans (snd (LoadMachineBansFromFile exBansEnv
     (newVastClient (vt_files (BanMachine exBansEnv ''45'' exVastStart))))) = exBans \<and>
   bannedNow exBansEnv 1000 exBans ''45''"
proof -
  have e: "bc_enable (ve_bans exBansEnv)" "ve_fileErr exBansEnv f = None" "bc_duration (ve_bans exBansEnv) = 0"
    "0 = ve_now exBansEnv (vt_log exVastStart)" for f
    by (simp_all add: exBansEnv_def exVast_def)
  have d: "ve_decodeBans exBansEnv (ve_encodeBans exBansEnv (fmupd ''45'' 0 (vt_bans exVastStart))) =
      Inr (fmupd ''45'' 0 (vt_bans exVastStart))"
    by (simp add: exBansEnv_def exBans_def exVastStart_def newVastClient_def)
  have "fst (persistMachineBansToFile exBansEnv
      (exVastStart\<lparr>vt_bans := fmupd ''45'' 0 (vt_bans exVastStart)\<rparr>)) = None"
    using e(1,2) by (simp add: persistMachineBansToFile_def Let_def)
  moreover have "fmupd ''45'' 0 (vt_bans exVastStart) = exBans" by (simp add: exBans_def exVastStart_def newVastClient_def)
  ultimately show ?thesis
    using ban_is_durable [OF e(1) d e(2) e(4) refl] e(3) by simp
qed

section \<open>RunPod\<close>

definition exPodResponse :: "string \<Rightarrow> string \<Rightarrow> int pod_response" where
  "exPodResponse i name = \<lparr>pr_id = i, pr_name = name, pr_desiredStatus = ''RUNNING'', pr_publicIP = [], pr_machineID = [],
     pr_costPerHr = 0, pr_gpuName = [], pr_vcpuCount = 0, pr_memoryInGb = 0\<rparr>"

definition exFloats :: "int float_ops" where
  "exFloats = \<lparr>fo_cents = (\<lambda>c. c), fo_times = (*), fo_less = (<), fo_scan = (\<lambda>t. 1)\<rparr>"

definition exRunPod :: "int rp_env" where
  "exRunPod =
     \<lparr>re_http = (\<lambda>w q. Inr \<lparr>rr_status = 200, rr_body = Inr []\<rparr>), re_marshal = (\<lambda>v. None), re_auth = [],
      re_cluster = ''c'', re_node = ''n'',
      re_urls = \<lparr>ru_init = [], ru_agent = [], ru_wireproxy = [], ru_wstunnel = [], ru_promtail = [], ru_token = []\<rparr>,
      re_floats = exFloats, re_zero = 0, re_decodePod = (\<lambda>t. Inl (ErrNew ''none'')),
      re_decodePods = (\<lambda>t. Inr [exPodResponse ''p1'' ''vk:c:n:u1'', exPodResponse ''p2'' ''vk:c:n:u2'']),
      re_decodeCreated = (\<lambda>t. Inr ''p9''), re_decodeAuth = (\<lambda>t. Inl (ErrNew ''none'')),
      re_decodeAuths = (\<lambda>t. Inr [\<lparr>ra_id = ''a2'', ra_name = ''anex-c-n-u2''\<rparr>]), re_decodeEmpty = (\<lambda>t. Inr ()),
      re_health = (\<lambda>w a. None), re_aws = \<lparr>aw_config = (\<lambda>r. None), aw_tokens = (\<lambda>r. Inr [])\<rparr>\<rparr>"


text \<open>A specification that names only a device RunPod does not know: the query has no device list.\<close>

definition exUnknownGPU :: "int machine_spec" where
  "exUnknownGPU = emptySpec\<lparr>sp_gpuNames := [''H100'']\<rparr>"

theorem runpod_devices_witness:
  "\<exists>q warnings. BuildProvisionQuery exFloats exUnknownGPU = Some (Inr q, warnings) \<and> fmlookup q ''gpuTypeIds'' = None"
proof -
  have "\<not> noCuda exFloats exUnknownGPU" "queryCount exUnknownGPU = 1"
    by (simp_all add: noCuda_def exUnknownGPU_def emptySpec_def noBounds_def queryCount_def)
  then obtain r warnings where r: "BuildProvisionQuery exFloats exUnknownGPU = Some (r, warnings)"
    using runpod_query_failures [of exFloats exUnknownGPU] by (cases "BuildProvisionQuery exFloats exUnknownGPU") auto
  moreover obtain q where q: "r = Inr q"
    using r \<open>\<not> noCuda exFloats exUnknownGPU\<close> by (auto simp: query_form)
  moreover have "\<not> deviceAllowed exFloats exUnknownGPU n" for n
  proof -
    have "map_of (pricesOf c) ''H100'' = None" for c by (simp add: pricesOf_def same_prices securePrices_def)
    then show ?thesis by (auto simp: deviceAllowed_def exUnknownGPU_def emptySpec_def split: option.splits)
  qed
  ultimately have "Collect (deviceAllowed exFloats exUnknownGPU) = {}"
    "BuildProvisionQuery exFloats exUnknownGPU = Some (Inr q, warnings)" by auto
  with runpod_devices [OF this(2)] show ?thesis by auto
qed

section \<open>Mock\<close>

definition exMock :: "int mock_env" where
  "exMock = \<lparr>me_floats = \<lparr>mf_int = (\<lambda>x. x), mf_cents = (\<lambda>x. x), mf_less = (<)\<rparr>, me_zero = 0, me_mkdirErr = (\<lambda>d. None),
     me_writeErr = (\<lambda>f. None)\<rparr>"

definition exMockCloud :: "(int cloud_req, int cloud_resp) service" where
  "exMockCloud = clientCloud (mockOps exMock) (\<lambda>w q. blankResp) NewMockClient"

text \<open>One machine is rented and another is not asked for.\<close>

definition exMockLog :: "int cloud_log" where
  "exMockLog = [(CProvision emptySpec exCrashPod zeroProxy False,
     exMockCloud [] (CProvision emptySpec exCrashPod zeroProxy False))]"

theorem mock_machines_accounted_witness:
  "dom (mk_machines (clientAfter (mockOps exMock) (\<lambda>w q. blankResp) NewMockClient exMockLog)) \<subseteq> foldl rent {} exMockLog"
  using mock_machines_accounted [of exMock "\<lambda>w q. blankResp" exMockLog]
  by (simp add: logOf_def exMockLog_def exMockCloud_def)

section \<open>The client of a configuration\<close>

definition exDayBans :: bans_config where
  "exDayBans = vastBans (\<lambda>_ _ _. 0) (\<lambda>d. d div nsPerSecond) exConfig"

theorem ban_duration_effect_witness:
  "bannedNow (exVast\<lparr>ve_bans := exDayBans\<rparr>) nsPerDay (fmupd ''m'' 0 fmempty) ''m'' \<and>
   \<not> bannedNow (exVast\<lparr>ve_bans := exDayBans\<rparr>) (nsPerDay + 1) (fmupd ''m'' 0 fmempty) ''m''"
proof -
  let ?secs = "\<lambda>d. d div nsPerSecond"
  have choice: "chooseClient (\<lambda>_ _ _. 0) ?secs exConfig = Inr (UseVast ''https://console.vast.ai/api/v0''
      (cc_vastKey (cf_cloud exConfig)) ''u'' (nc_nodeName (cf_node exConfig)) (vastURLs (cf_cdn exConfig)) exDayBans)"
    by (simp add: chooseClient_def Let_def exConfig_fields toLower_VastAI exDayBans_def)
  have day: "bf_timeout (pn_bansFile (cf_provisioning exConfig)) = itoa 1 @ ''d'' \<and> 0 < (1 :: int) \<and> (1 :: int) \<le> 106751"
    by (simp add: exConfig_fields itoa_def natDigits.simps [of "Suc 0"] digitChar_def char_of_def bit_0 bit_Suc)
  have "bannedNow (exVast\<lparr>ve_bans := exDayBans\<rparr>) now (fmupd ''m'' 0 fmempty) ''m'' \<longleftrightarrow> now - 0 \<le> 1 * nsPerDay" for now
  proof (rule ban_duration_effect [OF choice, THEN conjunct1, rule_format, OF _ _ _ _ day])
    show "?secs (k * nsPerSecond) = k" for k by (simp add: nsPerSecond_def)
  qed (simp_all add: exConfig_fields)
  then show ?thesis by simp
qed

end
