(* ===== verification/AgentLogs.thy ===== *)
theory AgentLogs
  imports Wireproxy "HOL-Library.Multiset"
begin

text \<open>
  The log files of the container agent (\<open>internal/agent/logging.go\<close>, the log handler of
  \<open>internal/agent/server.go\<close>): the logger with its mutex, the goroutine that copies the output of a
  process line by line, and what a client of \<open>/logs\<close> receives.

  The mutex is not reentrant: an operation that locks it while it is held never returns, which is
  the result \<open>None\<close>. Files are a finite map from paths to contents; what the operating system
  answers to each operation (errors, the bytes a write takes, modification times) is an argument.
  Names are the ones the agent uses, without glob characters.
\<close>

section \<open>The logger\<close>

definition DefaultLogDir :: string where "DefaultLogDir = ''/var/log/agent''"
definition DefaultMaxSize :: int where "DefaultMaxSize = 10 * 1024 * 1024"
definition DefaultMaxFiles :: int where "DefaultMaxFiles = 5"

type_synonym log_files = "(string, string) fmap"

record log_os =
  lo_mkdir :: "string \<Rightarrow> go_error option"
  lo_open :: "string \<Rightarrow> go_error option"
  lo_write :: "string \<Rightarrow> string \<Rightarrow> nat \<times> go_error option"
  lo_close :: "string \<Rightarrow> go_error option"
  lo_mtime :: "string \<Rightarrow> int result"
  lo_remove :: "string \<Rightarrow> go_error option"

record logger =
  lg_dir :: string
  lg_prefix :: string
  lg_maxSize :: int
  lg_maxFiles :: int
  lg_locked :: bool
  lg_file :: "string option"
  lg_size :: int

definition logPath :: "logger \<Rightarrow> string" where
  "logPath l = lg_dir l @ ''/'' @ lg_prefix l @ ''.log''"

text \<open>\<open>filepath.Glob(dir/prefix-*.log)\<close>.\<close>

definition isRotated :: "logger \<Rightarrow> string \<Rightarrow> bool" where
  "isRotated l path \<longleftrightarrow>
     (let p = lg_dir l @ ''/'' @ lg_prefix l @ ''-''; rest = trimPrefix path p
      in hasPrefix path p \<and> hasSuffix rest ''.log'' \<and> CHR ''/'' \<notin> set rest)"

text \<open>The exchange sort of the code: the inner loop swaps whenever a later element is older than the
  one at the position it fills, and so moves the oldest of the rest to that position.\<close>

fun exchangeInner :: "int \<times> string \<Rightarrow> (int \<times> string) list \<Rightarrow> (int \<times> string) \<times> (int \<times> string) list" where
  "exchangeInner x [] = (x, [])"
| "exchangeInner x (y # ys) =
     (if fst x > fst y then (case exchangeInner y ys of (m, zs) \<Rightarrow> (m, x # zs))
      else (case exchangeInner x ys of (m, zs) \<Rightarrow> (m, y # zs)))"

lemma length_exchangeInner [simp]: "length (snd (exchangeInner x ys)) = length ys"
  by (induction x ys rule: exchangeInner.induct) (auto split: prod.split)

function exchangeSort :: "(int \<times> string) list \<Rightarrow> (int \<times> string) list" where
  "exchangeSort [] = []"
| "exchangeSort (x # xs) =
     fst (exchangeInner x xs) # exchangeSort (snd (exchangeInner x xs))"
  by pat_completeness auto
termination by (relation "measure length") auto

definition statted :: "log_os \<Rightarrow> string list \<Rightarrow> (int \<times> string) list" where
  "statted os paths = List.map_filter (\<lambda>p. case lo_mtime os p of Inl _ \<Rightarrow> None | Inr t \<Rightarrow> Some (t, p)) paths"

definition removeFile :: "log_os \<Rightarrow> log_files \<Rightarrow> string \<Rightarrow> log_files" where
  "removeFile os fs p = (if lo_remove os p = None then fmdrop p fs else fs)"

definition cleanupOldFiles :: "log_os \<Rightarrow> logger \<Rightarrow> log_files \<Rightarrow> log_files" where
  "cleanupOldFiles os l fs =
     (let files = filter (isRotated l) (sortedKeys fs)
      in if int (length files) \<le> lg_maxFiles l then fs
         else (let infos = exchangeSort (statted os files)
               in foldl (removeFile os) fs (map snd (take (nat (int (length infos) - lg_maxFiles l)) infos))))"

definition createFile :: "string \<Rightarrow> log_files \<Rightarrow> log_files" where
  "createFile p fs = (if p |\<in>| fmdom fs then fs else fmupd p [] fs)"

text \<open>The error, the logger and the files after the call; \<open>None\<close> if the mutex is held.\<close>

definition openFile :: "log_os \<Rightarrow> logger \<Rightarrow> log_files \<Rightarrow> (go_error option \<times> logger \<times> log_files) option" where
  "openFile os l fs =
     (if lg_locked l then None
      else
        (let l1 = (if lg_file l = None then l else l\<lparr>lg_file := None, lg_size := 0\<rparr>);
             path = logPath l
         in case lo_open os path of
              Some e \<Rightarrow> Some (Some (ErrWrap ''failed to open log file'' e), l1, fs)
            | None \<Rightarrow> Some (None, l1\<lparr>lg_file := Some path, lg_size := 0\<rparr>,
                cleanupOldFiles os l1 (createFile path fs))))"

definition NewLogger ::
  "log_os \<Rightarrow> string \<Rightarrow> string \<Rightarrow> int \<Rightarrow> int \<Rightarrow> log_files \<Rightarrow> (logger result \<times> log_files) option" where
  "NewLogger os dir0 prefix size0 files0 fs =
     (let dir = (if dir0 = [] then DefaultLogDir else dir0);
          maxSize = (if size0 \<le> 0 then DefaultMaxSize else size0);
          maxFiles = (if files0 \<le> 0 then DefaultMaxFiles else files0);
          l = \<lparr>lg_dir = dir, lg_prefix = prefix, lg_maxSize = maxSize, lg_maxFiles = maxFiles,
               lg_locked = False, lg_file = None, lg_size = 0\<rparr>
      in case lo_mkdir os dir of
           Some e \<Rightarrow> Some (Inl (ErrWrap ''failed to create log directory'' e), fs)
         | None \<Rightarrow>
             (case openFile os l fs of
                None \<Rightarrow> None
              | Some (Some e, _, fs1) \<Rightarrow> Some (Inl e, fs1)
              | Some (None, l1, fs1) \<Rightarrow> Some (Inr l1, fs1)))"

definition appendFile :: "string \<Rightarrow> string \<Rightarrow> log_files \<Rightarrow> log_files" where
  "appendFile p data fs = fmupd p ((case fmlookup fs p of None \<Rightarrow> [] | Some c \<Rightarrow> c) @ data) fs"

text \<open>A write to a closed file is refused by the runtime.\<close>

definition ErrInvalid :: go_error where "ErrInvalid = ErrNew ''invalid argument''"

definition fileWrite ::
  "log_os \<Rightarrow> logger \<Rightarrow> string \<Rightarrow> log_files \<Rightarrow> (int \<times> go_error option) \<times> logger \<times> log_files" where
  "fileWrite os l p fs =
     (case lg_file l of
        None \<Rightarrow> ((0, Some ErrInvalid), l, fs)
      | Some path \<Rightarrow>
          (case lo_write os path p of
             (n, err) \<Rightarrow>
               ((int n, err), (if err = None then l\<lparr>lg_size := lg_size l + int n\<rparr> else l),
                appendFile path (take n p) fs)))"

text \<open>\<open>Logger.Write\<close> takes the mutex and, when the file would become too large, calls
  \<open>openFile\<close>, which takes it again.\<close>

definition logWrite ::
  "log_os \<Rightarrow> logger \<Rightarrow> string \<Rightarrow> log_files \<Rightarrow> ((int \<times> go_error option) \<times> logger \<times> log_files) option" where
  "logWrite os l p fs =
     (if lg_locked l then None
      else
        (let l1 = l\<lparr>lg_locked := True\<rparr>
         in if lg_size l1 + int (length p) > lg_maxSize l1 then
              (case openFile os l1 fs of
                 None \<Rightarrow> None
               | Some (Some e, l2, fs1) \<Rightarrow> Some ((0, Some e), l2\<lparr>lg_locked := False\<rparr>, fs1)
               | Some (None, l2, fs1) \<Rightarrow>
                   (case fileWrite os l2 p fs1 of (r, l3, fs2) \<Rightarrow> Some (r, l3\<lparr>lg_locked := False\<rparr>, fs2)))
            else
              (case fileWrite os l1 p fs of (r, l3, fs2) \<Rightarrow> Some (r, l3\<lparr>lg_locked := False\<rparr>, fs2))))"

definition logClose :: "log_os \<Rightarrow> logger \<Rightarrow> (go_error option \<times> logger) option" where
  "logClose os l =
     (if lg_locked l then None
      else (case lg_file l of
              None \<Rightarrow> Some (None, l)
            | Some p \<Rightarrow> Some (lo_close os p, l\<lparr>lg_file := None, lg_size := 0\<rparr>)))"

section \<open>Copying the output of a process\<close>

definition maxToken :: nat where "maxToken = 65536"

definition dropCR :: "string \<Rightarrow> string" where
  "dropCR s = (if s \<noteq> [] \<and> last s = CHR 0x0D then butlast s else s)"

text \<open>\<open>bufio.Scanner\<close> over lines: the lines in the bytes received, and what is left: an unfinished
  line, or the end of the scan because a line fills the whole buffer.\<close>

datatype scan_rest = Unfinished string | TooLong

fun scanFrom :: "string \<Rightarrow> string \<Rightarrow> string list \<times> scan_rest" where
  "scanFrom cur [] = ([], Unfinished (rev cur))"
| "scanFrom cur (c # cs) =
     (if c = CHR 0x0A then (case scanFrom [] cs of (ls, r) \<Rightarrow> (dropCR (rev cur) # ls, r))
      else if length cur + 1 \<ge> maxToken then ([], TooLong)
      else scanFrom (c # cur) cs)"

definition scanLines :: "string \<Rightarrow> string list \<times> scan_rest" where
  "scanLines s = scanFrom [] s"

text \<open>With the end of the input the unfinished line is a line too, unless it is empty.\<close>

definition scanAll :: "string \<Rightarrow> string list" where
  "scanAll s =
     (case scanLines s of
        (ls, Unfinished r) \<Rightarrow> ls @ (if r = [] then [] else [dropCR r])
      | (ls, TooLong) \<Rightarrow> ls)"

text \<open>\<open>StreamWithTimestamp\<close> on what a process has written so far: nobody closes the pipe, so the input
  has no end. The number of the line selects its time stamp; a failed write is ignored.\<close>

definition stamped :: "(nat \<Rightarrow> string) \<Rightarrow> nat \<Rightarrow> string \<Rightarrow> string" where
  "stamped ts i line = ts i @ '' '' @ line @ nl"

fun writeLines ::
  "log_os \<Rightarrow> (nat \<Rightarrow> string) \<Rightarrow> nat \<Rightarrow> string list \<Rightarrow> logger \<Rightarrow> log_files \<Rightarrow> (logger \<times> log_files) option" where
  "writeLines os ts i [] l fs = Some (l, fs)"
| "writeLines os ts i (x # xs) l fs =
     (case logWrite os l (stamped ts i x) fs of
        None \<Rightarrow> None
      | Some (_, l1, fs1) \<Rightarrow> writeLines os ts (Suc i) xs l1 fs1)"

definition StreamWithTimestamp ::
  "log_os \<Rightarrow> (nat \<Rightarrow> string) \<Rightarrow> string \<Rightarrow> logger \<Rightarrow> log_files \<Rightarrow> (logger \<times> log_files) option" where
  "StreamWithTimestamp os ts bytes l fs = writeLines os ts 0 (fst (scanLines bytes)) l fs"

text \<open>The loggers of the two streams of a process; with equal names they are one and the same.\<close>

definition SetupLogging ::
  "log_os \<Rightarrow> string \<Rightarrow> string \<Rightarrow> log_files \<Rightarrow> ((logger \<times> logger) result \<times> log_files) option" where
  "SetupLogging os outName errName fs =
     (case NewLogger os DefaultLogDir outName DefaultMaxSize DefaultMaxFiles fs of
        None \<Rightarrow> None
      | Some (Inl e, fs1) \<Rightarrow> Some (Inl (ErrWrap ''failed to create stdout logger'' e), fs1)
      | Some (Inr l, fs1) \<Rightarrow>
          if outName = errName then Some (Inr (l, l), fs1)
          else
            (case NewLogger os DefaultLogDir errName DefaultMaxSize DefaultMaxFiles fs1 of
               None \<Rightarrow> None
             | Some (Inl e, fs2) \<Rightarrow> Some (Inl (ErrWrap ''failed to create stderr logger'' e), fs2)
             | Some (Inr l2, fs2) \<Rightarrow> Some (Inr (l, l2), fs2)))"

section \<open>Reading the log\<close>

text \<open>A file that is read: its contents, and the error a seek or a read at an offset meets.\<close>

record log_reader =
  rd_content :: string
  rd_stat :: "go_error option"
  rd_err :: "nat \<Rightarrow> go_error option"

definition bufSize :: nat where "bufSize = 4096"

text \<open>The lines of a chunk from the last to the first; the empty piece behind a final newline is not a
  line.\<close>

fun collectLines :: "int \<Rightarrow> bool \<Rightarrow> string list \<Rightarrow> string list \<Rightarrow> string list" where
  "collectLines n isLast [] lines = lines"
| "collectLines n isLast (x # xs) lines =
     (if int (length lines) \<ge> n then lines
      else collectLines n False xs (if x \<noteq> [] \<or> \<not> isLast then x # lines else lines))"

function tailLoop :: "log_reader \<Rightarrow> int \<Rightarrow> nat \<Rightarrow> nat \<Rightarrow> string list \<Rightarrow> (go_error \<times> nat) + (string list \<times> nat)" where
  "tailLoop f n offset pos lines =
     (if offset = 0 \<or> int (length lines) \<ge> n then Inr (lines, pos)
      else
        (let readSize = min offset bufSize; start = offset - readSize
         in case rd_err f start of
              Some e \<Rightarrow> Inl (e, pos)
            | None \<Rightarrow>
                tailLoop f n start (start + readSize)
                  (collectLines n True (rev (splitOn (CHR 0x0A) (take readSize (drop start (rd_content f))))) lines)))"
  by pat_completeness auto
termination by (relation "measure (\<lambda>(f, n, offset, pos, lines). offset)") (auto simp: bufSize_def)

declare tailLoop.simps [simp del]

definition lastN :: "nat \<Rightarrow> 'a list \<Rightarrow> 'a list" where
  "lastN n xs = drop (length xs - n) xs"

text \<open>The lines handed to the client, the error, and where the file is positioned afterwards. The writes
  to the client are the caller's: one that fails only cuts the answer short.\<close>

definition tailFile :: "log_reader \<Rightarrow> int \<Rightarrow> string list \<times> go_error option \<times> nat" where
  "tailFile f n =
     (case rd_stat f of
        Some e \<Rightarrow> ([], Some e, 0)
      | None \<Rightarrow>
          if rd_content f = [] then ([], None, 0)
          else
            (case tailLoop f n (length (rd_content f)) 0 [] of
               Inl (e, pos) \<Rightarrow> ([], Some e, pos)
             | Inr (lines, pos) \<Rightarrow>
                 (if int (length lines) > n then lastN (nat n) lines else lines, None, pos)))"

text \<open>\<open>handleLogs\<close>: the status, the text sent at once, and the position from which a follower continues
  (none if the answer ends there). The file is \<open>Inl\<close> when it cannot be opened; \<open>exists\<close> is the
  answer of \<open>os.Stat\<close>.\<close>

definition handleLogs ::
  "bool \<Rightarrow> go_error + log_reader \<Rightarrow> string \<Rightarrow> bool \<Rightarrow> string \<Rightarrow> int \<times> string \<times> nat option" where
  "handleLogs present file method follow tail =
     (if method \<noteq> ''GET'' then (405, ''Method not allowed. Use GET.'', None)
      else if \<not> present then (404, ''Log file not found'' @ nl, None)
      else
        (case file of
           Inl e \<Rightarrow> (500, ''Failed to open log file: '' @ err_msg e @ nl, None)
         | Inr f \<Rightarrow>
             (let go_on = (\<lambda>pos. if follow then Some pos else None)
              in if tail \<noteq> [] then
                   (case sscanfInt tail of
                      None \<Rightarrow> (200, [], go_on 0)
                    | Some n \<Rightarrow>
                        if n > 0 then
                          (case tailFile f n of
                             (lines, Some e, pos) \<Rightarrow> (200, [], None)
                           | (lines, None, pos) \<Rightarrow> (200, concat (map (\<lambda>x. x @ nl) lines), go_on pos))
                        else (200, [], go_on 0))
                 else
                   (case rd_err f 0 of
                      Some e \<Rightarrow> (200, [], None)
                    | None \<Rightarrow> (200, rd_content f, go_on (length (rd_content f)))))))"

text \<open>One poll of a follower: what the file holds behind the position.\<close>

definition followTick :: "string \<Rightarrow> nat \<Rightarrow> string \<times> nat" where
  "followTick content pos = (if length content > pos then (drop pos content, length content) else ([], pos))"

end
