(* ===== verification/Agent.thy ===== *)
theory Agent
  imports AgentLogs VirtualPod Paths
begin

text \<open>
  The container agent (\<open>internal/agent/agent.go\<close>, \<open>internal/agent/server.go\<close>): the HTTP handlers,
  the child process and its state, wireproxy and promtail, and the goroutines that wait for the
  child and that terminate it.

  The machine the agent runs on is part of the state: the files, the environment of the agent and
  the processes that exist (a process exists until its \<open>Wait\<close> has returned). Whether an operation
  fails, how much of a write reaches the file, the time and the identifier of a new process are the
  operating system's answers, a service over the log of requests. The parsers of other packages
  (\<open>go-shellwords\<close>, \<open>godotenv\<close>) and the decoder of a request body are arguments.

  The goroutine that waits for the child acts twice, when \<open>Wait\<close> returns and when it reports the
  termination: between the two a request can come, as it can in the code.
\<close>

section \<open>The operating system\<close>

datatype os_req =
    OsKill int nat
  | OsRead string
  | OsWrite string string
  | OsMkdirAll string
  | OsOpenTrunc string
  | OsWriteString string string
  | OsSync string
  | OsOpenNull
  | OsSetupLogging string
  | OsSubreaper
  | OsStart "string list" "string list"
  | OsNow

record os_resp =
  os_err :: "go_error option"
  os_opened :: bool
  os_count :: nat
  os_pid :: int
  os_time :: int

type_synonym os_log = "(os_req, os_resp) log"

datatype wait_result = WaitExited int | WaitSignaled int | WaitCopyFailed

datatype kill_state = KillPending | KillWaiting int | KillForced int | KillDone
datatype kill_event = KStart | KTick | KGrace | KPoll

record agent =
  ag_command :: string
  ag_argv :: "string list"
  ag_port :: int
  ag_authToken :: string
  ag_promtail :: bool
  ag_proxy :: bool
  ag_wireDir :: string
  ag_cmd :: nat
  ag_commands :: nat
  ag_exits :: "nat \<rightharpoonup> wait_result"
  ag_pid :: int
  ag_startTime :: int
  ag_state :: container_state
  ag_terminatedAt :: int
  ag_wirePid :: int
  ag_promtailPid :: int
  ag_waiting :: "(nat \<times> int) list"
  ag_reaped :: "(nat \<times> wait_result) list"
  ag_kills :: "kill_state list"
  ag_environ :: "string list"
  ag_files :: "string \<rightharpoonup> string"
  ag_live :: "int list"
  ag_log :: os_log
  ag_answers :: "(int \<times> string) list"

record agent_env =
  ae_os :: "(os_req, os_resp) service"
  ae_shellwords :: "string \<Rightarrow> string list result"
  ae_loadEnv :: "string \<Rightarrow> string list \<Rightarrow> string list result"
  ae_decodePush :: "string \<Rightarrow> (string \<times> string) result"
  ae_order :: "(string, string) fmap \<Rightarrow> string list"
  ae_logFile :: "bool \<times> (go_error + log_reader)"
  ae_stateText :: "container_state \<Rightarrow> string"

definition osCall :: "agent_env \<Rightarrow> os_req \<Rightarrow> agent \<Rightarrow> os_resp \<times> agent" where
  "osCall env q a = (case call (ae_os env) q (ag_log a) of (r, w) \<Rightarrow> (r, a\<lparr>ag_log := w\<rparr>))"

text \<open>The kernel gives a new process an identifier that no other has.\<close>

definition freshPid :: "int \<Rightarrow> int list \<Rightarrow> int" where
  "freshPid p live = (if p > 0 \<and> p \<notin> set live then p else 1 + foldl max 0 live)"

definition isPidAlive :: "agent \<Rightarrow> int \<Rightarrow> bool" where
  "isPidAlive a p \<longleftrightarrow> p > 0 \<and> p \<in> set (ag_live a)"

definition isProcessRunning :: "agent \<Rightarrow> bool" where
  "isProcessRunning a \<longleftrightarrow> isPidAlive a (ag_pid a)"

definition readFile :: "agent_env \<Rightarrow> string \<Rightarrow> agent \<Rightarrow> string result \<times> agent" where
  "readFile env p a =
     (case osCall env (OsRead p) a of
        (r, a1) \<Rightarrow>
          (case os_err r of
             Some e \<Rightarrow> (Inl e, a1)
           | None \<Rightarrow> (case ag_files a1 p of
                        None \<Rightarrow> (Inl (ErrNew ''no such file or directory''), a1)
                      | Some c \<Rightarrow> (Inr c, a1))))"

text \<open>\<open>os.WriteFile\<close> truncates the file before it writes.\<close>

definition writeFile :: "agent_env \<Rightarrow> string \<Rightarrow> string \<Rightarrow> agent \<Rightarrow> go_error option \<times> agent" where
  "writeFile env p data a =
     (case osCall env (OsWrite p data) a of
        (r, a1) \<Rightarrow>
          (case os_err r of
             None \<Rightarrow> (None, a1\<lparr>ag_files := (ag_files a1)(p \<mapsto> data)\<rparr>)
           | Some e \<Rightarrow> (Some e, if os_opened r then a1\<lparr>ag_files := (ag_files a1)(p \<mapsto> take (os_count r) data)\<rparr> else a1)))"

text \<open>Starting a process adds it to those that exist.\<close>

definition startProcess :: "agent_env \<Rightarrow> string list \<Rightarrow> string list \<Rightarrow> agent \<Rightarrow> int result \<times> agent" where
  "startProcess env argv environ a =
     (case osCall env (OsStart argv environ) a of
        (r, a1) \<Rightarrow>
          (case os_err r of
             Some e \<Rightarrow> (Inl e, a1)
           | None \<Rightarrow>
               (let pid = freshPid (os_pid r) (ag_live a1)
                in (Inr pid, a1\<lparr>ag_live := pid # ag_live a1\<rparr>))))"

section \<open>The environment\<close>

definition envKey :: "string \<Rightarrow> string option" where
  "envKey e = map_option fst (cutAt (CHR ''='') e)"

text \<open>\<open>os.Setenv\<close> and \<open>os.Getenv\<close>; the runtime keeps one entry per key.\<close>

definition setenv :: "string \<Rightarrow> string \<Rightarrow> string list \<Rightarrow> string list" where
  "setenv k v es =
     (if k = [] \<or> CHR ''='' \<in> set k \<or> CHR 0x00 \<in> set k \<or> CHR 0x00 \<in> set v then es
      else if list_ex (\<lambda>e. envKey e = Some k) es
      then map (\<lambda>e. if envKey e = Some k then k @ ''='' @ v else e) es
      else es @ [k @ ''='' @ v])"

definition getenv :: "string list \<Rightarrow> string \<Rightarrow> string" where
  "getenv es k =
     (case find (\<lambda>e. envKey e = Some k) es of
        None \<Rightarrow> []
      | Some e \<Rightarrow> (case cutAt (CHR ''='') e of None \<Rightarrow> [] | Some (_, v) \<Rightarrow> v))"

text \<open>\<open>os.ExpandEnv\<close>: names are special characters, braced text, or letters, digits and underscores.\<close>

definition isAlphaNum :: "char \<Rightarrow> bool" where
  "isAlphaNum c \<longleftrightarrow> c = CHR ''_'' \<or> isDigit c \<or> isUpperChar c \<or> isLowerChar c"

definition isShellSpecial :: "char \<Rightarrow> bool" where
  "isShellSpecial c \<longleftrightarrow> c \<in> set ''*#$@!?-'' \<or> isDigit c"

definition shellName :: "string \<Rightarrow> string \<times> nat" where
  "shellName s =
     (if s \<noteq> [] \<and> hd s = CHR ''{'' then
        (if length s > 2 \<and> isShellSpecial (s ! 1) \<and> s ! 2 = CHR ''}'' then ([s ! 1], 3)
         else (case findIndex (\<lambda>c. c = CHR ''}'') (tl s) of
                 None \<Rightarrow> ([], 1)
               | Some k \<Rightarrow> if k = 0 then ([], 2) else (take k (tl s), k + 2)))
      else if s \<noteq> [] \<and> isShellSpecial (hd s) then ([hd s], 1)
      else (takeWhile isAlphaNum s, length (takeWhile isAlphaNum s)))"

function expandEnv :: "(string \<Rightarrow> string) \<Rightarrow> string \<Rightarrow> string" where
  "expandEnv m [] = []"
| "expandEnv m (c # cs) =
     (if c = CHR ''$'' \<and> cs \<noteq> [] then
        (case shellName cs of
           (name, w) \<Rightarrow>
             (if name = [] then (if w > 0 then [] else ''$'') else m name) @ expandEnv m (drop w cs))
      else c # expandEnv m cs)"
  by pat_completeness auto
termination by (relation "measure (\<lambda>(m, s). length s)") auto

text \<open>Lines \<open>KEY=VALUE\<close> of the keys file, loaded into the environment; a failing one is skipped.\<close>

definition loadKeyLine :: "string list \<Rightarrow> string \<Rightarrow> string list" where
  "loadKeyLine es line =
     (let l = trimSpace line
      in if l = [] then es
         else (case cutAt (CHR ''='') l of
                 None \<Rightarrow> es
               | Some (k, v) \<Rightarrow> setenv (trimSpace k) (trimSpace v) es))"

definition loadKeys :: "string \<Rightarrow> string list \<Rightarrow> string list" where
  "loadKeys content es = foldl loadKeyLine es (scanAll content)"

text \<open>Variables \<open>VASTAI_OW_X\<close> replace the variable \<open>X\<close> in what the child gets. The map iteration order
  is the argument.\<close>

definition owPrefix :: string where "owPrefix = ''VASTAI_OW_''"

definition splitEnv ::
  "(string, string) fmap \<times> (string, string) fmap \<Rightarrow> string \<Rightarrow> (string, string) fmap \<times> (string, string) fmap" where
  "splitEnv mm e =
     (case cutAt (CHR ''='') e of
        None \<Rightarrow> mm
      | Some (k, v) \<Rightarrow>
          if hasPrefix k owPrefix then (fmupd (trimPrefix k owPrefix) v (fst mm), snd mm)
          else (fst mm, fmupd k v (snd mm)))"

definition applyEnvOverrides :: "((string, string) fmap \<Rightarrow> string list) \<Rightarrow> string list \<Rightarrow> string list" where
  "applyEnvOverrides order env =
     (case foldl splitEnv (fmempty, fmempty) env of
        (overrides, normal) \<Rightarrow>
          (let merged = normal ++\<^sub>f overrides
           in map (\<lambda>k. k @ ''='' @ (case fmlookup merged k of None \<Rightarrow> [] | Some v \<Rightarrow> v)) (order merged)))"

section \<open>Wireproxy and promtail\<close>

definition keysPath :: string where "keysPath = ''/etc/virtualpod/wireproxy.keys''"

text \<open>A running wireproxy is killed first; whatever fails afterwards, it is gone.\<close>

definition startWireproxy :: "agent_env \<Rightarrow> agent \<Rightarrow> go_error option \<times> agent" where
  "startWireproxy env a =
     (let a1 = (if isPidAlive a (ag_wirePid a) then snd (osCall env (OsKill (ag_wirePid a) 9) a) else a);
          tplPath = ag_wireDir a @ ''/wireproxy.tpl'';
          confPath = ag_wireDir a @ ''/wireproxy.conf''
      in case readFile env keysPath a1 of
           (keys, a2) \<Rightarrow>
             (let a3 = (case keys of Inl _ \<Rightarrow> a2 | Inr c \<Rightarrow> a2\<lparr>ag_environ := loadKeys c (ag_environ a2)\<rparr>)
              in case readFile env tplPath a3 of
                   (Inl e, a4) \<Rightarrow> (Some (ErrWrap (''failed to read '' @ tplPath) e), a4)
                 | (Inr data, a4) \<Rightarrow>
                     (case writeFile env confPath (expandEnv (getenv (ag_environ a4)) data) a4 of
                        (Some e, a5) \<Rightarrow> (Some (ErrWrap (''failed to write '' @ confPath) e), a5)
                      | (None, a5) \<Rightarrow>
                          (case osCall env (OsSetupLogging ''wireproxy'') a5 of
                             (r, a6) \<Rightarrow>
                               (case os_err r of
                                  Some e \<Rightarrow> (Some (ErrWrap ''failed to set up logging for wireproxy'' e), a6)
                                | None \<Rightarrow>
                                    (case startProcess env [''/usr/bin/wireproxy'', ''-c'', confPath] (ag_environ a6) a6 of
                                       (Inl e, a7) \<Rightarrow> (Some (ErrWrap ''failed to start wireproxy'' e), a7)
                                     | (Inr pid, a7) \<Rightarrow> (None, a7\<lparr>ag_wirePid := pid\<rparr>)))))))"

definition startPromtail :: "agent_env \<Rightarrow> agent \<Rightarrow> go_error option \<times> agent" where
  "startPromtail env a =
     (if isPidAlive a (ag_promtailPid a) then (None, a)
      else
        (case osCall env OsOpenNull a of
           (r, a1) \<Rightarrow>
             (case os_err r of
                Some e \<Rightarrow> (Some (ErrWrap ''failed to open /dev/null'' e), a1)
              | None \<Rightarrow>
                  (case startProcess env [''/usr/bin/promtail'', ''-config.file=/etc/virtualpod/promtail.yaml'']
                          (ag_environ a1) a1 of
                     (Inl e, a2) \<Rightarrow> (Some (ErrWrap ''failed to start promtail'' e), a2)
                   | (Inr pid, a2) \<Rightarrow> (None, a2\<lparr>ag_promtailPid := pid\<rparr>)))))"

section \<open>The child process\<close>

definition childArgv :: "agent_env \<Rightarrow> agent \<Rightarrow> string list result" where
  "childArgv env a =
     (if ag_argv a \<noteq> [] then Inr (ag_argv a)
      else if ag_command a = [] then Inl (ErrNew ''no command specified'')
      else (case ae_shellwords env (ag_command a) of
              Inl e \<Rightarrow> Inl (ErrWrap ''invalid command'' e)
            | Inr [] \<Rightarrow> Inl (ErrNew ''invalid command: %!w(<nil>)'')
            | Inr (x # xs) \<Rightarrow> Inr (x # xs)))"

definition runningState :: "int \<Rightarrow> container_state" where
  "runningState t = \<lparr>st_waiting = None, st_running = Some t, st_terminated = None\<rparr>"

text \<open>Once the arguments are known the agent's current command is a new one, not yet started.\<close>

definition newCommand :: "agent \<Rightarrow> agent" where
  "newCommand a = a\<lparr>ag_commands := Suc (ag_commands a), ag_cmd := Suc (ag_commands a)\<rparr>"

definition launched :: "agent_env \<Rightarrow> int \<Rightarrow> agent \<Rightarrow> agent" where
  "launched env pid a =
     (case osCall env OsNow a of
        (r, a1) \<Rightarrow> a1\<lparr>ag_pid := pid, ag_startTime := os_time r, ag_state := runningState (os_time r),
                       ag_waiting := ag_waiting a1 @ [(ag_cmd a1, pid)]\<rparr>)"

definition startChildProcess :: "agent_env \<Rightarrow> agent \<Rightarrow> go_error option \<times> agent" where
  "startChildProcess env a =
     (case childArgv env a of
        Inl e \<Rightarrow> (Some e, a)
      | Inr argv \<Rightarrow>
          (let a1 = newCommand a; environ = applyEnvOverrides (ae_order env) (ag_environ a1)
           in case osCall env (OsSetupLogging ''main'') a1 of
                (r, a2) \<Rightarrow>
                  (case os_err r of
                     Some e \<Rightarrow> (Some (ErrWrap ''failed to set up logging'' e), a2)
                   | None \<Rightarrow>
                       (case osCall env OsSubreaper a2 of
                          (r, a3) \<Rightarrow>
                            (case os_err r of
                               Some e \<Rightarrow> (Some (ErrNew (''failed to set child subreaper: '' @ err_msg e)), a3)
                             | None \<Rightarrow>
                                 (case startProcess env argv environ a3 of
                                    (Inl e, a4) \<Rightarrow> (Some (ErrWrap ''failed to start command'' e), a4)
                                  | (Inr pid, a4) \<Rightarrow> (None, launched env pid a4)))))))"

fun exitCodeOf :: "wait_result \<Rightarrow> int" where
  "exitCodeOf (WaitExited n) = n"
| "exitCodeOf (WaitSignaled s) = 128 + s"
| "exitCodeOf WaitCopyFailed = 1"

definition exitReason :: "int \<Rightarrow> string" where
  "exitReason code = (if code > 0 then ''Error'' else ''Completed'')"

definition terminatedState :: "int \<Rightarrow> int \<Rightarrow> int \<Rightarrow> container_state" where
  "terminatedState code start end =
     \<lparr>st_waiting = None, st_running = None,
      st_terminated = Some \<lparr>tm_exitCode = code, tm_reason = exitReason code, tm_message = [],
                           tm_startedAt = start, tm_finishedAt = end\<rparr>\<rparr>"

text \<open>\<open>Wait\<close> returns: the process is gone and its command knows how it ended.\<close>

definition reapChild :: "nat \<Rightarrow> wait_result \<Rightarrow> agent \<Rightarrow> agent" where
  "reapChild n r a =
     (case map_of (ag_waiting a) n of
        None \<Rightarrow> a
      | Some pid \<Rightarrow> a\<lparr>ag_waiting := filter (\<lambda>x. fst x \<noteq> n) (ag_waiting a), ag_reaped := ag_reaped a @ [(n, r)],
                      ag_exits := (ag_exits a)(n \<mapsto> r), ag_live := removeAll pid (ag_live a)\<rparr>)"

text \<open>The rest of the goroutine. It looks at the process state of the agent's current command, which is
  a nil pointer if that is not the one it waited for; the agent then crashes.\<close>

definition reportExit :: "agent_env \<Rightarrow> nat \<Rightarrow> agent \<Rightarrow> agent option" where
  "reportExit env n a =
     (case map_of (ag_reaped a) n of
        None \<Rightarrow> Some a
      | Some r \<Rightarrow>
          (case osCall env OsNow a of
             (t, a1) \<Rightarrow>
               (let a2 = a1\<lparr>ag_terminatedAt := os_time t, ag_reaped := filter (\<lambda>x. fst x \<noteq> n) (ag_reaped a1)\<rparr>
                in if ag_exits a2 (ag_cmd a2) = None then None
                   else Some (a2\<lparr>ag_state := terminatedState (exitCodeOf r) (ag_startTime a2) (os_time t)\<rparr>))))"

text \<open>The goroutine that terminates the child.\<close>

fun killStep :: "agent_env \<Rightarrow> kill_event \<Rightarrow> kill_state \<Rightarrow> agent \<Rightarrow> kill_state \<times> agent" where
  "killStep env KStart KillPending a = (KillWaiting (ag_pid a), snd (osCall env (OsKill (ag_pid a) 15) a))"
| "killStep env KTick (KillWaiting p) a = (if isPidAlive a p then KillWaiting p else KillDone, a)"
| "killStep env KGrace (KillWaiting p) a = (KillForced p, snd (osCall env (OsKill p 9) a))"
| "killStep env KPoll (KillForced p) a = (if isPidAlive a p then KillForced p else KillDone, a)"
| "killStep env _ k a = (k, a)"

section \<open>The handlers\<close>

record http_request =
  hr_path :: string
  hr_method :: string
  hr_auth :: string
  hr_body :: string
  hr_follow :: bool
  hr_tail :: string

type_synonym handler = "agent_env \<Rightarrow> http_request \<Rightarrow> agent \<Rightarrow> (int \<times> string) \<times> agent"

definition handleHealthz :: handler where
  "handleHealthz env rq a = ((200, ''ok''), a)"

definition handleStatus :: handler where
  "handleStatus env rq a = ((200, ae_stateText env (ag_state a)), a)"

definition handleWireproxyRestart :: handler where
  "handleWireproxyRestart env rq a =
     (if ag_proxy a then
        (case startWireproxy env a of
           (Some e, a1) \<Rightarrow> ((500, ''failed to start wireproxy: '' @ err_msg e), a1)
         | (None, a1) \<Rightarrow> ((200, ''ok''), a1))
      else ((200, ''ok''), a))"

definition environmentPath :: string where "environmentPath = ''/etc/virtualpod/environment''"

definition loadEnvironment :: "agent_env \<Rightarrow> agent \<Rightarrow> go_error option \<times> agent" where
  "loadEnvironment env a =
     (case readFile env environmentPath a of
        (Inl e, a1) \<Rightarrow> (Some e, a1)
      | (Inr c, a1) \<Rightarrow>
          (case ae_loadEnv env c (ag_environ a1) of
             Inl e \<Rightarrow> (Some e, a1)
           | Inr es \<Rightarrow> (None, a1\<lparr>ag_environ := es\<rparr>)))"

definition handleRun :: handler where
  "handleRun env rq a =
     (if hr_method rq \<noteq> ''PUT'' then ((405, ''Method not allowed. Use PUT.''), a)
      else if ag_command a = [] \<and> ag_argv a = [] then ((400, ''no command configured''), a)
      else if isProcessRunning a then ((409, ''command already running''), a)
      else
        (case loadEnvironment env a of
           (Some e, a1) \<Rightarrow> ((500, ''failed to load environment file: '' @ err_msg e), a1)
         | (None, a1) \<Rightarrow>
             (case (if ag_promtail a1 then startPromtail env a1 else (None, a1)) of
                (Some e, a2) \<Rightarrow> ((500, ''failed to start promtail: '' @ err_msg e), a2)
              | (None, a2) \<Rightarrow>
                  (case startChildProcess env a2 of
                     (Some e, a3) \<Rightarrow> ((500, ''failed to start command: '' @ err_msg e), a3)
                   | (None, a3) \<Rightarrow> ((202, ''execution started''), a3)))))"

definition handleSigterm :: handler where
  "handleSigterm env rq a =
     (if hr_method rq \<noteq> ''POST'' then ((405, ''Method not allowed. Use POST.''), a)
      else ((202, ''Termination sequence initiated''), a\<lparr>ag_kills := ag_kills a @ [KillPending]\<rparr>))"

text \<open>Creating the parent, truncating, writing and syncing; the bytes a failing write leaves are in the
  file.\<close>

definition storeFile :: "agent_env \<Rightarrow> string \<Rightarrow> string \<Rightarrow> agent \<Rightarrow> (int \<times> string) \<times> agent" where
  "storeFile env path data a =
     (case osCall env (OsOpenTrunc path) a of
        (r, a1) \<Rightarrow>
          (case os_err r of
             Some e \<Rightarrow> ((500, ''failed to open file for write: '' @ err_msg e), a1)
           | None \<Rightarrow>
               (case osCall env (OsWriteString path data) (a1\<lparr>ag_files := (ag_files a1)(path \<mapsto> [])\<rparr>) of
                  (r, a2) \<Rightarrow>
                    (case os_err r of
                       Some e \<Rightarrow> ((500, ''failed to write file: '' @ err_msg e),
                                  a2\<lparr>ag_files := (ag_files a2)(path \<mapsto> take (os_count r) data)\<rparr>)
                     | None \<Rightarrow>
                         (case osCall env (OsSync path) (a2\<lparr>ag_files := (ag_files a2)(path \<mapsto> data)\<rparr>) of
                            (r, a3) \<Rightarrow>
                              (case os_err r of
                                 Some e \<Rightarrow> ((500, ''failed to sync file: '' @ err_msg e), a3)
                               | None \<Rightarrow> ((201, ''file saved and synced''), a3)))))))"

definition handlePushFile :: handler where
  "handlePushFile env rq a =
     (if hr_method rq \<noteq> ''POST'' then ((405, ''Method not allowed. Use POST.''), a)
      else
        (case ae_decodePush env (hr_body rq) of
           Inl e \<Rightarrow> ((400, ''invalid JSON: '' @ err_msg e), a)
         | Inr (path, data) \<Rightarrow>
             if path = [] then ((400, ''filepath is required''), a)
             else
               (let parent = pathDir path
                in if parent = ''.'' then storeFile env path data a
                   else
                     (case osCall env (OsMkdirAll parent) a of
                        (r, a1) \<Rightarrow>
                          (case os_err r of
                             Some e \<Rightarrow> ((500, ''failed to create parent directory: '' @ err_msg e), a1)
                           | None \<Rightarrow> storeFile env path data a1)))))"

definition serveLogs :: handler where
  "serveLogs env rq a =
     (case handleLogs (fst (ae_logFile env)) (snd (ae_logFile env)) (hr_method rq) (hr_follow rq) (hr_tail rq) of
        (code, text, _) \<Rightarrow> ((code, text), a))"

definition authMiddleware :: "handler \<Rightarrow> handler" where
  "authMiddleware next env rq a =
     (if ag_authToken a = [] then next env rq a
      else if \<not> hasPrefix (hr_auth rq) ''Bearer '' \<or>
              trimSpace (trimPrefix (hr_auth rq) ''Bearer '') \<noteq> ag_authToken a
           then ((401, ''unauthorized''), a)
      else next env rq a)"

text \<open>The handlers as \<open>NewAgent\<close> registers them with the server.\<close>

definition mux :: handler where
  "mux env rq a =
     (if hr_path rq = ''/healthz'' then handleHealthz env rq a
      else if hr_path rq = ''/status'' then handleStatus env rq a
      else if hr_path rq = ''/run'' then handleRun env rq a
      else if hr_path rq = ''/restart_wireproxy'' then handleWireproxyRestart env rq a
      else if hr_path rq = ''/sigterm'' then handleSigterm env rq a
      else if hr_path rq = ''/push_file'' then handlePushFile env rq a
      else if hr_path rq = ''/logs'' then serveLogs env rq a
      else ((404, ''404 page not found''), a))"

section \<open>Runs\<close>

definition waitingState :: container_state where
  "waitingState = \<lparr>st_waiting = Some (''ContainerCreating'', ''Container is being created''), st_running = None, st_terminated = None\<rparr>"

definition NewAgent :: "int \<Rightarrow> string \<Rightarrow> string \<Rightarrow> string list \<Rightarrow> (string \<rightharpoonup> string) \<Rightarrow> int list \<Rightarrow> agent" where
  "NewAgent port command wireDir environ files live =
     \<lparr>ag_command = command, ag_argv = [], ag_port = port, ag_authToken = [], ag_promtail = False, ag_proxy = False,
      ag_wireDir = wireDir, ag_cmd = 0, ag_commands = 0, ag_exits = Map.empty, ag_pid = 0, ag_startTime = 0,
      ag_state = waitingState, ag_terminatedAt = 0, ag_wirePid = 0, ag_promtailPid = 0, ag_waiting = [],
      ag_reaped = [], ag_kills = [], ag_environ = environ, ag_files = files, ag_live = live, ag_log = [], ag_answers = []\<rparr>"

text \<open>\<open>cmd/container-agent\<close>: the arguments behind the separator replace the command.\<close>

definition runCommand ::
  "int \<Rightarrow> string \<Rightarrow> string list \<Rightarrow> string \<Rightarrow> bool \<Rightarrow> bool \<Rightarrow> string list \<Rightarrow> (string \<rightharpoonup> string) \<Rightarrow> int list \<Rightarrow> agent" where
  "runCommand port command args token promtail proxy environ files live =
     (let a = NewAgent port command ''/etc/virtualpod'' environ files live
      in a\<lparr>ag_argv := (if args \<noteq> [] then args else ag_argv a), ag_authToken := token,
           ag_promtail := promtail, ag_proxy := proxy\<rparr>)"

text \<open>\<open>Run\<close> starts wireproxy, if it is enabled, and then serves.\<close>

definition startAgent :: "agent_env \<Rightarrow> agent \<Rightarrow> agent result" where
  "startAgent env a =
     (if ag_proxy a then
        (case startWireproxy env a of
           (Some e, a1) \<Rightarrow> Inl (ErrWrap ''failed to start wireproxy'' e)
         | (None, a1) \<Rightarrow> Inr a1)
      else Inr a)"

datatype agent_event =
    EHttp http_request
  | EReap nat wait_result
  | EReport nat
  | EKill nat kill_event
  | EGone int

text \<open>One event; the end of a process other than the child (\<open>EGone\<close>) frees its identifier. The result
  is \<open>None\<close> if the agent crashes.\<close>

fun agent_step :: "agent_env \<Rightarrow> agent_event \<Rightarrow> agent \<Rightarrow> agent option" where
  "agent_step env (EHttp rq) a =
     (case mux env rq a of (answer, a1) \<Rightarrow> Some (a1\<lparr>ag_answers := ag_answers a1 @ [answer]\<rparr>))"
| "agent_step env (EReap n r) a = Some (reapChild n r a)"
| "agent_step env (EReport n) a = reportExit env n a"
| "agent_step env (EKill i k) a =
     (if i < length (ag_kills a) then
        (case killStep env k (ag_kills a ! i) a of (k1, a1) \<Rightarrow> Some (a1\<lparr>ag_kills := (ag_kills a1)[i := k1]\<rparr>))
      else Some a)"
| "agent_step env (EGone p) a =
     Some (if p \<in> snd ` set (ag_waiting a) then a else a\<lparr>ag_live := removeAll p (ag_live a)\<rparr>)"

fun agent_run :: "agent_env \<Rightarrow> agent_event list \<Rightarrow> agent \<Rightarrow> agent option" where
  "agent_run env [] a = Some a"
| "agent_run env (e # es) a = Option.bind (agent_step env e a) (agent_run env es)"

lemma agent_run_append:
  "agent_run env (es @ es') a = Option.bind (agent_run env es a) (agent_run env es')"
  by (induction es arbitrary: a) (auto split: bind_splits)

end
