(* ===== verification/AgentLogFacts.thy ===== *)
theory AgentLogFacts
  imports AgentLogs
begin

text \<open>
  What the logs of the agent guarantee: which lines a client of \<open>/logs\<close> gets and what a follower
  gets twice, which lines of a process reach the file, until when the logger writes, and which
  rotated files a clean-up removes.
\<close>

section \<open>Tail and follow\<close>

text \<open>The lines of a text: the pieces between newlines, without the empty one behind a final newline.\<close>

definition linesOf :: "string \<Rightarrow> string list" where
  "linesOf s = (let ps = splitOn (CHR 0x0A) s in if last ps = [] then butlast ps else ps)"

text \<open>A text cut into buffers from the end.\<close>

function tailChunks :: "string \<Rightarrow> string list" where
  "tailChunks s =
     (if s = [] then []
      else tailChunks (take (length s - bufSize) s) @ [drop (length s - bufSize) s])"
  by pat_completeness auto
termination by (relation "measure length") (auto simp: bufSize_def)

declare tailChunks.simps [simp del]

lemma lastN_append_all [simp]: "length ys = n \<Longrightarrow> lastN n (xs @ ys) = ys"
  by (simp add: lastN_def)

lemma lastN_lastN_append: "lastN n (xs @ lastN n ys) = lastN n (xs @ ys)"
proof (cases "length ys \<ge> n")
  case True
  then have "length (lastN n ys) = n" by (simp add: lastN_def)
  then have "lastN n (xs @ lastN n ys) = lastN n ys" by simp
  with True show ?thesis by (simp add: lastN_def)
qed (simp add: lastN_def)

lemma length_lastN: "length (lastN n xs) = min n (length xs)"
  by (simp add: lastN_def)

lemma collect_inner:
  "int (length lines) \<le> n \<Longrightarrow> collectLines n False (rev xs) lines = lastN (nat n) (xs @ lines)"
proof (induction xs arbitrary: lines rule: rev_induct)
  case Nil
  then show ?case by (simp add: lastN_def)
next
  case (snoc x xs)
  show ?case
  proof (cases "int (length lines) = n")
    case True
    then have "length lines = nat n" by simp
    with True show ?thesis using lastN_append_all [of lines "nat n" "xs @ [x]"] by simp
  next
    case False
    with snoc.prems snoc.IH [of "x # lines"] show ?thesis by simp
  qed
qed

lemma collect_lines:
  assumes "int (length lines) \<le> n"
  shows "collectLines n True (rev (splitOn (CHR 0x0A) c)) lines = lastN (nat n) (linesOf c @ lines)"
proof -
  obtain xs x where ps: "splitOn (CHR 0x0A) c = xs @ [x]"
    by (metis append_butlast_last_id splitOn_nonempty)
  show ?thesis
  proof (cases "int (length lines) = n")
    case True
    then have "length lines = nat n" by simp
    with True ps show ?thesis using lastN_append_all [of lines "nat n" "linesOf c"] by simp
  next
    case False
    with assms ps collect_inner [of "x # lines" n xs] collect_inner [of lines n xs]
    show ?thesis by (auto simp: linesOf_def Let_def)
  qed
qed

text \<open>The loop: what it collects, and where it leaves the file.\<close>

lemma tailLoop_lines:
  assumes "\<And>k. rd_err f k = None" and "n > 0"
  shows "int (length lines) \<le> n \<Longrightarrow> offset \<le> length (rd_content f) \<Longrightarrow>
    \<exists>pos'. tailLoop f n offset pos lines =
      Inr (lastN (nat n) (concat (map linesOf (tailChunks (take offset (rd_content f)))) @ lines), pos') \<and>
      (offset = 0 \<or> int (length lines) \<ge> n \<longrightarrow> pos' = pos) \<and>
      (offset > 0 \<and> int (length lines) < n \<longrightarrow> pos' \<le> offset \<and>
         (pos' < offset \<longleftrightarrow> offset > bufSize \<and>
            int (length (linesOf (drop (offset - bufSize) (take offset (rd_content f))) @ lines)) < n))"
proof (induction offset arbitrary: pos lines rule: less_induct)
  case (less offset)
  let ?c = "rd_content f"
  let ?chunks = "\<lambda>k. concat (map linesOf (tailChunks (take k ?c)))"
  show ?case
  proof (cases "offset = 0 \<or> int (length lines) \<ge> n")
    case True
    show ?thesis
    proof (cases "int (length lines) \<ge> n")
      case True
      then have "length lines = nat n" using less.prems by simp
      then have "lastN (nat n) (?chunks offset @ lines) = lines" by simp
      with True show ?thesis by (simp add: tailLoop.simps [of f n offset])
    next
      case False
      with True have z: "offset = 0" by simp
      have "lastN (nat n) lines = lines" using False by (simp add: lastN_def)
      with z False show ?thesis
        by (simp add: tailLoop.simps [of f n 0] tailChunks.simps [of "[]"])
    qed
  next
    case False
    define start where "start = offset - bufSize"
    define last where "last = drop start (take offset ?c)"
    have start: "start < offset" "start \<le> length ?c" "offset - min offset bufSize = start"
      "start + min offset bufSize = offset"
      using False less.prems by (auto simp: start_def bufSize_def)
    have len: "length (take offset ?c) = offset" using less.prems by simp
    have piece: "take (min offset bufSize) (drop start ?c) = last"
      using start(3,4) by (auto simp: last_def drop_take intro!: arg_cong2 [where f = take])
    have tc: "tailChunks (take offset ?c) = tailChunks (take start ?c) @ [last]"
      using False len start(1)
      by (subst tailChunks.simps) (auto simp: last_def start_def min_def)
    define lines' where "lines' = lastN (nat n) (linesOf last @ lines)"
    have step: "tailLoop f n offset pos lines = tailLoop f n start offset lines'"
      using False less.prems start(3,4) assms piece collect_lines [of lines n last]
      by (subst tailLoop.simps) (simp add: Let_def lines'_def)
    have l': "int (length lines') \<le> n" using assms by (simp add: lines'_def length_lastN)
    from less.IH [OF start(1) l' start(2), of offset] obtain pos' where p':
      "tailLoop f n start offset lines' = Inr (lastN (nat n) (?chunks start @ lines'), pos')"
      "start = 0 \<or> int (length lines') \<ge> n \<longrightarrow> pos' = offset"
      "start > 0 \<and> int (length lines') < n \<longrightarrow> pos' \<le> start"
      by blast
    have "lastN (nat n) (?chunks start @ lines') = lastN (nat n) (?chunks offset @ lines)"
      by (simp add: lines'_def lastN_lastN_append tc)
    moreover have "(start > 0 \<and> int (length lines') < n) =
        (offset > bufSize \<and> int (length (linesOf last @ lines)) < n)"
      using assms by (auto simp: start_def lines'_def length_lastN)
    moreover have "last = drop (offset - bufSize) (take offset ?c)" by (simp add: last_def start_def)
    ultimately show ?thesis
      using step p' False start(1) by (cases "start > 0 \<and> int (length lines') < n") auto
  qed
qed

lemma tailChunks_small: "length s \<le> bufSize \<Longrightarrow> tailChunks s = (if s = [] then [] else [s])"
  by (subst tailChunks.simps) (auto simp: tailChunks.simps [of "[]"])

lemma linesOf_Nil [simp]: "linesOf [] = []"
  by (simp add: linesOf_def)

lemma tailFile_lines:
  assumes "rd_stat f = None" and "\<And>k. rd_err f k = None" and "n > 0"
  shows "fst (tailFile f n) = lastN (nat n) (concat (map linesOf (tailChunks (rd_content f)))) \<and>
    fst (snd (tailFile f n)) = None \<and>
    (length (rd_content f) \<le> bufSize \<longrightarrow> fst (tailFile f n) = lastN (nat n) (linesOf (rd_content f)))"
proof (cases "rd_content f = []")
  case True
  with assms show ?thesis by (simp add: tailFile_def tailChunks.simps [of "[]"] lastN_def)
next
  case False
  from tailLoop_lines [OF assms(2,3), of "[]" "length (rd_content f)" 0] assms(3)
  obtain pos where "tailLoop f n (length (rd_content f)) 0 [] =
      Inr (lastN (nat n) (concat (map linesOf (tailChunks (rd_content f)))), pos)"
    by auto
  moreover have "int (length (lastN (nat n) xs)) \<le> n" for xs :: "string list"
    using assms(3) by (simp add: length_lastN)
  ultimately have "tailFile f n = (lastN (nat n) (concat (map linesOf (tailChunks (rd_content f)))), None, pos)"
    using assms(1) False by (auto simp: tailFile_def not_less [symmetric])
  with False show ?thesis by (simp add: tailChunks_small)
qed

text \<open>C30: What a client that asks for the last lines of the log gets: the last lines of the buffers, cut
  from the end of the file, each buffer taken as a text of its own. For a log of at most one buffer
  these are the last lines of the log; in a longer one a line that a boundary crosses comes as two.\<close>

theorem tail_last_lines:
  assumes "rd_stat f = None" and "\<And>k. rd_err f k = None" and "n > 0"
  shows "fst (tailFile f n) = lastN (nat n) (concat (map linesOf (tailChunks (rd_content f)))) \<and>
    fst (snd (tailFile f n)) = None \<and>
    (length (rd_content f) \<le> bufSize \<longrightarrow> fst (tailFile f n) = lastN (nat n) (linesOf (rd_content f)))"
  by (rule tailFile_lines) (use assms in auto)

definition exReader :: "string \<Rightarrow> log_reader" where
  "exReader s = \<lparr>rd_content = s, rd_stat = None, rd_err = \<lambda>_. None\<rparr>"

theorem tail_last_lines_witness:
  "fst (tailFile (exReader (''one'' @ nl @ ''two'' @ nl @ ''three'' @ nl)) 2) = [''two'', ''three'']"
proof -
  define s where "s = ''one'' @ nl @ ''two'' @ nl @ ''three'' @ nl"
  have "length s \<le> bufSize" and l: "lastN 2 (linesOf s) = [''two'', ''three'']"
    by (simp_all add: s_def bufSize_def nl_def linesOf_def lastN_def)
  then have "fst (tailFile (exReader s) 2) = lastN 2 (linesOf s)"
    using tail_last_lines [THEN conjunct2, THEN conjunct2, of "exReader s" 2] by (simp add: exReader_def)
  with l show ?thesis by (simp only: s_def)
qed

text \<open>A client that asks for the last lines and then follows the log continues at the end of the file
  unless the lines asked for reach beyond the last buffer: exactly then it continues at an earlier
  position, and its first poll sends text again that it has sent before.\<close>

theorem follow_repeats_iff:
  assumes "rd_stat f = None" and "\<And>k. rd_err f k = None" and "n > 0" and "in_int64 n" and "rd_content f \<noteq> []"
  shows "\<exists>text pos. handleLogs True (Inr f) ''GET'' True (itoa n) = (200, text, Some pos) \<and>
    pos \<le> length (rd_content f) \<and>
    (fst (followTick (rd_content f) pos) \<noteq> [] \<longleftrightarrow>
       length (rd_content f) > bufSize \<and>
       int (length (linesOf (drop (length (rd_content f) - bufSize) (rd_content f)))) < n)"
proof -
  let ?c = "rd_content f"
  from tailLoop_lines [OF assms(2,3), of "[]" "length ?c" 0] assms(3,5)
  obtain ls pos where t: "tailLoop f n (length ?c) 0 [] = Inr (ls, pos)" and pos: "pos \<le> length ?c"
    "pos < length ?c \<longleftrightarrow> length ?c > bufSize \<and> int (length (linesOf (drop (length ?c - bufSize) ?c))) < n"
    by auto
  from t assms(1,5) obtain ls' where "tailFile f n = (ls', None, pos)"
    by (simp add: tailFile_def)
  moreover have "itoa n \<noteq> []" by (simp add: itoa_def)
  ultimately have "handleLogs True (Inr f) ''GET'' True (itoa n) = (200, concat (map (\<lambda>x. x @ nl) ls'), Some pos)"
    using assms(3,4) by (simp add: handleLogs_def sscanfInt_itoa Let_def)
  moreover have "fst (followTick ?c pos) \<noteq> [] \<longleftrightarrow> pos < length ?c"
    by (simp add: followTick_def)
  ultimately show ?thesis using pos by simp
qed

theorem follow_repeats_iff_witness:
  "\<exists>text pos. handleLogs True (Inr (exReader (''one'' @ nl))) ''GET'' True (itoa 2) = (200, text, Some pos) \<and>
    fst (followTick (''one'' @ nl) pos) = []"
proof -
  have "\<not> length (''one'' @ nl) > bufSize" by (simp add: nl_def bufSize_def)
  then show ?thesis
    using follow_repeats_iff [of "exReader (''one'' @ nl)" 2]
    by (auto simp: exReader_def in_int64_def)
qed

section \<open>The lines of a process\<close>

lemma scanFrom_line:
  "CHR 0x0A \<notin> set l \<Longrightarrow> length cur + length l < maxToken \<Longrightarrow>
   scanFrom cur (l @ CHR 0x0A # rest) = (dropCR (rev cur @ l) # fst (scanFrom [] rest), snd (scanFrom [] rest))"
  by (induction l arbitrary: cur) (auto simp: maxToken_def split: prod.split)

lemma scanFrom_long:
  "CHR 0x0A \<notin> set l \<Longrightarrow> length cur < maxToken \<Longrightarrow> maxToken \<le> length cur + length l \<Longrightarrow>
   scanFrom cur (l @ rest) = ([], TooLong)"
  by (induction l arbitrary: cur) (auto simp: maxToken_def)

lemma scanFrom_open:
  "CHR 0x0A \<notin> set l \<Longrightarrow> length cur + length l < maxToken \<Longrightarrow>
   scanFrom cur l = ([], Unfinished (rev cur @ l))"
  by (induction l arbitrary: cur) (auto simp: maxToken_def)

definition shortLine :: "string \<Rightarrow> bool" where
  "shortLine l \<longleftrightarrow> CHR 0x0A \<notin> set l \<and> length l < maxToken"

text \<open>Short lines are delivered one by one; what comes behind them is scanned alike.\<close>

lemma scanLines_short:
  "list_all shortLine ls \<Longrightarrow>
   scanLines (concat (map (\<lambda>l. l @ nl) ls) @ rest) = (map dropCR ls @ fst (scanLines rest), snd (scanLines rest))"
  by (induction ls) (auto simp: shortLine_def scanLines_def nl_def scanFrom_line)

text \<open>Which lines of a process are handed to its logger. Lines below 64 KB are, one by one and in
  order; a last line without a newline is not, however long one waits, since nobody closes the
  pipe; and a line of 64 KB or more ends the copying, so that nothing behind it is logged either.\<close>

theorem logged_lines:
  assumes "list_all shortLine ls" and "CHR 0x0A \<notin> set l"
  shows "StreamWithTimestamp os ts (concat (map (\<lambda>x. x @ nl) ls) @ l @ (if length l < maxToken then [] else rest)) lg fs =
    writeLines os ts 0 (map dropCR ls) lg fs"
proof (cases "length l < maxToken")
  case True
  with assms scanFrom_open [of l "[]"] show ?thesis
    by (simp add: StreamWithTimestamp_def scanLines_short) (simp add: scanLines_def)
next
  case False
  with assms scanFrom_long [of l "[]" rest] show ?thesis
    by (simp add: StreamWithTimestamp_def scanLines_short) (simp add: scanLines_def maxToken_def)
qed

section \<open>The logger\<close>

text \<open>A logger that has opened its file and is not in use.\<close>

definition readyLogger :: "logger \<Rightarrow> bool" where
  "readyLogger l \<longleftrightarrow> \<not> lg_locked l \<and> lg_file l = Some (logPath l)"

text \<open>The operating system takes every write as a whole.\<close>

definition takesAll :: "log_os \<Rightarrow> bool" where
  "takesAll os \<longleftrightarrow> (\<forall>path p. lo_write os path p = (length p, None))"

fun writeAll :: "log_os \<Rightarrow> string list \<Rightarrow> logger \<Rightarrow> log_files \<Rightarrow> (logger \<times> log_files) option" where
  "writeAll os [] l fs = Some (l, fs)"
| "writeAll os (p # ps) l fs =
     (case logWrite os l p fs of None \<Rightarrow> None | Some (_, l1, fs1) \<Rightarrow> writeAll os ps l1 fs1)"

lemma logWrite_blocks:
  "\<not> lg_locked l \<Longrightarrow> lg_size l + int (length p) > lg_maxSize l \<Longrightarrow> logWrite os l p fs = None"
  by (simp add: logWrite_def openFile_def Let_def)

lemma logWrite_ready:
  assumes "readyLogger l" "takesAll os" "lg_size l + int (length p) \<le> lg_maxSize l"
  shows "logWrite os l p fs =
    Some ((int (length p), None), l\<lparr>lg_size := lg_size l + int (length p)\<rparr>, appendFile (logPath l) p fs)"
proof -
  have "l\<lparr>lg_locked := True, lg_size := k, lg_locked := False\<rparr> = l\<lparr>lg_size := k\<rparr>" for k
    using assms(1) by (cases l) (simp add: readyLogger_def)
  with assms show ?thesis
    by (simp add: logWrite_def fileWrite_def readyLogger_def takesAll_def Let_def)
qed

lemma readyLogger_size [simp]: "readyLogger (l\<lparr>lg_size := n\<rparr>) = readyLogger l"
  by (simp add: readyLogger_def logPath_def)

lemma logPath_size [simp]: "logPath (l\<lparr>lg_size := n\<rparr>) = logPath l"
  by (simp add: logPath_def)

lemma writeAll_blocks:
  assumes "takesAll os"
  shows "readyLogger l \<Longrightarrow> lg_size l \<le> lg_maxSize l \<Longrightarrow>
    writeAll os ps l fs =
      (if lg_size l + int (length (concat ps)) \<le> lg_maxSize l
       then Some (l\<lparr>lg_size := lg_size l + int (length (concat ps))\<rparr>,
                  foldl (\<lambda>fs p. appendFile (logPath l) p fs) fs ps)
       else None)"
proof (induction ps arbitrary: l fs)
  case (Cons p ps)
  show ?case
  proof (cases "lg_size l + int (length p) \<le> lg_maxSize l")
    case True
    with Cons assms show ?thesis by (simp add: logWrite_ready algebra_simps)
  next
    case False
    then have "\<not> lg_size l + int (length (concat (p # ps))) \<le> lg_maxSize l" by simp
    moreover have "writeAll os (p # ps) l fs = None"
      using False Cons.prems by (simp add: logWrite_blocks readyLogger_def)
    ultimately show ?thesis by (simp del: writeAll.simps)
  qed
qed simp

lemma lookup_appendAll:
  "fmlookup (foldl (\<lambda>fs p. appendFile path p fs) fs ps) path =
    (if ps = [] then fmlookup fs path
     else Some ((case fmlookup fs path of None \<Rightarrow> [] | Some c \<Rightarrow> c) @ concat ps))"
  by (induction ps arbitrary: fs) (auto simp: appendFile_def split: option.splits)

section \<open>The clean-up\<close>

lemma mset_exchangeInner:
  "add_mset (fst (exchangeInner x ys)) (mset (snd (exchangeInner x ys))) = add_mset x (mset ys)"
  by (induction x ys rule: exchangeInner.induct) (auto split: prod.splits simp: add_mset_commute)

lemma exchangeInner_min:
  "fst (fst (exchangeInner x ys)) \<le> fst x \<and> (\<forall>y \<in> set ys. fst (fst (exchangeInner x ys)) \<le> fst y)"
  by (induction x ys rule: exchangeInner.induct) (fastforce split: prod.splits)+

lemma set_exchangeInner:
  "insert (fst (exchangeInner x ys)) (set (snd (exchangeInner x ys))) = insert x (set ys)"
  using mset_exchangeInner [of x ys] by (metis list.simps(15) mset.simps(2) mset_eq_setD)

lemma mset_exchangeSort [simp]: "mset (exchangeSort xs) = mset xs"
  by (induction xs rule: exchangeSort.induct) (simp_all add: mset_exchangeInner)

lemma sorted_exchangeSort: "sorted (map fst (exchangeSort xs))"
proof (induction xs rule: exchangeSort.induct)
  case (2 x xs)
  have "set (exchangeSort (snd (exchangeInner x xs))) = set (snd (exchangeInner x xs))"
    by (rule mset_eq_setD) simp
  moreover have "fst (fst (exchangeInner x xs)) \<le> fst y" if "y \<in> set (snd (exchangeInner x xs))" for y
  proof -
    have "y \<in> insert x (set xs)" using that set_exchangeInner [of x xs] by blast
    then show ?thesis using exchangeInner_min [of x xs] by auto
  qed
  ultimately show ?case using 2 by simp
qed simp

lemma lookup_removeAll:
  "fmlookup (foldl (removeFile os) fs ps) p =
     (if p \<in> set ps \<and> lo_remove os p = None then None else fmlookup fs p)"
  by (induction ps arbitrary: fs) (auto simp: removeFile_def)

lemma in_statted: "x \<in> set (statted os ps) \<longleftrightarrow> snd x \<in> set ps \<and> lo_mtime os (snd x) = Inr (fst x)"
  by (induction ps) (auto simp: statted_def List.map_filter_simps split: sum.splits)

lemma set_exchangeSort [simp]: "set (exchangeSort xs) = set xs"
  by (rule mset_eq_setD) simp

lemma cleanup_other: "\<not> isRotated l p \<Longrightarrow> fmlookup (cleanupOldFiles os l fs) p = fmlookup fs p"
  by (auto simp: cleanupOldFiles_def Let_def lookup_removeAll in_statted dest!: in_set_takeD)

lemma logPath_not_rotated [simp]: "\<not> isRotated l (logPath l)"
proof
  assume "isRotated l (logPath l)"
  then have "hasPrefix (logPath l) (lg_dir l @ ''/'' @ lg_prefix l @ ''-'')"
    by (simp add: isRotated_def Let_def)
  then show False by (auto simp: logPath_def hasPrefix_iff)
qed

lemma logPath_file [simp]: "logPath (l\<lparr>lg_file := a\<rparr>) = logPath l"
  by (simp add: logPath_def)

lemma openFile_new:
  "lg_locked l = False \<Longrightarrow> lg_file l = None \<Longrightarrow> openFile os l fs = Some (None, l1, fs1) \<Longrightarrow>
   l1 = l\<lparr>lg_file := Some (logPath l), lg_size := 0\<rparr> \<and> fs1 = cleanupOldFiles os l (createFile (logPath l) fs)"
  by (auto simp: openFile_def Let_def split: option.splits)

text \<open>C31: How much a logger of the agent writes. Whatever is written to a new logger is appended to its
  file as long as the total stays within the limit (10 MB for the agent); the first write that would
  pass it never returns, because rotating takes the mutex that the write holds.\<close>

theorem logger_blocks_at_limit:
  assumes "takesAll os" and new: "NewLogger os dir prefix sz nf fs = Some (Inr l, fs1)"
  shows "case writeAll os ps l fs1 of
      None \<Rightarrow> int (length (concat ps)) > lg_maxSize l
    | Some (l2, fs2) \<Rightarrow> int (length (concat ps)) \<le> lg_maxSize l \<and>
        fmlookup fs2 (logPath l) =
          Some ((case fmlookup fs (logPath l) of None \<Rightarrow> [] | Some c \<Rightarrow> c) @ concat ps)"
proof -
  define l0 where "l0 = \<lparr>lg_dir = if dir = [] then DefaultLogDir else dir, lg_prefix = prefix,
     lg_maxSize = if sz \<le> 0 then DefaultMaxSize else sz, lg_maxFiles = if nf \<le> 0 then DefaultMaxFiles else nf,
     lg_locked = False, lg_file = None, lg_size = 0\<rparr>"
  have l0: "\<not> lg_locked l0" "lg_file l0 = None" "lg_maxSize l0 > 0"
    by (simp_all add: l0_def DefaultMaxSize_def)
  have op: "openFile os l0 fs = Some (None, l, fs1)"
    using new unfolding NewLogger_def Let_def l0_def [symmetric] by (auto split: option.splits)
  from openFile_new [OF _ l0(2) op] l0(1)
  have l: "l = l0\<lparr>lg_file := Some (logPath l0), lg_size := 0\<rparr>"
    and fs1: "fs1 = cleanupOldFiles os l0 (createFile (logPath l0) fs)"
    by simp_all
  have "readyLogger l" "lg_size l = 0" "lg_maxSize l > 0" and p: "logPath l = logPath l0"
    using l0 by (simp_all add: l readyLogger_def)
  then have w: "writeAll os ps l fs1 =
      (if int (length (concat ps)) \<le> lg_maxSize l
       then Some (l\<lparr>lg_size := int (length (concat ps))\<rparr>, foldl (\<lambda>fs p. appendFile (logPath l) p fs) fs1 ps)
       else None)"
    using writeAll_blocks [OF assms(1), of l ps fs1] by simp
  have "fmlookup fs1 (logPath l) = Some (case fmlookup fs (logPath l) of None \<Rightarrow> [] | Some c \<Rightarrow> c)"
    by (auto simp: fs1 p cleanup_other createFile_def fmdom'_notI split: option.split dest: fmdom_notD)
  with w show ?thesis by (auto simp: lookup_appendAll)
qed

definition exLogOS :: log_os where
  "exLogOS = \<lparr>lo_mkdir = \<lambda>_. None, lo_open = \<lambda>_. None, lo_write = \<lambda>_ p. (length p, None), lo_close = \<lambda>_. None,
     lo_mtime = \<lambda>p. Inr (int (length p)), lo_remove = \<lambda>_. None\<rparr>"

definition exLogger :: logger where
  "exLogger = \<lparr>lg_dir = ''d'', lg_prefix = ''main'', lg_maxSize = 4, lg_maxFiles = 1, lg_locked = False,
     lg_file = Some ''d/main.log'', lg_size = 0\<rparr>"

lemma exLogOS_simps [simp]: "lo_mkdir exLogOS d = None" "lo_open exLogOS p = None"
  by (simp_all add: exLogOS_def)

lemma exLogger_new: "NewLogger exLogOS ''d'' ''main'' 4 1 fmempty = Some (Inr exLogger, fmupd ''d/main.log'' [] fmempty)"
proof -
  have "cleanupOldFiles exLogOS l (fmupd ''d/main.log'' [] fmempty) = fmupd ''d/main.log'' [] fmempty"
    if "lg_maxFiles l = 1" for l
  proof -
    have "sortedKeys (fmupd ''d/main.log'' [] fmempty :: log_files) = [''d/main.log'']"
      by (simp add: sortedKeys_def sorted_list_of_fset.rep_eq)
    with that show ?thesis by (simp add: cleanupOldFiles_def)
  qed
  then show ?thesis
    by (simp add: NewLogger_def openFile_def exLogger_def logPath_def createFile_def Let_def)
qed

theorem logger_blocks_at_limit_witness: "writeAll exLogOS [''abc'', ''de''] exLogger (fmupd ''d/main.log'' [] fmempty) = None"
proof -
  have "takesAll exLogOS" by (simp add: takesAll_def exLogOS_def)
  from logger_blocks_at_limit [OF this exLogger_new, of "[''abc'', ''de'']"]
  show ?thesis by (auto simp: exLogger_def split: option.splits)
qed

text \<open>The rotated files of a logger.\<close>

definition rotatedFiles :: "logger \<Rightarrow> log_files \<Rightarrow> string set" where
  "rotatedFiles l fs = {p. p |\<in>| fmdom fs \<and> isRotated l p}"

lemma card_files: "length (filter (isRotated l) (sortedKeys fs)) = card (rotatedFiles l fs)"
proof -
  have "set (filter (isRotated l) (sortedKeys fs)) = rotatedFiles l fs" by (auto simp: rotatedFiles_def)
  moreover have "distinct (filter (isRotated l) (sortedKeys fs))" by simp
  ultimately show ?thesis by (metis distinct_card)
qed

lemma statted_all:
  "(\<And>p. p \<in> set ps \<Longrightarrow> lo_mtime os p = Inr (mt p)) \<Longrightarrow> statted os ps = map (\<lambda>p. (mt p, p)) ps"
  unfolding statted_def by (induction ps) (simp_all add: List.map_filter_simps)

text \<open>Cutting a list of dated names, the oldest first.\<close>

lemma oldest_first:
  assumes "sorted (map fst xs)" "distinct (map snd xs)" "\<forall>x \<in> set xs. fst x = f (snd x)"
  shows "set (map snd xs) - set (map snd (take k xs)) = set (map snd (drop k xs)) \<and>
    (\<forall>p \<in> set (map snd (take k xs)). \<forall>q \<in> set (map snd (drop k xs)). f p \<le> f q)"
proof -
  have m: "map h xs = map h (take k xs) @ map h (drop k xs)" for h :: "_ \<Rightarrow> 'c"
    by (metis append_take_drop_id map_append)
  have "set (map snd (take k xs)) \<inter> set (map snd (drop k xs)) = {}"
    using assms(2) unfolding m [of snd] distinct_append by blast
  moreover have "set (map snd xs) = set (map snd (take k xs)) \<union> set (map snd (drop k xs))"
    by (subst m [of snd]) (rule set_append)
  moreover have "f (snd x) \<le> f (snd y)" if "x \<in> set (take k xs)" "y \<in> set (drop k xs)" for x y
  proof -
    have "\<forall>a \<in> set (map fst (take k xs)). \<forall>b \<in> set (map fst (drop k xs)). a \<le> b"
      using assms(1) unfolding m [of fst] sorted_append by blast
    moreover have "fst x \<in> set (map fst (take k xs))" "fst y \<in> set (map fst (drop k xs))"
      using that by (simp_all only: set_map imageI)
    ultimately have "fst x \<le> fst y" by blast
    moreover have "x \<in> set xs" "y \<in> set xs" using that by (blast dest: in_set_takeD in_set_dropD)+
    ultimately show ?thesis using assms(3) by metis
  qed
  ultimately show ?thesis by auto
qed

text \<open>The clean-up keeps the configured number of rotated files, the most recent ones: it removes just
  the surplus, no file it removes is newer than one it keeps, and no other file is touched.\<close>

theorem cleanup_keeps_newest:
  assumes "\<And>p. p \<in> rotatedFiles l fs \<Longrightarrow> lo_mtime os p = Inr (mt p) \<and> lo_remove os p = None"
    and "lg_maxFiles l \<ge> 0"
  shows "card (rotatedFiles l (cleanupOldFiles os l fs)) = min (card (rotatedFiles l fs)) (nat (lg_maxFiles l)) \<and>
    (\<forall>p \<in> rotatedFiles l fs - rotatedFiles l (cleanupOldFiles os l fs).
       \<forall>q \<in> rotatedFiles l (cleanupOldFiles os l fs). mt p \<le> mt q) \<and>
    (\<forall>p. \<not> isRotated l p \<longrightarrow> fmlookup (cleanupOldFiles os l fs) p = fmlookup fs p)"
proof (cases "int (card (rotatedFiles l fs)) \<le> lg_maxFiles l")
  case True
  have "length (filter (isRotated l) (sortedKeys fs)) = card (rotatedFiles l fs)"
    by (simp add: card_files)
  with True assms(2) have "cleanupOldFiles os l fs = fs" by (simp add: cleanupOldFiles_def)
  with True assms(2) show ?thesis by simp
next
  case False
  define files where "files = filter (isRotated l) (sortedKeys fs)"
  define infos where "infos = exchangeSort (map (\<lambda>p. (mt p, p)) files)"
  define k where "k = card (rotatedFiles l fs) - nat (lg_maxFiles l)"
  have files: "set files = rotatedFiles l fs" "length files = card (rotatedFiles l fs)"
    by (auto simp: files_def rotatedFiles_def card_files)
  have "statted os files = map (\<lambda>p. (mt p, p)) files"
    using assms(1) files(1) by (intro statted_all) auto
  moreover have len: "length infos = card (rotatedFiles l fs)"
    using files(2) by (metis infos_def length_map mset_exchangeSort size_mset)
  moreover have "cleanupOldFiles os l fs =
      (if int (length files) \<le> lg_maxFiles l then fs
       else foldl (removeFile os) fs (map snd (take (nat (int (length (exchangeSort (statted os files))) - lg_maxFiles l))
         (exchangeSort (statted os files)))))"
    by (simp only: cleanupOldFiles_def files_def Let_def)
  ultimately have clean: "cleanupOldFiles os l fs = foldl (removeFile os) fs (map snd (take k infos))"
    using False assms(2) files(2) by (simp add: k_def infos_def nat_diff_distrib)
  have snds: "mset (map snd infos) = mset files"
    by (simp add: infos_def image_mset.compositionality comp_def)
  have dist: "distinct (map snd infos)"
    using snds by (metis distinct_filter files_def mset_eq_imp_distinct_iff sortedKeys_ok(1))
  have sset: "set (map snd infos) = rotatedFiles l fs"
    using mset_eq_setD [OF snds] files(1) by simp
  define gone where "gone = set (map snd (take k infos))"
  have kept: "rotatedFiles l (cleanupOldFiles os l fs) = rotatedFiles l fs - gone"
    using assms(1) by (auto simp: clean rotatedFiles_def lookup_removeAll gone_def fmlookup_dom_iff split: if_splits)
  have "sorted (map fst infos)" "\<forall>x \<in> set infos. fst x = mt (snd x)"
    by (auto simp: infos_def sorted_exchangeSort)
  note split = oldest_first [OF this(1) dist this(2), of k]
  have rest: "rotatedFiles l fs - gone = set (map snd (drop k infos))"
    using split sset by (simp add: gone_def)
  have "card (set (map snd (drop k infos))) = nat (lg_maxFiles l)"
    using dist len False assms(2)
    by (subst distinct_card) (auto simp: k_def drop_map [symmetric])
  then have number: "card (rotatedFiles l fs - gone) = min (card (rotatedFiles l fs)) (nat (lg_maxFiles l))"
    using False assms(2) unfolding rest by simp
  have age: "\<forall>p \<in> rotatedFiles l fs - (rotatedFiles l fs - gone). \<forall>q \<in> rotatedFiles l fs - gone. mt p \<le> mt q"
  proof -
    have "\<forall>p \<in> gone. \<forall>q \<in> rotatedFiles l fs - gone. mt p \<le> mt q"
      unfolding rest unfolding gone_def by (rule split [THEN conjunct2])
    then show ?thesis by blast
  qed
  have others: "\<forall>p. \<not> isRotated l p \<longrightarrow> fmlookup (cleanupOldFiles os l fs) p = fmlookup fs p"
    by (simp add: cleanup_other)
  show ?thesis unfolding kept using number age others by blast
qed

definition exRotated :: log_files where
  "exRotated = fmupd ''d/main-b.log'' [] (fmupd ''d/main-old.log'' [] fmempty)"

theorem cleanup_keeps_newest_witness:
  "card (rotatedFiles exLogger (cleanupOldFiles exLogOS exLogger exRotated)) = 1"
proof -
  have "rotatedFiles exLogger exRotated = {''d/main-b.log'', ''d/main-old.log''}"
    by (auto simp: rotatedFiles_def exRotated_def isRotated_def exLogger_def Let_def hasPrefix_def trimPrefix_def hasSuffix_def)
  then show ?thesis
    using cleanup_keeps_newest [of exLogger exRotated exLogOS "\<lambda>p. int (length p)"]
    by (simp add: exLogOS_def) (simp add: exLogger_def)
qed

end
