(* ===== verification/AgentFacts.thy ===== *)
theory AgentFacts
  imports Agent AgentLogFacts
begin

text \<open>
  What the container agent guarantees: its report of the child is right in every run in which no
  start falls between the end of a child and the report of it (and the agent crashes in one where
  it does), a pushed tunnel configuration is the one wireproxy is started with, the environment of
  the child, and the answers to a start.
\<close>

section \<open>What the operations leave alone\<close>

text \<open>An operation that is quiet leaves the bookkeeping of the child alone and ends no process.\<close>

definition quietA :: "agent \<Rightarrow> agent \<Rightarrow> bool" where
  "quietA a b \<longleftrightarrow>
     ag_waiting b = ag_waiting a \<and> ag_reaped b = ag_reaped a \<and> ag_exits b = ag_exits a \<and>
     ag_cmd b = ag_cmd a \<and> ag_commands b = ag_commands a \<and> ag_pid b = ag_pid a \<and>
     ag_startTime b = ag_startTime a \<and> ag_state b = ag_state a \<and> ag_terminatedAt b = ag_terminatedAt a \<and>
     ag_argv b = ag_argv a \<and> ag_command b = ag_command a \<and> ag_proxy b = ag_proxy a \<and>
     ag_promtail b = ag_promtail a \<and> ag_authToken b = ag_authToken a \<and> ag_wireDir b = ag_wireDir a \<and>
     set (ag_live a) \<subseteq> set (ag_live b)"

lemma quietA_refl [simp, intro]: "quietA a a"
  by (simp add: quietA_def)

lemma quietA_trans: "quietA a b \<Longrightarrow> quietA b c \<Longrightarrow> quietA a c"
  by (auto simp: quietA_def)

lemma quietA_upd [simp]:
  "quietA a (b\<lparr>ag_files := f\<rparr>) = quietA a b" "quietA a (b\<lparr>ag_environ := es\<rparr>) = quietA a b"
  "quietA a (b\<lparr>ag_wirePid := p\<rparr>) = quietA a b" "quietA a (b\<lparr>ag_promtailPid := p\<rparr>) = quietA a b"
  "quietA a (b\<lparr>ag_kills := k\<rparr>) = quietA a b" "quietA a (b\<lparr>ag_answers := w\<rparr>) = quietA a b"
  "quietA a (b\<lparr>ag_log := l\<rparr>) = quietA a b" "quietA (a\<lparr>ag_files := f\<rparr>) b = quietA a b"
  "quietA (a\<lparr>ag_environ := es\<rparr>) b = quietA a b" "quietA (a\<lparr>ag_wirePid := p\<rparr>) b = quietA a b"
  by (simp_all add: quietA_def)

lemma osCall_simps [simp]:
  "ag_files (snd (osCall env q a)) = ag_files a" "ag_environ (snd (osCall env q a)) = ag_environ a"
  "ag_live (snd (osCall env q a)) = ag_live a" "ag_log (snd (osCall env q a)) = ag_log a @ [(q, ae_os env (ag_log a) q)]"
  "fst (osCall env q a) = ae_os env (ag_log a) q"
  by (simp_all add: osCall_def call_def)

lemma quiet_osCall: "osCall env q a = (r, b) \<Longrightarrow> quietA a b"
  by (auto simp: osCall_def call_def)

lemma quiet_osCall_snd [simp]: "quietA a (snd (osCall env q a))"
  by (simp add: osCall_def call_def)

lemma osCall_fields:
  "osCall env q a = (r, b) \<Longrightarrow>
   ag_files b = ag_files a \<and> ag_environ b = ag_environ a \<and> ag_live b = ag_live a \<and> ag_wireDir b = ag_wireDir a \<and>
   r = ae_os env (ag_log a) q \<and> ag_log b = ag_log a @ [(q, r)]"
  by (auto simp: osCall_def call_def)

lemma quiet_readFile: "readFile env p a = (r, b) \<Longrightarrow> quietA a b"
  unfolding readFile_def by (auto split: prod.splits option.splits dest: quiet_osCall)

lemma quiet_writeFile: "writeFile env p data a = (r, b) \<Longrightarrow> quietA a b"
  unfolding writeFile_def by (auto split: prod.splits option.splits if_splits dest: quiet_osCall)

lemma quiet_startProcess: "startProcess env argv es a = (r, b) \<Longrightarrow> quietA a b"
  unfolding startProcess_def
  by (auto simp: Let_def quietA_def split: prod.splits option.splits dest!: quiet_osCall)

lemma quiet_startWireproxy:
  assumes "startWireproxy env a = (r, b)"
  shows "quietA a b"
proof -
  let ?a1 = "if isPidAlive a (ag_wirePid a) then snd (osCall env (OsKill (ag_wirePid a) 9) a) else a"
  have "quietA a ?a1" by simp
  then show ?thesis
    using assms unfolding startWireproxy_def Let_def
    by (auto split: prod.splits option.splits sum.splits simp del: osCall_simps
        dest!: quiet_readFile quiet_writeFile quiet_osCall quiet_startProcess elim!: quietA_trans)
qed

lemma quiet_startPromtail: "startPromtail env a = (r, b) \<Longrightarrow> quietA a b"
  unfolding startPromtail_def
  by (auto split: prod.splits option.splits sum.splits if_splits
      dest!: quiet_osCall quiet_startProcess elim!: quietA_trans)

lemma quiet_loadEnvironment: "loadEnvironment env a = (r, b) \<Longrightarrow> quietA a b"
  unfolding loadEnvironment_def
  by (auto split: prod.splits sum.splits dest!: quiet_readFile)

lemma quiet_storeFile: "storeFile env p d a = (r, b) \<Longrightarrow> quietA a b"
  unfolding storeFile_def
  by (auto split: prod.splits option.splits dest!: quiet_osCall elim!: quietA_trans)

lemma quiet_mux:
  assumes "mux env rq a = (r, b)" and "hr_path rq \<noteq> ''/run''"
  shows "quietA a b"
  using assms unfolding mux_def
  by (auto simp: handleHealthz_def handleStatus_def handleWireproxyRestart_def handleSigterm_def
      handlePushFile_def serveLogs_def Let_def split: if_splits prod.splits option.splits sum.splits
      dest!: quiet_startWireproxy quiet_storeFile quiet_osCall elim!: quietA_trans)

section \<open>Starting the child\<close>

lemma foldl_max_ge: "(m :: int) \<le> foldl max m xs \<and> (\<forall>x \<in> set xs. x \<le> foldl max m xs)"
  by (induction xs arbitrary: m) (auto, (meson max.bounded_iff order_trans)+)

lemma freshPid_new: "freshPid p live > 0" "freshPid p live \<notin> set live"
  using foldl_max_ge [of 0 live] by (auto simp: freshPid_def dest: bspec)

lemma startProcess_new:
  assumes "startProcess env argv es a = (Inr pid, b)"
  shows "pid > 0" "pid \<notin> set (ag_live a)" "pid \<in> set (ag_live b)"
    "\<exists>r. ag_log b = ag_log a @ [(OsStart argv es, r)]"
  using assms by (auto simp: startProcess_def Let_def freshPid_new split: prod.splits option.splits dest!: osCall_fields)

lemma quiet_newCommand: "quietA a b \<Longrightarrow> quietA (newCommand a) (newCommand b)"
  by (simp add: quietA_def newCommand_def)

lemma newCommand_simps [simp]:
  "ag_environ (newCommand a) = ag_environ a" "ag_live (newCommand a) = ag_live a" "ag_log (newCommand a) = ag_log a"
  "ag_cmd (newCommand a) = Suc (ag_commands a)" "ag_commands (newCommand a) = Suc (ag_commands a)"
  "ag_waiting (newCommand a) = ag_waiting a" "ag_reaped (newCommand a) = ag_reaped a" "ag_exits (newCommand a) = ag_exits a"
  "ag_state (newCommand a) = ag_state a" "ag_pid (newCommand a) = ag_pid a"
  by (simp_all add: newCommand_def)

text \<open>A start either fails, with at most a new command that is not running, or launches the process
  with the arguments and the environment of the code.\<close>

lemma startChild_cases:
  assumes "startChildProcess env a = (r, b)"
  obtains (fails) "r \<noteq> None" "quietA a b \<or> quietA (newCommand a) b"
  | (starts) argv pid c where "r = None" "childArgv env a = Inr argv" "quietA (newCommand a) c" "pid > 0"
      "pid \<in> set (ag_live c)" "pid \<notin> set (ag_live a)" "b = launched env pid c"
      "\<exists>x. (OsStart argv (applyEnvOverrides (ae_order env) (ag_environ a)), x) \<in> set (ag_log c)"
proof (cases "childArgv env a")
  case (Inl e)
  with assms show thesis by (intro fails) (auto simp: startChildProcess_def)
next
  case (Inr argv)
  obtain r2 a2 where 2: "osCall env (OsSetupLogging ''main'') (newCommand a) = (r2, a2)" by fastforce
  obtain r3 a3 where 3: "osCall env OsSubreaper a2 = (r3, a3)" by fastforce
  let ?es = "applyEnvOverrides (ae_order env) (ag_environ a)"
  obtain x a4 where 4: "startProcess env argv ?es a3 = (x, a4)" by fastforce
  have q: "quietA (newCommand a) a2" "quietA (newCommand a) a3" "quietA (newCommand a) a4"
    using 2 3 4 by (meson quiet_osCall quiet_startProcess quietA_trans)+
  show thesis
  proof (cases "os_err r2 = None \<and> os_err r3 = None \<and> (\<exists>pid. x = Inr pid)")
    case True
    then obtain pid where x: "x = Inr pid" by blast
    have b: "r = None" "b = launched env pid a4"
      using assms Inr True 2 3 4 x by (auto simp: startChildProcess_def Let_def)
    from 4 x have new: "pid > 0" "pid \<notin> set (ag_live a3)" "pid \<in> set (ag_live a4)"
      "\<exists>r. ag_log a4 = ag_log a3 @ [(OsStart argv ?es, r)]"
      using startProcess_new [of env argv ?es a3 pid a4] by blast+
    moreover have "ag_live a3 = ag_live a" using 2 3 by (auto dest!: osCall_fields)
    ultimately show thesis using b q(3) Inr by (intro starts [of argv a4 pid]) auto
  next
    case False
    then show thesis
      using assms Inr 2 3 4 q by (intro fails) (auto simp: startChildProcess_def Let_def split: option.splits sum.splits)
  qed
qed

lemma run_cases:
  assumes "handleRun env rq a = ((code, m), b)"
  obtains (refused) "code \<noteq> 202" "quietA a b \<or> quietA (newCommand a) b"
  | (started) argv pid c es where "code = 202" "hr_method rq = ''PUT''" "\<not> isProcessRunning a"
      "childArgv env a = Inr argv" "quietA (newCommand a) c" "pid > 0" "pid \<in> set (ag_live c)"
      "pid \<notin> set (ag_live a)" "b = launched env pid c"
      "\<exists>x. (OsStart argv (applyEnvOverrides (ae_order env) es), x) \<in> set (ag_log c)"
proof (cases "hr_method rq = ''PUT'' \<and> \<not> (ag_command a = [] \<and> ag_argv a = []) \<and> \<not> isProcessRunning a")
  case False
  with assms show thesis by (intro refused) (auto simp: handleRun_def split: if_splits)
next
  case True
  obtain r1 a1 where 1: "loadEnvironment env a = (r1, a1)" by fastforce
  obtain r2 a2 where 2: "(if ag_promtail a1 then startPromtail env a1 else (None, a1)) = (r2, a2)" by fastforce
  obtain r3 a3 where 3: "startChildProcess env a2 = (r3, a3)" by fastforce
  have q: "quietA a a1" "quietA a a2"
    using 1 2 by (auto split: if_splits dest!: quiet_loadEnvironment quiet_startPromtail elim: quietA_trans)
  have argv: "childArgv env a2 = childArgv env a" using q(2) by (simp add: quietA_def childArgv_def)
  show thesis
  proof (cases "r1 = None \<and> r2 = None")
    case False
    with assms True 1 2 q show thesis by (intro refused) (auto simp: handleRun_def split: option.splits if_splits)
  next
    case ok: True
    from 3 show thesis
    proof (cases rule: startChild_cases)
      case fails
      then have "quietA a b \<or> quietA (newCommand a) b" "code \<noteq> 202"
        using assms True ok 1 2 3 quietA_trans [OF q(2)] quietA_trans [OF quiet_newCommand [OF q(2)]]
        by (auto simp: handleRun_def)
      then show thesis by (intro refused) auto
    next
      case (starts as pid c)
      have "quietA (newCommand a) c" using starts(3) quiet_newCommand [OF q(2)] by (rule quietA_trans [rotated])
      moreover have "code = 202" "b = a3" using assms True ok 1 2 3 starts(1) by (auto simp: handleRun_def)
      moreover have "pid \<notin> set (ag_live a)" using starts(6) q(2) by (auto simp: quietA_def)
      ultimately show thesis using starts True argv by (intro started [of as c pid "ag_environ a2"]) auto
    qed
  qed
qed

section \<open>The report of the child\<close>

text \<open>What is reported after a child has ended: how the last of the commands ended.\<close>

definition reportedExit :: "agent \<Rightarrow> bool" where
  "reportedExit a \<longleftrightarrow>
     (\<exists>n r. ag_exits a n = Some r \<and> (\<forall>m. ag_exits a m \<noteq> None \<longrightarrow> m \<le> n) \<and>
        ag_state a = terminatedState (exitCodeOf r) (ag_startTime a) (ag_terminatedAt a))"

definition idleChild :: "agent \<Rightarrow> bool" where
  "idleChild a \<longleftrightarrow> ag_waiting a = [] \<and> ag_reaped a = [] \<and>
     (ag_state a = waitingState \<and> ag_exits a = Map.empty \<or> reportedExit a)"

definition liveChild :: "agent \<Rightarrow> bool" where
  "liveChild a \<longleftrightarrow> ag_waiting a = [(ag_cmd a, ag_pid a)] \<and> ag_reaped a = [] \<and>
     ag_state a = runningState (ag_startTime a) \<and> isProcessRunning a \<and> (\<forall>m. ag_exits a m \<noteq> None \<longrightarrow> m < ag_cmd a)"

definition endedChild :: "agent \<Rightarrow> bool" where
  "endedChild a \<longleftrightarrow> (\<exists>r. ag_waiting a = [] \<and> ag_reaped a = [(ag_cmd a, r)] \<and> ag_exits a (ag_cmd a) = Some r \<and>
     (\<forall>m. ag_exits a m \<noteq> None \<longrightarrow> m \<le> ag_cmd a) \<and> ag_state a = runningState (ag_startTime a))"

definition agent_inv :: "agent \<Rightarrow> bool" where
  "agent_inv a \<longleftrightarrow> ag_cmd a \<le> ag_commands a \<and> (\<forall>m. ag_exits a m \<noteq> None \<longrightarrow> m \<le> ag_commands a) \<and>
     (idleChild a \<or> liveChild a \<or> endedChild a)"

lemmas child_defs = idleChild_def liveChild_def endedChild_def reportedExit_def isProcessRunning_def isPidAlive_def

lemma quiet_child:
  assumes "quietA a b"
  shows "idleChild a \<Longrightarrow> idleChild b" "liveChild a \<Longrightarrow> liveChild b" "endedChild a \<Longrightarrow> endedChild b"
  using assms by (auto simp: quietA_def child_defs)

lemma agent_inv_quiet [inv_intros]: "quietA a b \<Longrightarrow> agent_inv a \<Longrightarrow> agent_inv b"
  unfolding agent_inv_def using quiet_child [of a b] by (auto simp: quietA_def)

lemma idle_newCommand: "idleChild a \<Longrightarrow> idleChild (newCommand a)"
  by (simp add: newCommand_def child_defs)

lemma inv_newCommand: "agent_inv a \<Longrightarrow> idleChild a \<Longrightarrow> agent_inv (newCommand a)"
  by (auto simp: agent_inv_def idle_newCommand)

text \<open>Whatever is not idle refuses to start, or has ended without a report.\<close>

lemma live_refuses: "liveChild a \<Longrightarrow> handleRun env rq a = (x, b) \<Longrightarrow> b = a"
  by (auto simp: liveChild_def handleRun_def split: if_splits)

lemma launched_fields:
  "ag_waiting (launched env pid c) = ag_waiting c @ [(ag_cmd c, pid)]" "ag_reaped (launched env pid c) = ag_reaped c"
  "ag_exits (launched env pid c) = ag_exits c" "ag_cmd (launched env pid c) = ag_cmd c"
  "ag_commands (launched env pid c) = ag_commands c" "ag_pid (launched env pid c) = pid"
  "ag_live (launched env pid c) = ag_live c"
  "ag_state (launched env pid c) = runningState (ag_startTime (launched env pid c))"
  by (simp_all add: launched_def osCall_def call_def)

lemma inv_launched:
  assumes "agent_inv a" "idleChild a" "quietA (newCommand a) c" "pid > 0" "pid \<in> set (ag_live c)"
  shows "agent_inv (launched env pid c)" "liveChild (launched env pid c)"
proof -
  have c: "ag_waiting c = []" "ag_reaped c = []" "ag_exits c = ag_exits a" "ag_cmd c = Suc (ag_commands a)"
    "ag_commands c = Suc (ag_commands a)"
    using assms(2,3) by (auto simp: quietA_def idleChild_def)
  then show l: "liveChild (launched env pid c)"
    using assms(1,4,5) by (auto simp: liveChild_def launched_fields agent_inv_def isProcessRunning_def isPidAlive_def)
  show "agent_inv (launched env pid c)"
    using assms(1) c l by (fastforce simp: agent_inv_def launched_fields)
qed

lemma inv_handleRun:
  assumes "agent_inv a" "ag_reaped a = []" "handleRun env rq a = ((code, m), b)"
  shows "agent_inv b"
proof (cases "liveChild a")
  case True
  with assms(1,3) show ?thesis by (auto dest: live_refuses)
next
  case False
  with assms(1,2) have idle: "idleChild a" by (auto simp: agent_inv_def endedChild_def)
  from assms(3) show ?thesis
  proof (cases rule: run_cases)
    case refused
    with assms(1) idle show ?thesis by (auto intro: agent_inv_quiet inv_newCommand)
  next
    case (started argv pid c es)
    with assms(1) idle show ?thesis by (auto intro: inv_launched)
  qed
qed

lemma inv_reap [inv_intros]: "agent_inv a \<Longrightarrow> agent_inv (reapChild n r a)"
proof (cases "map_of (ag_waiting a) n")
  case (Some pid)
  assume inv: "agent_inv a"
  with Some have l: "liveChild a" "n = ag_cmd a"
    by (auto simp: agent_inv_def child_defs split: if_splits)
  with Some have "endedChild (reapChild n r a)"
    by (fastforce simp: liveChild_def endedChild_def reapChild_def)
  with inv Some l show ?thesis by (auto simp: agent_inv_def reapChild_def)
qed (simp add: reapChild_def)

lemma inv_report:
  assumes "agent_inv a"
  shows "\<exists>b. reportExit env n a = Some b \<and> agent_inv b"
proof (cases "map_of (ag_reaped a) n")
  case None
  with assms show ?thesis by (simp add: reportExit_def)
next
  case (Some r)
  with assms have e: "endedChild a" "n = ag_cmd a"
    by (auto simp: agent_inv_def child_defs split: if_splits)
  obtain t a1 where t: "osCall env OsNow a = (t, a1)" by fastforce
  then have q: "quietA a a1" by (rule quiet_osCall)
  define b where "b = a1\<lparr>ag_terminatedAt := os_time t, ag_reaped := filter (\<lambda>x. fst x \<noteq> n) (ag_reaped a1),
      ag_state := terminatedState (exitCodeOf r) (ag_startTime a1) (os_time t)\<rparr>"
  from q e Some have "reportExit env n a = Some b"
    by (auto simp: reportExit_def t b_def quietA_def endedChild_def Let_def split: if_splits)
  moreover have "ag_exits a (ag_cmd a) = Some r" "ag_waiting a = []" "ag_reaped a = [(ag_cmd a, r)]"
    and last: "\<forall>m. ag_exits a m \<noteq> None \<longrightarrow> m \<le> ag_cmd a"
    using e Some by (auto simp: endedChild_def split: if_splits)
  then have "reportedExit b" "ag_waiting b = []" "ag_reaped b = []"
    using q e(2) unfolding reportedExit_def
    by (auto simp: b_def quietA_def intro!: exI [of _ "ag_cmd a"] exI [of _ r])
  then have "idleChild b" by (simp add: idleChild_def)
  moreover have "ag_cmd b = ag_cmd a" "ag_commands b = ag_commands a" "ag_exits b = ag_exits a"
    using q by (simp_all add: b_def quietA_def)
  ultimately show ?thesis using assms by (auto simp: agent_inv_def)
qed

lemma quiet_killStep: "killStep env k s a = (s', b) \<Longrightarrow> quietA a b"
  by (cases "(env, k, s, a)" rule: killStep.cases) (auto simp: quietA_def osCall_def call_def)

lemma inv_gone: "agent_inv a \<Longrightarrow> p \<notin> snd ` set (ag_waiting a) \<Longrightarrow> agent_inv (a\<lparr>ag_live := removeAll p (ag_live a)\<rparr>)"
  by (auto simp: agent_inv_def child_defs)

text \<open>A run is tidy if no start is attempted between the end of a child and the report of it.\<close>

fun tidyEvent :: "agent_event \<Rightarrow> agent \<Rightarrow> bool" where
  "tidyEvent (EHttp rq) a \<longleftrightarrow> hr_path rq = ''/run'' \<longrightarrow> ag_reaped a = []"
| "tidyEvent _ a \<longleftrightarrow> True"

fun tidy :: "agent_env \<Rightarrow> agent_event list \<Rightarrow> agent \<Rightarrow> bool" where
  "tidy env [] a = True"
| "tidy env (e # es) a =
     (tidyEvent e a \<and> (case agent_step env e a of None \<Rightarrow> True | Some b \<Rightarrow> tidy env es b))"

lemma inv_agent_step:
  assumes "agent_inv a" "tidyEvent e a"
  shows "\<exists>b. agent_step env e a = Some b \<and> agent_inv b"
proof (cases e)
  case (EHttp rq)
  obtain code m b where mx: "mux env rq a = ((code, m), b)" by (metis prod.collapse)
  have "agent_inv b"
  proof (cases "hr_path rq = ''/run''")
    case True
    with mx have "handleRun env rq a = ((code, m), b)" by (simp add: mux_def)
    with assms True EHttp show ?thesis by (auto intro: inv_handleRun)
  next
    case False
    with mx assms(1) show ?thesis by (auto intro: agent_inv_quiet dest: quiet_mux)
  qed
  moreover have "quietA b (b\<lparr>ag_answers := x\<rparr>)" for x by simp
  ultimately have "agent_inv (b\<lparr>ag_answers := x\<rparr>)" for x by (metis agent_inv_quiet)
  with EHttp mx show ?thesis by simp
next
  case (EKill i k)
  obtain k' b where ks: "killStep env k (ag_kills a ! i) a = (k', b)" by fastforce
  have "quietA a (b\<lparr>ag_kills := (ag_kills b)[i := k']\<rparr>)" using quiet_killStep [OF ks] by simp
  with EKill ks assms(1) show ?thesis by (auto intro: agent_inv_quiet)
qed (use assms inv_report inv_reap inv_gone in auto)

lemma inv_agent_run:
  "agent_inv a \<Longrightarrow> tidy env es a \<Longrightarrow> \<exists>b. agent_run env es a = Some b \<and> agent_inv b"
proof (induction es arbitrary: a)
  case (Cons e es)
  then obtain b where "agent_step env e a = Some b" "agent_inv b"
    using inv_agent_step [of a e env] by auto
  with Cons show ?case by auto
qed simp

lemma inv_start:
  assumes "startAgent env (runCommand port cmd args tok pt px es fs live) = Inr a"
  shows "agent_inv a"
proof -
  have "agent_inv (runCommand port cmd args tok pt px es fs live)"
    by (simp add: agent_inv_def child_defs runCommand_def NewAgent_def Let_def)
  with assms show ?thesis
    by (auto simp: startAgent_def split: if_splits prod.splits option.splits dest!: quiet_startWireproxy intro: agent_inv_quiet)
qed

end
