(* ===== verification/AgentProperties.thy ===== *)
theory AgentProperties
  imports AgentFacts
begin

text \<open>The properties of the container agent, with their witnesses.\<close>

section \<open>The report of the child\<close>


definition exOs :: "(os_req, os_resp) service" where
  "exOs w q = \<lparr>os_err = None, os_opened = True, os_count = 0, os_pid = 7, os_time = int (length w)\<rparr>"

definition exAgentEnv :: agent_env where
  "exAgentEnv = \<lparr>ae_os = exOs, ae_shellwords = \<lambda>s. Inr [s], ae_loadEnv = \<lambda>c es. Inr es,
     ae_decodePush = \<lambda>s. Inr (''/etc/virtualpod/wireproxy.tpl'', s), ae_order = sortedKeys,
     ae_logFile = (True, Inr (exReader [])), ae_stateText = \<lambda>_. []\<rparr>"

definition exAgent :: agent where
  "exAgent = runCommand 8080 [] [''sleep''] [] False False [''A=1''] [environmentPath \<mapsto> []] []"

definition exRequest :: "string \<Rightarrow> string \<Rightarrow> http_request" where
  "exRequest path method = \<lparr>hr_path = path, hr_method = method, hr_auth = [], hr_body = [], hr_follow = False, hr_tail = []\<rparr>"

lemma exAgent_start: "startAgent exAgentEnv exAgent = Inr exAgent"
  by (simp add: startAgent_def exAgent_def runCommand_def NewAgent_def Let_def)

lemma exOs_ok [simp]: "os_err (ae_os exAgentEnv w q) = None" "os_time (ae_os exAgentEnv w q) = int (length w)"
  "os_pid (ae_os exAgentEnv w q) = 7"
  by (simp_all add: exAgentEnv_def exOs_def)

lemma exLib [simp]: "ae_loadEnv exAgentEnv c es = Inr es" "ae_order exAgentEnv = sortedKeys"
  "ae_decodePush exAgentEnv s = Inr (''/etc/virtualpod/wireproxy.tpl'', s)"
  by (simp_all add: exAgentEnv_def)

text \<open>The example agent after a request to start its child.\<close>

definition exRunning :: agent where
  "exRunning = snd (mux exAgentEnv (exRequest ''/run'' ''PUT'') exAgent)"

lemma osCall_pair: "osCall env q a = (ae_os env (ag_log a) q, a\<lparr>ag_log := ag_log a @ [(q, ae_os env (ag_log a) q)]\<rparr>)"
  by (simp add: osCall_def call_def)

lemma exRunning_started:
  "mux exAgentEnv (exRequest ''/run'' ''PUT'') exAgent = ((202, ''execution started''), exRunning) \<and>
   ag_waiting exRunning = [(1, 7)] \<and> ag_reaped exRunning = [] \<and> ag_cmd exRunning = 1 \<and> ag_exits exRunning = Map.empty"
  by (simp add: exRunning_def mux_def exRequest_def handleRun_def isProcessRunning_def isPidAlive_def loadEnvironment_def
      readFile_def startChildProcess_def childArgv_def startProcess_def osCall_pair newCommand_def launched_def
      exAgent_def runCommand_def NewAgent_def Let_def freshPid_def)


text \<open>The agent crashes when its child is started again between the end of the last one and the
  report of it: after a tidy run that leaves an ended child unreported, a request to start that is
  accepted makes the goroutine of the ended child look at a command that has not ended.\<close>

theorem run_before_report_crashes:
  assumes "startAgent env (runCommand port cmd args token promtail proxy environ files live) = Inr a"
    and "tidy env es a" and "agent_run env es a = Some b" and "ag_reaped b = [(n, r)]"
    and "hr_path rq = ''/run''" and "handleRun env rq b = ((202, m), c)"
  shows "agent_run env (es @ [EHttp rq, EReport n]) a = None"
proof -
  have inv: "agent_inv b"
    using inv_agent_run [OF inv_start [OF assms(1)] assms(2)] assms(3) by auto
  from assms(6) show ?thesis
  proof (cases rule: run_cases)
    case (started argv pid c' es')
    then have c: "ag_reaped c = [(n, r)]" "ag_exits c = ag_exits b" "ag_cmd c = Suc (ag_commands b)"
      using assms(4) by (simp_all add: launched_fields quietA_def)
    have "ag_exits b (Suc (ag_commands b)) = None"
      using inv unfolding agent_inv_def by (metis Suc_n_not_le_n)
    with c assms(3,5,6) show ?thesis
      by (simp add: agent_run_append mux_def reportExit_def osCall_pair Let_def)
  qed simp
qed

lemma exAgent_reaped: "ag_reaped exAgent = []"
  by (simp add: exAgent_def runCommand_def NewAgent_def Let_def)

lemma exRequest_path: "hr_path (exRequest p m) = p"
  by (simp add: exRequest_def)

lemma exRunning_reaped:
  "agent_run exAgentEnv [EHttp (exRequest ''/run'' ''PUT''), EReap 1 (WaitExited 0)] exAgent =
     Some (reapChild 1 (WaitExited 0) (exRunning\<lparr>ag_answers := ag_answers exRunning @ [(202, ''execution started'')]\<rparr>))"
  by (simp add: exRunning_started)

theorem run_before_report_crashes_witness:
  "agent_run exAgentEnv ([EHttp (exRequest ''/run'' ''PUT''), EReap 1 (WaitExited 0)] @
     [EHttp (exRequest ''/run'' ''PUT''), EReport 1]) exAgent = None"
proof -
  let ?es = "[EHttp (exRequest ''/run'' ''PUT''), EReap 1 (WaitExited 0)]"
  let ?b = "reapChild 1 (WaitExited 0) (exRunning\<lparr>ag_answers := ag_answers exRunning @ [(202, ''execution started'')]\<rparr>)"
  have t: "tidy exAgentEnv ?es exAgent"
    by (simp add: exRunning_started exAgent_reaped exRequest_path)
  have r: "ag_reaped ?b = [(1, WaitExited 0)]" by (simp add: reapChild_def exRunning_started)
  obtain c where "handleRun exAgentEnv (exRequest ''/run'' ''PUT'') ?b = ((202, ''execution started''), c)"
    by (simp add: exRunning_def mux_def exRequest_def handleRun_def isProcessRunning_def isPidAlive_def loadEnvironment_def
      readFile_def startChildProcess_def childArgv_def startProcess_def osCall_pair newCommand_def launched_def reapChild_def
      exAgent_def runCommand_def NewAgent_def Let_def freshPid_def)
  from run_before_report_crashes [OF exAgent_start [unfolded exAgent_def] t [unfolded exAgent_def]
      exRunning_reaped [unfolded exAgent_def] r _ this]
  show ?thesis unfolding exAgent_def by (simp add: exRequest_def)
qed

section \<open>The environment of the child\<close>

text \<open>The value of the last entry of a key.\<close>

definition lastValue :: "string list \<Rightarrow> string \<Rightarrow> string option" where
  "lastValue env k = Option.bind (find (\<lambda>e. envKey e = Some k) (rev env)) (\<lambda>e. map_option snd (cutAt (CHR ''='') e))"

lemma lastValue_snoc:
  "lastValue (env @ [e]) k = (if envKey e = Some k then map_option snd (cutAt (CHR ''='') e) else lastValue env k)"
  by (simp add: lastValue_def)

lemma splitEnv_lookup:
  "foldl splitEnv (fmempty, fmempty) env = (ov, nm) \<Longrightarrow>
   fmlookup ov k = lastValue env (owPrefix @ k) \<and>
   fmlookup nm k = (if hasPrefix k owPrefix then None else lastValue env k)"
proof (induction env arbitrary: ov nm rule: rev_induct)
  case Nil
  then show ?case by (auto simp: lastValue_def)
next
  case (snoc e env)
  obtain ov' nm' where f: "foldl splitEnv (fmempty, fmempty) env = (ov', nm')" by fastforce
  note IH = snoc.IH [OF f]
  show ?case
  proof (cases "cutAt (CHR ''='') e")
    case None
    then have "splitEnv mm e = mm" for mm by (simp add: splitEnv_def)
    with None snoc.prems f IH show ?thesis by (auto simp: lastValue_snoc envKey_def)
  next
    case (Some kv)
    obtain k' v where kv: "kv = (k', v)" by fastforce
    have eq: "(k' = owPrefix @ k) = (hasPrefix k' owPrefix \<and> trimPrefix k' owPrefix = k)"
      by (auto simp: hasPrefix_iff)
    have new: "(ov, nm) = splitEnv (ov', nm') e" using snoc.prems f by simp
    have lv: "lastValue (env @ [e]) x = (if k' = x then Some v else lastValue env x)" for x
      by (simp add: lastValue_snoc envKey_def Some kv)
    show ?thesis
    proof (cases "hasPrefix k' owPrefix")
      case True
      with new Some kv have "ov = fmupd (trimPrefix k' owPrefix) v ov'" "nm = nm'" by (simp_all add: splitEnv_def)
      with IH lv eq True show ?thesis by auto
    next
      case False
      with new Some kv have "ov = ov'" "nm = fmupd k' v nm'" by (simp_all add: splitEnv_def)
      with IH lv eq False show ?thesis by auto
    qed
  qed
qed

lemma keys_no_equals: "lastValue env k = Some v \<Longrightarrow> CHR ''='' \<notin> set k"
  unfolding lastValue_def envKey_def
  by (auto simp: find_Some_iff bind_eq_Some_conv dest!: cutAt_Some)

lemma hasPrefix_self_shorter: "CHR ''='' \<notin> set (p @ k) \<Longrightarrow> CHR ''='' \<notin> set k"
  by simp

lemma image_the_dom: "(\<lambda>k. k @ ''='' @ the (m k)) ` dom m = {k @ ''='' @ v | k v. m k = Some v}"
  by (auto simp: dom_def intro: rev_image_eqI) blast

text \<open>C29: The environment of the child: each variable is set once, to the value of its last override in
  the environment of the agent if it has one, and otherwise to its own last value; the overrides
  themselves are not passed on. This does not depend on the order in which the maps are visited.\<close>

theorem child_environment:
  assumes "\<And>m. key_order (order m) (fmlookup m)"
  shows "set (applyEnvOverrides order env) =
      {k @ ''='' @ v | k v. case lastValue env (owPrefix @ k) of
          Some w \<Rightarrow> v = w | None \<Rightarrow> \<not> hasPrefix k owPrefix \<and> lastValue env k = Some v} \<and>
    distinct (map envKey (applyEnvOverrides order env))"
proof -
  obtain ov nm where f: "foldl splitEnv (fmempty, fmempty) env = (ov, nm)" by fastforce
  note lk = splitEnv_lookup [OF f]
  let ?m = "nm ++\<^sub>f ov"
  have m: "fmlookup ?m k = (case lastValue env (owPrefix @ k) of
      Some w \<Rightarrow> Some w | None \<Rightarrow> if hasPrefix k owPrefix then None else lastValue env k)" for k
    using lk [of k] by (auto simp: fmlookup_add fmlookup_dom_iff split: option.split)
  have ks: "distinct (order ?m)" "set (order ?m) = dom (fmlookup ?m)"
    using assms [of ?m] by (simp_all add: key_order_def)
  have out: "applyEnvOverrides order env = map (\<lambda>k. k @ ''='' @ the (fmlookup ?m k)) (order ?m)"
  proof -
    have "(case fmlookup ?m k of None \<Rightarrow> [] | Some v \<Rightarrow> v) = the (fmlookup ?m k)" if "k \<in> set (order ?m)" for k
      using that ks(2) by (cases "fmlookup ?m k") (simp_all add: domIff del: dom_fmlookup)
    then show ?thesis by (simp add: applyEnvOverrides_def f Let_def)
  qed
  have key: "envKey (k @ ''='' @ v) = Some k" if "k \<in> dom (fmlookup ?m)" for k v
  proof -
    from that have "\<exists>v'. fmlookup ?m k = Some v'" by (rule domD)
    then obtain v' where "fmlookup ?m k = Some v'" ..
    then have "CHR ''='' \<notin> set k"
      using m [of k] by (auto split: option.splits if_splits dest: keys_no_equals keys_no_equals [OF sym] hasPrefix_self_shorter)
    then show ?thesis by (simp add: envKey_def cutAt_append)
  qed
  have "map envKey (applyEnvOverrides order env) = map Some (order ?m)"
    using key ks(2) by (simp add: out)
  then have "distinct (map envKey (applyEnvOverrides order env))"
    using ks(1) by (simp add: distinct_map)
  moreover have "set (applyEnvOverrides order env) = {k @ ''='' @ v | k v. fmlookup ?m k = Some v}"
  proof -
    have "set (applyEnvOverrides order env) = (\<lambda>k. k @ ''='' @ the (fmlookup ?m k)) ` dom (fmlookup ?m)"
      using ks(2) by (simp add: out)
    then show ?thesis by (simp only: image_the_dom)
  qed
  moreover have "fmlookup ?m k = Some v \<longleftrightarrow> (case lastValue env (owPrefix @ k) of
      Some w \<Rightarrow> v = w | None \<Rightarrow> \<not> hasPrefix k owPrefix \<and> lastValue env k = Some v)" for k v
    unfolding m by (auto split: option.split)
  ultimately show ?thesis by (simp only: simp_thms)
qed

theorem child_environment_witness:
  "set (applyEnvOverrides sortedKeys [''VASTAI_OW_HOME=/w'', ''HOME=/root'']) = {''HOME=/w''}"
proof -
  have lv: "lastValue [''VASTAI_OW_HOME=/w'', ''HOME=/root''] k =
      (if k = ''HOME'' then Some ''/root'' else if k = ''VASTAI_OW_HOME'' then Some ''/w'' else None)" for k
    by (auto simp: lastValue_def envKey_def)
  have ow: "(owPrefix @ k = ''VASTAI_OW_HOME'') = (k = ''HOME'')" "owPrefix @ k \<noteq> ''HOME''" "owPrefix \<noteq> []" for k
    by (simp_all add: owPrefix_def)
  have "hasPrefix ''VASTAI_OW_HOME'' owPrefix" by (simp add: owPrefix_def hasPrefix_def)
  then have val: "(case lastValue [''VASTAI_OW_HOME=/w'', ''HOME=/root''] (owPrefix @ k) of Some w \<Rightarrow> v = w
      | None \<Rightarrow> \<not> hasPrefix k owPrefix \<and> lastValue [''VASTAI_OW_HOME=/w'', ''HOME=/root''] k = Some v)
      \<longleftrightarrow> k = ''HOME'' \<and> v = ''/w''" for k v
    by (cases "k = ''HOME''") (simp_all add: lv ow)
  from child_environment [THEN conjunct1, of sortedKeys "[''VASTAI_OW_HOME=/w'', ''HOME=/root'']", OF sortedKeys_order]
  show ?thesis unfolding val by auto
qed

section \<open>The tunnel configuration\<close>

lemma expandEnv_plain: "CHR ''$'' \<notin> set s \<Longrightarrow> expandEnv m s = s"
  by (induction s) auto

lemma storeFile_ok: "storeFile env path data a = ((201, x), b) \<Longrightarrow> ag_files b path = Some data"
  by (auto simp: storeFile_def split: prod.splits option.splits dest!: osCall_fields)

lemma readFile_ok:
  "readFile env p a = (Inr c, b) \<Longrightarrow>
   ag_files a p = Some c \<and> ag_files b = ag_files a \<and> ag_environ b = ag_environ a \<and> ag_live b = ag_live a \<and> ag_wireDir b = ag_wireDir a"
  by (auto simp: readFile_def split: prod.splits option.splits dest!: osCall_fields)

lemma readFile_frame:
  "readFile env p a = (x, b) \<Longrightarrow>
   ag_files b = ag_files a \<and> ag_live b = ag_live a \<and> ag_wireDir b = ag_wireDir a \<and> (\<exists>ext. ag_log b = ag_log a @ ext)"
  by (auto simp: readFile_def split: prod.splits option.splits dest!: osCall_fields)

lemma writeFile_ok:
  "writeFile env p data a = (None, b) \<Longrightarrow>
   ag_files b = (ag_files a)(p \<mapsto> data) \<and> ag_environ b = ag_environ a \<and> ag_live b = ag_live a \<and> (\<exists>ext. ag_log b = ag_log a @ ext)"
  by (auto simp: writeFile_def split: prod.splits option.splits if_splits dest!: osCall_fields)

lemma startProcess_ok:
  "startProcess env argv es a = (Inr pid, b) \<Longrightarrow>
   ag_files b = ag_files a \<and> pid > 0 \<and> pid \<in> set (ag_live b) \<and> pid \<notin> set (ag_live a) \<and>
   (\<exists>r. ag_log b = ag_log a @ [(OsStart argv es, r)])"
  using startProcess_new [of env argv es a pid b]
  by (auto simp: startProcess_def Let_def split: prod.splits option.splits dest!: osCall_fields)

text \<open>A successful start: the rendered template is the configuration, and the new process is alive.\<close>

lemma startWireproxy_ok:
  assumes "startWireproxy env a = (None, c)"
  shows "\<exists>data es. ag_files a (ag_wireDir a @ ''/wireproxy.tpl'') = Some data \<and>
    ag_files c (ag_wireDir a @ ''/wireproxy.conf'') = Some (expandEnv (getenv es) data) \<and>
    isPidAlive c (ag_wirePid c) \<and> ag_wirePid c \<notin> set (ag_live a) \<and>
    (isPidAlive a (ag_wirePid a) \<longrightarrow> (\<exists>r. (OsKill (ag_wirePid a) 9, r) \<in> set (ag_log c))) \<and>
    (\<exists>r. last (ag_log c) = (OsStart [''/usr/bin/wireproxy'', ''-c'', ag_wireDir a @ ''/wireproxy.conf''] es, r))"
proof -
  define a1 where "a1 = (if isPidAlive a (ag_wirePid a) then snd (osCall env (OsKill (ag_wirePid a) 9) a) else a)"
  have a1: "ag_files a1 = ag_files a" "ag_live a1 = ag_live a"
    "isPidAlive a (ag_wirePid a) \<Longrightarrow> (OsKill (ag_wirePid a) 9, ae_os env (ag_log a) (OsKill (ag_wirePid a) 9)) \<in> set (ag_log a1)"
    by (simp_all add: a1_def)
  obtain keys a2 where 2: "readFile env keysPath a1 = (keys, a2)" by fastforce
  define a3 where "a3 = (case keys of Inl _ \<Rightarrow> a2 | Inr k \<Rightarrow> a2\<lparr>ag_environ := loadKeys k (ag_environ a2)\<rparr>)"
  have a3: "ag_files a3 = ag_files a" "ag_live a3 = ag_live a" "set (ag_log a1) \<subseteq> set (ag_log a3)"
    using readFile_frame [OF 2] a1 by (auto simp: a3_def split: sum.split)
  obtain data a4 where 4: "readFile env (ag_wireDir a @ ''/wireproxy.tpl'') a3 = (Inr data, a4)"
    using assms unfolding startWireproxy_def Let_def a1_def [symmetric]
    by (auto simp: 2 a3_def split: prod.splits sum.splits)
  let ?conf = "ag_wireDir a @ ''/wireproxy.conf''" and ?es = "ag_environ a4"
  obtain a5 where 5: "writeFile env ?conf (expandEnv (getenv ?es) data) a4 = (None, a5)"
    using assms unfolding startWireproxy_def Let_def a1_def [symmetric]
    by (auto simp: 2 a3_def [symmetric] 4 split: prod.splits option.splits)
  obtain r a6 where 6: "osCall env (OsSetupLogging ''wireproxy'') a5 = (r, a6)" by fastforce
  obtain pid a7 where 7: "startProcess env [''/usr/bin/wireproxy'', ''-c'', ?conf] (ag_environ a6) a6 = (Inr pid, a7)"
    "c = a7\<lparr>ag_wirePid := pid\<rparr>"
    using assms unfolding startWireproxy_def Let_def a1_def [symmetric]
    by (auto simp: 2 a3_def [symmetric] 4 5 6 split: prod.splits option.splits sum.splits)
  have "ag_environ a6 = ?es" "ag_live a6 = ag_live a" "set (ag_log a1) \<subseteq> set (ag_log a6)"
    using readFile_ok [OF 4] readFile_frame [OF 4] writeFile_ok [OF 5] osCall_fields [OF 6] a3 by auto
  moreover from this(3) a1(3)
  have "isPidAlive a (ag_wirePid a) \<Longrightarrow> \<exists>r. (OsKill (ag_wirePid a) 9, r) \<in> set (ag_log a6)" by blast
  moreover obtain x where "ag_log a7 = ag_log a6 @ [(OsStart [''/usr/bin/wireproxy'', ''-c'', ?conf] (ag_environ a6), x)]"
    using startProcess_ok [OF 7(1)] by blast
  ultimately show ?thesis
    using readFile_ok [OF 4] writeFile_ok [OF 5] osCall_fields [OF 6] startProcess_ok [OF 7(1)] a3(1) 7(2)
    by (auto simp: isPidAlive_def simp del: osCall_simps)
qed

lemma restartWireproxy_ok:
  "ag_proxy a \<Longrightarrow> hr_path rq = ''/restart_wireproxy'' \<Longrightarrow> mux env rq a = ((200, m), b) \<Longrightarrow>
   startWireproxy env a = (None, b)"
  by (auto simp: mux_def handleWireproxyRestart_def split: prod.splits option.splits)

lemma pushFile_ok:
  assumes "hr_path rq = ''/push_file''" "mux env rq a = ((201, m), b)" "ae_decodePush env (hr_body rq) = Inr (path, data)"
  shows "ag_files b path = Some data \<and> quietA a b"
proof -
  have "quietA a b" using quiet_mux [OF assms(2)] assms(1) by simp
  moreover have "ag_files b path = Some data"
    using assms by (auto simp: mux_def handlePushFile_def Let_def split: if_splits prod.splits option.splits dest!: storeFile_ok)
  ultimately show ?thesis by simp
qed

lemma no_dollar_itoa: "CHR ''$'' \<notin> set (itoa i)"
  by (rule itoa_notin) (simp_all add: isDigit_def)

lemma no_dollar_render:
  assumes "CHR ''$'' \<notin> set (px_address (pp_client px)) \<union> set (px_privateKey (pp_client px)) \<union>
      set (px_serverKey (pp_server px)) \<union> set (px_endpoint (pp_server px)) \<union> set wp \<union> set ap \<union> set al"
    and "\<forall>t \<in> set tunnels. CHR ''$'' \<notin> set (fst t)"
  shows "CHR ''$'' \<notin> set (renderWireproxy px ports tunnels wp ap al)"
  using assms
  by (auto simp: renderWireproxy_def nl_def renderServerTunnel_def renderClientTunnel_def no_dollar_itoa)


definition exPxy :: pod_proxy where
  "exPxy = \<lparr>pp_enabled = True,
     pp_server = \<lparr>px_endpoint = ''gw'', px_serverKey = ''k'', px_portUDP = 1, px_portTCP = 2\<rparr>,
     pp_client = \<lparr>px_address = ''10.254.254.11/32'', px_privateKey = ''p'', px_publicKey = ''q'', px_offset = 10000, px_assigned = True\<rparr>\<rparr>"

definition exPush :: http_request where
  "exPush = (exRequest ''/push_file'' ''POST'')\<lparr>hr_body := renderWireproxy exPxy [80] [] ''1'' ''2'' ''3''\<rparr>"

definition exProxyAgent :: agent where
  "exProxyAgent = runCommand 8080 [] [''sleep''] [] False True [] Map.empty []"


section \<open>Requests to start and to terminate\<close>

text \<open>The answers to a request to start the child, for every request and state of the agent. A start
  that is accepted runs the configured arguments, with the overridden environment, in a new process
  that is alive, and the state says so; one that is refused or fails leaves the child, its state and
  every process as they were, and a refusal (a wrong method, no command, a child that is alive)
  changes nothing at all.\<close>

theorem run_answers:
  "case handleRun env rq a of ((code, m), b) \<Rightarrow>
     code \<in> {202, 400, 405, 409, 500} \<and>
     (code = 202 \<longrightarrow> hr_method rq = ''PUT'' \<and> \<not> isProcessRunning a \<and> isProcessRunning b \<and>
        ag_pid b \<notin> set (ag_live a) \<and> ag_state b = runningState (ag_startTime b) \<and>
        (\<exists>argv es x. childArgv env a = Inr argv \<and>
           (OsStart argv (applyEnvOverrides (ae_order env) es), x) \<in> set (ag_log b))) \<and>
     (code \<noteq> 202 \<longrightarrow> ag_state b = ag_state a \<and> ag_pid b = ag_pid a \<and> ag_waiting b = ag_waiting a \<and>
        set (ag_live a) \<subseteq> set (ag_live b)) \<and>
     (code \<in> {400, 405, 409} \<longrightarrow> b = a)"
proof -
  obtain code m b where run: "handleRun env rq a = ((code, m), b)" by (metis prod.collapse)
  have "code \<in> {202, 400, 405, 409, 500} \<and> (code \<in> {400, 405, 409} \<longrightarrow> b = a)"
    using run unfolding handleRun_def by (auto split: if_splits prod.splits option.splits)
  moreover from run have "(code = 202 \<longrightarrow> hr_method rq = ''PUT'' \<and> \<not> isProcessRunning a \<and> isProcessRunning b \<and>
        ag_pid b \<notin> set (ag_live a) \<and> ag_state b = runningState (ag_startTime b) \<and>
        (\<exists>argv es x. childArgv env a = Inr argv \<and>
           (OsStart argv (applyEnvOverrides (ae_order env) es), x) \<in> set (ag_log b))) \<and>
     (code \<noteq> 202 \<longrightarrow> ag_state b = ag_state a \<and> ag_pid b = ag_pid a \<and> ag_waiting b = ag_waiting a \<and>
        set (ag_live a) \<subseteq> set (ag_live b))"
  proof (cases rule: run_cases)
    case refused
    then show ?thesis by (auto simp: quietA_def newCommand_def)
  next
    case (started argv pid c es)
    moreover have "set (ag_log c) \<subseteq> set (ag_log (launched env pid c))" by (auto simp: launched_def osCall_pair)
    ultimately show ?thesis by (auto simp: launched_fields isProcessRunning_def isPidAlive_def)
  qed
  ultimately show ?thesis by (simp add: run)
qed

theorem run_answers_witness: "isProcessRunning exRunning \<and> ag_state exRunning = runningState (ag_startTime exRunning)"
proof -
  have "handleRun exAgentEnv (exRequest ''/run'' ''PUT'') exAgent = ((202, ''execution started''), exRunning)"
    using exRunning_started by (simp add: mux_def exRequest_def)
  with run_answers [where env = exAgentEnv and rq = "exRequest ''/run'' ''PUT''" and a = exAgent] show ?thesis by simp
qed

text \<open>The signals an agent sends between two states of its log, and the course of a termination: its
  own steps, between which the agent may do anything.\<close>

fun signalOf :: "os_req \<times> os_resp \<Rightarrow> (int \<times> nat) option" where
  "signalOf (OsKill p s, _) = Some (p, s)"
| "signalOf _ = None"

definition signalsSent :: "agent \<Rightarrow> agent \<Rightarrow> (int \<times> nat) list" where
  "signalsSent a b = List.map_filter signalOf (drop (length (ag_log a)) (ag_log b))"

inductive killCourse :: "agent_env \<Rightarrow> kill_state \<Rightarrow> (int \<times> nat) list \<Rightarrow> kill_state \<Rightarrow> bool" for env where
  stop: "killCourse env k [] k"
| step: "killStep env e k a = (k1, b) \<Longrightarrow> killCourse env k1 sigs k2 \<Longrightarrow> killCourse env k (signalsSent a b @ sigs) k2"

inductive_cases killCourse_E: "killCourse env k sigs k2"

lemma kill_moves:
  assumes "killStep env e k a = (k1, b)"
  shows "k1 = k \<and> signalsSent a b = [] \<or>
    (\<exists>p. k = KillPending \<and> k1 = KillWaiting p \<and> signalsSent a b = [(p, 15)]) \<or>
    (\<exists>p. k = KillWaiting p \<and> (k1 = KillDone \<and> signalsSent a b = [] \<or> k1 = KillForced p \<and> signalsSent a b = [(p, 9)])) \<or>
    (\<exists>p. k = KillForced p \<and> k1 = KillDone \<and> signalsSent a b = [])"
  using assms
  by (cases "(env, e, k, a)" rule: killStep.cases)
    (auto simp: signalsSent_def osCall_pair List.map_filter_simps split: if_splits)

lemma course_done: "killCourse env KillDone sigs k \<Longrightarrow> sigs = [] \<and> k = KillDone"
proof (induction KillDone sigs k rule: killCourse.induct)
  case (step e a k1 b sigs k2)
  with kill_moves [OF step(1)] show ?case by auto
qed simp

lemma course_forced: "killCourse env (KillForced p) sigs k \<Longrightarrow> sigs = [] \<and> k \<in> {KillForced p, KillDone}"
proof (induction "KillForced p" sigs k rule: killCourse.induct)
  case (step e a k1 b sigs k2)
  with kill_moves [OF step(1)] show ?case by (auto dest: course_done)
qed simp

lemma course_waiting:
  "killCourse env (KillWaiting p) sigs k \<Longrightarrow>
   sigs = [] \<and> k \<in> {KillWaiting p, KillDone} \<or> sigs = [(p, 9)] \<and> k \<in> {KillForced p, KillDone}"
proof (induction "KillWaiting p" sigs k rule: killCourse.induct)
  case (step e a k1 b sigs k2)
  with kill_moves [OF step(1)] show ?case by (auto dest: course_done course_forced)
qed simp

text \<open>A termination sends SIGTERM to the process that is the child when it begins, and then at most
  one more signal, SIGKILL to the same process, whatever else happens to the agent meanwhile; it
  has ended only after one of them, and is never both waiting and forced.\<close>

theorem termination_signals:
  "killCourse env KillPending sigs k \<Longrightarrow>
   sigs = [] \<and> k = KillPending \<or>
   (\<exists>p. sigs = [(p, 15)] \<and> k \<in> {KillWaiting p, KillDone} \<or> sigs = [(p, 15), (p, 9)] \<and> k \<in> {KillForced p, KillDone})"
proof (induction KillPending sigs k rule: killCourse.induct)
  case (step e a k1 b sigs k2)
  with kill_moves [OF step(1)] show ?case by (auto dest: course_waiting)
qed simp

theorem termination_signals_witness:
  "\<exists>sigs p. killCourse exAgentEnv KillPending sigs (KillForced p) \<and> sigs = [(p, 15), (p, 9)]"
proof -
  have "killCourse exAgentEnv KillPending (signalsSent exAgent (snd (killStep exAgentEnv KStart KillPending exAgent)) @
      signalsSent exAgent (snd (killStep exAgentEnv KGrace (KillWaiting 0) exAgent)) @ []) (KillForced 0)"
    by (rule killCourse.step [of _ KStart _ exAgent "KillWaiting 0"] killCourse.step [of _ KGrace _ exAgent "KillForced 0"]
        killCourse.stop | simp add: exAgent_def runCommand_def NewAgent_def Let_def)+
  from this termination_signals [OF this] show ?thesis by auto
qed

text \<open>The middleware that would check the token is not installed: whatever token is configured, the server
  answers a request without it as one with it.\<close>

lemma token_not_checked:
  "ag_authToken a \<noteq> [] \<Longrightarrow> \<not> hasPrefix (hr_auth rq) ''Bearer '' \<Longrightarrow>
   fst (authMiddleware mux env rq a) = (401, ''unauthorized'') \<and> mux env (rq\<lparr>hr_auth := h\<rparr>) a = mux env rq a"
  by (simp add: authMiddleware_def mux_def handleHealthz_def handleStatus_def handleRun_def handleWireproxyRestart_def
      handleSigterm_def handlePushFile_def serveLogs_def)

end
