(* ===== verification/GatewayInit.thy ===== *)
theory GatewayInit
  imports Wireproxy Paths ConfigFacts
begin

text \<open>
  The init container of the gateway (\<open>cmd/gateway-init/main.go\<close>): it finds the endpoint of the
  gateway, waits until its name resolves, generates the keys of the server and of the peers, marks
  the directory as dirty and writes the configuration that the provider loads.

  Files, the Kubernetes API, name resolution and the wait are requests to a service. The
  environment, key generation and the YAML encoder are arguments.
\<close>

datatype init_req =
    GiStat string
  | GiInCluster
  | GiKubeconfig string
  | GiClient
  | GiGetService string string
  | GiLookup string
  | GiSleep int
  | GiWrite string string

datatype init_resp = GiDone | GiErr go_error | GiSvc lb_service

type_synonym init_service = "(init_req, init_resp) service"
type_synonym init_log = "(init_req, init_resp) log"

text \<open>A program ends by \<open>os.Exit(0)\<close>, by \<open>log.Fatalf\<close> (status 1), by a panic, or by returning.\<close>

datatype 'a ends = Exited | Fatal string | Panicked | Goes 'a

record init_env =
  ie_srv :: init_service
  ie_getenv :: "string \<Rightarrow> string"
  ie_home :: string
  ie_keys :: "nat \<Rightarrow> (string \<times> string) result"
  ie_marshal :: "full_config \<Rightarrow> string result"

type_synonym 'a init_io = "init_log \<Rightarrow> 'a ends \<times> init_log"

definition initBind :: "'a init_io \<Rightarrow> ('a \<Rightarrow> 'b init_io) \<Rightarrow> 'b init_io" where
  "initBind f g w =
     (case f w of
        (Goes x, w1) \<Rightarrow> g x w1
      | (Exited, w1) \<Rightarrow> (Exited, w1)
      | (Fatal m, w1) \<Rightarrow> (Fatal m, w1)
      | (Panicked, w1) \<Rightarrow> (Panicked, w1))"

definition mustEnv :: "init_env \<Rightarrow> string \<Rightarrow> string init_io" where
  "mustEnv env name w =
     (let v = ie_getenv env name
      in (if v = [] then Fatal (''env '' @ name @ '' must be set'') else Goes v, w))"

definition getKubeConfig :: "init_env \<Rightarrow> init_log \<Rightarrow> go_error option \<times> init_log" where
  "getKubeConfig env w =
     (case call (ie_srv env) GiInCluster w of
        (GiErr _, w1) \<Rightarrow>
          (case call (ie_srv env) (GiKubeconfig (pathJoin [ie_home env, ''.kube'', ''config''])) w1 of
             (GiErr e, w2) \<Rightarrow> (Some e, w2)
           | (_, w2) \<Rightarrow> (None, w2))
      | (_, w1) \<Rightarrow> (None, w1))"

text \<open>The loop of the DNS wait, with the number of attempts that are left.\<close>

fun waitForDNS :: "init_service \<Rightarrow> string \<Rightarrow> nat \<Rightarrow> unit init_io" where
  "waitForDNS srv host 0 w = (Fatal ''Load Balancer ExternalIP unreachable'', w)"
| "waitForDNS srv host (Suc n) w =
     (case call srv (GiLookup host) w of
        (GiErr e, w1) \<Rightarrow> waitForDNS srv host n (snd (call srv (GiSleep 10000000000) w1))
      | (_, w1) \<Rightarrow> (Goes (), w1))"

text \<open>The address of the load balancer; the answer to the request is the service or an error.\<close>

definition endpointOfService :: "init_env \<Rightarrow> string \<Rightarrow> string \<Rightarrow> string init_io" where
  "endpointOfService env ns name w =
     (case getKubeConfig env w of
        (Some e, w1) \<Rightarrow> (Fatal (''failed to locate servicetoken or load kubeconfig: '' @ err_msg e), w1)
      | (None, w1) \<Rightarrow>
     (case call (ie_srv env) GiClient w1 of
        (GiErr e, w2) \<Rightarrow> (Fatal (''client: '' @ err_msg e), w2)
      | (_, w2) \<Rightarrow>
     (case call (ie_srv env) (GiGetService ns name) w2 of
        (r, w3) \<Rightarrow>
          (case getLoadBalancerIP (case r of GiSvc s \<Rightarrow> Inr s | GiErr e \<Rightarrow> Inl e | GiDone \<Rightarrow> Inl (ErrNew [])) name of
             Inl e \<Rightarrow> (Fatal (''Warning: could not get LoadBalancer IP: '' @ err_msg e), w3)
           | Inr ip \<Rightarrow> (Goes ip, w3)))))"

definition writeOrFail :: "init_env \<Rightarrow> string \<Rightarrow> string \<Rightarrow> string \<Rightarrow> unit init_io" where
  "writeOrFail env what path data w =
     (case call (ie_srv env) (GiWrite path data) w of
        (GiErr e, w1) \<Rightarrow> (Fatal (what @ '': '' @ err_msg e), w1)
      | (_, w1) \<Rightarrow> (Goes (), w1))"

text \<open>The number of peers: 64 for an empty, unreadable or zero variable. A negative number reaches
  \<open>make\<close> as a capacity, which panics, as does one that is too large for the address space.\<close>

definition peerCountOf :: "string \<Rightarrow> int" where
  "peerCountOf s = (let n = atoiValue s in if n = 0 then 64 else n)"

definition maxPeers :: int where "maxPeers = 281474976710656 div 56"

definition generateConfig :: "init_env \<Rightarrow> string \<Rightarrow> int \<Rightarrow> int \<Rightarrow> int \<Rightarrow> string init_io" where
  "generateConfig env endpoint udp tcp n w =
     (case ie_keys env 0 of
        Inl e \<Rightarrow> (Fatal (''generate config: '' @ err_msg (ErrWrap ''generate server private key'' e)), w)
      | Inr _ \<Rightarrow>
          if n < 0 \<or> n > maxPeers then (Panicked, w)
          else
            (case generateWireguardConfig (ie_keys env) endpoint udp tcp (nat n) of
               Inl e \<Rightarrow> (Fatal (''generate config: '' @ err_msg e), w)
             | Inr cfg \<Rightarrow>
                 (case ie_marshal env cfg of
                    Inl e \<Rightarrow> (Fatal (''generate config: '' @ err_msg (ErrWrap ''marshal yaml'' e)), w)
                  | Inr out \<Rightarrow> (Goes out, w))))"

definition dirtyPath :: "string \<Rightarrow> string" where
  "dirtyPath configPath = pathJoin [pathDir configPath, ''.dirty'']"

text \<open>The endpoint is the given one, or that of the named service, or empty.\<close>

definition chooseEndpoint :: "init_env \<Rightarrow> string init_io" where
  "chooseEndpoint env w =
     (let ns = ie_getenv env ''POD_NAMESPACE'';
          given = ie_getenv env ''GATEWAY_ENDPOINT'';
          svc = ie_getenv env ''GATEWAY_SERVICE_NAME''
      in if given = [] \<and> svc \<noteq> [] then endpointOfService env ns svc w else (Goes given, w))"

definition initSteps :: "init_env \<Rightarrow> string \<Rightarrow> unit init_io" where
  "initSteps env configPath =
     initBind (mustEnv env ''GATEWAY_PORT_UDP'') (\<lambda>udp.
     initBind (mustEnv env ''GATEWAY_PORT_TCP'') (\<lambda>tcp.
     initBind (chooseEndpoint env) (\<lambda>endpoint.
     initBind (waitForDNS (ie_srv env) endpoint 90) (\<lambda>_.
     initBind (generateConfig env endpoint (atoiValue udp) (atoiValue tcp)
                 (peerCountOf (ie_getenv env ''PEER_COUNT''))) (\<lambda>content.
     initBind (writeOrFail env ''write dirty file'' (dirtyPath configPath) []) (\<lambda>_.
     writeOrFail env ''write config file'' configPath content))))))"

definition gatewayInit :: "init_env \<Rightarrow> unit init_io" where
  "gatewayInit env =
     initBind (mustEnv env ''GATEWAY_CONFIG_PATH'') (\<lambda>configPath w.
       (case call (ie_srv env) (GiStat configPath) w of
          (GiErr _, w1) \<Rightarrow> initSteps env configPath w1
        | (_, w1) \<Rightarrow> (Exited, w1)))"

section \<open>The generated peers\<close>

lemma generatePeers_nth:
  "generatePeers keys k n = Inr ps \<Longrightarrow>
   length ps = n \<and> (\<forall>i<n. \<exists>kp. keys (Suc (k + i)) = Inr kp \<and> ps ! i = peerConfig (k + i) kp)"
proof (induction n arbitrary: k ps)
  case (Suc n)
  then obtain kp qs where q: "keys (Suc k) = Inr kp" "generatePeers keys (Suc k) n = Inr qs"
    "ps = peerConfig k kp # qs" by (auto split: sum.splits)
  have "\<exists>kp. keys (Suc (k + i)) = Inr kp \<and> ps ! i = peerConfig (k + i) kp" if "i < Suc n" for i
    using Suc.IH [OF q(2)] q(1,3) that by (cases i) auto
  then show ?case using Suc.IH [OF q(2)] q(3) by simp
qed simp

lemma peers_of_config:
  assumes "generateWireguardConfig keys ep u t n = Inr fc"
  shows "i < n \<Longrightarrow> \<exists>kp. fc_peers fc ! i = peerConfig i kp" "length (fc_peers fc) = n"
proof -
  have "generatePeers keys 0 n = Inr (fc_peers fc)"
    using assms(1) by (auto simp: generateWireguardConfig_def split: sum.splits)
  note g = generatePeers_nth [OF this]
  show "\<exists>kp. fc_peers fc ! i = peerConfig i kp" if "i < n" using g that by (metis add_0)
  show "length (fc_peers fc) = n" using g by simp
qed

section \<open>What the container leaves behind\<close>

definition writesOf :: "init_log \<Rightarrow> (string \<times> string) list" where
  "writesOf w = List.map_filter (\<lambda>qr. case fst qr of GiWrite p d \<Rightarrow> Some (p, d) | _ \<Rightarrow> None) w"

definition resolved :: "init_log \<Rightarrow> string \<Rightarrow> bool" where
  "resolved w host \<longleftrightarrow> (\<exists>r. (GiLookup host, r) \<in> set w \<and> (\<forall>e. r \<noteq> GiErr e))"

lemma writesOf_simps [simp]:
  "writesOf [] = []" "writesOf (u @ w) = writesOf u @ writesOf w"
  "writesOf ((q, r) # w) = (case q of GiWrite p d \<Rightarrow> [(p, d)] | _ \<Rightarrow> []) @ writesOf w"
  by (simp_all add: writesOf_def List.map_filter_def split: init_req.splits)

lemma initBind_Goes:
  "initBind f g w = (Goes y, w2) \<longleftrightarrow> (\<exists>x w1. f w = (Goes x, w1) \<and> g x w1 = (Goes y, w2))"
  by (auto simp: initBind_def split: prod.splits ends.splits)

text \<open>The sequences of writes a program may add to the log.\<close>

definition writes_in :: "'a init_io \<Rightarrow> (string \<times> string) list set \<Rightarrow> bool" where
  "writes_in f S \<longleftrightarrow> (\<forall>w. \<exists>u\<in>S. writesOf (snd (f w)) = writesOf w @ u)"

lemma writes_in_bind:
  assumes "writes_in f {u}" "\<And>x. writes_in (g x) S" "u \<in> T" "\<And>v. v \<in> S \<Longrightarrow> u @ v \<in> T"
  shows "writes_in (initBind f g) T"
  unfolding writes_in_def
proof
  fix w
  obtain r w1 where f: "f w = (r, w1)" "writesOf w1 = writesOf w @ u"
    using assms(1) by (metis prod.exhaust snd_conv singletonD writes_in_def)
  show "\<exists>v\<in>T. writesOf (snd (initBind f g w)) = writesOf w @ v"
  proof (cases r)
    case (Goes x)
    from assms(2) [of x] obtain v where "v \<in> S" "writesOf (snd (g x w1)) = writesOf w1 @ v"
      by (auto simp: writes_in_def)
    with f Goes assms(4) show ?thesis by (intro bexI [of _ "u @ v"]) (simp_all add: initBind_def)
  qed (use f assms(3) in \<open>auto simp: initBind_def\<close>)
qed

lemma quiet_stages [simp]:
  "snd (mustEnv env name w) = w"
  "snd (generateConfig env ep u t n w) = w"
  "writesOf (snd (waitForDNS srv host k w)) = writesOf w"
  "writesOf (snd (endpointOfService env ns name w)) = writesOf w"
proof -
  show "snd (mustEnv env name w) = w" by (simp add: mustEnv_def Let_def)
  show "snd (generateConfig env ep u t n w) = w" by (auto simp: generateConfig_def split: sum.splits)
  show "writesOf (snd (waitForDNS srv host k w)) = writesOf w"
    by (induction k arbitrary: w) (auto simp: call_def split: init_resp.splits)
  show "writesOf (snd (endpointOfService env ns name w)) = writesOf w"
  proof -
    obtain e w1 where k: "getKubeConfig env w = (e, w1)" by (cases "getKubeConfig env w")
    then have "writesOf w1 = writesOf w"
      by (auto simp: getKubeConfig_def call_def split: init_resp.splits)
    then show ?thesis
      by (cases e; cases "ie_srv env w1 GiClient") (auto simp: endpointOfService_def k call_def Let_def split: sum.splits)
  qed
qed

lemma stage_writes:
  "writes_in (mustEnv env name) {[]}" "writes_in (waitForDNS srv host k) {[]}"
  "writes_in (chooseEndpoint env) {[]}" "writes_in (generateConfig env ep udp tcp n) {[]}"
  by (simp_all add: writes_in_def chooseEndpoint_def Let_def)

lemma writeOrFail_writes: "writes_in (writeOrFail env what p d) {[(p, d)]}"
  by (simp add: writes_in_def writeOrFail_def call_def split: init_resp.splits)

lemma waitForDNS_resolves:
  "waitForDNS srv host n w = (Goes (), w1) \<Longrightarrow> resolved w1 host"
  by (induction n arbitrary: w) (auto simp: resolved_def call_def split: init_resp.splits)

lemma generateConfig_Goes:
  "generateConfig env ep u t n w = (Goes out, w1) \<Longrightarrow>
   \<exists>cfg. generateWireguardConfig (ie_keys env) ep u t (nat n) = Inr cfg \<and> ie_marshal env cfg = Inr out \<and> 0 \<le> n \<and> w1 = w"
  by (auto simp: generateConfig_def split: sum.splits if_splits)

lemma writeOrFail_Goes:
  "writeOrFail env what p d w = (Goes (), w1) \<Longrightarrow> writesOf w1 = writesOf w @ [(p, d)] \<and> (\<forall>h. resolved w h \<longrightarrow> resolved w1 h)"
  by (auto simp: writeOrFail_def call_def resolved_def split: init_resp.splits)

text \<open>Whatever goes wrong, the configuration is written last, after the marker, and only if there was no
  file at its path.\<close>

theorem init_writes_last:
  fixes env
  defines "path \<equiv> ie_getenv env ''GATEWAY_CONFIG_PATH''"
  shows "\<exists>content. writesOf (snd (gatewayInit env [])) \<in>
     {[], [(dirtyPath path, [])], [(dirtyPath path, []), (path, content)]}"
proof -
  let ?S = "\<lambda>c. {[], [(dirtyPath path, [])], [(dirtyPath path, []), (path, c)]}"
  let ?T = "\<Union>c. ?S c"
  have "writes_in (initSteps env path) ?T"
    unfolding initSteps_def
    by (intro writes_in_bind [where u = "[]" and S = ?T and T = ?T] stage_writes
        writes_in_bind [OF writeOrFail_writes writeOrFail_writes]) auto
  then have "\<exists>u\<in>?T. writesOf (snd (initSteps env path [(GiStat path, ie_srv env [] (GiStat path))])) = u"
    unfolding writes_in_def by (drule_tac spec [of _ "[(GiStat path, ie_srv env [] (GiStat path))]"]) simp
  moreover have "snd (gatewayInit env []) \<in>
      {[], [(GiStat path, ie_srv env [] (GiStat path))], snd (initSteps env path [(GiStat path, ie_srv env [] (GiStat path))])}"
    by (auto simp: gatewayInit_def initBind_def mustEnv_def path_def Let_def call_def split: init_resp.splits)
  ultimately show ?thesis by auto
qed


definition exInitPeers :: full_config where
  "exInitPeers = \<lparr>fc_privateKey = ''priv'',
     fc_server = \<lparr>px_endpoint = ''gw'', px_serverKey = ''pub'', px_portUDP = 5, px_portTCP = 4\<rparr>,
     fc_peers = [peerConfig 0 (''priv'', ''pub''), peerConfig 1 (''priv'', ''pub'')]\<rparr>"

definition exInitEnv :: init_env where
  "exInitEnv = \<lparr>
     ie_srv = (\<lambda>_ q. case q of GiStat _ \<Rightarrow> GiErr (ErrNew ''no such file'') | _ \<Rightarrow> GiDone),
     ie_getenv = (\<lambda>n. if n = ''GATEWAY_CONFIG_PATH'' then ''g'' else if n = ''GATEWAY_PORT_UDP'' then ''5''
                      else if n = ''GATEWAY_PORT_TCP'' then ''4'' else if n = ''GATEWAY_ENDPOINT'' then ''gw''
                      else if n = ''PEER_COUNT'' then ''2'' else []),
     ie_home = ''/root'', ie_keys = (\<lambda>_. Inr (''priv'', ''pub'')),
     ie_marshal = (\<lambda>cfg. if cfg = exInitPeers then Inr ''yaml'' else Inl (ErrNew []))\<rparr>"

lemma exInit_numbers:
  "atoiValue ''5'' = 5" "atoiValue ''4'' = 4" "peerCountOf ''2'' = 2"
  by (simp_all add: peerCountOf_def atoiValue_def digitVal_def isDigit_def min_def)

lemma exInit_config: "generateConfig exInitEnv ''gw'' 5 4 2 w = (Goes ''yaml'', w)"
  by (simp add: generateConfig_def exInitEnv_def exInitPeers_def maxPeers_def generateWireguardConfig_def numeral_2_eq_2)

lemma exInit_waits: "waitForDNS (ie_srv exInitEnv) ''gw'' 90 w = (Goes (), w @ [(GiLookup ''gw'', GiDone)])"
proof -
  have "(90::nat) = Suc 89" by simp
  then show ?thesis by (simp only: waitForDNS.simps) (simp add: exInitEnv_def call_def)
qed

lemma exInit_runs:
  "gatewayInit exInitEnv [] =
   (Goes (), [(GiStat ''g'', GiErr (ErrNew ''no such file'')), (GiLookup ''gw'', GiDone),
              (GiWrite (dirtyPath ''g'') [], GiDone), (GiWrite ''g'' ''yaml'', GiDone)])"
proof -
  have env: "ie_getenv exInitEnv ''GATEWAY_CONFIG_PATH'' = ''g''" "ie_getenv exInitEnv ''GATEWAY_PORT_UDP'' = ''5''"
    "ie_getenv exInitEnv ''GATEWAY_PORT_TCP'' = ''4''" "ie_getenv exInitEnv ''GATEWAY_ENDPOINT'' = ''gw''"
    "ie_getenv exInitEnv ''PEER_COUNT'' = ''2''" "ie_srv exInitEnv w (GiStat p) = GiErr (ErrNew ''no such file'')"
    "ie_srv exInitEnv w (GiWrite p d) = GiDone" for w p d
    by (simp_all add: exInitEnv_def)
  show ?thesis
    by (simp add: gatewayInit_def initSteps_def initBind_def mustEnv_def chooseEndpoint_def writeOrFail_def call_def
      Let_def env exInit_numbers exInit_config exInit_waits)
qed


end
