(* ===== verification/TunnelPorts.thy ===== *)
theory TunnelPorts
  imports GatewayInit Controller Provider VastClient RunPodClient "HOL-Library.Sublist"
begin

text \<open>
  The ports and addresses of the gateway slots, which five components compute for themselves:
  \<open>gateway-init\<close> writes the address and the port offset of every peer, the gateway controller
  computes the port of a backend from the slot annotation and the sorted container ports, the
  provider computes the address of the agent, and the tunnel configurations of the cloud clients
  and of the pushed file list the listening ports. Nothing here is new code: the lemmas show where
  the five computations agree, and for which pods they do not.
\<close>

section \<open>One pod, seen by the provider and by the gateway\<close>

text \<open>Both programs read the same pod object of the cluster; the gateway reads these fields of it.\<close>

definition gatewayView :: "label_map \<Rightarrow> pod \<Rightarrow> gw_pod" where
  "gatewayView labels p =
     \<lparr>gp_uid = pod_uid p, gp_namespace = pod_namespace p, gp_name = pod_name p, gp_labels = labels,
      gp_annotations = annLookup (pod_annotations p), gp_deletionTimestamp = None,
      gp_running = (ps_phase (pod_status p) = PhaseRunning),
      gp_containers = map (\<lambda>c. \<lparr>ct_name = pn_name c, ct_ports = pn_ports c\<rparr>) (pod_containers p)\<rparr>"

lemma extract_gatewayView:
  "distinct (concat (map pn_ports (pod_containers p))) \<Longrightarrow> extractContainerPorts (gatewayView l p) = podPorts p"
  by (simp add: extractContainerPorts_def gatewayView_def podPorts_def comp_def distinct_remdups_id)

lemma slotOf_gatewayView:
  assumes "annLookup (pod_annotations p) AnnotationProxySlotID = Some (itoa i)" "0 \<le> i" "in_int64 i"
  shows "slotOf (gatewayView l p) = i"
  using assms by (simp add: slotOf_def gatewayView_def sscanfInt_itoa)

section \<open>Slots\<close>

text \<open>The port block of a slot starts at the port of the agent.\<close>

definition slotBase :: "nat \<Rightarrow> int" where
  "slotBase i = 10000 + int i * 100"

lemma peer_offset:
  "i \<le> 554 \<Longrightarrow> px_offset (peerConfig i kp) = slotBase i"
  by (simp add: peerConfig_def slotBase_def wrap64_id in_int64_def)

section \<open>Listening ports\<close>

lemma serverTunnels_nth:
  "i < length ports \<Longrightarrow> (wrap64 (off + int i + 1), ports ! i) \<in> set (serverTunnels off ports)"
  by (auto simp: serverTunnels_def)

lemma sublist_concat: "t \<in> set ts \<Longrightarrow> sublist (f t) (concat (map f ts))"
  by (metis (no_types, lifting) concat.simps(2) concat_append list.simps(9) map_append split_list sublist_appendI)

lemma sublist_here: "sublist s m \<Longrightarrow> sublist s (m @ b)"
  and sublist_skip: "sublist s m \<Longrightarrow> sublist s (a @ m)"
  by (auto simp: sublist_append)

lemma rendered_everywhere:
  assumes "(x, t) \<in> set (serverTunnels (px_offset (pp_client proxy)) ports)"
  shows "sublist (renderServerTunnel (x, t)) (renderWireproxy proxy ports tunnels wp pub loc)"
    "sublist (renderServerTunnel (x, t)) (rp_generateWireproxyConfig proxy ports tunnels)"
    "os_proxy ps = proxy \<Longrightarrow> os_ports ps = ports \<Longrightarrow> sublist (renderServerTunnel (x, t)) (GenerateOnStartScript ps)"
proof -
  note s = sublist_concat [OF assms, of renderServerTunnel]
  have p: "(ports = []) = False" using assms by (auto simp: serverTunnels_def)
  show "sublist (renderServerTunnel (x, t)) (renderWireproxy proxy ports tunnels wp pub loc)"
    unfolding renderWireproxy_def p if_False append_assoc by (rule sublist_here [OF s] | rule sublist_skip)+
  show "sublist (renderServerTunnel (x, t)) (rp_generateWireproxyConfig proxy ports tunnels)"
    unfolding rp_generateWireproxyConfig_def by (rule sublist_here [OF s] | rule sublist_skip)+
  show "sublist (renderServerTunnel (x, t)) (GenerateOnStartScript ps)" if "os_proxy ps = proxy" "os_ports ps = ports"
    unfolding GenerateOnStartScript_def that by (rule sublist_here [OF s] | rule sublist_skip)+
qed

section \<open>From the gateway to the container\<close>

lemma backend_port_of_slot:
  assumes "annLookup (pod_annotations p) AnnotationProxySlotID = Some (itoa (int i))" "i \<le> 554"
    "distinct (podPorts p)" "k < length (podPorts p)" "length (podPorts p) \<le> 99"
  shows "calculateBackendPort (virtualPodInfoOf (gatewayView l p)) (podPorts p ! k) = Inr (slotBase i + int k + 1)"
proof -
  have d: "distinct (concat (map pn_ports (pod_containers p)))" using assms(3) by (simp add: podPorts_def)
  have s: "slotOf (gatewayView l p) = int i"
    using assms(2) by (intro slotOf_gatewayView [OF assms(1)]) (simp_all add: in_int64_def)
  have "findIndex (\<lambda>q. q = podPorts p ! k) (podPorts p) = Some k"
    using findIndex_distinct [OF assms(3,4)] by simp
  then show ?thesis
    using assms(2,4,5)
    by (simp add: calculateBackendPort_def virtualPodInfoOf_def extract_gatewayView [OF d] s slotBase_def
      wrap64_id in_int64_def)
qed

lemma tunnels_of_slot:
  assumes "i \<le> 554" "length ports \<le> 99" "distinct ports" "k < length ports"
  shows "(slotBase i + int k + 1, u) \<in> set (serverTunnels (slotBase i) ports) \<longleftrightarrow> u = ports ! k"
proof -
  have "wrap64 (slotBase i + int j + 1) = slotBase i + int j + 1" if "j < length ports" for j
    using assms(1,2) that by (simp add: wrap64_id in_int64_def slotBase_def)
  then show ?thesis using assms(4) by (auto simp: serverTunnels_def)
qed

text \<open>C33: The whole path of a connection: for a pod in slot \<open>i\<close> whose container ports are distinct, the
  backend port the gateway computes for a declared target port is, in every tunnel configuration
  the program writes for the pod (the pushed file, the on-start script of Vast.ai, the environment
  of RunPod), the listening port whose target is exactly that container port, and it lies in the
  block of the slot; the address of the backend is the address of the peer that \<open>gateway-init\<close>
  generated for the slot.\<close>

theorem backend_reaches_container:
  fixes l
  assumes "generateWireguardConfig keys ep u t0 n = Inr fc" "i < n" "i \<le> 554"
    "annLookup (pod_annotations p) AnnotationProxySlotID = Some (itoa (int i))"
    "pod_containers p = [c]" "distinct (pn_ports c)" "length (pn_ports c) \<le> 99" "t \<in> set (pn_ports c)"
    "pp_client proxy = fc_peers fc ! i" "os_proxy ps = proxy" "os_ports ps = podPorts p"
  defines "info \<equiv> virtualPodInfoOf (gatewayView l p)"
  shows "\<exists>x. calculateBackendPort info t = Inr x \<and> slotBase i < x \<and> x < slotBase (Suc i) \<and>
      vp_wireguardIP info @ ''/32'' = px_address (pp_client proxy) \<and> wireproxyPorts p = Some (podPorts p) \<and>
      (\<forall>u. (x, u) \<in> set (serverTunnels (px_offset (pp_client proxy)) (podPorts p)) \<longleftrightarrow> u = t) \<and>
      sublist (renderServerTunnel (x, t)) (renderWireproxy proxy (podPorts p) tunnels wp pub loc) \<and>
      sublist (renderServerTunnel (x, t)) (rp_generateWireproxyConfig proxy (podPorts p) tunnels) \<and>
      sublist (renderServerTunnel (x, t)) (GenerateOnStartScript ps)"
proof -
  obtain kp where c: "pp_client proxy = peerConfig i kp" using peers_of_config(1) [OF assms(1,2)] assms(9) by auto
  have P: "distinct (podPorts p)" "length (podPorts p) \<le> 99" "t \<in> set (podPorts p)"
    using assms(5-8) by (simp_all add: podPorts_def)
  then obtain k where k: "k < length (podPorts p)" "podPorts p ! k = t" by (metis in_set_conv_nth)
  let ?x = "slotBase i + int k + 1"
  have off: "px_offset (pp_client proxy) = slotBase i" using assms(3) by (simp add: c peer_offset)
  note tn = tunnels_of_slot [OF assms(3) P(2,1) k(1)]
  have m: "(?x, t) \<in> set (serverTunnels (px_offset (pp_client proxy)) (podPorts p))" using tn k(2) off by simp
  have s: "slotOf (gatewayView l p) = int i"
    using assms(3) by (intro slotOf_gatewayView [OF assms(4)]) (simp_all add: in_int64_def)
  have "vp_wireguardIP info @ ''/32'' = px_address (pp_client proxy)"
    using assms(3) by (simp add: info_def virtualPodInfoOf_def wireguardAddress_def s c peerConfig_def
      WireguardSubnetBase_def WireguardSlotOffset_def wrap64_id in_int64_def)
  moreover have "calculateBackendPort info t = Inr ?x"
    using backend_port_of_slot [OF assms(4,3) P(1) k(1) P(2)] k(2) by (simp add: info_def)
  moreover have "slotBase i < ?x \<and> ?x < slotBase (Suc i)" using k(1) P(2) by (simp add: slotBase_def)
  moreover have "wireproxyPorts p = Some (podPorts p)" using assms(5) by (simp add: wireproxyPorts_def podPorts_def)
  ultimately show ?thesis using tn off k(2) rendered_everywhere [OF m] assms(10,11) by (intro exI [of _ ?x]) auto
qed

definition exSlotPod :: pod where
  "exSlotPod = \<lparr>pod_namespace = ''ns'', pod_name = ''pod'', pod_uid = ''uid'',
     pod_annotations = Some (fmupd ''anex.sh/proxy-slot-id'' ''3'' fmempty), pod_restartPolicy = RestartNever,
     pod_containers = [\<lparr>pn_name = ''c'', pn_image = ''img'', pn_command = [], pn_args = [], pn_workdir = [],
       pn_ports = [8080, 22], pn_env = [], pn_mounts = [], pn_pullAlways = False\<rparr>],
     pod_volumes = [], pod_status = \<lparr>ps_phase = PhasePending, ps_conditions = [], ps_containers = []\<rparr>\<rparr>"

definition exGenerated :: "proxy_client list" where
  "exGenerated = map (\<lambda>i. peerConfig i (''priv'', ''pub'')) [0..<4]"

definition exSlotProxy :: pod_proxy where
  "exSlotProxy = \<lparr>pp_enabled = True,
     pp_server = \<lparr>px_endpoint = ''gw'', px_serverKey = ''pub'', px_portUDP = 1, px_portTCP = 2\<rparr>,
     pp_client = exGenerated ! 3\<rparr>"

definition exSlotScript :: onstart_params where
  "exSlotScript = \<lparr>os_workdir = [], os_command = [], os_agentURL = [], os_wireproxyURL = [], os_promtailURL = [],
     os_proxy = exSlotProxy, os_ports = podPorts exSlotPod, os_tunnels = []\<rparr>"

lemma exGenerated_eq:
  "generateWireguardConfig (\<lambda>_. Inr (''priv'', ''pub'')) ''gw'' 1 2 4 =
   Inr \<lparr>fc_privateKey = ''priv'', fc_server = \<lparr>px_endpoint = ''gw'', px_serverKey = ''pub'', px_portUDP = 1, px_portTCP = 2\<rparr>,
        fc_peers = exGenerated\<rparr>"
  by (simp add: generateWireguardConfig_def exGenerated_def numeral_eq_Suc upt_rec)

theorem backend_reaches_container_witness:
  "\<exists>x. calculateBackendPort (virtualPodInfoOf (gatewayView fmempty exSlotPod)) 8080 = Inr x \<and> slotBase 3 < x"
proof -
  have i: "itoa (int 3) = ''3''" by code_simp
  obtain c where c: "pod_containers exSlotPod = [c]" "pn_ports c = [8080, 22]" by (simp add: exSlotPod_def)
  have a: "annLookup (pod_annotations exSlotPod) AnnotationProxySlotID = Some (itoa (int 3))"
    unfolding i by (simp add: exSlotPod_def annLookup_def AnnotationProxySlotID_def)
  have P: "(3::nat) < 4" "(3::nat) \<le> 554" "distinct (pn_ports c)" "length (pn_ports c) \<le> 99" "8080 \<in> set (pn_ports c)"
    "pp_client exSlotProxy = exGenerated ! 3" "os_proxy exSlotScript = exSlotProxy" "os_ports exSlotScript = podPorts exSlotPod"
    by (simp_all add: c exSlotProxy_def exSlotScript_def)
  show ?thesis
    using backend_reaches_container [OF exGenerated_eq P(1,2) a c(1) P(3-5) _ P(7,8), unfolded full_config.simps, OF P(6)]
    by blast
qed

text \<open>With a container port declared twice the two sides count differently: the gateway drops the
  duplicate, the tunnel configuration keeps it, and connections to the later port end at the
  earlier one.\<close>

theorem duplicate_ports_misroute:
  assumes "extractContainerPorts g = [80, 443]" "slotOf g = int i" "i \<le> 554"
  shows "calculateBackendPort (virtualPodInfoOf g) 443 = Inr (slotBase i + 2)"
    "(slotBase i + 2, 80) \<in> set (serverTunnels (slotBase i) [80, 80, 443])"
  using assms
  by (simp_all add: calculateBackendPort_def virtualPodInfoOf_def slotBase_def serverTunnels_def upt_rec wrap64_id in_int64_def)

section \<open>From the provider to the agent\<close>

lemma two_lines:
  "\<exists>pre post. ls = pre @ [a, b] @ post \<Longrightarrow> sublist (a @ nl @ b) (concat (map (\<lambda>l. l @ nl) ls))"
proof (elim exE)
  fix pre post
  assume "ls = pre @ [a, b] @ post"
  then have "concat (map (\<lambda>l. l @ nl) ls) =
      concat (map (\<lambda>l. l @ nl) pre) @ (a @ nl @ b) @ (nl @ concat (map (\<lambda>l. l @ nl) post))" by simp
  then show ?thesis by (metis sublist_appendI)
qed

lemma two_lines_at:
  assumes "Suc k < length ls" "ls ! k = a" "ls ! Suc k = b"
  shows "sublist (a @ nl @ b) (concat (map (\<lambda>l. l @ nl) ls))"
proof (rule two_lines)
  have "ls = take k ls @ ls ! k # ls ! Suc k # drop (Suc (Suc k)) ls"
    using assms(1) by (simp add: Cons_nth_drop_Suc)
  then show "\<exists>pre post. ls = pre @ [a, b] @ post" unfolding assms(2,3) by auto
qed



end
