(* ===== verification/PodAccess.thy ===== *)
theory PodAccess
  imports Rentals AgentLogFacts
begin

text \<open>
  What a user of the cluster asks of a running pod: its logs (\<open>GetContainerLogs\<close> in
  \<open>internal/provider/anex/provider.go\<close>), which the provider fetches from the agent of the pod's
  machine, and exec, attach and port-forward, which are refused with a message
  (\<open>internal/provider/anex/notimplemented.go\<close>).

  The lemmas follow the query of a log request through the URL to the agent that answers it.
\<close>

section \<open>Logs\<close>

record log_opts =
  lo_follow :: bool
  lo_tail :: int

text \<open>The query parameters are a map, which is visited in any order: \<open>order\<close> gives the keys.\<close>

definition logsQuery :: "log_opts \<Rightarrow> (string, string) fmap" where
  "logsQuery opts =
     (let q = (if lo_follow opts then fmupd ''follow'' ''true'' fmempty else fmempty)
      in if lo_tail opts > 0 then fmupd ''tail'' (itoa (lo_tail opts)) q else q)"

definition logsURL :: "((string, string) fmap \<Rightarrow> string list) \<Rightarrow> string \<Rightarrow> log_opts \<Rightarrow> string" where
  "logsURL order address opts =
     (let q = logsQuery opts; base = address @ ''/logs''
      in if q = fmempty then base
         else base @ ''?'' @ joinWith ''&'' (map (\<lambda>k. k @ ''='' @ the (fmlookup q k)) (order q)))"

record logs_request =
  lr_url :: string
  lr_authorization :: string

text \<open>The answer to the request: an error of the transport, or the status and the body.\<close>

type_synonym logs_service = "logs_request \<Rightarrow> (int \<times> string) result"

definition GetContainerLogs ::
  "((string, string) fmap \<Rightarrow> string list) \<Rightarrow> (string \<Rightarrow> go_error option) \<Rightarrow> string \<Rightarrow> logs_service \<Rightarrow>
   string \<Rightarrow> string \<Rightarrow> log_opts \<Rightarrow> 'f prov \<Rightarrow> string result" where
  "GetContainerLogs order newRequest token srv namespace podName opts s =
     (case pv_index s (buildKeyFromNames namespace podName) of
        None \<Rightarrow> Inl (ErrNew (''pod '' @ namespace @ ''/'' @ podName @ '' not found''))
      | Some i \<Rightarrow>
          (let url = logsURL order (GetAgentAddress (vpodAt i s)) opts
           in case newRequest url of
                Some e \<Rightarrow> Inl (ErrWrap ''failed to create logs request'' e)
              | None \<Rightarrow>
                  (case srv \<lparr>lr_url = url, lr_authorization = (if token = [] then [] else ''Bearer '' @ token)\<rparr> of
                     Inl e \<Rightarrow> Inl (ErrWrap ''failed to get logs from agent'' e)
                   | Inr (status, body) \<Rightarrow>
                       if status \<noteq> 200 then
                         Inl (ErrNew (''agent returned status '' @ itoa status @ '' for logs request''))
                       else Inr body)))"

section \<open>Refused requests\<close>

text \<open>A stream may be missing; what has been written to it.\<close>

record attach_io =
  ai_tty :: bool
  ai_stdout :: "string option"
  ai_stderr :: "string option"

definition writeErrorToStream :: "attach_io \<Rightarrow> string \<Rightarrow> attach_io" where
  "writeErrorToStream a msg =
     (if ai_tty a then a\<lparr>ai_stdout := map_option (\<lambda>w. w @ msg) (ai_stdout a)\<rparr>
      else a\<lparr>ai_stderr := map_option (\<lambda>w. w @ msg) (ai_stderr a)\<rparr>)"

definition execMessage :: string where
  "execMessage = ''Error: exec is not supported for virtual pods. Virtual pods run on external GPU providers and don'' @ [CHR 0x27] @ ''t support direct shell access.''"

definition attachMessage :: string where
  "attachMessage = ''Error: attach is not supported for virtual pods. Virtual pods run on external GPU providers and don'' @ [CHR 0x27] @ ''t support direct attachment.''"

definition forwardMessage :: string where
  "forwardMessage = ''Error: port-forward is not supported for virtual pods. Use VirtualService CRD to expose virtual pod ports.''"

definition RunInContainer :: "attach_io \<Rightarrow> go_error option \<times> attach_io" where
  "RunInContainer a = (None, writeErrorToStream a execMessage)"

definition AttachToContainer :: "attach_io \<Rightarrow> go_error option \<times> attach_io" where
  "AttachToContainer a = (None, writeErrorToStream a attachMessage)"

definition PortForward :: "string \<Rightarrow> go_error option \<times> string" where
  "PortForward stream = (None, stream @ forwardMessage)"

section \<open>Reading the URL\<close>

text \<open>The path and the first value of a query parameter, as the package \<open>net/url\<close> reads them; escapes,
  which none of these URLs has, are left out.\<close>

definition queryOf :: "string \<Rightarrow> (string \<times> string) list" where
  "queryOf url =
     (case cutAt (CHR ''?'') url of
        None \<Rightarrow> []
      | Some (_, q) \<Rightarrow> map (\<lambda>p. case cutAt (CHR ''='') p of None \<Rightarrow> (p, []) | Some kv \<Rightarrow> kv) (splitOn (CHR ''&'') q))"

definition queryGet :: "string \<Rightarrow> string \<Rightarrow> string" where
  "queryGet url k = (case map_of (queryOf url) k of None \<Rightarrow> [] | Some v \<Rightarrow> v)"

lemma joinWith_single: "joinWith ''&'' [x] = x"
  by simp

lemma splitOn_join:
  "xs \<noteq> [] \<Longrightarrow> (\<And>x. x \<in> set xs \<Longrightarrow> c \<notin> set x) \<Longrightarrow> splitOn c (joinWith [c] xs) = xs"
proof (induction xs rule: induct_list012)
  case (3 x y zs)
  then show ?case by (simp add: splitOn_append_sep)
qed (simp_all add: splitOn_none)

lemma map_of_keyed: "map_of (map (\<lambda>k. (k, f k)) ks) k = (if k \<in> set ks then Some (f k) else None)"
  by (induction ks) auto

lemma address_plain: "CHR ''?'' \<notin> set (GetAgentAddress v)"
  by (simp add: GetAgentAddress_def itoa_notin isDigit_def)

lemma logsQuery_dom:
  "fmdom' (logsQuery opts) \<subseteq> {''follow'', ''tail''}"
  "fmlookup (logsQuery opts) ''follow'' = (if lo_follow opts then Some ''true'' else None)"
  "fmlookup (logsQuery opts) ''tail'' = (if lo_tail opts > 0 then Some (itoa (lo_tail opts)) else None)"
  by (auto simp: logsQuery_def Let_def)

lemma queryOf_logsURL:
  assumes "set (order (logsQuery opts)) = fmdom' (logsQuery opts)"
  shows "queryOf (logsURL order (GetAgentAddress v) opts) =
    map (\<lambda>k. (k, the (fmlookup (logsQuery opts) k))) (order (logsQuery opts))"
proof (cases "logsQuery opts = fmempty")
  case True
  then have "order (logsQuery opts) = []" using assms by simp
  moreover have "CHR ''?'' \<notin> set (GetAgentAddress v @ ''/logs'')" using address_plain by simp
  ultimately show ?thesis using True by (simp add: logsURL_def queryOf_def cutAt_None_iff [THEN iffD2])
next
  case False
  let ?q = "logsQuery opts" and ?f = "\<lambda>k. k @ ''='' @ the (fmlookup (logsQuery opts) k)"
  have ne: "order ?q \<noteq> []" using False assms by (metis fmdom'_empty fmrestrict_set_dom fmrestrict_set_null list.set(1))
  have k: "k = ''follow'' \<or> k = ''tail''" "fmlookup ?q k \<noteq> None" if "k \<in> set (order ?q)" for k
  proof -
    have d: "k \<in> fmdom' ?q" using that assms by simp
    then show "k = ''follow'' \<or> k = ''tail''" using logsQuery_dom(1) [of opts] by blast
    show "fmlookup ?q k \<noteq> None" using d by (auto simp: fmlookup_dom'_iff)
  qed
  have v: "CHR ''&'' \<notin> set (the (fmlookup ?q k))" if "k \<in> set (order ?q)" for k
    using k [OF that] by (auto simp: logsQuery_dom itoa_notin isDigit_def split: if_splits)
  have "splitOn (CHR ''&'') (joinWith ''&'' (map ?f (order ?q))) = map ?f (order ?q)"
    using ne v k(1) by (intro splitOn_join) fastforce+
  moreover have "cutAt (CHR ''='') (?f k) = Some (k, the (fmlookup ?q k))" if "k \<in> set (order ?q)" for k
    using k(1) [OF that] by (auto simp: cutAt_append)
  moreover have "cutAt (CHR ''?'') (logsURL order (GetAgentAddress v) opts) =
      Some (GetAgentAddress v @ ''/logs'', joinWith ''&'' (map ?f (order ?q)))"
    using False address_plain [of v] cutAt_append [of "CHR ''?''" "GetAgentAddress v @ ''/logs''"]
    by (simp add: logsURL_def Let_def)
  ultimately show ?thesis by (simp add: queryOf_def)
qed

lemma logs_query_read:
  assumes "set (order (logsQuery opts)) = fmdom' (logsQuery opts)"
  shows "queryGet (logsURL order (GetAgentAddress v) opts) ''follow'' = (if lo_follow opts then ''true'' else [])"
    "queryGet (logsURL order (GetAgentAddress v) opts) ''tail'' = (if lo_tail opts > 0 then itoa (lo_tail opts) else [])"
  unfolding queryGet_def queryOf_logsURL [where order = order and opts = opts, OF assms] map_of_keyed
  using logsQuery_dom(2,3) [of opts] assms by (auto simp: fmlookup_dom'_iff split: if_splits)

section \<open>From the request to the lines of the log\<close>

text \<open>An agent that answers log requests from a log file.\<close>

definition agentLogs :: "bool \<Rightarrow> go_error + log_reader \<Rightarrow> logs_service" where
  "agentLogs present file rq =
     (case handleLogs present file ''GET'' (queryGet (lr_url rq) ''follow'' = ''true'') (queryGet (lr_url rq) ''tail'') of
        (code, text, _) \<Rightarrow> Inr (code, text))"

text \<open>C37: The logs the cluster gets for a pod are those of the log file on the pod's machine, in whatever
  order the query parameters were written: without a limit the whole file, with one exactly the
  last lines of its buffers (of the file, when that fits one buffer); the pod that is not known, the
  missing file and the file that cannot be opened are errors that say so. Whether the request
  follows the log does not change what is sent first.\<close>

theorem logs_of_pod:
  assumes "\<And>m. set (order m) = fmdom' m" "\<And>url. newRequest url = None" "in_int64 (lo_tail opts)"
    and "\<And>f. lf = Inr f \<Longrightarrow> rd_stat f = None \<and> (\<forall>k. rd_err f k = None)"
  shows "GetContainerLogs order newRequest token (agentLogs present lf) ns n opts s =
    (if pv_index s (buildKeyFromNames ns n) = None then Inl (ErrNew (''pod '' @ ns @ ''/'' @ n @ '' not found''))
     else if \<not> present then Inl (ErrNew (''agent returned status '' @ itoa 404 @ '' for logs request''))
     else case lf of
       Inl e \<Rightarrow> Inl (ErrNew (''agent returned status '' @ itoa 500 @ '' for logs request''))
     | Inr f \<Rightarrow> Inr (if lo_tail opts > 0
         then concat (map (\<lambda>x. x @ nl) (lastN (nat (lo_tail opts)) (concat (map linesOf (tailChunks (rd_content f))))))
         else rd_content f))"
proof (cases "pv_index s (buildKeyFromNames ns n)")
  case None
  then show ?thesis by (simp add: GetContainerLogs_def)
next
  case (Some i)
  note q = logs_query_read [where order = order and opts = opts and v = "vpodAt i s", OF assms(1)]
  show ?thesis
  proof (cases lf)
    case (Inl e)
    with Some show ?thesis by (simp add: GetContainerLogs_def assms(2) agentLogs_def handleLogs_def Let_def)
  next
    case (Inr f)
    note F = assms(4) [OF Inr]
    have t: "tailFile f (lo_tail opts) =
        (lastN (nat (lo_tail opts)) (concat (map linesOf (tailChunks (rd_content f)))), None, snd (snd (tailFile f (lo_tail opts))))"
      if "lo_tail opts > 0"
      using tailFile_lines [of f "lo_tail opts"] F that by (simp add: prod_eq_iff)
    have "itoa (lo_tail opts) \<noteq> []" by (simp add: itoa_def)
    with Some Inr F t assms(3) show ?thesis
      by (cases "lo_tail opts > 0")
        (auto simp: GetContainerLogs_def assms(2) agentLogs_def handleLogs_def Let_def q sscanfInt_itoa split: prod.splits)
  qed
qed

theorem logs_of_pod_witness:
  "GetContainerLogs (\<lambda>m. sorted_list_of_set (fmdom' m)) (\<lambda>_. None) ''t''
     (agentLogs True (Inr (exReader (''one'' @ nl @ ''two'' @ nl)))) ''ns'' ''job''
     \<lparr>lo_follow = True, lo_tail = 0\<rparr> (exProv exVPod)
   = Inr (''one'' @ nl @ ''two'' @ nl)"
proof -
  have "pv_index (exProv exVPod) (buildKeyFromNames ''ns'' ''job'') = Some 0"
    by (simp add: exProv_def buildKeyFromNames_def)
  moreover have "set (sorted_list_of_set (fmdom' m)) = fmdom' m" for m :: "(string, string) fmap" by simp
  ultimately show ?thesis
    using logs_of_pod [of "\<lambda>m. sorted_list_of_set (fmdom' m)" "\<lambda>_. None" "\<lparr>lo_follow = True, lo_tail = 0\<rparr>"
        "Inr (exReader (''one'' @ nl @ ''two'' @ nl))" "''t''" True "''ns''" "''job''" "exProv exVPod"]
    by (simp add: in_int64_def exReader_def)
qed

end
