(* ===== verification/NodeConfig.thy ===== *)
theory NodeConfig
  imports Provider ConfigFacts
begin

text \<open>
  The configuration of the virtual node (\<open>internal/provider/anex/node.go\<close>): what \<open>ConfigureNode\<close>
  writes into the node object, with its labels, taints, capacity and conditions, and the goroutines
  it starts: those of the recovered pods (which are part of the provider's state) and the one that
  hands pod updates to the notifier. The HTTP server of the metrics is left out; that it cannot be
  started is only logged.
\<close>

section \<open>The node object\<close>

datatype taint_effect = NoSchedule | NoExecute | PreferNoSchedule

record k_taint =
  kt_key :: string
  kt_value :: string
  kt_effect :: taint_effect

record node_condition =
  kc_type :: string
  kc_status :: bool
  kc_time :: int
  kc_reason :: string
  kc_message :: string

text \<open>The labels are a map that may be nil. Resource quantities are kept as written.\<close>

record k_node =
  kn_labels :: annotation_map
  kn_taints :: "k_taint list"
  kn_capacity :: "(string \<times> string) list"
  kn_allocatable :: "(string \<times> string) list"
  kn_conditions :: "node_condition list"
  kn_addresses :: "(string \<times> string) list"
  kn_kubeletPort :: int
  kn_os :: string
  kn_arch :: string
  kn_version :: string

text \<open>The fields of the provider that the node's configuration reads.\<close>

record node_params =
  np_os :: string
  np_internalIP :: string
  np_daemonPort :: int
  np_config :: provider_config

section \<open>Parts of the node\<close>

definition effectOf :: "string \<Rightarrow> taint_effect option" where
  "effectOf s =
     (if s = ''NoSchedule'' then Some NoSchedule
      else if s = ''NoExecute'' then Some NoExecute
      else if s = ''PreferNoSchedule'' then Some PreferNoSchedule
      else None)"

text \<open>\<open>MustParse\<close> panics for a string that is no quantity.\<close>

definition capacity :: "(string \<Rightarrow> go_error option) \<Rightarrow> node_config \<Rightarrow> (string \<times> string) list option" where
  "capacity quantity c =
     (let rl = [(''cpu'', nc_cpu c), (''memory'', nc_memory c), (''pods'', nc_podLimit c), (''nvidia.com/gpu'', ''100'')]
      in if list_all (\<lambda>q. quantity (snd q) = None) rl then Some rl else None)"

definition nodeConditions :: "int \<Rightarrow> node_condition list" where
  "nodeConditions now =
     map (\<lambda>(t, r, m). \<lparr>kc_type = t, kc_status = False, kc_time = now, kc_reason = r, kc_message = m\<rparr>)
       [(''Ready'', ''KubeletPending'', ''kubelet is pending.''),
        (''OutOfDisk'', ''KubeletHasSufficientDisk'', ''kubelet has sufficient disk space available''),
        (''MemoryPressure'', ''KubeletHasSufficientMemory'', ''kubelet has sufficient memory available''),
        (''DiskPressure'', ''KubeletHasNoDiskPressure'', ''kubelet has no disk pressure''),
        (''NetworkUnavailable'', ''RouteCreated'', ''RouteController created a route'')]"

definition nodeAddresses :: "node_params \<Rightarrow> (string \<times> string) list" where
  "nodeAddresses np = [(''InternalIP'', np_internalIP np)]"

definition excludeLabels :: "(string, string) fmap \<Rightarrow> (string, string) fmap" where
  "excludeLabels m =
     fmupd ''node.kubernetes.io/exclude-from-external-load-balancers'' ''true''
       (fmupd ''alpha.service-controller.kubernetes.io/exclude-balancer'' ''true'' m)"

definition ignoreTaint :: k_taint where
  "ignoreTaint = \<lparr>kt_key = ''ignore-taint.cluster-autoscaler.kubernetes.io/manual-ignore'',
     kt_value = ''true'', kt_effect = NoSchedule\<rparr>"

definition addIgnoreTaint :: "k_taint list \<Rightarrow> k_taint list" where
  "addIgnoreTaint ts = (if list_ex (\<lambda>t. t = ignoreTaint) ts then ts else ts @ [ignoreTaint])"

text \<open>A taint of the configuration; one with an unsupported effect is skipped.\<close>

definition configTaint :: "taint_config \<Rightarrow> k_taint option" where
  "configTaint t =
     map_option (\<lambda>e. \<lparr>kt_key = tc_key t, kt_value = (if tc_operator t = ''Exists'' then [] else tc_value t), kt_effect = e\<rparr>)
       (effectOf (tc_effect t))"

section \<open>Configuration of the node\<close>

text \<open>The labels are written before the map is checked for nil, so a nil map panics.\<close>

definition describeNode :: "(string \<Rightarrow> go_error option) \<Rightarrow> node_params \<Rightarrow> int \<Rightarrow> k_node \<Rightarrow> k_node option" where
  "describeNode quantity np now n =
     (let c = cf_node (np_config np)
      in do {
           rl \<leftarrow> capacity quantity c;
           labels \<leftarrow> kn_labels n;
           Some (n\<lparr>kn_capacity := rl, kn_allocatable := rl, kn_conditions := nodeConditions now,
                   kn_addresses := nodeAddresses np, kn_kubeletPort := np_daemonPort np,
                   kn_os := (if np_os np = [] then ''linux'' else np_os np), kn_arch := ''amd64'',
                   kn_labels := Some (excludeLabels labels ++\<^sub>f nc_labels c),
                   kn_taints := addIgnoreTaint (kn_taints n) @ List.map_filter configTaint (nc_taints c)\<rparr>)
         })"

definition ConfigureNode ::
  "'f prov_env \<Rightarrow> (string \<Rightarrow> go_error option) \<Rightarrow> node_params \<Rightarrow> k_node \<Rightarrow> 'f prov \<Rightarrow> (k_node \<times> 'f prov) option" where
  "ConfigureNode env quantity np n s =
     (case cloud env CNow s of
        (now, s1) \<Rightarrow>
          (case describeNode quantity np (cr_time now) n of
             None \<Rightarrow> None
           | Some n1 \<Rightarrow> Some (n1, startRecovered env s1)))"

text \<open>The goroutine of the notifier: one update taken from the channel. A nil pod is skipped, as is
  every pod while no notifier is set.\<close>

definition notifierStep :: "(pod \<Rightarrow> 'n \<Rightarrow> 'n) option \<Rightarrow> pod option \<Rightarrow> 'n \<Rightarrow> 'n" where
  "notifierStep notifier update s =
     (case (update, notifier) of (Some p, Some f) \<Rightarrow> f p s | _ \<Rightarrow> s)"

section \<open>Facts\<close>

lemma loaded_quantities:
  assumes "LoadConfig cenv zero path = (c, None)" "ce_quantity cenv ''100'' = None"
  shows "\<exists>rl. capacity (ce_quantity cenv) (cf_node c) = Some rl"
proof -
  from assms(1) obtain c0 where "c = applyDefaults (overrideWithEnv (ce_getenv cenv) c0)" "validateConfig cenv c = None"
    by (auto simp: LoadConfig_def Let_def split: sum.splits prod.splits option.splits)
  then show ?thesis using assms(2) by (auto simp: capacity_def validateConfig_def Let_def split: if_splits)
qed

lemma describe_iff:
  "describeNode quantity np now n = Some m \<longleftrightarrow>
   (\<exists>rl labels. capacity quantity (cf_node (np_config np)) = Some rl \<and> kn_labels n = Some labels \<and>
     m = n\<lparr>kn_capacity := rl, kn_allocatable := rl, kn_conditions := nodeConditions now,
           kn_addresses := nodeAddresses np, kn_kubeletPort := np_daemonPort np,
           kn_os := (if np_os np = [] then ''linux'' else np_os np), kn_arch := ''amd64'',
           kn_labels := Some (excludeLabels labels ++\<^sub>f nc_labels (cf_node (np_config np))),
           kn_taints := addIgnoreTaint (kn_taints n) @ List.map_filter configTaint (nc_taints (cf_node (np_config np)))\<rparr>)"
  by (cases "capacity quantity (cf_node (np_config np))"; cases "kn_labels n") (auto simp: describeNode_def Let_def)

lemma labels_lookup:
  "fmlookup (excludeLabels old ++\<^sub>f new) k =
   (case fmlookup new k of
      Some v \<Rightarrow> Some v
    | None \<Rightarrow> if k \<in> {''node.kubernetes.io/exclude-from-external-load-balancers'',
                      ''alpha.service-controller.kubernetes.io/exclude-balancer''} then Some ''true''
            else fmlookup old k)"
  by (cases "fmlookup new k") (simp_all add: excludeLabels_def fmlookup_dom_iff)

lemma taints_kept: "set (addIgnoreTaint ts) = insert ignoreTaint (set ts)"
  "distinct ts \<Longrightarrow> distinct (addIgnoreTaint ts)" "\<exists>new. addIgnoreTaint ts = ts @ new"
  by (auto simp: addIgnoreTaint_def list_ex_iff)

end
