(* ===== verification/Recovery.thy ===== *)
theory Recovery
  imports ProviderProperties "HOL-Library.Multiset"
begin

text \<open>
  The start of the kubelet: the pods of the node are matched with the machines that run, and
  \<open>ConfigureNode\<close> starts their goroutines. The provider's invariant is established by this start,
  so that what holds in runs of a fresh provider holds in runs after a restart as well.
\<close>

section \<open>Pods that wait for their start\<close>

text \<open>A recovered pod that is not yet in the map: its cell has no context and no task, and its slot is
  its own.\<close>

definition pend_ok :: "'f prov \<Rightarrow> string \<times> nat \<Rightarrow> bool" where
  "pend_ok s e \<longleftrightarrow>
     (let k = fst e; i = snd e in
      i < length (pv_store s) \<and> pv_index s k = None \<and> \<not> known s i \<and> buildKey (pd_pod (vpodAt i s)) = k \<and>
      \<not> pd_finalized (vpodAt i s) \<and> (\<forall>c. \<not> ctxOf s i c) \<and> (\<forall>t\<in>set (pv_tasks s). taskPod t \<noteq> i) \<and>
      0 \<le> slotOfPod s i \<and> nat (slotOfPod s i) < length (pv_clients s) \<and>
      px_assigned (pv_clients s ! nat (slotOfPod s i)) \<and> (\<forall>j. live s j \<longrightarrow> slotOfPod s j \<noteq> slotOfPod s i))"

definition pending :: "(string \<times> nat) list \<Rightarrow> 'f prov \<Rightarrow> bool" where
  "pending es s \<longleftrightarrow> (\<forall>e\<in>set es. pend_ok s e) \<and> distinct (map fst es) \<and> distinct (map snd es) \<and>
     distinct (map (\<lambda>e. slotOfPod s (snd e)) es)"

lemma distinct_map_perm: "mset es = mset fs \<Longrightarrow> distinct (map f es) = distinct (map f fs)"
  by (intro mset_eq_imp_distinct_iff) (simp add: mset_map)

lemma pending_perm: "mset es = mset fs \<Longrightarrow> pending es s = pending fs s"
  using distinct_map_perm [of es fs fst] distinct_map_perm [of es fs snd]
    distinct_map_perm [of es fs "\<lambda>e. slotOfPod s (snd e)"] mset_eq_setD [of es fs]
  by (simp only: pending_def)

lemma pending_add:
  assumes "pending es s" "pend_ok s' (k, n)" "\<And>e. e \<in> set es \<Longrightarrow> pend_ok s' e"
    "\<And>e. e \<in> set es \<Longrightarrow> fst e \<noteq> k \<and> snd e \<noteq> n \<and> slotOfPod s (snd e) \<noteq> slotOfPod s' n"
    "map (\<lambda>e. slotOfPod s' (snd e)) es = map (\<lambda>e. slotOfPod s (snd e)) es"
  shows "pending ((k, n) # es) s'"
proof -
  have "k \<notin> fst ` set es" "n \<notin> snd ` set es" "slotOfPod s' n \<notin> (\<lambda>e. slotOfPod s (snd e)) ` set es"
    using assms(4) by force+
  moreover have "slotOfPod s' n \<notin> set (map (\<lambda>e. slotOfPod s' (snd e)) es)" unfolding assms(5) using calculation by simp
  moreover have "distinct (map (\<lambda>e. slotOfPod s' (snd e)) es)"
    unfolding assms(5) using assms(1) by (simp add: pending_def)
  ultimately show ?thesis using assms(1-3) by (auto simp: pending_def)
qed

text \<open>One pod is put into the map, with one fresh context and one task.\<close>

definition started :: "string \<Rightarrow> nat \<Rightarrow> task \<Rightarrow> 'f prov \<Rightarrow> 'f prov \<Rightarrow> bool" where
  "started k i t s s' \<longleftrightarrow>
     pv_clients s' = pv_clients s \<and> pv_index s' = (pv_index s)(k \<mapsto> i) \<and> pv_nextCtx s' = Suc (pv_nextCtx s) \<and>
     pv_cancelled s' = pv_cancelled s \<and> pv_tasks s' = pv_tasks s @ [t] \<and>
     length (pv_store s') = length (pv_store s) \<and> (\<forall>j. j \<noteq> i \<longrightarrow> pv_store s' ! j = pv_store s ! j) \<and>
     vpodAt i s' = vpodAt i s \<and> (\<forall>d. ctxOf s' i d \<longleftrightarrow> d = pv_nextCtx s) \<and>
     taskPod t = i \<and> taskCtx t = pv_nextCtx s \<and>
     (case t of TaskInit _ c _ \<Rightarrow> ce_provision (pv_store s' ! i) = Some c
              | TaskLifecycle _ c _ \<Rightarrow> ce_lifecycle (pv_store s' ! i) = Some c \<and> pd_provisioned (vpodAt i s))"

lemma started_view:
  assumes "started k i t s s'" "pend_ok s (k, i)"
  shows "vpodAt j s' = vpodAt j s" "known s' j \<longleftrightarrow> known s j \<or> j = i" "live s' j \<longleftrightarrow> live s j \<or> j = i"
    "ctxOf s' j d \<longleftrightarrow> (if j = i then d = pv_nextCtx s else ctxOf s j d)"
proof -
  note S = assms(1) [unfolded started_def]
  have i: "pv_index s k = None" "\<not> pd_finalized (vpodAt i s)" using assms(2) by (simp_all add: pend_ok_def Let_def)
  show v: "vpodAt j s' = vpodAt j s" for j using S by (cases "j = i") (simp_all add: vpodAt_def)
  have x: "pv_index s' = (pv_index s)(k \<mapsto> i)" using S by blast
  show kn: "known s' j \<longleftrightarrow> known s j \<or> j = i" for j
  proof
    show "known s' j" if "known s j \<or> j = i"
      using that i(1) unfolding known_def x by (metis fun_upd_other fun_upd_same option.distinct(1))
  qed (auto simp: known_def x split: if_splits)
  show "live s' j \<longleftrightarrow> live s j \<or> j = i" using i(2) by (auto simp: live_def kn v)
  show "ctxOf s' j d \<longleftrightarrow> (if j = i then d = pv_nextCtx s else ctxOf s j d)"
  proof (cases "j = i")
    case False
    with S show ?thesis by (simp add: ctxOf_def)
  qed (use S in simp)
qed

lemma inv_started:
  assumes inv: "prov_inv s" and p: "pend_ok s (k, i)" and st: "started k i t s s'"
  shows "prov_inv s'"
proof -
  note S = st [unfolded started_def] and view = started_view [OF st p]
  have P: "i < length (pv_store s)" "pv_index s k = None" "\<not> known s i" "buildKey (pd_pod (vpodAt i s)) = k"
    "\<not> pd_finalized (vpodAt i s)" "\<forall>u\<in>set (pv_tasks s). taskPod u \<noteq> i"
    "0 \<le> slotOfPod s i \<and> nat (slotOfPod s i) < length (pv_clients s) \<and> px_assigned (pv_clients s ! nat (slotOfPod s i))"
    "\<forall>j. live s j \<longrightarrow> slotOfPod s j \<noteq> slotOfPod s i"
    using p by (simp_all add: pend_ok_def Let_def)
  have ip: "inv_pods s" and ic: "inv_ctx s" and it: "inv_tasks s" using inv by (simp_all add: prov_inv_def)
  have fresh: "pv_nextCtx s \<notin> set (pv_cancelled s)" using ic by (auto simp: inv_ctx_def)
  have "inv_pods s'"
    unfolding inv_pods_def
  proof (intro conjI allI impI)
    fix q j assume q: "pv_index s' q = Some j"
    have x: "pv_index s' = (pv_index s)(k \<mapsto> i)" "length (pv_store s') = length (pv_store s)" using S by blast+
    have "j < length (pv_store s) \<and> buildKey (pd_pod (vpodAt j s)) = q \<and>
        (pd_finalized (vpodAt j s) \<longrightarrow> pd_provisioned (vpodAt j s))"
    proof (cases "q = k")
      case True
      with q x(1) P(1,4,5) show ?thesis by simp
    next
      case False
      with q x(1) ip show ?thesis by (simp add: inv_pods_def)
    qed
    then show "j < length (pv_store s')" "buildKey (pd_pod (vpodAt j s')) = q"
      "pd_finalized (vpodAt j s') \<Longrightarrow> pd_provisioned (vpodAt j s')" by (simp_all add: x(2) view(1))
  next
    fix j assume "live s' j"
    then show "0 \<le> slotOfPod s' j" "nat (slotOfPod s' j) < length (pv_clients s')"
      "px_assigned (pv_clients s' ! nat (slotOfPod s' j))"
      using P(7) ip S by (auto simp: view inv_pods_def)
  next
    fix j l assume "live s' j \<and> live s' l \<and> slotOfPod s' j = slotOfPod s' l"
    then show "j = l" using P(8) ip by (auto simp: view inv_pods_def)
  qed
  moreover have "inv_ctx s'"
  proof -
    have n: "pv_nextCtx s' = Suc (pv_nextCtx s)" "pv_cancelled s' = pv_cancelled s" using S by blast+
    have lt: "ctxOf s j d \<Longrightarrow> d < pv_nextCtx s" for j d using ic by (simp add: inv_ctx_def)
    have "j = l" if "ctxOf s' j d" "ctxOf s' l d" for j l d
    proof -
      have "ctxOf s j d \<Longrightarrow> ctxOf s l d \<Longrightarrow> j = l" using ic unfolding inv_ctx_def by blast
      then show ?thesis using that lt [of j d] lt [of l d] unfolding view(4) by (auto split: if_splits)
    qed
    moreover have "d < pv_nextCtx s'" if "ctxOf s' j d" for j d
      using that lt [of j d] by (simp add: n view(4) less_Suc_eq split: if_splits)
    ultimately show ?thesis using ic by (auto simp: inv_ctx_def n less_Suc_eq)
  qed
  moreover have "inv_tasks s'"
    unfolding inv_tasks_def
  proof
    have old: "task_ok s' u" if "u \<in> set (pv_tasks s)" for u
    proof -
      have "task_ok s u" "taskPod u \<noteq> i" using it that P(6) by (auto simp: inv_tasks_def)
      then show ?thesis using S by (cases u) (auto simp: view split: if_splits)
    qed
    have "task_ok s' t" using S P(1) fresh by (cases t) (auto simp: view)
    with old show "\<forall>u\<in>set (pv_tasks s'). task_ok s' u" using S by auto
    have a: "active s' = active s" using S by (simp add: active_def fun_eq_iff)
    have "active s t" using S fresh by (simp add: active_def)
    then show "distinct (map taskPod (filter (active s') (pv_tasks s')))"
      using it S P(6) by (auto simp: a inv_tasks_def)
  qed
  ultimately show ?thesis by (simp add: prov_inv_def)
qed

lemma pending_started:
  assumes "pending ((k, i) # es) s" "started k i t s s'"
  shows "pending es s'"
proof -
  have p: "pend_ok s (k, i)" using assms(1) by (simp add: pending_def)
  note S = assms(2) [unfolded started_def] and view = started_view [OF assms(2) p]
  have "pend_ok s' e" if e: "e \<in> set es" for e
  proof -
    have "pend_ok s e" "fst e \<noteq> k" "snd e \<noteq> i" "slotOfPod s i \<noteq> slotOfPod s (snd e)"
      using assms(1) e by (auto simp: pending_def image_iff)
    then show ?thesis using S by (auto simp: pend_ok_def Let_def view)
  qed
  then show ?thesis using assms(1) by (simp add: pending_def view(1))
qed

section \<open>Starting them\<close>

lemma no_context:
  "i < length (pv_store s) \<Longrightarrow>
   (\<forall>c. \<not> ctxOf s i c) \<longleftrightarrow> ce_provision (pv_store s ! i) = None \<and> ce_lifecycle (pv_store s ! i) = None"
  by (cases "ce_provision (pv_store s ! i)"; cases "ce_lifecycle (pv_store s ! i)") (auto simp: ctxOf_def)

lemma started_restored:
  assumes "pend_ok s (k, i)" "pd_provisioned (vpodAt i s)"
  shows "\<exists>now. started k i (TaskLifecycle i (pv_nextCtx s) now) s (startRestored env (k, i) s)"
proof -
  have "i < length (pv_store s)" "ce_provision (pv_store s ! i) = None" "ce_lifecycle (pv_store s ! i) = None"
    using assms(1) no_context [of i s] by (auto simp: pend_ok_def Let_def)
  then show ?thesis
    using assms(2)
    by (auto simp: startRestored_def newCtx_def cloud_def started_def ctxOf_def vpodAt_def split: prod.splits)
qed

lemma started_toRestart:
  assumes "pend_ok s (k, i)"
  shows "started k i (TaskInit i (pv_nextCtx s) False) s (startToRestart (k, i) s)"
proof -
  have "i < length (pv_store s)" "ce_provision (pv_store s ! i) = None" "ce_lifecycle (pv_store s ! i) = None"
    using assms no_context [of i s] by (auto simp: pend_ok_def Let_def)
  then show ?thesis
    by (auto simp: startToRestart_def newCtx_def started_def ctxOf_def vpodAt_def)
qed

lemma start_all_restored:
  "prov_inv s \<Longrightarrow> pending (es @ fs) s \<Longrightarrow> (\<forall>e\<in>set es. pd_provisioned (vpodAt (snd e) s)) \<Longrightarrow>
   prov_inv (foldl (\<lambda>t e. startRestored env e t) s es) \<and> pending fs (foldl (\<lambda>t e. startRestored env e t) s es)"
proof (induction es arbitrary: s)
  case (Cons e es)
  obtain k i where e: "e = (k, i)" by (cases e)
  have p: "pend_ok s (k, i)" using Cons.prems(2) e by (simp add: pending_def)
  obtain now where st: "started k i (TaskLifecycle i (pv_nextCtx s) now) s (startRestored env (k, i) s)"
    using started_restored [OF p] Cons.prems(3) e by auto
  show ?case
    using Cons.IH [of "startRestored env (k, i) s"] inv_started [OF Cons.prems(1) p st]
      pending_started [OF _ st] Cons.prems(2,3) started_view(1) [OF st p] e by simp
qed simp

lemma start_all_toRestart:
  "prov_inv s \<Longrightarrow> pending es s \<Longrightarrow> prov_inv (foldl (\<lambda>t e. startToRestart e t) s es)"
proof (induction es arbitrary: s)
  case (Cons e es)
  obtain k i where e: "e = (k, i)" by (cases e)
  have p: "pend_ok s (k, i)" using Cons.prems(2) e by (simp add: pending_def)
  note st = started_toRestart [OF p]
  show ?case
    using Cons.IH [of "startToRestart (k, i) s"] inv_started [OF Cons.prems(1) p st]
      pending_started [OF _ st] Cons.prems(2) e by simp
qed simp

section \<open>Recovering them\<close>

text \<open>While the pods of the node are examined, none is in the map and nothing runs.\<close>

definition recovering :: "'f prov \<Rightarrow> bool" where
  "recovering s \<longleftrightarrow> pv_index s = (\<lambda>_. None) \<and> pv_tasks s = [] \<and> pv_cancelled s = [] \<and> (\<forall>i c. \<not> ctxOf s i c) \<and>
     pending (pv_restored s @ pv_toRestart s) s \<and> (\<forall>e\<in>set (pv_restored s). pd_provisioned (vpodAt (snd e) s))"

definition recoveredKeys :: "'f prov \<Rightarrow> string set" where
  "recoveredKeys s = fst ` set (pv_restored s @ pv_toRestart s)"

lemma recovering_inv: "recovering s \<Longrightarrow> prov_inv s"
  by (auto simp: recovering_def prov_inv_def inv_pods_def inv_ctx_def inv_tasks_def live_def known_def)

text \<open>A pod joins one of the two lists, on a slot that was free.\<close>

lemma recovering_new:
  assumes r: "recovering s" and free: "0 \<le> slot" "nat slot < length (pv_clients s)" "\<not> px_assigned (pv_clients s ! nat slot)"
    and new: "buildKey (pd_pod v) = k" "\<not> pd_finalized v" "pd_slot v = slot" "k \<notin> recoveredKeys s"
    and s': "pv_clients s' = setAssigned (nat slot) True (pv_clients s)" "pv_index s' = pv_index s" "pv_tasks s' = pv_tasks s"
      "pv_cancelled s' = pv_cancelled s" "pv_store s' = pv_store s @ [\<lparr>ce_pod = v, ce_provision = None, ce_lifecycle = None\<rparr>]"
    and lists: "(pv_restored s' = pv_restored s @ [(k, length (pv_store s))] \<and> pv_toRestart s' = pv_toRestart s \<and> pd_provisioned v) \<or>
      (pv_restored s' = pv_restored s \<and> pv_toRestart s' = pv_toRestart s @ [(k, length (pv_store s))])"
  shows "recovering s' \<and> recoveredKeys s' = insert k (recoveredKeys s)"
proof -
  let ?n = "length (pv_store s)" and ?es = "pv_restored s @ pv_toRestart s"
  have R: "pv_index s = (\<lambda>_. None)" "pv_tasks s = []" "\<forall>i c. \<not> ctxOf s i c" "pending ?es s"
    "\<forall>e\<in>set (pv_restored s). pd_provisioned (vpodAt (snd e) s)" using r by (simp_all add: recovering_def)
  have at: "vpodAt i s' = vpodAt i s" "pv_store s' ! i = pv_store s ! i" if "i < ?n" for i
    using that by (simp_all add: vpodAt_def s' nth_append)
  have atn: "vpodAt ?n s' = v" "pv_store s' ! ?n = \<lparr>ce_pod = v, ce_provision = None, ce_lifecycle = None\<rparr>"
    by (simp_all add: vpodAt_def s' nth_append)
  have none: "\<not> known s' i" "\<not> live s' i" "\<not> ctxOf s' i c" for i c
  proof -
    show "\<not> known s' i" "\<not> live s' i" by (simp_all add: known_def live_def s' R(1))
    show "\<not> ctxOf s' i c"
      using R(3) at(2) [of i] atn(2) by (cases "i < ?n"; cases "i = ?n") (auto simp: ctxOf_def s')
  qed
  have old: "snd e < ?n" "nat (slotOfPod s (snd e)) \<noteq> nat slot" "pend_ok s' e" if "e \<in> set ?es" for e
  proof -
    have p: "pend_ok s e" using R(4) that by (simp add: pending_def)
    then show n: "snd e < ?n" by (simp add: pend_ok_def Let_def)
    show ne: "nat (slotOfPod s (snd e)) \<noteq> nat slot" using p free(3) by (auto simp: pend_ok_def Let_def)
    show "pend_ok s' e"
      using p n ne by (simp add: pend_ok_def Let_def none at s' R(2) setAssigned_def)
  qed
  have slots: "map (\<lambda>e. slotOfPod s' (snd e)) xs = map (\<lambda>e. slotOfPod s (snd e)) xs" if "set xs \<subseteq> set ?es" for xs
  proof (intro map_cong refl)
    fix e assume "e \<in> set xs"
    then have "e \<in> set ?es" using that by blast
    from at(1) [OF old(1) [OF this]] show "slotOfPod s' (snd e) = slotOfPod s (snd e)" by simp
  qed
  have "pend_ok s' (k, ?n)"
    using free new by (simp add: pend_ok_def Let_def none atn s' R(1,2) setAssigned_def)
  moreover have "fst e \<noteq> k \<and> snd e \<noteq> ?n \<and> slotOfPod s (snd e) \<noteq> slot" if "e \<in> set ?es" for e
    using old(1,2) [OF that] new(4) that by (auto simp: recoveredKeys_def)
  ultimately have "pending ((k, ?n) # ?es) s'"
    using pending_add [OF R(4) _ _ _ slots [of ?es]] old(3) atn(1) new(3) by simp
  moreover have "mset (pv_restored s' @ pv_toRestart s') = mset ((k, ?n) # ?es)" using lists by auto
  ultimately have "pending (pv_restored s' @ pv_toRestart s') s'" using pending_perm by metis
  moreover have "\<forall>e\<in>set (pv_restored s'). pd_provisioned (vpodAt (snd e) s')"
  proof
    fix e assume "e \<in> set (pv_restored s')"
    then consider "e \<in> set (pv_restored s)" | "e = (k, ?n)" "pd_provisioned v" using lists by auto
    then show "pd_provisioned (vpodAt (snd e) s')"
      using R(5) old(1) at(1) by cases (simp_all add: atn(1))
  qed
  moreover have "recoveredKeys s' = insert k (recoveredKeys s)" using lists by (auto simp: recoveredKeys_def)
  ultimately show ?thesis using r by (simp add: recovering_def s' none)
qed

lemma recovering_frame:
  assumes r: "recovering s" and "pv_index s' = pv_index s" "pv_tasks s' = pv_tasks s" "pv_cancelled s' = pv_cancelled s"
    "pv_store s' = pv_store s" "pv_restored s' = pv_restored s" "pv_toRestart s' = pv_toRestart s"
    "length (pv_clients s') = length (pv_clients s)"
    "\<And>j. j < length (pv_clients s) \<Longrightarrow> px_assigned (pv_clients s ! j) \<Longrightarrow> px_assigned (pv_clients s' ! j)"
  shows "recovering s' \<and> recoveredKeys s' = recoveredKeys s"
proof -
  have v: "vpodAt i s' = vpodAt i s" "ctxOf s' i c = ctxOf s i c" "known s' i = known s i" "live s' i = live s i" for i c
    using assms by (simp_all add: vpodAt_def ctxOf_def known_def live_def)
  have "pend_ok s e \<Longrightarrow> pend_ok s' e" for e using assms by (auto simp: pend_ok_def Let_def v)
  then have "pending es s \<Longrightarrow> pending es s'" for es by (auto simp: pending_def v)
  then show ?thesis using assms(1-7) by (auto simp: recovering_def recoveredKeys_def v)
qed

lemma cloud_lists [simp]:
  "pv_restored (snd (cloud env q s)) = pv_restored s" "pv_toRestart (snd (cloud env q s)) = pv_toRestart s"
  by (simp_all add: cloud_def)

definition annotatedSlot :: "pod \<Rightarrow> int" where
  "annotatedSlot p = (case annLookup (pod_annotations p) ''anex.sh/proxy-slot-id'' of None \<Rightarrow> 0 | Some t \<Rightarrow> atoiValue t)"

lemma recoverPod_cases:
  assumes "recoverPod env machines p s = Some s'" "ps_phase (pod_status p) = PhaseRunning"
    "clientAt (annotatedSlot p) s = Some c" "\<not> px_assigned c"
  shows "pv_clients s' = setAssigned (nat (annotatedSlot p)) True (pv_clients s) \<and> pv_index s' = pv_index s \<and>
    pv_tasks s' = pv_tasks s \<and> pv_cancelled s' = pv_cancelled s \<and>
    ((\<exists>v. pd_pod v = p \<and> \<not> pd_finalized v \<and> pd_slot v = annotatedSlot p \<and>
        pv_store s' = pv_store s @ [\<lparr>ce_pod = v, ce_provision = None, ce_lifecycle = None\<rparr>] \<and>
        ((pv_restored s' = pv_restored s @ [(buildKey p, length (pv_store s))] \<and> pv_toRestart s' = pv_toRestart s \<and> pd_provisioned v) \<or>
         (pv_restored s' = pv_restored s \<and> pv_toRestart s' = pv_toRestart s @ [(buildKey p, length (pv_store s))]))) \<or>
     (pv_store s' = pv_store s \<and> pv_restored s' = pv_restored s \<and> pv_toRestart s' = pv_toRestart s))"
proof -
  note R = assms(1) [unfolded recoverPod_def annotatedSlot_def [symmetric]]
  show ?thesis
  proof (cases "machines (pod_uid p)")
    case (Some m)
    with R assms(2-4) show ?thesis
      by (cases "isRunPod env")
        (auto simp: Let_def assignSlot_def SetAgentPort_def SetProvisioningCompleted_def case_prod_beta NewVirtualPod_def)
  next
    case None
    with R assms(2-4) show ?thesis
      by (auto simp: Let_def assignSlot_def case_prod_beta notifyPodUpdate_def split: if_splits)
  qed
qed

lemma recoverPod_keeps:
  assumes r: "recovering s" and run: "recoverPod env machines p s = Some s'" and k: "buildKey p \<notin> recoveredKeys s"
  shows "recovering s' \<and> recoveredKeys s' \<subseteq> insert (buildKey p) (recoveredKeys s)"
proof (cases "ps_phase (pod_status p) = PhaseRunning")
  case True
  obtain c where c: "clientAt (annotatedSlot p) s = Some c"
    using run True by (cases "clientAt (annotatedSlot p) s") (simp_all add: recoverPod_def annotatedSlot_def)
  then have b: "0 \<le> annotatedSlot p" "nat (annotatedSlot p) < length (pv_clients s)" "c = pv_clients s ! nat (annotatedSlot p)"
    by (simp_all add: clientAt_def split: if_splits)
  show ?thesis
  proof (cases "px_assigned c")
    case True
    with run c r \<open>ps_phase (pod_status p) = PhaseRunning\<close> show ?thesis by (auto simp: recoverPod_def annotatedSlot_def)
  next
    case free: False
    note C = recoverPod_cases [OF run True c free]
    show ?thesis
    proof (cases "pv_store s' = pv_store s")
      case False
      with C obtain v where v: "buildKey (pd_pod v) = buildKey p" "\<not> pd_finalized v" "pd_slot v = annotatedSlot p"
        "pv_store s' = pv_store s @ [\<lparr>ce_pod = v, ce_provision = None, ce_lifecycle = None\<rparr>]"
        "(pv_restored s' = pv_restored s @ [(buildKey p, length (pv_store s))] \<and> pv_toRestart s' = pv_toRestart s \<and> pd_provisioned v) \<or>
         (pv_restored s' = pv_restored s \<and> pv_toRestart s' = pv_toRestart s @ [(buildKey p, length (pv_store s))])"
        by blast
      from recovering_new [OF r b(1,2) free [unfolded b(3)] v(1-3) k _ _ _ _ v(4,5)] C show ?thesis by blast
    next
      case same: True
      with C have f: "pv_restored s' = pv_restored s" "pv_toRestart s' = pv_toRestart s" by auto
      have "recovering s' \<and> recoveredKeys s' = recoveredKeys s"
      proof (rule recovering_frame [OF r _ _ _ same f])
        have "pv_clients s' = setAssigned (nat (annotatedSlot p)) True (pv_clients s)" using C by blast
        then show "px_assigned (pv_clients s' ! j)" if "px_assigned (pv_clients s ! j)" "j < length (pv_clients s)" for j
          using that by (cases "j = nat (annotatedSlot p)") (simp_all add: setAssigned_def)
        show "length (pv_clients s') = length (pv_clients s)" using C by (simp add: setAssigned_def)
      qed (use C in blast)+
      then show ?thesis by blast
    qed
  qed
next
  case False
  with run r show ?thesis by (auto simp: recoverPod_def)
qed

lemma recoverPods_keeps:
  "recovering s \<Longrightarrow> recoverPods env machines ps s = Some s' \<Longrightarrow> distinct (map buildKey ps) \<Longrightarrow>
   recoveredKeys s \<inter> buildKey ` set ps = {} \<Longrightarrow> recovering s'"
proof (induction ps arbitrary: s)
  case (Cons p ps)
  then obtain s1 where s1: "recoverPod env machines p s = Some s1" "recoverPods env machines ps s1 = Some s'"
    by (auto split: option.splits)
  have p: "buildKey p \<notin> recoveredKeys s" using Cons.prems(4) by auto
  note k = recoverPod_keeps [OF Cons.prems(1) s1(1) p]
  have "recoveredKeys s1 \<inter> buildKey ` set ps \<subseteq> insert (buildKey p) (recoveredKeys s) \<inter> buildKey ` set ps"
    using k by blast
  also have "\<dots> = {}" using Cons.prems(3,4) by auto
  finally show ?case using Cons.IH [OF _ s1(2)] k Cons.prems(3) by simp
qed simp

lemma recovering_fresh: "recovering (freshProv server clients) \<and> recoveredKeys (freshProv server clients) = {}"
  by (simp add: recovering_def recoveredKeys_def freshProv_def pending_def ctxOf_def)

lemma inv_startRecovered:
  assumes "recovering s"
  shows "prov_inv (startRecovered env s)"
proof -
  let ?t = "foldl (\<lambda>t ki. startRestored env ki t) s (pv_restored s)"
  have r: "pending (pv_restored s @ pv_toRestart s) s" "\<forall>e\<in>set (pv_restored s). pd_provisioned (vpodAt (snd e) s)"
    using assms by (simp_all add: recovering_def)
  have "vpodAt i (?t\<lparr>pv_restored := []\<rparr>) = vpodAt i ?t" "known (?t\<lparr>pv_restored := []\<rparr>) i = known ?t i"
    "live (?t\<lparr>pv_restored := []\<rparr>) i = live ?t i" "ctxOf (?t\<lparr>pv_restored := []\<rparr>) i c = ctxOf ?t i c" for i c
    by (simp_all add: vpodAt_def known_def live_def ctxOf_def)
  note v = this
  have "task_ok (?t\<lparr>pv_restored := []\<rparr>) u = task_ok ?t u" for u by (cases u) (simp_all add: v)
  moreover have "active (?t\<lparr>pv_restored := []\<rparr>) = active ?t" by (simp add: active_def fun_eq_iff)
  ultimately have "prov_inv ?t \<Longrightarrow> prov_inv (?t\<lparr>pv_restored := []\<rparr>)"
    by (simp add: prov_inv_def inv_pods_def inv_ctx_def inv_tasks_def v)
  moreover have "pending es ?t \<Longrightarrow> pending es (?t\<lparr>pv_restored := []\<rparr>)" for es
    by (simp add: pending_def pend_ok_def v)
  ultimately show ?thesis
    using start_all_restored [OF recovering_inv [OF assms] r, of env] unfolding startRecovered_def
    by (intro start_all_toRestart) auto
qed

section \<open>Runs after a restart\<close>


definition exRunningPod :: "string \<Rightarrow> string \<Rightarrow> pod" where
  "exRunningPod name slot = exCrashPod\<lparr>pod_name := name,
     pod_annotations := Some (fmupd ''anex.sh/proxy-slot-id'' slot fmempty),
     pod_status := (pod_status exCrashPod)\<lparr>ps_phase := PhaseRunning\<rparr>\<rparr>"

definition exRecovered :: "int prov option" where
  "exRecovered = map_option (startRecovered (exProvEnv None))
     (recoverPods (exProvEnv None) (\<lambda>_. None) [exRunningPod ''a'' ''0'', exRunningPod ''b'' ''1'']
       (freshProv exServer [exClient False, exClient False]))"


end
