(* ===== verification/ProviderStart.thy ===== *)
theory ProviderStart
  imports Recovery ConfigFacts VastClient Paths
begin

text \<open>
  The construction of the provider (\<open>NewGlamiProvider\<close> in \<open>internal/provider/anex/provider.go\<close>)
  with the Kubernetes helpers of \<open>kubernetes.go\<close> and the wrappers of the pod, ConfigMap and secret
  listers (\<open>internal/manager/resource.go\<close>): the configuration is loaded, the cloud client chosen, the
  tunnel keys read, the bans file of Vast.ai prepared, and the running pods of the node recovered.

  The Kubernetes client library and the cloud's answers are arguments. Event recorder, retry client,
  scheme and log lines are left out.
\<close>

section \<open>Kubernetes\<close>

text \<open>The configuration of the cluster client: in the cluster, else from a file.\<close>

definition newClusterClient ::
  "'c result \<Rightarrow> (string \<Rightarrow> 'c result) \<Rightarrow> ('c \<Rightarrow> 'k result) \<Rightarrow> (string \<Rightarrow> string) \<Rightarrow> 'k result" where
  "newClusterClient inCluster fromFlags forConfig getenv =
     (case inCluster of
        Inr cfg \<Rightarrow> forConfig cfg
      | Inl _ \<Rightarrow>
          (let k = getenv ''KUBECONFIG'';
               kubeconfig = (if k = [] then pathJoin [getenv ''HOME'', ''.kube'', ''config''] else k)
           in case fromFlags kubeconfig of Inl e \<Rightarrow> Inl e | Inr cfg \<Rightarrow> forConfig cfg))"

text \<open>\<open>sel\<close> renders the equality of a field and a value, \<open>list\<close> lists the pods of a field selector.\<close>

definition listPodsForNode :: "(string \<Rightarrow> string \<Rightarrow> string) \<Rightarrow> (string \<Rightarrow> pod list result) \<Rightarrow> string \<Rightarrow> pod list result" where
  "listPodsForNode sel list nodeName =
     list (sel ''spec.nodeName'' nodeName @ '',status.phase!=Succeeded,status.phase!=Failed'')"

text \<open>The resource manager passes through to listers; an error of the pod lister is an empty list.\<close>

record ('p, 'c, 's, 'v) resource_manager =
  rm_pods :: "'p list result"
  rm_configMaps :: "string \<Rightarrow> string \<Rightarrow> 'c result"
  rm_secrets :: "string \<Rightarrow> string \<Rightarrow> 's result"
  rm_services :: "'v list result"

definition rm_GetPods :: "('p, 'c, 's, 'v) resource_manager \<Rightarrow> 'p list" where
  "rm_GetPods rm = (case rm_pods rm of Inr l \<Rightarrow> l | Inl e \<Rightarrow> [])"

definition rm_GetConfigMap :: "('p, 'c, 's, 'v) resource_manager \<Rightarrow> string \<Rightarrow> string \<Rightarrow> 'c result" where
  "rm_GetConfigMap rm name namespace = rm_configMaps rm namespace name"

definition rm_GetSecret :: "('p, 'c, 's, 'v) resource_manager \<Rightarrow> string \<Rightarrow> string \<Rightarrow> 's result" where
  "rm_GetSecret rm name namespace = rm_secrets rm namespace name"

definition rm_ListServices :: "('p, 'c, 's, 'v) resource_manager \<Rightarrow> 'v list result" where
  "rm_ListServices rm = rm_services rm"

section \<open>The bans file\<close>

text \<open>A missing file is created empty, the environment may replace its content, and what is there is
  loaded; errors are only logged.\<close>

definition restoreBans :: "'f vast_env \<Rightarrow> (string \<Rightarrow> string) \<Rightarrow> 'f vast_state \<Rightarrow> 'f vast_state" where
  "restoreBans env getenv s =
     (if \<not> bc_enable (ve_bans env) then s
      else
        (let path = bc_path (ve_bans env);
             write = (\<lambda>data t. if ve_fileErr env (FWrite path) = None then t\<lparr>vt_files := (vt_files t)(path \<mapsto> data)\<rparr> else t);
             s1 = (if vt_files s path = None \<and> ve_fileErr env (FMkdirAll path) = None then write ''{}'' s else s);
             overwrite = getenv ''BANS_OVERWRITE'';
             s2 = (if overwrite \<noteq> [] then write overwrite s1 else s1)
         in snd (LoadMachineBansFromFile env s2)))"

section \<open>Construction of the provider\<close>

record 'f start_env =
  se_config :: config_env
  se_zero :: provider_config
  se_frac :: "nat \<Rightarrow> nat \<Rightarrow> nat \<Rightarrow> nat"
  se_seconds :: "int \<Rightarrow> int"
  se_kube :: "unit result"
  se_sel :: "string \<Rightarrow> string \<Rightarrow> string"
  se_list :: "string \<Rightarrow> pod list result"
  se_mapRunning :: "cloud_choice \<Rightarrow> pod list \<Rightarrow> (string \<rightharpoonup> 'f machine) result"

definition zeroServer :: proxy_server where
  "zeroServer = \<lparr>px_endpoint = [], px_serverKey = [], px_portUDP = 0, px_portTCP = 0\<rparr>"

text \<open>Without readable tunnel keys the provider has no slots; without the cloud's mapping no pod has a
  machine. \<open>None\<close> is a panic: a running pod names a slot that does not exist.\<close>

definition NewGlamiProvider ::
  "'f start_env \<Rightarrow> 'f prov_env \<Rightarrow> string \<Rightarrow> (go_error + (provider_config \<times> cloud_choice \<times> 'f prov)) option" where
  "NewGlamiProvider se env path =
     (case LoadConfig (se_config se) (se_zero se) path of
        (c, Some e) \<Rightarrow> Some (Inl e)
      | (c, None) \<Rightarrow>
     (if cf_clusterUUID c = [] then Some (Inl (ErrNew ''cluster.clusterUUID is not set in config''))
      else
     (case se_kube se of
        Inl e \<Rightarrow> Some (Inl (ErrNew (''failed to build kubernetes client: '' @ err_msg e)))
      | Inr _ \<Rightarrow>
     (case chooseClient (se_frac se) (se_seconds se) c of
        Inl e \<Rightarrow> Some (Inl e)
      | Inr choice \<Rightarrow>
     (let (server, clients) = (case loadProxyConfig (se_config se) c of Inl _ \<Rightarrow> (zeroServer, []) | Inr sc \<Rightarrow> sc)
      in case listPodsForNode (se_sel se) (se_list se) (nc_nodeName (cf_node c)) of
           Inl e \<Rightarrow> Some (Inl (ErrNew (''error listing pods: '' @ err_msg e)))
         | Inr pods \<Rightarrow>
             (let machines = (case se_mapRunning se choice pods of Inl _ \<Rightarrow> (\<lambda>_. None) | Inr m \<Rightarrow> m)
              in map_option (\<lambda>s. Inr (c, choice, s)) (recoverPods env machines pods (freshProv server clients))))))))"

section \<open>What a start establishes\<close>

lemma NewGlamiProvider_ok:
  assumes "NewGlamiProvider se env path = Some (Inr (c, choice, s))"
  shows "LoadConfig (se_config se) (se_zero se) path = (c, None) \<and>
    (\<exists>pods machines server clients.
       listPodsForNode (se_sel se) (se_list se) (nc_nodeName (cf_node c)) = Inr pods \<and>
       recoverPods env machines pods (freshProv server clients) = Some s)"
proof (cases "LoadConfig (se_config se) (se_zero se) path")
  case (Pair c1 e)
  with assms show ?thesis
    by (cases e) (auto simp: NewGlamiProvider_def Let_def case_prod_beta split: if_splits sum.splits)
qed

lemma recoverPods_no_slots:
  "(\<exists>p\<in>set ps. ps_phase (pod_status p) = PhaseRunning) \<Longrightarrow> pv_clients s = [] \<Longrightarrow>
   recoverPods env machines ps s = None"
proof (induction ps)
  case (Cons p ps)
  show ?case
  proof (cases "ps_phase (pod_status p) = PhaseRunning")
    case True
    have "clientAt k s = None" for k using Cons.prems(2) by (simp add: clientAt_def)
    with True show ?thesis by (simp add: recoverPod_def)
  next
    case False
    with Cons show ?thesis by (simp add: recoverPod_def)
  qed
qed simp

text \<open>Unreadable tunnel keys are logged and the start goes on, but with a running pod on the node it ends
  in a panic.\<close>

theorem unreadable_keys_crash:
  assumes "LoadConfig (se_config se) (se_zero se) path = (c, None)" "cf_clusterUUID c \<noteq> []" "se_kube se = Inr ()"
    and "loadProxyConfig (se_config se) c = Inl e"
    and "listPodsForNode (se_sel se) (se_list se) (nc_nodeName (cf_node c)) = Inr pods"
    and "p \<in> set pods" "ps_phase (pod_status p) = PhaseRunning"
  shows "NewGlamiProvider se env path = None"
proof -
  obtain choice where "chooseClient (se_frac se) (se_seconds se) c = Inr choice"
    using loaded_config_chooses [OF assms(1,2)] by blast
  moreover have "recoverPods env m pods (freshProv zeroServer []) = None" for m
    using assms(6,7) by (intro recoverPods_no_slots) (auto simp: freshProv_def)
  ultimately show ?thesis using assms by (simp add: NewGlamiProvider_def)
qed

end
