(* ===== verification/VkCommand.thy ===== *)
theory VkCommand
  imports NodeConfig ProviderStart
begin

text \<open>
  The command of the virtual kubelet (\<open>cmd/virtual-kubelet\<close>): the options with their defaults and
  flags, the taint of the node, the configuration of the API server, tracing, the store of
  providers, and the root command that puts them together.

  The environment, the flag parsers, the exporters of the tracing library and the Kubernetes
  client library are arguments. What the root command hands to the library is a plan: the
  options of the node, the TLS configuration and the way requests are authenticated.
\<close>

section \<open>Options\<close>

record trace_options =
  to_tags :: annotation_map
  to_serviceName :: string

record vk_opts =
  vo_kubeConfigPath :: string
  vo_kubeNamespace :: string
  vo_kubeClusterDomain :: string
  vo_listenPort :: int
  vo_nodeName :: string
  vo_operatingSystem :: string
  vo_provider :: string
  vo_providerConfigPath :: string
  vo_taintKey :: string
  vo_taintEffect :: string
  vo_disableTaint :: bool
  vo_metricsAddr :: string
  vo_podSyncWorkers :: int
  vo_informerResync :: int
  vo_enableNodeLease :: bool
  vo_traceExporters :: "string list"
  vo_traceSampleRate :: string
  vo_traceConfig :: trace_options
  vo_startupTimeout :: int
  vo_streamIdle :: int
  vo_streamCreation :: int
  vo_version :: string

type_synonym lookup_env = "string \<Rightarrow> string option"

definition osGetenv :: "lookup_env \<Rightarrow> string \<Rightarrow> string" where
  "osGetenv env k = (case env k of None \<Rightarrow> [] | Some v \<Rightarrow> v)"

definition vkGetEnv :: "lookup_env \<Rightarrow> string \<Rightarrow> string \<Rightarrow> string" where
  "vkGetEnv env k d = (case env k of None \<Rightarrow> d | Some v \<Rightarrow> v)"

definition DefaultTaintKey :: string where "DefaultTaintKey = ''virtual-kubelet.io/provider''"
definition DefaultTaintEffect :: string where "DefaultTaintEffect = ''NoSchedule''"
definition DefaultNodeName :: string where "DefaultNodeName = ''virtual-kubelet''"

text \<open>The options before the port, the port, and those after it: an error of the port leaves the last ones
  as they were.\<close>

definition earlyDefaults :: "lookup_env \<Rightarrow> vk_opts \<Rightarrow> vk_opts" where
  "earlyDefaults env c =
     c\<lparr>vo_provider := orDefault (vo_provider c) ''vastai'',
       vo_operatingSystem := orDefault (vo_operatingSystem c) ''linux'',
       vo_nodeName := orDefault (vo_nodeName c) (vkGetEnv env ''DEFAULT_NODE_NAME'' DefaultNodeName),
       vo_informerResync := (if vo_informerResync c = 0 then nsPerMinute else vo_informerResync c),
       vo_metricsAddr := orDefault (vo_metricsAddr c) '':10255'',
       vo_podSyncWorkers := (if vo_podSyncWorkers c = 0 then 10 else vo_podSyncWorkers c),
       vo_traceConfig := (vo_traceConfig c)\<lparr>to_serviceName := orDefault (to_serviceName (vo_traceConfig c)) DefaultNodeName\<rparr>\<rparr>"

definition defaultPort :: "lookup_env \<Rightarrow> int result" where
  "defaultPort env =
     (let kp = osGetenv env ''KUBELET_PORT''
      in if kp = [] then Inr 10250
         else (case atoi kp of
                 None \<Rightarrow> Inl (ErrWrap ''error parsing KUBELET_PORT environment variable'' (ErrNew kp))
               | Some p \<Rightarrow>
                   if p > 2147483647 then Inl (ErrNew ''KUBELET_PORT environment variable is too large'')
                   else Inr (wrap32 p)))"

definition lateDefaults :: "lookup_env \<Rightarrow> string \<Rightarrow> vk_opts \<Rightarrow> vk_opts" where
  "lateDefaults env home c =
     (let kubeconfig = osGetenv env ''KUBECONFIG'';
          path = (if vo_kubeConfigPath c \<noteq> [] then vo_kubeConfigPath c
                  else if kubeconfig \<noteq> [] then kubeconfig
                  else if home \<noteq> [] then pathJoin [home, ''.kube'', ''config''] else [])
      in c\<lparr>vo_kubeClusterDomain := orDefault (vo_kubeClusterDomain c) ''cluster.local'',
           vo_taintKey := orDefault (vo_taintKey c) DefaultTaintKey,
           vo_taintEffect := orDefault (vo_taintEffect c) DefaultTaintEffect,
           vo_kubeConfigPath := path,
           vo_streamIdle := (if vo_streamIdle c = 0 then 30 * nsPerSecond else vo_streamIdle c),
           vo_streamCreation := (if vo_streamCreation c = 0 then 30 * nsPerSecond else vo_streamCreation c)\<rparr>)"

definition SetDefaultOpts :: "lookup_env \<Rightarrow> string \<Rightarrow> vk_opts \<Rightarrow> go_error option \<times> vk_opts" where
  "SetDefaultOpts env home c =
     (let c1 = earlyDefaults env c
      in if vo_listenPort c1 \<noteq> 0 then (None, lateDefaults env home c1)
         else (case defaultPort env of
                 Inl e \<Rightarrow> (Some e, c1)
               | Inr p \<Rightarrow> (None, lateDefaults env home (c1\<lparr>vo_listenPort := p\<rparr>))))"

section \<open>Flags\<close>

text \<open>A flag of the form key=value: without \<open>=\<close> and with a key twice it is an error, and writing to a
  nil map panics.\<close>

definition mapVarSet :: "annotation_map \<Rightarrow> string \<Rightarrow> (go_error option \<times> annotation_map) option" where
  "mapVarSet m s =
     (case cutAt (CHR ''='') s of
        None \<Rightarrow> Some (Some (ErrNew (''invalid format, must be `key=value`: '' @ s)), m)
      | Some (k, v) \<Rightarrow>
          (case m of
             None \<Rightarrow> None
           | Some tags \<Rightarrow>
               if fmlookup tags k \<noteq> None then Some (Some (ErrNew (''duplicate key: '' @ k)), m)
               else Some (None, Some (fmupd k v tags))))"

definition mapVarString :: "((string, string) fmap \<Rightarrow> string list) \<Rightarrow> annotation_map \<Rightarrow> string" where
  "mapVarString order m =
     (case m of None \<Rightarrow> []
      | Some tags \<Rightarrow> joinWith '', '' (map (\<lambda>k. k @ ''='' @ the (fmlookup tags k)) (order tags)))"

text \<open>The parsers of the flag library, by type.\<close>

record flag_parsers =
  fp_bool :: "string \<Rightarrow> bool result"
  fp_int :: "string \<Rightarrow> int result"
  fp_duration :: "string \<Rightarrow> int result"
  fp_slice :: "string \<Rightarrow> string list result"

definition setWith :: "(string \<Rightarrow> 'a result) \<Rightarrow> ('a \<Rightarrow> vk_opts \<Rightarrow> vk_opts) \<Rightarrow> string \<Rightarrow> vk_opts \<Rightarrow> go_error option \<times> vk_opts" where
  "setWith parse upd v c = (case parse v of Inl e \<Rightarrow> (Some e, c) | Inr x \<Rightarrow> (None, upd x c))"

definition stringFlags :: "(string \<times> (string \<Rightarrow> vk_opts \<Rightarrow> vk_opts)) list" where
  "stringFlags =
     [(''kubeconfig'', \<lambda>v c. c\<lparr>vo_kubeConfigPath := v\<rparr>), (''namespace'', \<lambda>v c. c\<lparr>vo_kubeNamespace := v\<rparr>),
      (''cluster-domain'', \<lambda>v c. c\<lparr>vo_kubeClusterDomain := v\<rparr>), (''nodename'', \<lambda>v c. c\<lparr>vo_nodeName := v\<rparr>),
      (''os'', \<lambda>v c. c\<lparr>vo_operatingSystem := v\<rparr>), (''provider'', \<lambda>v c. c\<lparr>vo_provider := v\<rparr>),
      (''provider-config'', \<lambda>v c. c\<lparr>vo_providerConfigPath := v\<rparr>), (''metrics-addr'', \<lambda>v c. c\<lparr>vo_metricsAddr := v\<rparr>),
      (''taint'', \<lambda>v c. c\<lparr>vo_taintKey := v\<rparr>),
      (''trace-service-name'', \<lambda>v c. c\<lparr>vo_traceConfig := (vo_traceConfig c)\<lparr>to_serviceName := v\<rparr>\<rparr>),
      (''trace-sample-rate'', \<lambda>v c. c\<lparr>vo_traceSampleRate := v\<rparr>)]"

definition durationFlags :: "(string \<times> (int \<Rightarrow> vk_opts \<Rightarrow> vk_opts)) list" where
  "durationFlags =
     [(''full-resync-period'', \<lambda>v c. c\<lparr>vo_informerResync := v\<rparr>), (''startup-timeout'', \<lambda>v c. c\<lparr>vo_startupTimeout := v\<rparr>),
      (''stream-idle-timeout'', \<lambda>v c. c\<lparr>vo_streamIdle := v\<rparr>),
      (''stream-creation-timeout'', \<lambda>v c. c\<lparr>vo_streamCreation := v\<rparr>)]"

definition hiddenFlags :: "string list" where
  "hiddenFlags = [''namespace'', ''enable-node-lease'', ''cluster-domain'', ''nodename'', ''os'', ''provider'', ''metrics-addr'',
     ''disable-taint'', ''pod-sync-workers'', ''trace-exporter'', ''trace-service-name'', ''trace-tag'',
     ''trace-sample-rate'', ''full-resync-period'', ''startup-timeout'', ''stream-idle-timeout'', ''stream-creation-timeout'']"

text \<open>Setting one flag; \<open>None\<close> is a panic.\<close>

definition setFlag :: "flag_parsers \<Rightarrow> string \<Rightarrow> string \<Rightarrow> vk_opts \<Rightarrow> (go_error option \<times> vk_opts) option" where
  "setFlag fp name v c =
     (case map_of stringFlags name of
        Some upd \<Rightarrow> Some (None, upd v c)
      | None \<Rightarrow>
     (case map_of durationFlags name of
        Some upd \<Rightarrow> Some (setWith (fp_duration fp) upd v c)
      | None \<Rightarrow>
          if name = ''disable-taint'' then Some (setWith (fp_bool fp) (\<lambda>b c. c\<lparr>vo_disableTaint := b\<rparr>) v c)
          else if name = ''enable-node-lease'' then Some (setWith (fp_bool fp) (\<lambda>b c. c\<lparr>vo_enableNodeLease := b\<rparr>) v c)
          else if name = ''pod-sync-workers'' then Some (setWith (fp_int fp) (\<lambda>n c. c\<lparr>vo_podSyncWorkers := n\<rparr>) v c)
          else if name = ''trace-exporter'' then Some (setWith (fp_slice fp) (\<lambda>l c. c\<lparr>vo_traceExporters := l\<rparr>) v c)
          else if name = ''trace-tag'' then
            map_option (\<lambda>(e, m). (e, c\<lparr>vo_traceConfig := (vo_traceConfig c)\<lparr>to_tags := m\<rparr>\<rparr>))
              (mapVarSet (to_tags (vo_traceConfig c)) v)
          else Some (Some (ErrNew (''unknown flag: --'' @ name)), c)))"

section \<open>Taint, API server and tracing\<close>

definition getTaint :: "lookup_env \<Rightarrow> vk_opts \<Rightarrow> k_taint result" where
  "getTaint env c =
     (let key = vkGetEnv env ''VKUBELET_TAINT_KEY'' (orDefault (vo_taintKey c) DefaultTaintKey);
          value = vkGetEnv env ''VKUBELET_TAINT_VALUE'' (vo_provider c);
          effect = vkGetEnv env ''VKUBELET_TAINT_EFFECT'' (orDefault (vo_taintEffect c) DefaultTaintEffect)
      in case effectOf effect of
           None \<Rightarrow> Inl (ErrNew (''taint effect '' @ effect @ '' is not supported''))
         | Some e \<Rightarrow> Inr \<lparr>kt_key = key, kt_value = value, kt_effect = e\<rparr>)"

record api_config =
  ac_certPath :: string
  ac_keyPath :: string
  ac_caCertPath :: string
  ac_addr :: string
  ac_metricsAddr :: string
  ac_streamIdle :: int
  ac_streamCreation :: int

definition getAPIConfig :: "lookup_env \<Rightarrow> vk_opts \<Rightarrow> api_config" where
  "getAPIConfig env c =
     \<lparr>ac_certPath = osGetenv env ''APISERVER_CERT_LOCATION'', ac_keyPath = osGetenv env ''APISERVER_KEY_LOCATION'',
      ac_caCertPath = osGetenv env ''APISERVER_CA_CERT_LOCATION'', ac_addr = '':'' @ itoa (vo_listenPort c),
      ac_metricsAddr = vo_metricsAddr c, ac_streamIdle = vo_streamIdle c, ac_streamCreation = vo_streamCreation c\<rparr>"

datatype sampler = AlwaysSample | NeverSample | ProbabilitySample int

text \<open>The exporters that were registered, the sampler that was applied, and the error (the message about a
  reserved tag leaves out which one, the tags are visited in any order). Wrapping a nil error
  gives nil, so that a rate out of range is no error.\<close>

definition reservedTags :: "string list" where
  "reservedTags = [''operatingSystem'', ''provider'', ''nodeName'']"

definition traceTags :: "vk_opts \<Rightarrow> (string, string) fmap" where
  "traceTags c =
     fmupd ''nodeName'' (vo_nodeName c) (fmupd ''provider'' (vo_provider c) (fmupd ''operatingSystem'' (vo_operatingSystem c)
       (case to_tags (vo_traceConfig c) of None \<Rightarrow> fmempty | Some m \<Rightarrow> m)))"

definition traceSampler :: "string \<Rightarrow> sampler option result" where
  "traceSampler rate =
     (let r = toLower rate
      in if r = [] then Inr None
         else if r = ''always'' then Inr (Some AlwaysSample)
         else if r = ''never'' then Inr (Some NeverSample)
         else (case atoi rate of
                 None \<Rightarrow> Inl (ErrWrap ''unsupported trace sample rate'' (ErrNew rate))
               | Some n \<Rightarrow> if n < 0 \<or> n > 100 then Inr None else Inr (Some (ProbabilitySample n))))"

text \<open>The registered exporters, by name. The library's constructors are arguments: of the endpoints and the
  service, and of the endpoint and whether the connection is insecure.\<close>

definition NewJaegerExporter ::
  "lookup_env \<Rightarrow> (string \<Rightarrow> string \<Rightarrow> string \<Rightarrow> (string, string) fmap \<Rightarrow> go_error option) \<Rightarrow> string \<Rightarrow> (string, string) fmap \<Rightarrow>
   go_error option" where
  "NewJaegerExporter env lib service tags =
     (let collector = osGetenv env ''JAEGER_COLLECTOR_ENDPOINT''; agent = osGetenv env ''JAEGER_AGENT_ENDPOINT''
      in if collector = [] \<and> agent = []
         then Some (ErrNew ''must specify either JAEGER_COLLECTOR_ENDPOINT or JAEGER_AGENT_ENDPOINT'')
         else lib collector agent service tags)"

definition NewOCAgentExporter ::
  "lookup_env \<Rightarrow> (string \<Rightarrow> bool \<Rightarrow> string \<Rightarrow> go_error option) \<Rightarrow> string \<Rightarrow> go_error option" where
  "NewOCAgentExporter env lib service =
     (let endpoint = osGetenv env ''OCAGENT_ENDPOINT''; insecure = osGetenv env ''OCAGENT_INSECURE''
      in if endpoint = [] then Some (ErrNew ''must set endpoint address in OCAGENT_ENDPOINT'')
         else if insecure \<in> set [''0'', ''no'', ''n'', ''off'', []] then lib endpoint False service
         else if insecure \<in> set [''1'', ''yes'', ''y'', ''on''] then lib endpoint True service
         else Some (ErrNew ''invalid value for OCAGENT_INSECURE''))"

type_synonym exporters = "(string, string \<Rightarrow> (string, string) fmap \<Rightarrow> go_error option) fmap"

definition RegisterTracingExporter ::
  "string \<Rightarrow> (string \<Rightarrow> (string, string) fmap \<Rightarrow> go_error option) \<Rightarrow> exporters \<Rightarrow> exporters" where
  "RegisterTracingExporter name f es = fmupd name f es"

definition GetTracingExporter :: "exporters \<Rightarrow> string \<Rightarrow> string \<Rightarrow> (string, string) fmap \<Rightarrow> go_error option" where
  "GetTracingExporter es service name tags =
     (case fmlookup es name of
        None \<Rightarrow> Some (ErrNew (''tracing exporter '' @ name @ '' not found''))
      | Some f \<Rightarrow> f service tags)"

text \<open>The exporters that are compiled in.\<close>

definition builtinExporters ::
  "lookup_env \<Rightarrow> (string \<Rightarrow> string \<Rightarrow> string \<Rightarrow> (string, string) fmap \<Rightarrow> go_error option) \<Rightarrow>
   (string \<Rightarrow> bool \<Rightarrow> string \<Rightarrow> go_error option) \<Rightarrow> exporters" where
  "builtinExporters env jaeger ocagent =
     RegisterTracingExporter ''ocagent'' (\<lambda>service tags. NewOCAgentExporter env ocagent service)
       (RegisterTracingExporter ''jaeger'' (NewJaegerExporter env jaeger) fmempty)"

fun registerExporters :: "(string \<Rightarrow> (string, string) fmap \<Rightarrow> go_error option) \<Rightarrow> (string, string) fmap \<Rightarrow> string list \<Rightarrow>
    string list \<times> go_error option" where
  "registerExporters get tags [] = ([], None)"
| "registerExporters get tags (e # es) =
     (if e = ''zpages'' then registerExporters get tags es
      else (case get e tags of
              Some err \<Rightarrow> ([], Some err)
            | None \<Rightarrow> (case registerExporters get tags es of (rs, r) \<Rightarrow> (e # rs, r))))"

definition setupTracing :: "exporters \<Rightarrow> vk_opts \<Rightarrow> string list \<times> sampler option \<times> go_error option" where
  "setupTracing es c =
     (let own = (case to_tags (vo_traceConfig c) of None \<Rightarrow> fmempty | Some m \<Rightarrow> m);
          get = GetTracingExporter es (to_serviceName (vo_traceConfig c))
      in if list_ex (\<lambda>k. fmlookup own k \<noteq> None) reservedTags
         then ([], None, Some (ErrNew ''invalid trace tag, must not use a reserved tag key''))
         else (case registerExporters get (traceTags c) (vo_traceExporters c) of
                 (rs, Some e) \<Rightarrow> (rs, None, Some e)
               | (rs, None) \<Rightarrow>
                   if vo_traceExporters c = [] then (rs, None, None)
                   else (case traceSampler (vo_traceSampleRate c) of
                           Inl e \<Rightarrow> (rs, None, Some e)
                         | Inr smp \<Rightarrow> (rs, smp, None))))"

section \<open>The store of providers\<close>

type_synonym 'i store = "(string, 'i) fmap"

definition storeRegister :: "string \<Rightarrow> 'i option \<Rightarrow> 'i store \<Rightarrow> go_error option \<times> 'i store" where
  "storeRegister name f s =
     (case f of
        None \<Rightarrow> (Some (ErrNew ''provided init function cannot not be nil''), s)
      | Some g \<Rightarrow> (None, fmupd name g s))"

definition storeGet :: "string \<Rightarrow> 'i store \<Rightarrow> 'i option" where
  "storeGet name s = fmlookup s name"

definition storeExists :: "string \<Rightarrow> 'i store \<Rightarrow> bool" where
  "storeExists name s \<longleftrightarrow> fmlookup s name \<noteq> None"

definition storeList :: "('i store \<Rightarrow> string list) \<Rightarrow> 'i store \<Rightarrow> string list" where
  "storeList order s = order s"

text \<open>The subcommand that lists the providers: what it prints, and its exit status.\<close>

definition providersCommand :: "('i store \<Rightarrow> string list) \<Rightarrow> 'i store \<Rightarrow> string list \<Rightarrow> string list \<times> int" where
  "providersCommand order s args =
     (case args of
        [] \<Rightarrow> (storeList order s, 0)
      | [a] \<Rightarrow> if \<not> storeExists a s then ([''no such provider '' @ a], 1) else ([a], 0)
      | _ \<Rightarrow> ([], 0))"

record init_config =
  ic_configPath :: string
  ic_nodeName :: string
  ic_operatingSystem :: string
  ic_internalIP :: string
  ic_daemonPort :: int
  ic_clusterDomain :: string

type_synonym 'f provider_init = "init_config \<Rightarrow> (go_error + (provider_config \<times> cloud_choice \<times> 'f prov)) option"

definition registerVastAI :: "'f start_env \<Rightarrow> 'f prov_env \<Rightarrow> 'f provider_init store \<Rightarrow> 'f provider_init store" where
  "registerVastAI se env s =
     snd (storeRegister ''vastai'' (Some (\<lambda>ic. NewGlamiProvider se env (ic_configPath ic))) s)"

section \<open>The root command\<close>

datatype tls_choice = TlsFiles string string string | TlsSelfSigned "string list" "string list"

text \<open>\<open>pl_auth\<close> is the client CA of the authenticating web hook, or nothing when requests are not
  authenticated.\<close>

record node_plan =
  pl_nodeName :: string
  pl_taint :: "k_taint option"
  pl_auth :: "string option"
  pl_tls :: tls_choice
  pl_os :: string
  pl_addr :: string
  pl_streamIdle :: int
  pl_streamCreation :: int
  pl_workers :: int
  pl_resync :: int
  pl_kubeconfig :: string

record root_env =
  re_lookup :: lookup_env
  re_config :: config_env
  re_zero :: provider_config
  re_clientset :: "string \<Rightarrow> go_error option"
  re_parseIP :: "string \<Rightarrow> string option"
  re_selfSigned :: "string list \<Rightarrow> string list \<Rightarrow> go_error option"
  re_webhookAuth :: "string \<Rightarrow> go_error option"
  re_withTLS :: "tls_choice \<Rightarrow> go_error option"
  re_exporters :: exporters

definition validOperatingSystem :: "string \<Rightarrow> bool" where
  "validOperatingSystem os \<longleftrightarrow> os = ''linux'' \<or> os = ''windows''"

definition setAuth :: "api_config \<Rightarrow> string option" where
  "setAuth a = (if ac_caCertPath a = [] then None else Some (ac_caCertPath a))"

text \<open>The key pair: from the configuration of the provider, else from the environment, else self-signed for
  the names and addresses of the node.\<close>

definition chooseTLS :: "root_env \<Rightarrow> provider_config \<Rightarrow> api_config \<Rightarrow> tls_choice result" where
  "chooseTLS re config a =
     (let t = cf_tls config in
      if tl_certPath t \<noteq> [] \<and> tl_keyPath t \<noteq> [] then Inr (TlsFiles (tl_certPath t) (tl_keyPath t) (tl_caCertPath t))
      else if ac_certPath a \<noteq> [] \<and> ac_keyPath a \<noteq> [] then Inr (TlsFiles (ac_certPath a) (ac_keyPath a) (ac_caCertPath a))
      else
        (let names = [''localhost'', nc_nodeName (cf_node config)];
             ip = osGetenv (re_lookup re) ''VKUBELET_POD_IP'';
             ips = [''127.0.0.1'', ''::1''] @ (if ip = [] then [] else (case re_parseIP re ip of None \<Rightarrow> [] | Some x \<Rightarrow> [x]))
         in case re_selfSigned re names ips of
              Some e \<Rightarrow> Inl (ErrWrap ''generate self-signed cert'' e)
            | None \<Rightarrow> Inr (TlsSelfSigned names ips)))"

definition rootTaint :: "lookup_env \<Rightarrow> vk_opts \<Rightarrow> k_taint option result" where
  "rootTaint env c =
     (if vo_disableTaint c then Inr None
      else (case getTaint env c of Inl e \<Rightarrow> Inl e | Inr t \<Rightarrow> Inr (Some t)))"

definition runRootCommand :: "root_env \<Rightarrow> vk_opts \<Rightarrow> node_plan result" where
  "runRootCommand re c =
     (case LoadConfig (re_config re) (re_zero re) (vo_providerConfigPath c) of
        (config, Some e) \<Rightarrow> Inl e
      | (config, None) \<Rightarrow>
     (if \<not> validOperatingSystem (vo_operatingSystem c) then
        Inl (ErrNew (''operating system '' @ vo_operatingSystem c @ '' is not supported''))
      else if vo_podSyncWorkers c = 0 then Inl (ErrNew ''pod sync workers must be greater than 0'')
      else
     (case rootTaint (re_lookup re) c of
        Inl e \<Rightarrow> Inl e
      | Inr taint \<Rightarrow>
     (case re_clientset re (vo_kubeConfigPath c) of
        Some e \<Rightarrow> Inl e
      | None \<Rightarrow>
     (let a = getAPIConfig (re_lookup re) c;
          auth = setAuth a
      in case (case auth of None \<Rightarrow> None | Some ca \<Rightarrow> re_webhookAuth re ca) of
           Some e \<Rightarrow> Inl e
         | None \<Rightarrow>
     (case chooseTLS re config a of
        Inl e \<Rightarrow> Inl e
      | Inr tls \<Rightarrow>
     (case re_withTLS re tls of
        Some e \<Rightarrow> Inl e
      | None \<Rightarrow>
             Inr \<lparr>pl_nodeName = nc_nodeName (cf_node config), pl_taint = taint, pl_auth = auth, pl_tls = tls,
                  pl_os = vo_operatingSystem c, pl_addr = ac_addr a, pl_streamIdle = ac_streamIdle a,
                  pl_streamCreation = ac_streamCreation a, pl_workers = vo_podSyncWorkers c,
                  pl_resync = vo_informerResync c, pl_kubeconfig = vo_kubeConfigPath c\<rparr>)))))))"

text \<open>The node the library starts from gets the taint of the command, the platform and the operating
  system; then the provider is constructed and configures it.\<close>

definition nodeOptions :: "string \<Rightarrow> node_plan \<Rightarrow> k_node \<Rightarrow> k_node" where
  "nodeOptions goarch plan n =
     n\<lparr>kn_taints := kn_taints n @ (case pl_taint plan of None \<Rightarrow> [] | Some t \<Rightarrow> [t]),
       kn_arch := goarch, kn_os := pl_os plan\<rparr>"

definition initConfig :: "root_env \<Rightarrow> vk_opts \<Rightarrow> node_plan \<Rightarrow> init_config" where
  "initConfig re c plan =
     \<lparr>ic_configPath = vo_providerConfigPath c, ic_nodeName = pl_nodeName plan, ic_operatingSystem = vo_operatingSystem c,
      ic_internalIP = osGetenv (re_lookup re) ''VKUBELET_POD_IP'', ic_daemonPort = vo_listenPort c,
      ic_clusterDomain = vo_kubeClusterDomain c\<rparr>"

definition newProvider :: "'f prov_env \<Rightarrow> root_env \<Rightarrow> vk_opts \<Rightarrow> 'f provider_init store \<Rightarrow> node_plan \<Rightarrow> k_node \<Rightarrow>
    (go_error + (k_node \<times> 'f prov)) option" where
  "newProvider env re c store plan n =
     (case storeGet (vo_provider c) store of
        None \<Rightarrow> Some (Inl (ErrNew (''provider '' @ vo_provider c @ '' not found'')))
      | Some pInit \<Rightarrow>
     (let ic = initConfig re c plan
      in case pInit ic of
           None \<Rightarrow> None
         | Some (Inl e) \<Rightarrow> Some (Inl (ErrWrap (''error initializing provider '' @ vo_provider c) e))
         | Some (Inr (config, choice, s)) \<Rightarrow>
             map_option (\<lambda>(n1, s1). Inr (n1\<lparr>kn_version := vo_version c\<rparr>, s1))
               (ConfigureNode env (ce_quantity (re_config re))
                  \<lparr>np_os = ic_operatingSystem ic, np_internalIP = ic_internalIP ic, np_daemonPort = ic_daemonPort ic,
                   np_config = config\<rparr> n s)))"

text \<open>Tracing is set up last; the provider exists by then.\<close>

definition startKubelet :: "'f start_env \<Rightarrow> 'f prov_env \<Rightarrow> root_env \<Rightarrow> string \<Rightarrow> vk_opts \<Rightarrow> k_node \<Rightarrow>
    (go_error + (node_plan \<times> k_node \<times> 'f prov)) option" where
  "startKubelet se env re goarch c base =
     (case runRootCommand re c of
        Inl e \<Rightarrow> Some (Inl e)
      | Inr plan \<Rightarrow>
          (case newProvider env re c (registerVastAI se env fmempty) plan (nodeOptions goarch plan base) of
             None \<Rightarrow> None
           | Some (Inl e) \<Rightarrow> Some (Inl e)
           | Some (Inr (n, s)) \<Rightarrow>
               (case setupTracing (re_exporters re) c of
                  (rs, smp, Some e) \<Rightarrow> Some (Inl e)
                | (rs, smp, None) \<Rightarrow> Some (Inr (plan, n, s)))))"

section \<open>The program\<close>

definition zeroOpts :: vk_opts where
  "zeroOpts =
     \<lparr>vo_kubeConfigPath = [], vo_kubeNamespace = [], vo_kubeClusterDomain = [], vo_listenPort = 0, vo_nodeName = [],
      vo_operatingSystem = [], vo_provider = [], vo_providerConfigPath = [], vo_taintKey = [], vo_taintEffect = [],
      vo_disableTaint = False, vo_metricsAddr = [], vo_podSyncWorkers = 0, vo_informerResync = 0, vo_enableNodeLease = False,
      vo_traceExporters = [], vo_traceSampleRate = [], vo_traceConfig = \<lparr>to_tags = None, to_serviceName = []\<rparr>,
      vo_startupTimeout = 0, vo_streamIdle = 0, vo_streamCreation = 0, vo_version = []\<rparr>"

definition defaultOpts :: "lookup_env \<Rightarrow> string \<Rightarrow> string \<Rightarrow> go_error option \<times> vk_opts" where
  "defaultOpts env home buildVersion =
     (case SetDefaultOpts env home zeroOpts of
        (e, c) \<Rightarrow> (e, c\<lparr>vo_version := joinWith ''-'' [''v1.31.4'', ''vk'', buildVersion]\<rparr>))"

text \<open>The flags in the order given, each over what the defaults left.\<close>

fun setFlags :: "flag_parsers \<Rightarrow> (string \<times> string) list \<Rightarrow> vk_opts \<Rightarrow> (go_error option \<times> vk_opts) option" where
  "setFlags fp [] c = Some (None, c)"
| "setFlags fp ((name, v) # fs) c =
     (case setFlag fp name v c of
        None \<Rightarrow> None
      | Some (Some e, c1) \<Rightarrow> Some (Some e, c1)
      | Some (None, c1) \<Rightarrow> setFlags fp fs c1)"

text \<open>The program: an error of the defaults is reported once the flags are read and the log level is set.\<close>

definition vkMain :: "'f start_env \<Rightarrow> 'f prov_env \<Rightarrow> root_env \<Rightarrow> flag_parsers \<Rightarrow> (string \<Rightarrow> go_error option) \<Rightarrow>
    string \<Rightarrow> string \<Rightarrow> string \<Rightarrow> string \<Rightarrow> (string \<times> string) list \<Rightarrow> k_node \<Rightarrow>
    (go_error + (node_plan \<times> k_node \<times> 'f prov)) option" where
  "vkMain se env re fp parseLevel goarch home buildVersion logLevel flags base =
     (case defaultOpts (re_lookup re) home buildVersion of
        (optsErr, c0) \<Rightarrow>
     (case setFlags fp flags c0 of
        None \<Rightarrow> None
      | Some (Some e, c) \<Rightarrow> Some (Inl e)
      | Some (None, c) \<Rightarrow>
     (case (if logLevel = [] then None else parseLevel logLevel) of
        Some e \<Rightarrow> Some (Inl (ErrWrap ''could not parse log level'' e))
      | None \<Rightarrow>
     (case optsErr of
        Some e \<Rightarrow> Some (Inl e)
      | None \<Rightarrow> startKubelet se env re goarch c base))))"

end
