(* ===== verification/NodeMetrics.thy ===== *)
theory NodeMetrics
  imports Provider "HOL-Library.Word"
begin

text \<open>
  The metrics of the virtual node (\<open>internal/provider/anex/metrics.go\<close>): the table of the
  registered metrics, the statistics summary, and the resource metrics that the metrics server of
  the cluster reads.

  The statistics of a pod are dummies: random numbers, taken one after the other from a source
  that is an argument, and constants. The creation time of a pod is read by no other component and
  is an argument. The order in which Go ranges over the map of virtual pods is the list of its
  keys that is passed in.
\<close>

section \<open>Registered metrics\<close>

datatype metric_kind = KCounter | KGauge

instantiation metric_kind :: enum
begin

definition "enum_metric_kind = [KCounter, KGauge]"
definition "enum_all_metric_kind P \<longleftrightarrow> P KCounter \<and> P KGauge"
definition "enum_ex_metric_kind P \<longleftrightarrow> P KCounter \<or> P KGauge"

instance
proof
  show "UNIV = set (enum_class.enum :: metric_kind list)"
    using metric_kind.exhaust by (auto simp: enum_metric_kind_def)
qed (auto simp: enum_metric_kind_def enum_all_metric_kind_def enum_ex_metric_kind_def intro: metric_kind.exhaust,
  (metis metric_kind.exhaust)+)

end

record metric_desc =
  md_name :: string
  md_help :: string
  md_kind :: metric_kind
  md_labels :: "string list"

definition NewMetrics :: "metric_desc list" where
  "NewMetrics = map (\<lambda>(n, h, k, ls). \<lparr>md_name = n, md_help = h, md_kind = k, md_labels = ls\<rparr>)
     [(''get_pod_operations_total'', ''Total number of GetPod operations.'', KCounter, []),
      (''get_pod_status_operations_total'', ''Total number of GetPodStatus operations.'', KCounter, []),
      (''get_pods_operations_total'', ''Total number of GetPods operations.'', KCounter, []),
      (''create_pod_operations_total'', ''Total number of CreatePod operations.'', KCounter, []),
      (''update_pod_operations_total'', ''Total number of UpdatePod operations.'', KCounter, []),
      (''delete_pod_operations_total'', ''Total number of DeletePod operations.'', KCounter, []),
      (''container_restarts_total'', ''Total number of container restarts labeled by result.'', KCounter, [''result'']),
      (''pods'', ''Count of pods by phase.'', KCounter, [''phase'']),
      (''pods_running'', ''Current number of running pods.'', KGauge, []),
      (''pods_provisioning_total'', ''Number of pod provisioning attempts by success and reason.'', KCounter,
        [''success'', ''reason'']),
      (''pods_provisioning_duration_seconds'', ''Total time in seconds spent provisioning pods.'', KCounter, []),
      (''node'', ''Node status gauge labeled by status (Ready/NotReady).'', KGauge, [''status''])]"

text \<open>\<open>MustRegister\<close> panics if a name is registered twice; no name is.\<close>

lemma metric_names_distinct: "distinct (map md_name NewMetrics)"
  by (simp add: NewMetrics_def)

section \<open>The statistics summary\<close>

record container_stats =
  ks_name :: string
  ks_startTime :: int
  ks_time :: int
  ks_nanoCores :: "64 word"
  ks_bytes :: "64 word"

record pod_stats =
  os_name :: string
  os_namespace :: string
  os_uid :: string
  os_startTime :: int
  os_containers :: "container_stats list"
  os_time :: int
  os_nanoCores :: "64 word"
  os_bytes :: "64 word"

record stats_summary =
  sm_nodeName :: string
  sm_startTime :: int
  sm_pods :: "pod_stats list"

text \<open>The pods in the order of the visit.\<close>

definition visitedPods :: "string list \<Rightarrow> 'f prov \<Rightarrow> pod list" where
  "visitedPods keys s = map (\<lambda>i. pd_pod (vpodAt i s)) (List.map_filter (pv_index s) keys)"

text \<open>The \<open>n\<close>-th random number and the one after it belong to the pod; without a container the index
  panics.\<close>

definition podStats :: "(nat \<Rightarrow> 32 word) \<Rightarrow> (pod \<Rightarrow> int) \<Rightarrow> int \<Rightarrow> nat \<Rightarrow> pod \<Rightarrow> pod_stats option" where
  "podStats rand created now n p =
     (let cores = ucast (rand n) :: 64 word; bytes = ucast (rand (Suc n)) :: 64 word
      in case pod_containers p of
           [] \<Rightarrow> None
         | c # _ \<Rightarrow>
             Some \<lparr>os_name = pod_name p, os_namespace = pod_namespace p, os_uid = pod_uid p, os_startTime = created p,
               os_containers = [\<lparr>ks_name = pn_name c, ks_startTime = created p, ks_time = now,
                                ks_nanoCores = cores, ks_bytes = bytes\<rparr>],
               os_time = now, os_nanoCores = 0 + cores, os_bytes = 0 + bytes\<rparr>)"

fun allPodStats :: "(nat \<Rightarrow> 32 word) \<Rightarrow> (pod \<Rightarrow> int) \<Rightarrow> int \<Rightarrow> nat \<Rightarrow> pod list \<Rightarrow> pod_stats list option" where
  "allPodStats rand created now n [] = Some []"
| "allPodStats rand created now n (p # ps) =
     do { x \<leftarrow> podStats rand created now n p;
          xs \<leftarrow> allPodStats rand created now (n + 2) ps;
          Some (x # xs) }"

definition GetStatsSummary ::
  "string \<Rightarrow> int \<Rightarrow> (nat \<Rightarrow> 32 word) \<Rightarrow> (pod \<Rightarrow> int) \<Rightarrow> int \<Rightarrow> string list \<Rightarrow> 'f prov \<Rightarrow> stats_summary option" where
  "GetStatsSummary nodeName startTime rand created now keys s =
     map_option (\<lambda>ps. \<lparr>sm_nodeName = nodeName, sm_startTime = startTime, sm_pods = ps\<rparr>)
       (allPodStats rand created now 0 (visitedPods keys s))"

section \<open>Resource metrics\<close>

datatype metric_value = MCounter int | MGauge int

record metric =
  me_labels :: "(string \<times> string) list"
  me_value :: metric_value

type_synonym metrics_map = "(string, metric list) fmap"

definition cpuSuffix :: string where "cpuSuffix = ''_cpu_usage_seconds_total''"
definition memorySuffix :: string where "memorySuffix = ''_memory_working_set_bytes''"

definition addMetric :: "string \<Rightarrow> metric \<Rightarrow> metrics_map \<Rightarrow> metrics_map" where
  "addMetric name x m =
     (case fmlookup m name of None \<Rightarrow> fmupd name [x] m | Some xs \<Rightarrow> fmupd name (xs @ [x]) m)"

definition generateMockMetrics :: "string \<Rightarrow> (string \<times> string) list \<Rightarrow> metrics_map \<Rightarrow> metrics_map" where
  "generateMockMetrics resourceType labels m =
     addMetric (resourceType @ memorySuffix) \<lparr>me_labels = labels, me_value = MGauge 100\<rparr>
       (addMetric (resourceType @ cpuSuffix) \<lparr>me_labels = labels, me_value = MCounter 100\<rparr> m)"

definition getMetricType :: "string \<Rightarrow> metric_kind option" where
  "getMetricType name =
     (if hasSuffix name cpuSuffix then Some KCounter
      else if hasSuffix name memorySuffix then Some KGauge else None)"

record metric_family =
  mf_name :: string
  mf_type :: "metric_kind option"
  mf_metrics :: "metric list"

definition nodeLabels :: "string \<Rightarrow> (string \<times> string) list" where
  "nodeLabels nodeName = [(''NodeName'', nodeName)]"

definition podLabels :: "string \<Rightarrow> pod \<Rightarrow> (string \<times> string) list" where
  "podLabels nodeName p = nodeLabels nodeName @ [(''PodName'', pod_name p)]"

definition podMetrics :: "string \<Rightarrow> metrics_map \<Rightarrow> pod \<Rightarrow> metrics_map option" where
  "podMetrics nodeName m p =
     (let m1 = generateMockMetrics ''pod'' (podLabels nodeName p) m
      in case pod_containers p of
           [] \<Rightarrow> None
         | c # _ \<Rightarrow> Some (generateMockMetrics ''container''
                           (podLabels nodeName p @ [(''containerName'', pn_name c)]) m1))"

fun allPodMetrics :: "string \<Rightarrow> metrics_map \<Rightarrow> pod list \<Rightarrow> metrics_map option" where
  "allPodMetrics nodeName m [] = Some m"
| "allPodMetrics nodeName m (p # ps) = do { m1 \<leftarrow> podMetrics nodeName m p; allPodMetrics nodeName m1 ps }"

text \<open>\<open>order\<close> is the order in which the map of the metrics is visited.\<close>

definition GetMetricsResource ::
  "(metrics_map \<Rightarrow> string list) \<Rightarrow> string \<Rightarrow> string list \<Rightarrow> 'f prov \<Rightarrow> metric_family list option" where
  "GetMetricsResource order nodeName keys s =
     map_option
       (\<lambda>m. map (\<lambda>name. \<lparr>mf_name = name, mf_type = getMetricType name, mf_metrics = the (fmlookup m name)\<rparr>) (order m))
       (allPodMetrics nodeName (generateMockMetrics ''node'' (nodeLabels nodeName) fmempty) (visitedPods keys s))"

section \<open>What the cluster reads\<close>

text \<open>What a map of metrics holds under a name.\<close>

definition metricsAt :: "metrics_map \<Rightarrow> string \<Rightarrow> metric list" where
  "metricsAt m name = (case fmlookup m name of None \<Rightarrow> [] | Some xs \<Rightarrow> xs)"

lemma metricsAt_add [simp]:
  "metricsAt (addMetric n x m) name = (if name = n then metricsAt m name @ [x] else metricsAt m name)"
  by (simp add: metricsAt_def addMetric_def split: option.split)

lemma dom_add [simp]: "fmdom' (addMetric n x m) = insert n (fmdom' m)"
  by (auto simp: addMetric_def split: option.split)

lemma metricsAt_generate:
  "metricsAt (generateMockMetrics r ls m) name = metricsAt m name @
     (if name = r @ cpuSuffix then [\<lparr>me_labels = ls, me_value = MCounter 100\<rparr>]
      else if name = r @ memorySuffix then [\<lparr>me_labels = ls, me_value = MGauge 100\<rparr>] else [])"
  by (simp add: generateMockMetrics_def cpuSuffix_def memorySuffix_def)

lemma dom_generate: "fmdom' (generateMockMetrics r ls m) = {r @ cpuSuffix, r @ memorySuffix} \<union> fmdom' m"
  by (auto simp: generateMockMetrics_def)

text \<open>The labels of a container are those of its pod and the name of the container.\<close>

definition containerLabels :: "string \<Rightarrow> pod \<Rightarrow> (string \<times> string) list" where
  "containerLabels nodeName p = podLabels nodeName p @ [(''containerName'', pn_name (hd (pod_containers p)))]"

definition resourceNames :: "string list" where
  "resourceNames = [''node'', ''pod'', ''container'']"

lemma names_of_resources:
  "r \<in> set resourceNames \<Longrightarrow> q \<in> set resourceNames \<Longrightarrow>
   (r @ cpuSuffix = q @ cpuSuffix \<longleftrightarrow> r = q) \<and> (r @ memorySuffix = q @ memorySuffix \<longleftrightarrow> r = q) \<and>
   r @ cpuSuffix \<noteq> q @ memorySuffix \<and>
   getMetricType (r @ cpuSuffix) = Some KCounter \<and> getMetricType (r @ memorySuffix) = Some KGauge"
  by (auto simp: resourceNames_def getMetricType_def cpuSuffix_def memorySuffix_def hasSuffix_def hasPrefix_def)

text \<open>The labels of the metrics of a resource, one entry per node, pod or container.\<close>

definition resourceLabels :: "string \<Rightarrow> pod list \<Rightarrow> string \<Rightarrow> (string \<times> string) list list" where
  "resourceLabels nodeName ps r =
     (if r = ''pod'' then map (podLabels nodeName) ps
      else if r = ''container'' then map (containerLabels nodeName) ps else [])"

definition familyName :: "string \<Rightarrow> metric_kind \<Rightarrow> string" where
  "familyName r k = r @ (case k of KCounter \<Rightarrow> cpuSuffix | KGauge \<Rightarrow> memorySuffix)"

definition dummyMetric :: "metric_kind \<Rightarrow> (string \<times> string) list \<Rightarrow> metric" where
  "dummyMetric k ls = \<lparr>me_labels = ls, me_value = (case k of KCounter \<Rightarrow> MCounter 100 | KGauge \<Rightarrow> MGauge 100)\<rparr>"

lemma familyName_eq:
  "r \<in> set resourceNames \<Longrightarrow> q \<in> set resourceNames \<Longrightarrow> familyName r k = familyName q j \<longleftrightarrow> r = q \<and> k = j"
  using names_of_resources [of r q] names_of_resources [of q r] by (cases k; cases j) (auto simp: familyName_def)

lemma familyType: "r \<in> set resourceNames \<Longrightarrow> getMetricType (familyName r k) = Some k"
  using names_of_resources [of r r] by (cases k) (auto simp: familyName_def)

lemma generate_family:
  assumes "q \<in> set resourceNames" "r \<in> set resourceNames"
  shows "metricsAt (generateMockMetrics q ls m) (familyName r k) =
    metricsAt m (familyName r k) @ (if r = q then [dummyMetric k ls] else [])"
  using names_of_resources [OF assms] names_of_resources [OF assms(2,1)]
  by (cases k) (auto simp: metricsAt_generate familyName_def dummyMetric_def)

lemma generate_families: "fmdom' (generateMockMetrics r ls m) = range (familyName r) \<union> fmdom' m"
proof -
  have u: "(UNIV :: metric_kind set) = {KCounter, KGauge}" by (simp add: UNIV_enum enum_metric_kind_def)
  have "range (familyName r) = {r @ cpuSuffix, r @ memorySuffix}" unfolding u by (simp add: familyName_def)
  then show ?thesis by (simp add: dom_generate)
qed

lemma allPodMetrics_None: "allPodMetrics nn m ps = None \<longleftrightarrow> (\<exists>p\<in>set ps. pod_containers p = [])"
  by (induction ps arbitrary: m) (auto simp: podMetrics_def Let_def split: list.splits)

lemma allPodMetrics_families:
  "allPodMetrics nn m ps = Some m1 \<Longrightarrow>
   fmdom' m1 = fmdom' m \<union> (if ps = [] then {} else range (familyName ''pod'') \<union> range (familyName ''container'')) \<and>
   (\<forall>r\<in>set resourceNames. \<forall>k. metricsAt m1 (familyName r k) =
      metricsAt m (familyName r k) @ map (dummyMetric k) (resourceLabels nn ps r))"
proof (induction ps arbitrary: m)
  case (Cons p ps)
  obtain c cs where c: "pod_containers p = c # cs" using Cons.prems by (auto simp: podMetrics_def Let_def split: list.splits)
  let ?m = "generateMockMetrics ''container'' (containerLabels nn p) (generateMockMetrics ''pod'' (podLabels nn p) m)"
  have "allPodMetrics nn ?m ps = Some m1" using Cons.prems by (simp add: podMetrics_def c containerLabels_def)
  note IH = Cons.IH [OF this]
  have n: "''pod'' \<in> set resourceNames" "''container'' \<in> set resourceNames" by (simp_all add: resourceNames_def)
  show ?case
  proof (intro conjI ballI allI)
    show "fmdom' m1 = fmdom' m \<union> (if p # ps = [] then {} else range (familyName ''pod'') \<union> range (familyName ''container''))"
      using IH [THEN conjunct1] unfolding generate_families by auto
    fix r k assume r: "r \<in> set resourceNames"
    show "metricsAt m1 (familyName r k) =
        metricsAt m (familyName r k) @ map (dummyMetric k) (resourceLabels nn (p # ps) r)"
      using IH [THEN conjunct2, rule_format, OF r, of k]
      by (simp add: generate_family [OF n(1) r] generate_family [OF n(2) r] resourceLabels_def)
  qed
qed (simp add: resourceLabels_def)

text \<open>The families of the node, of the pods and of the containers.\<close>

definition expectedFamilies :: "string \<Rightarrow> pod list \<Rightarrow> metric_family set" where
  "expectedFamilies nn ps =
     (\<lambda>(r, k). \<lparr>mf_name = familyName r k, mf_type = Some k,
        mf_metrics = map (dummyMetric k) (if r = ''node'' then [nodeLabels nn] else resourceLabels nn ps r)\<rparr>) `
     ((if ps = [] then {''node''} else set resourceNames) \<times> UNIV)"

text \<open>C36: The resource metrics are computed unless a pod has no container. They are one family of each kind for
  the node and, when there is a pod, for pods and containers, each under its own name with the type
  its name implies, and a family of pods or containers holds exactly one metric per known pod, in
  the order of the visit; the order in which the families come does not change which they are.\<close>

theorem metrics_resource_exact:
  fixes keys s
  assumes "\<And>m. distinct (order m) \<and> set (order m) = fmdom' m"
  defines "ps \<equiv> visitedPods keys s"
  shows "(GetMetricsResource order nn keys s = None \<longleftrightarrow> (\<exists>p\<in>set ps. pod_containers p = [])) \<and>
    (\<forall>fs. GetMetricsResource order nn keys s = Some fs \<longrightarrow>
       distinct (map mf_name fs) \<and> set fs = expectedFamilies nn ps)"
proof (intro conjI allI impI)
  let ?m0 = "generateMockMetrics ''node'' (nodeLabels nn) fmempty"
  show "GetMetricsResource order nn keys s = None \<longleftrightarrow> (\<exists>p\<in>set ps. pod_containers p = [])"
    by (simp add: GetMetricsResource_def ps_def allPodMetrics_None)
  fix fs assume "GetMetricsResource order nn keys s = Some fs"
  then obtain m1 where m1: "allPodMetrics nn ?m0 ps = Some m1"
    "fs = map (\<lambda>n. \<lparr>mf_name = n, mf_type = getMetricType n, mf_metrics = the (fmlookup m1 n)\<rparr>) (order m1)"
    by (auto simp: GetMetricsResource_def ps_def)
  show "distinct (map mf_name fs)" using assms(1) by (simp add: m1(2) comp_def)
  let ?R = "if ps = [] then {''node''} else set resourceNames"
  have R: "?R \<subseteq> set resourceNames" by (simp add: resourceNames_def)
  note fam = allPodMetrics_families [OF m1(1)]
  have dom: "set (order m1) = (\<lambda>(r, k). familyName r k) ` (?R \<times> UNIV)"
    using fam [THEN conjunct1] assms(1) unfolding generate_families by (auto simp: resourceNames_def)
  have at: "the (fmlookup m1 (familyName r k)) =
      map (dummyMetric k) (if r = ''node'' then [nodeLabels nn] else resourceLabels nn ps r)" if "r \<in> ?R" for r k
  proof -
    have r: "r \<in> set resourceNames" using R that by auto
    have "familyName r k \<in> fmdom' m1" using dom assms(1) that by fastforce
    then have "the (fmlookup m1 (familyName r k)) = metricsAt m1 (familyName r k)"
      by (auto simp: metricsAt_def fmdom'_alt_def elim!: fmdomE)
    also have "\<dots> = metricsAt ?m0 (familyName r k) @ map (dummyMetric k) (resourceLabels nn ps r)"
      using fam r by blast
    also have "metricsAt ?m0 (familyName r k) = (if r = ''node'' then [dummyMetric k (nodeLabels nn)] else [])"
      using generate_family [of "''node''" r "nodeLabels nn" fmempty k] r by (simp add: resourceNames_def metricsAt_def)
    finally show ?thesis by (simp add: resourceLabels_def)
  qed
  have "set fs = (\<lambda>(r, k). \<lparr>mf_name = familyName r k, mf_type = getMetricType (familyName r k),
      mf_metrics = the (fmlookup m1 (familyName r k))\<rparr>) ` (?R \<times> UNIV)"
    by (simp add: m1(2) dom image_image case_prod_beta)
  also have "\<dots> = expectedFamilies nn ps"
    unfolding expectedFamilies_def using at R by (intro image_cong refl) (auto simp: familyType subset_iff)
  finally show "set fs = expectedFamilies nn ps" .
qed

end
