(* ===== verification/VkProperties.thy ===== *)
theory VkProperties
  imports VkCommand NodeMetrics
begin

text \<open>
  What the start of the virtual kubelet establishes: the node it registers, the way its API is
  protected, and the state of the provider; and the corners of the options that are not as they
  look.
\<close>

section \<open>A start\<close>

text \<open>A node without pods, with the options' defaults and the configuration of the examples.\<close>

definition exOpts :: vk_opts where
  "exOpts = snd (defaultOpts (\<lambda>_. None) [] ''dev'')"

definition exRoot :: root_env where
  "exRoot = \<lparr>re_lookup = \<lambda>_. None, re_config = exConfigEnv, re_zero = fst (ce_decode exConfigEnv []),
     re_clientset = \<lambda>_. None, re_parseIP = \<lambda>_. None, re_selfSigned = \<lambda>_ _. None,
     re_webhookAuth = \<lambda>_. None, re_withTLS = \<lambda>_. None, re_exporters = fmempty\<rparr>"

definition exVkStart :: "int start_env" where
  "exVkStart = \<lparr>se_config = exConfigEnv, se_zero = fst (ce_decode exConfigEnv []), se_frac = \<lambda>_ _ _. 0,
     se_seconds = \<lambda>d. d div nsPerSecond, se_kube = Inr (), se_sel = \<lambda>f v. f @ ''='' @ v,
     se_list = \<lambda>_. Inr [], se_mapRunning = \<lambda>_ _. Inr (\<lambda>_. None)\<rparr>"

definition exNode :: k_node where
  "exNode = \<lparr>kn_labels = Some fmempty, kn_taints = [], kn_capacity = [], kn_allocatable = [], kn_conditions = [],
     kn_addresses = [], kn_kubeletPort = 0, kn_os = [], kn_arch = [], kn_version = []\<rparr>"

lemma exOpts_fields: "vo_provider exOpts = ''vastai''" "vo_operatingSystem exOpts = ''linux''" "vo_podSyncWorkers exOpts = 10"
  "vo_listenPort exOpts = 10250" "vo_disableTaint exOpts = False" "vo_taintKey exOpts = DefaultTaintKey"
  "vo_taintEffect exOpts = DefaultTaintEffect" "vo_providerConfigPath exOpts = []" "vo_traceExporters exOpts = []"
  "to_tags (vo_traceConfig exOpts) = None"
  by (simp_all add: exOpts_def defaultOpts_def zeroOpts_def SetDefaultOpts_def earlyDefaults_def lateDefaults_def defaultPort_def orDefault_def
      osGetenv_def DefaultTaintKey_def DefaultTaintEffect_def Let_def)

lemma ex_quantity: "ce_quantity exConfigEnv x = None" by (simp add: exConfigEnv_def)

lemma exRoot_config: "re_config exRoot = exConfigEnv" by (simp add: exRoot_def)

lemma exRoot_runs: "\<exists>plan. runRootCommand exRoot exOpts = Inr plan"
  by (simp add: runRootCommand_def exRoot_def exConfig_loads exOpts_fields validOperatingSystem_def rootTaint_def getTaint_def
      vkGetEnv_def orDefault_def DefaultTaintEffect_def effectOf_def chooseTLS_def getAPIConfig_def setAuth_def osGetenv_def Let_def)

lemma exVkStart_runs:
  "\<exists>plan n s. startKubelet exVkStart (exProvEnv None) exRoot ''amd64'' exOpts exNode = Some (Inr (plan, n, s))"
proof -
  obtain plan where plan: "runRootCommand exRoot exOpts = Inr plan" using exRoot_runs by blast
  obtain choice where choice: "chooseClient (se_frac exVkStart) (se_seconds exVkStart) exConfig = Inr choice"
    using loaded_config_chooses [OF exConfig_loads] exConfig_fields(2) by fastforce
  have load: "LoadConfig (se_config exVkStart) (se_zero exVkStart) [] = (exConfig, None)"
    by (simp add: exVkStart_def exConfig_loads)
  have "\<exists>s. NewGlamiProvider exVkStart (exProvEnv None) [] = Some (Inr (exConfig, choice, s))"
    using exConfig_fields(2) choice
    by (simp add: NewGlamiProvider_def load case_prod_beta Let_def) (simp add: exVkStart_def listPodsForNode_def Let_def split: prod.split)
  then obtain s where "NewGlamiProvider exVkStart (exProvEnv None) [] = Some (Inr (exConfig, choice, s))" ..
  moreover have tracing: "setupTracing es exOpts = ([], None, None)" for es
    by (simp add: setupTracing_def exOpts_fields reservedTags_def)
  ultimately show ?thesis
    by (simp add: startKubelet_def plan newProvider_def registerVastAI_def storeRegister_def storeGet_def exOpts_fields initConfig_def
        ConfigureNode_def describeNode_def capacity_def exRoot_config ex_quantity nodeOptions_def tracing Let_def case_prod_beta)
      (simp add: exNode_def tracing)
qed

section \<open>The started node\<close>

lemma start_cases:
  assumes "startKubelet se env re goarch c base = Some (Inr (plan, n, s))"
  shows "\<exists>config choice s0. runRootCommand re c = Inr plan \<and>
    NewGlamiProvider se env (vo_providerConfigPath c) = Some (Inr (config, choice, s0)) \<and> vo_provider c = ''vastai'' \<and>
    s = startRecovered env (snd (cloud env CNow s0)) \<and>
    (\<exists>now m. describeNode (ce_quantity (re_config re))
       \<lparr>np_os = vo_operatingSystem c, np_internalIP = osGetenv (re_lookup re) ''VKUBELET_POD_IP'',
        np_daemonPort = vo_listenPort c, np_config = config\<rparr> now (nodeOptions goarch plan base) = Some m \<and>
       n = m\<lparr>kn_version := vo_version c\<rparr>)"
  using assms
  by (auto simp: startKubelet_def newProvider_def registerVastAI_def storeRegister_def storeGet_def initConfig_def
      ConfigureNode_def Let_def case_prod_beta split: sum.splits option.splits if_splits) blast

lemma root_cases:
  assumes "runRootCommand re c = Inr plan"
  shows "\<exists>config. LoadConfig (re_config re) (re_zero re) (vo_providerConfigPath c) = (config, None) \<and>
    rootTaint (re_lookup re) c = Inr (pl_taint plan) \<and> pl_auth plan = setAuth (getAPIConfig (re_lookup re) c) \<and>
    chooseTLS re config (getAPIConfig (re_lookup re) c) = Inr (pl_tls plan)"
  using assms
  by (auto simp: runRootCommand_def Let_def split: prod.splits option.splits sum.splits if_splits)

lemma recovering_cloud: "recovering s \<Longrightarrow> recovering (snd (cloud env q s))"
  by (rule recovering_frame [THEN conjunct1]) simp_all

lemma tainted_by: "rootTaint env c = Inr t \<Longrightarrow>
   (if vo_disableTaint c then t = None else \<exists>k. getTaint env c = Inr k \<and> t = Some k)"
  by (auto simp: rootTaint_def split: if_splits sum.splits)

text \<open>C39: A kubelet that has started has configured its node from the loaded configuration: the taints are
  those of the base node, then the one of the command unless it is disabled, then the one that
  keeps the autoscaler away, then those of the configuration with a known effect, and none is lost;
  a label of the configuration wins over the fixed ones and these over the base; the capacity is
  the configured one; the node is not reported as ready. The provider then satisfies its invariant,
  if no two pods of the node have the same key.\<close>

theorem started_node:
  assumes "startKubelet se env re goarch c base = Some (Inr (plan, n, s))"
    and "\<forall>pods. listPodsForNode (se_sel se) (se_list se) node = Inr pods \<longrightarrow> distinct (map buildKey pods)"
    and "node = nc_nodeName (cf_node (fst (LoadConfig (se_config se) (se_zero se) (vo_providerConfigPath c))))"
  shows "\<exists>config old new. LoadConfig (se_config se) (se_zero se) (vo_providerConfigPath c) = (config, None) \<and>
    kn_labels base = Some old \<and> kn_labels n = Some new \<and>
    kn_taints n = addIgnoreTaint (kn_taints base @
        (if vo_disableTaint c then [] else case getTaint (re_lookup re) c of Inl _ \<Rightarrow> [] | Inr t \<Rightarrow> [t])) @
      List.map_filter configTaint (nc_taints (cf_node config)) \<and>
    (\<forall>k. fmlookup new k =
       (case fmlookup (nc_labels (cf_node config)) k of
          Some v \<Rightarrow> Some v
        | None \<Rightarrow> if k \<in> {''node.kubernetes.io/exclude-from-external-load-balancers'',
                          ''alpha.service-controller.kubernetes.io/exclude-balancer''} then Some ''true''
                else fmlookup old k)) \<and>
    map_of (kn_capacity n) ''cpu'' = Some (nc_cpu (cf_node config)) \<and> kn_allocatable n = kn_capacity n \<and>
    list_all (\<lambda>q. \<not> kc_status q) (kn_conditions n) \<and> kn_kubeletPort n = vo_listenPort c \<and> prov_inv s"
proof -
  obtain config choice s0 now m where st: "runRootCommand re c = Inr plan"
    "NewGlamiProvider se env (vo_providerConfigPath c) = Some (Inr (config, choice, s0))"
    "s = startRecovered env (snd (cloud env CNow s0))"
    "describeNode (ce_quantity (re_config re))
       \<lparr>np_os = vo_operatingSystem c, np_internalIP = osGetenv (re_lookup re) ''VKUBELET_POD_IP'',
        np_daemonPort = vo_listenPort c, np_config = config\<rparr> now (nodeOptions goarch plan base) = Some m"
    "n = m\<lparr>kn_version := vo_version c\<rparr>"
    using start_cases [OF assms(1)] by blast
  from NewGlamiProvider_ok [OF st(2)] obtain pods machines server clients where
    N: "LoadConfig (se_config se) (se_zero se) (vo_providerConfigPath c) = (config, None)"
    "listPodsForNode (se_sel se) (se_list se) (nc_nodeName (cf_node config)) = Inr pods"
    "recoverPods env machines pods (freshProv server clients) = Some s0" by blast
  have "distinct (map buildKey pods)" using assms(2) N(1,2) assms(3) by simp
  then have "recovering s0"
    by (intro recoverPods_keeps [OF recovering_fresh [THEN conjunct1] N(3)]) (simp_all add: recovering_fresh)
  then have "prov_inv s" unfolding st(3) by (intro inv_startRecovered recovering_cloud)
  moreover have "rootTaint (re_lookup re) c = Inr (pl_taint plan)" using root_cases [OF st(1)] by blast
  then have "(case pl_taint plan of None \<Rightarrow> [] | Some t \<Rightarrow> [t]) =
      (if vo_disableTaint c then [] else case getTaint (re_lookup re) c of Inl _ \<Rightarrow> [] | Inr t \<Rightarrow> [t])"
    by (auto dest!: tainted_by split: if_splits)
  moreover obtain rl old where D: "capacity (ce_quantity (re_config re)) (cf_node config) = Some rl" "kn_labels base = Some old"
    "n = (nodeOptions goarch plan base)\<lparr>kn_capacity := rl, kn_allocatable := rl, kn_conditions := nodeConditions now,
       kn_addresses := [(''InternalIP'', osGetenv (re_lookup re) ''VKUBELET_POD_IP'')], kn_kubeletPort := vo_listenPort c,
       kn_os := (if vo_operatingSystem c = [] then ''linux'' else vo_operatingSystem c), kn_arch := ''amd64'',
       kn_labels := Some (excludeLabels old ++\<^sub>f nc_labels (cf_node config)),
       kn_taints := addIgnoreTaint (kn_taints (nodeOptions goarch plan base)) @ List.map_filter configTaint (nc_taints (cf_node config)),
       kn_version := vo_version c\<rparr>"
    using st(4,5) unfolding describe_iff by (auto simp: nodeOptions_def nodeAddresses_def)
  moreover have "map_of rl ''cpu'' = Some (nc_cpu (cf_node config))"
    using D(1) by (auto simp: capacity_def Let_def split: if_splits)
  moreover have "list_all (\<lambda>q. \<not> kc_status q) (nodeConditions now)" by (simp add: nodeConditions_def)
  ultimately show ?thesis
    using N(1) by - (rule exI [of _ config], rule exI [of _ old],
      rule exI [of _ "excludeLabels old ++\<^sub>f nc_labels (cf_node config)"],
      simp add: nodeOptions_def labels_lookup del: fmlookup_add)
qed

theorem started_node_witness:
  "\<exists>plan n s. startKubelet exVkStart (exProvEnv None) exRoot ''amd64'' exOpts exNode = Some (Inr (plan, n, s)) \<and>
     kn_kubeletPort n = 10250 \<and> kn_allocatable n = kn_capacity n \<and> prov_inv s"
proof -
  obtain plan n s where st: "startKubelet exVkStart (exProvEnv None) exRoot ''amd64'' exOpts exNode = Some (Inr (plan, n, s))"
    using exVkStart_runs by blast
  have "\<forall>pods. listPodsForNode (se_sel exVkStart) (se_list exVkStart) m = Inr pods \<longrightarrow> distinct (map buildKey pods)" for m
    by (simp add: exVkStart_def listPodsForNode_def)
  from started_node [OF st this refl]
  have "kn_kubeletPort n = vo_listenPort exOpts \<and> kn_allocatable n = kn_capacity n \<and> prov_inv s"
    by (elim exE conjE) (intro conjI; assumption)
  with st show ?thesis by (simp add: exOpts_fields)
qed

section \<open>The protection of the API\<close>

lemma chooseTLS_cases:
  assumes "chooseTLS re config a = Inr t"
  shows "case t of
     TlsFiles cert key ca \<Rightarrow>
       (if tl_certPath (cf_tls config) \<noteq> [] \<and> tl_keyPath (cf_tls config) \<noteq> []
        then cert = tl_certPath (cf_tls config) \<and> key = tl_keyPath (cf_tls config) \<and> ca = tl_caCertPath (cf_tls config)
        else ac_certPath a \<noteq> [] \<and> ac_keyPath a \<noteq> [] \<and> cert = ac_certPath a \<and> key = ac_keyPath a \<and> ca = ac_caCertPath a)
   | TlsSelfSigned names ips \<Rightarrow>
       \<not> (tl_certPath (cf_tls config) \<noteq> [] \<and> tl_keyPath (cf_tls config) \<noteq> []) \<and>
       \<not> (ac_certPath a \<noteq> [] \<and> ac_keyPath a \<noteq> []) \<and>
       names = [''localhost'', nc_nodeName (cf_node config)] \<and> ''127.0.0.1'' \<in> set ips"
proof (cases "tl_certPath (cf_tls config) \<noteq> [] \<and> tl_keyPath (cf_tls config) \<noteq> []")
  case own: False
  show ?thesis
  proof (cases "ac_certPath a \<noteq> [] \<and> ac_keyPath a \<noteq> []")
    case pair: False
    from assms own pair show ?thesis by (simp only: chooseTLS_def Let_def if_False split: option.splits) auto
  qed (use assms own in \<open>auto simp: chooseTLS_def Let_def\<close>)
qed (use assms in \<open>auto simp: chooseTLS_def Let_def\<close>)



section \<open>The metrics\<close>

text \<open>One known pod, with the families visited by name.\<close>

theorem metrics_resource_exact_witness:
  "\<exists>fs. GetMetricsResource (\<lambda>m. sorted_list_of_set (fmdom' m)) ''node'' [''ns-job''] (exProv exVPod) = Some fs \<and>
     set fs = expectedFamilies ''node'' [exCrashPod]"
proof -
  have v: "visitedPods [''ns-job''] (exProv exVPod) = [exCrashPod]"
    by (simp add: visitedPods_def exProv_def vpodAt_def exVPod_def NewVirtualPod_def List.map_filter_def)
  have o: "distinct (sorted_list_of_set (fmdom' m)) \<and> set (sorted_list_of_set (fmdom' m)) = fmdom' m" for m :: metrics_map
    by simp
  have "pod_containers exCrashPod \<noteq> []" by (simp add: exCrashPod_def)
  with metrics_resource_exact [where order = "\<lambda>m. sorted_list_of_set (fmdom' m)" and nn = "''node''"
      and keys = "[''ns-job'']" and s = "exProv exVPod", OF o]
  show ?thesis unfolding v by fastforce
qed

section \<open>Corners of the options\<close>

text \<open>The port of the environment is checked against the largest 32-bit number only: below the smallest one
  it wraps into another port.\<close>

theorem kubelet_port_wraps:
  assumes "osGetenv env ''KUBELET_PORT'' = itoa p" "in_int64 p"
  shows "defaultPort env =
    (if p > 2147483647 then Inl (ErrNew ''KUBELET_PORT environment variable is too large'') else Inr (wrap32 p))"
    and "wrap32 (-4294957046) = 10250"
proof -
  have "itoa p \<noteq> []" by (simp add: itoa_def)
  with assms show "defaultPort env =
    (if p > 2147483647 then Inl (ErrNew ''KUBELET_PORT environment variable is too large'') else Inr (wrap32 p))"
    by (simp add: defaultPort_def atoi_itoa Let_def)
qed (simp add: wrap32_def)

text \<open>A sample rate that is no percentage is accepted, and no sampler is applied.\<close>

theorem sample_rate_out_of_range:
  "in_int64 n \<Longrightarrow> n < 0 \<or> n > 100 \<Longrightarrow> traceSampler (itoa n) = Inr None"
proof -
  assume n: "in_int64 n" "n < 0 \<or> n > 100"
  have c: "isDigit x \<or> x = CHR ''-''" if "x \<in> set (itoa n)" for x using that itoa_notin by blast
  then have "toLower (itoa n) = itoa n"
    unfolding toLower_def by (intro map_idI) (force simp: toLowerChar_def isDigit_def)
  moreover have "itoa n \<noteq> ''always''" "itoa n \<noteq> ''never''"
    using c [of "CHR ''a''"] c [of "CHR ''n''"] by (auto simp: isDigit_def)
  moreover have "itoa n \<noteq> []" by (simp add: itoa_def)
  ultimately show ?thesis using n by (simp add: traceSampler_def atoi_itoa Let_def)
qed

text \<open>The flag for trace tags writes to a map that nothing has made, so that the program panics whenever it
  is given one that parses.\<close>

lemma default_tags: "to_tags (vo_traceConfig (snd (defaultOpts env home v))) = None"
  by (simp add: defaultOpts_def zeroOpts_def SetDefaultOpts_def earlyDefaults_def lateDefaults_def Let_def case_prod_beta
      split: sum.split)

theorem trace_tag_panics:
  assumes "CHR ''='' \<in> set v"
  shows "vkMain se env re fp parseLevel goarch home buildVersion logLevel ((''trace-tag'', v) # fs) base = None"
proof -
  have "setFlag fp ''trace-tag'' v c = None" if "to_tags (vo_traceConfig c) = None" for c
    using assms that
    by (auto simp: setFlag_def stringFlags_def durationFlags_def mapVarSet_def cutAt_None_iff split: option.splits)
  with default_tags [of "re_lookup re" home buildVersion] show ?thesis by (simp add: vkMain_def case_prod_beta)
qed

end
