(* ===== verification/GatewayCommand.thy ===== *)
theory GatewayCommand
  imports GatewayProperties GatewayInit
begin

text \<open>
  The command of the gateway controller (\<open>cmd/gateway-controller/main.go\<close>) with \<open>NewController\<close>,
  \<open>Run\<close> and \<open>runWorker\<close>: the flags with the environment behind them, the cluster configuration, the
  wait for HAProxy, and the controller from its start to its end.

  The flag library's number parser, the client libraries and the clock are arguments. Informers
  deliver events from their start, workers take items once the caches are in sync.
\<close>

section \<open>Flags\<close>

record gw_opts =
  go_kubeconfig :: string
  go_podName :: string
  go_namespace :: string
  go_podIP :: string
  go_socket :: string
  go_username :: string
  go_password :: string
  go_workers :: int

definition defaultGwOpts :: gw_opts where
  "defaultGwOpts = \<lparr>go_kubeconfig = [], go_podName = [], go_namespace = [], go_podIP = [],
     go_socket = ''http://127.0.0.1:5555'', go_username = ''admin'', go_password = ''admin'', go_workers = 2\<rparr>"

definition gwStringFlags :: "(string \<times> (string \<Rightarrow> gw_opts \<Rightarrow> gw_opts)) list" where
  "gwStringFlags =
     [(''kubeconfig'', \<lambda>v c. c\<lparr>go_kubeconfig := v\<rparr>), (''gateway-pod-name'', \<lambda>v c. c\<lparr>go_podName := v\<rparr>),
      (''gateway-namespace'', \<lambda>v c. c\<lparr>go_namespace := v\<rparr>), (''gateway-pod-ip'', \<lambda>v c. c\<lparr>go_podIP := v\<rparr>),
      (''haproxy-socket'', \<lambda>v c. c\<lparr>go_socket := v\<rparr>), (''haproxy-username'', \<lambda>v c. c\<lparr>go_username := v\<rparr>),
      (''haproxy-password'', \<lambda>v c. c\<lparr>go_password := v\<rparr>)]"

definition setGwFlag :: "(string \<Rightarrow> int result) \<Rightarrow> string \<Rightarrow> string \<Rightarrow> gw_opts \<Rightarrow> go_error option \<times> gw_opts" where
  "setGwFlag parse name v c =
     (case map_of gwStringFlags name of
        Some upd \<Rightarrow> (None, upd v c)
      | None \<Rightarrow>
          if name = ''workers'' then
            (case parse v of Inl e \<Rightarrow> (Some e, c) | Inr n \<Rightarrow> (None, c\<lparr>go_workers := n\<rparr>))
          else (Some (ErrNew (''flag provided but not defined: -'' @ name)), c))"

text \<open>A value that the flag or the environment must give.\<close>

definition requireOption :: "(string \<Rightarrow> string) \<Rightarrow> string \<Rightarrow> string \<Rightarrow> string \<Rightarrow> string ends" where
  "requireOption getenv flag name v =
     (let x = (if v = [] then getenv name else v)
      in if x = [] then Fatal (''--'' @ flag @ '' flag or '' @ name @ '' env var is required'') else Goes x)"

text \<open>The cluster configuration, with the path that the fallback leaves in the variable of the flag.\<close>

definition buildConfig :: "'c result \<Rightarrow> (string \<Rightarrow> 'c result) \<Rightarrow> (string \<Rightarrow> string) \<Rightarrow> string \<Rightarrow> 'c result \<times> string" where
  "buildConfig inCluster fromFlags getenv kubeconfig =
     (case inCluster of
        Inr c \<Rightarrow> (Inr c, kubeconfig)
      | Inl _ \<Rightarrow>
          (let k = (if kubeconfig = [] then getenv ''KUBECONFIG'' else kubeconfig)
           in (if k = [] then Inl (ErrNew ''neither in-cluster config nor kubeconfig file available'')
               else (case fromFlags k of
                       Inl e \<Rightarrow> Inl (ErrWrap ''failed to build config from kubeconfig'' e)
                     | Inr c \<Rightarrow> Inr c), k)))"

section \<open>The controller\<close>

text \<open>\<open>clock 0\<close> is read for the deadline, the others are the checks of the loop. That HAProxy does not
  answer in time is only logged.\<close>

definition NewController ::
  "dp_service \<Rightarrow> (nat \<Rightarrow> int) \<Rightarrow> string \<Rightarrow> (string \<Rightarrow> string \<Rightarrow> k8s_service result) \<Rightarrow> (string \<Rightarrow> string \<Rightarrow> vs_entry) \<Rightarrow>
   mgr_state gw_state option" where
  "NewController srv clock socket svcs vss =
     map_option (\<lambda>(e, w). newController (NewManager socket, w) svcs vss)
       (waitForAPI srv clock (clock 0 + 60000000000) 1 [])"

text \<open>A worker takes items until the queue is shut down.\<close>

fun runWorker :: "'h gw_env \<Rightarrow> (string list \<times> work_item) option list \<Rightarrow> 'h gw_state \<Rightarrow> 'h gw_state" where
  "runWorker env [] c = c"
| "runWorker env (None # gs) c = c"
| "runWorker env (Some (keys, item) # gs) c = runWorker env gs (processNextWorkItem env keys item c)"

fun isWork :: "'h gw_event \<Rightarrow> bool" where
  "isWork (EvWork keys item) = True"
| "isWork (EvVirtualService k) = False"
| "isWork (EvPod ks obj) = False"
| "isWork (EvServiceCache f) = False"
| "isWork (EvVSCache f) = False"

text \<open>The events before the caches are in sync, whether they ever are, and those after. Without a worker
  nothing is taken from the queue.\<close>

definition Run :: "'h gw_env \<Rightarrow> int \<Rightarrow> 'h gw_event list \<Rightarrow> bool \<Rightarrow> 'h gw_event list \<Rightarrow> 'h gw_state \<Rightarrow>
    go_error option \<times> 'h gw_state" where
  "Run env workers early synced evs c =
     (let c1 = gw_run env (filter (\<lambda>ev. \<not> isWork ev) early) c
      in if \<not> synced then (Some (ErrNew ''failed to wait for caches to sync''), c1)
         else (None, gw_run env (if workers > 0 then evs else filter (\<lambda>ev. \<not> isWork ev) evs) c1))"

section \<open>The command\<close>

record 'c gw_main =
  gm_getenv :: "string \<Rightarrow> string"
  gm_inCluster :: "'c result"
  gm_fromFlags :: "string \<Rightarrow> 'c result"
  gm_kube :: "'c \<Rightarrow> go_error option"
  gm_dynamic :: "'c \<Rightarrow> go_error option"
  gm_scheme :: "go_error option"
  gm_schemeVS :: "go_error option"
  gm_env :: "mgr_state gw_env"
  gm_srv :: dp_service
  gm_ord :: dp_order
  gm_clock :: "nat \<Rightarrow> int"
  gm_svcs :: "string \<Rightarrow> string \<Rightarrow> k8s_service result"
  gm_vss :: "string \<Rightarrow> string \<Rightarrow> vs_entry"

text \<open>The environment in which the controller runs: HAProxy behind the manager, its own address.\<close>

definition controllerEnv :: "'c gw_main \<Rightarrow> string \<Rightarrow> mgr_state gw_env" where
  "controllerEnv gm ip = (managerEnv (gm_env gm) (gm_srv gm) (gm_ord gm))\<lparr>ge_gatewayIP := ip\<rparr>"

definition orFatal :: "string \<Rightarrow> go_error option \<Rightarrow> 'a ends \<Rightarrow> 'a ends" where
  "orFatal what e r = (case e of Some x \<Rightarrow> Fatal (what @ '': '' @ err_msg x) | None \<Rightarrow> r)"

text \<open>The steps up to the controller: the address of the gateway.\<close>

definition gatewayIdentity :: "(string \<Rightarrow> string) \<Rightarrow> gw_opts \<Rightarrow> string ends" where
  "gatewayIdentity getenv o' =
     (case requireOption getenv ''gateway-pod-name'' ''POD_NAME'' (go_podName o') of
        Goes _ \<Rightarrow>
          (case requireOption getenv ''gateway-namespace'' ''POD_NAMESPACE'' (go_namespace o') of
             Goes _ \<Rightarrow> requireOption getenv ''gateway-pod-ip'' ''POD_IP'' (go_podIP o')
           | r \<Rightarrow> r)
      | r \<Rightarrow> r)"

definition gatewayClients :: "'c gw_main \<Rightarrow> gw_opts \<Rightarrow> unit ends" where
  "gatewayClients gm o' =
     (case fst (buildConfig (gm_inCluster gm) (gm_fromFlags gm) (gm_getenv gm) (go_kubeconfig o')) of
        Inl e \<Rightarrow> Fatal (''Failed to build kubeconfig: '' @ err_msg e)
      | Inr kc \<Rightarrow>
          orFatal ''Failed to create Kubernetes client'' (gm_kube gm kc)
         (orFatal ''Failed to create dynamic client'' (gm_dynamic gm kc)
         (orFatal ''Failed to add clientgo scheme'' (gm_scheme gm)
         (orFatal ''Failed to add gpuv1alpha1 scheme'' (gm_schemeVS gm) (Goes ())))))"

text \<open>The whole command; \<open>None\<close> when the wait for HAProxy does not end.\<close>

definition gatewayMain :: "'c gw_main \<Rightarrow> gw_opts \<Rightarrow> mgr_state gw_event list \<Rightarrow> bool \<Rightarrow> mgr_state gw_event list \<Rightarrow>
    mgr_state gw_state ends option" where
  "gatewayMain gm o' early synced evs =
     (case gatewayIdentity (gm_getenv gm) o' of
        Goes ip \<Rightarrow>
          (case gatewayClients gm o' of
             Goes _ \<Rightarrow>
               map_option
                 (\<lambda>c. case Run (controllerEnv gm ip) (go_workers o') early synced evs c of
                        (Some e, c1) \<Rightarrow> Fatal (''Error running controller: '' @ err_msg e)
                      | (None, c1) \<Rightarrow> Goes c1)
                 (NewController (gm_srv gm) (gm_clock gm) (go_socket o') (gm_svcs gm) (gm_vss gm))
           | Exited \<Rightarrow> Some Exited | Fatal m \<Rightarrow> Some (Fatal m) | Panicked \<Rightarrow> Some Panicked)
      | Exited \<Rightarrow> Some Exited | Fatal m \<Rightarrow> Some (Fatal m) | Panicked \<Rightarrow> Some Panicked)"

section \<open>Facts\<close>

text \<open>A worker is a run of the controller, up to the shutdown of the queue.\<close>

lemma runWorker_run:
  "runWorker env gs c =
   gw_run env (map (\<lambda>g. case the g of (keys, item) \<Rightarrow> EvWork keys item) (takeWhile (\<lambda>g. g \<noteq> None) gs)) c"
  by (induction env gs c rule: runWorker.induct) (simp_all add: gw_run_def)

lemma tx_check_info: "tx_check w = Some ts \<Longrightarrow> tx_check (snd (call srv DpInfo w)) = Some ts"
  by (simp add: call_def)

lemma tx_check_waitForAPI:
  "deadline \<le> clock (i + n) \<Longrightarrow> tx_check w = Some ts \<Longrightarrow>
   \<exists>e w1. waitForAPI srv clock deadline i w = Some (e, w1) \<and> tx_check w1 = Some ts"
proof (induction n arbitrary: i w)
  case 0
  then show ?case by (simp add: waitForAPI.simps)
next
  case (Suc n)
  obtain r w1 where c: "call srv DpInfo w = (r, w1)" by (cases "call srv DpInfo w")
  then have w1: "tx_check w1 = Some ts" using tx_check_info [OF Suc.prems(2), of srv] by simp
  with Suc.IH [of "Suc i" w1] Suc.prems have "\<exists>e w2. waitForAPI srv clock deadline (Suc i) w1 = Some (e, w2) \<and> tx_check w2 = Some ts"
    by simp
  with c w1 Suc.prems(2) show ?case by (subst (1) waitForAPI.simps) (auto split: sum.splits)
qed

text \<open>What the command needs in order to serve.\<close>

definition identityGiven :: "(string \<Rightarrow> string) \<Rightarrow> gw_opts \<Rightarrow> bool" where
  "identityGiven getenv o' \<longleftrightarrow>
     (go_podName o' \<noteq> [] \<or> getenv ''POD_NAME'' \<noteq> []) \<and> (go_namespace o' \<noteq> [] \<or> getenv ''POD_NAMESPACE'' \<noteq> []) \<and>
     (go_podIP o' \<noteq> [] \<or> getenv ''POD_IP'' \<noteq> [])"

definition clusterReachable :: "'c gw_main \<Rightarrow> gw_opts \<Rightarrow> bool" where
  "clusterReachable gm o' \<longleftrightarrow>
     (\<exists>kc. fst (buildConfig (gm_inCluster gm) (gm_fromFlags gm) (gm_getenv gm) (go_kubeconfig o')) = Inr kc \<and>
        gm_kube gm kc = None \<and> gm_dynamic gm kc = None) \<and> gm_scheme gm = None \<and> gm_schemeVS gm = None"

lemma identity_ends:
  "if identityGiven ge o'
   then gatewayIdentity ge o' = Goes (if go_podIP o' = [] then ge ''POD_IP'' else go_podIP o')
   else \<exists>m. gatewayIdentity ge o' = Fatal m"
  by (simp add: gatewayIdentity_def identityGiven_def requireOption_def Let_def)

lemma clients_end:
  "if clusterReachable gm o' then gatewayClients gm o' = Goes () else \<exists>m. gatewayClients gm o' = Fatal m"
  by (auto simp: gatewayClients_def clusterReachable_def orFatal_def split: sum.splits option.splits)

lemma Run_inv:
  assumes "keeps I env" "gw_inv I c"
  shows "fst (Run env n early synced evs c) = None \<longleftrightarrow> synced" "gw_inv I (snd (Run env n early synced evs c))"
  using assms by (auto simp: Run_def Let_def intro!: gw_run_inv)


text \<open>A gateway pod in its cluster, with HAProxy answering at once.\<close>

definition exMain :: "unit gw_main" where
  "exMain = \<lparr>gm_getenv = \<lambda>k. ''x'', gm_inCluster = Inr (), gm_fromFlags = \<lambda>_. Inl (ErrNew []), gm_kube = \<lambda>_. None,
     gm_dynamic = \<lambda>_. None, gm_scheme = None, gm_schemeVS = None,
     gm_env = \<lparr>ge_lib = exLib, ge_api = exApi, ge_configure = (\<lambda>h _ _. (h, None)),
       ge_remove = (\<lambda>h _. (h, None)), ge_gatewayIP = [], ge_now = 0\<rparr>,
     gm_srv = \<lambda>_ _. Inr \<lparr>resp_status = 200, resp_body = [], resp_json = Inl (ErrNew [])\<rparr>, gm_ord = \<lambda>_ ks. ks,
     gm_clock = \<lambda>i. int i * 1000000000,
     gm_svcs = \<lambda>_ _. Inl (ErrKube NotFound []), gm_vss = \<lambda>_ _. VsError (ErrKube NotFound [])\<rparr>"


end
