(* ===== verification/AgentCommand.thy ===== *)
theory AgentCommand
  imports AgentProperties ShellWords
begin

text \<open>
  The command of the container agent (\<open>cmd/container-agent/main.go\<close>): its flags, its log level and
  the subcommand that runs it, and what it makes of the command line that the provider renders.

  The flag library is an argument: it reads the words behind the subcommand into the variables that
  the flags are bound to, and leaves the arguments behind the separator.
\<close>

section \<open>Flags\<close>

datatype log_level = LevelDebug | LevelInfo | LevelWarn | LevelError

definition setupLogger :: "string \<Rightarrow> log_level" where
  "setupLogger level =
     (let l = toLower level
      in if l = ''debug'' then LevelDebug else if l = ''info'' then LevelInfo
         else if l = ''warn'' then LevelWarn else if l = ''error'' then LevelError else LevelInfo)"

record agent_flags =
  af_port :: int
  af_command :: string
  af_token :: string
  af_promtail :: bool
  af_proxy :: bool

definition defaultAgentFlags :: agent_flags where
  "defaultAgentFlags = \<lparr>af_port = 8080, af_command = [], af_token = [], af_promtail = False, af_proxy = False\<rparr>"

type_synonym flag_reader = "string list \<Rightarrow> agent_flags \<Rightarrow> (agent_flags \<times> string list) result"

text \<open>The subcommand \<open>run\<close>, up to the server that waits for requests.\<close>

definition agentRun ::
  "agent_env \<Rightarrow> flag_reader \<Rightarrow> string list \<Rightarrow> string list \<Rightarrow> (string \<rightharpoonup> string) \<Rightarrow> int list \<Rightarrow> agent result" where
  "agentRun env parse ws environ files live =
     (case parse ws defaultAgentFlags of
        Inl e \<Rightarrow> Inl e
      | Inr (f, args) \<Rightarrow>
          startAgent env (runCommand (af_port f) (af_command f) args (af_token f) (af_promtail f) (af_proxy f)
            environ files live))"

section \<open>From the command line to the child\<close>

lemma startAgent_quiet: "startAgent env a = Inr b \<Longrightarrow> quietA a b"
  by (auto simp: startAgent_def split: if_splits prod.splits option.splits dest!: quiet_startWireproxy)

lemma quiet_argv: "quietA a b \<Longrightarrow> ag_argv b = ag_argv a" "quietA (newCommand a) b \<Longrightarrow> ag_argv b = ag_argv a"
  by (simp_all add: quietA_def newCommand_def)

lemma launched_argv: "ag_argv (launched env pid a) = ag_argv a"
  by (simp add: launched_def osCall_def call_def)

text \<open>No step changes what the agent is to start.\<close>

lemma argv_kept_step: "agent_step env e a = Some b \<Longrightarrow> ag_argv b = ag_argv a"
proof (cases e)
  case (EHttp rq)
  assume "agent_step env e a = Some b"
  moreover obtain code m c where mx: "mux env rq a = ((code, m), c)" by (metis prod.collapse)
  moreover have "ag_argv c = ag_argv a"
  proof (cases "hr_path rq = ''/run''")
    case True
    with mx have "handleRun env rq a = ((code, m), c)" by (simp add: mux_def)
    then show ?thesis
      by (cases rule: run_cases) (auto dest: quiet_argv simp: launched_argv)
  next
    case False
    with mx show ?thesis by (auto dest: quiet_mux quiet_argv)
  qed
  ultimately show ?thesis using EHttp by auto
next
  case (EReport n)
  assume "agent_step env e a = Some b"
  then show ?thesis using EReport
    by (auto simp: reportExit_def Let_def osCall_def call_def split: option.splits prod.splits if_splits)
next
  case (EKill i k)
  assume st: "agent_step env e a = Some b"
  obtain k' c where ks: "killStep env k (ag_kills a ! i) a = (k', c)" by fastforce
  with st EKill quiet_argv(1) [OF quiet_killStep [OF ks]] show ?thesis by (auto split: if_splits)
qed (auto simp: reapChild_def split: option.splits)

lemma argv_kept: "agent_run env es a = Some b \<Longrightarrow> ag_argv b = ag_argv a"
proof (induction es arbitrary: a)
  case (Cons e es)
  then obtain c where "agent_step env e a = Some c" "agent_run env es c = Some b" by (auto split: bind_splits)
  with Cons.IH [of c] argv_kept_step show ?case by metis
qed simp

text \<open>C21: The container's command reaches the machine: with a flag library that reads flags one after the other
  and stops at the separator, the agent that is started from the command line the provider renders,
  read by a shell, has the proxy and promtail as the provider asked for them, no token, and whenever,
  in any run, it accepts a request to start, the process it starts has exactly the arguments of the
  container, whatever characters they contain.\<close>

theorem agent_command_reaches_child:
  assumes flags: "\<And>f. parse [] f = Inr (f, [])" "\<And>args f. parse (''--'' # args) f = Inr (f, args)"
      "\<And>ws f. parse (''-p'' # ''8080'' # ws) f = parse ws (f\<lparr>af_port := 8080\<rparr>)"
      "\<And>ws f. parse (''--proxy'' # ws) f = parse ws (f\<lparr>af_proxy := True\<rparr>)"
      "\<And>ws f. parse (''--promtail'' # ws) f = parse ws (f\<lparr>af_promtail := True\<rparr>)"
    and line: "shellWords (commandWrapper proxy promtail argv) = Some (program # ''run'' # ws)"
    and run: "agentRun env parse ws environ files live = Inr a" "agent_run env es a = Some b" "argv \<noteq> []"
  shows "program = ''/usr/bin/container_agent'' \<and> ag_proxy a = pp_enabled proxy \<and> ag_promtail a = promtail \<and> ag_authToken a = [] \<and>
    (\<forall>rq m c. handleRun env rq b = ((202, m), c) \<longrightarrow>
       (\<exists>es' x. (OsStart argv (applyEnvOverrides (ae_order env) es'), x) \<in> set (ag_log c)))"
proof -
  from line commandWrapper_words [of proxy promtail argv] run(3) have w: "program = ''/usr/bin/container_agent''"
    "ws = [''-p'', ''8080''] @ (if pp_enabled proxy then [''--proxy''] else []) @
       (if promtail then [''--promtail''] else []) @ (''--'' # argv)" by auto
  have p: "parse ws defaultAgentFlags =
      Inr (defaultAgentFlags\<lparr>af_port := 8080, af_proxy := pp_enabled proxy, af_promtail := promtail\<rparr>, argv)"
    by (simp add: w(2) flags defaultAgentFlags_def)
  have "startAgent env (runCommand 8080 [] argv [] promtail (pp_enabled proxy) environ files live) = Inr a"
    using run(1) by (simp add: agentRun_def p) (simp add: defaultAgentFlags_def)
  then have q: "quietA (runCommand 8080 [] argv [] promtail (pp_enabled proxy) environ files live) a"
    by (rule startAgent_quiet)
  then have a: "ag_argv a = argv" "ag_proxy a = pp_enabled proxy" "ag_promtail a = promtail" "ag_authToken a = []"
    using run(3) by (simp_all add: quietA_def runCommand_def NewAgent_def Let_def)
  have "\<exists>es' x. (OsStart argv (applyEnvOverrides (ae_order env) es'), x) \<in> set (ag_log c)"
    if "handleRun env rq b = ((202, m), c)" for rq m c
    using that
  proof (cases rule: run_cases)
    case (started as pid d es')
    have "ag_argv b = argv" using argv_kept [OF run(2)] a(1) by simp
    then have "as = argv" using started(4) run(3) by (simp add: childArgv_def)
    moreover have "set (ag_log d) \<subseteq> set (ag_log c)" using started(9) by (auto simp: launched_def osCall_def call_def)
    ultimately show ?thesis using started(10) by blast
  qed simp
  then show ?thesis using w(1) a by blast
qed

text \<open>A flag library that reads what the provider writes, and a pod without a tunnel.\<close>

fun exParse :: flag_reader where
  "exParse [] f = Inr (f, [])"
| "exParse [w] f =
     (if w = ''--'' then Inr (f, []) else if w = ''--proxy'' then Inr (f\<lparr>af_proxy := True\<rparr>, [])
      else if w = ''--promtail'' then Inr (f\<lparr>af_promtail := True\<rparr>, []) else Inl (ErrNew w))"
| "exParse (w # v # ws) f =
     (if w = ''--'' then Inr (f, v # ws)
      else if w = ''--proxy'' then exParse (v # ws) (f\<lparr>af_proxy := True\<rparr>)
      else if w = ''--promtail'' then exParse (v # ws) (f\<lparr>af_promtail := True\<rparr>)
      else if w = ''-p'' then (case atoi v of None \<Rightarrow> Inl (ErrNew v) | Some n \<Rightarrow> exParse ws (f\<lparr>af_port := n\<rparr>))
      else Inl (ErrNew w))"

lemma exParse_laws:
  shows "exParse (''--'' # args) f = Inr (f, args)"
    and "exParse (''-p'' # ''8080'' # ws) f = exParse ws (f\<lparr>af_port := 8080\<rparr>)"
    and "exParse (''--proxy'' # ws) f = exParse ws (f\<lparr>af_proxy := True\<rparr>)"
    and "exParse (''--promtail'' # ws) f = exParse ws (f\<lparr>af_promtail := True\<rparr>)"
proof -
  have "atoi ''8080'' = Some 8080" by code_simp
  then show "exParse (''-p'' # ''8080'' # ws) f = exParse ws (f\<lparr>af_port := 8080\<rparr>)" by simp
  show "exParse (''--'' # args) f = Inr (f, args)" by (cases args) simp_all
qed (cases ws; simp)+

theorem agent_command_reaches_child_witness:
  "\<exists>es' x. (OsStart [''sleep''] (applyEnvOverrides sortedKeys es'), x) \<in> set (ag_log exRunning)"
proof -
  let ?ws = "[''-p'', ''8080'', ''--'', ''sleep'']"
  let ?proxy = "\<lparr>pp_enabled = False, pp_server = \<lparr>px_endpoint = [], px_serverKey = [], px_portUDP = 0, px_portTCP = 0\<rparr>,
     pp_client = \<lparr>px_address = [], px_privateKey = [], px_publicKey = [], px_offset = 0, px_assigned = False\<rparr>\<rparr>"
  have line: "shellWords (commandWrapper ?proxy False [''sleep'']) = Some (''/usr/bin/container_agent'' # ''run'' # ?ws)"
    by (simp add: commandWrapper_words)
  have "agentRun exAgentEnv exParse ?ws [''A=1''] [environmentPath \<mapsto> []] [] = startAgent exAgentEnv exAgent"
    unfolding agentRun_def exParse_laws by (simp add: defaultAgentFlags_def exAgent_def)
  then have run: "agentRun exAgentEnv exParse ?ws [''A=1''] [environmentPath \<mapsto> []] [] = Inr exAgent"
    by (simp only: exAgent_start)
  have "handleRun exAgentEnv (exRequest ''/run'' ''PUT'') exAgent = ((202, ''execution started''), exRunning)"
    using exRunning_started by (simp add: mux_def exRequest_def)
  moreover have "agent_run exAgentEnv [] exAgent = Some exAgent" by simp
  ultimately show ?thesis
    using agent_command_reaches_child [OF exParse.simps(1) exParse_laws line run] by fastforce
qed

end
