(* ===== verification/Spec2Isabelle.thy ===== *)
theory Spec2Isabelle
  imports GatewayProperties VirtualPodFacts MachineSpecFacts Mounts ProviderProperties
    AllocatorSpec VastFilters CloudExamples AgentProperties TunnelPorts
    PodAccess VkProperties GatewayCommand AgentCommand
begin

text \<open>
  A verification development for the repository: a virtual kubelet that runs the pods of a
  Kubernetes node on rented GPU machines (Vast.ai, RunPod, or a mock cloud), with a gateway through
  which the cluster reaches them.

  \<^bold>\<open>The program and its parts.\<close> A pod that is scheduled to the virtual node gets a gateway slot, a
  rented machine that meets its annotations, and the agent's help to run its container. The slot
  gives the machine an address and a range of ports in a WireGuard tunnel to the gateway; a
  VirtualService makes the gateway's HAProxy listen on a port and forward it to the slots of the
  matching pods.

  \<^item> Gateway. \<open>internal/gateway/portalloc\<close> hands out gateway ports (PortAlloc; AllocatorSpec is its
    abstract pool); \<open>internal/gateway/haproxy\<close> drives the Data Plane API (Json, HAProxy, with the mock
    of the tests); \<open>api/v1alpha1\<close> and \<open>internal/gateway/reconcile.go\<close>, \<open>controller.go\<close> are the controller
    (GatewayTypes, Reconcile, Controller); \<open>cmd/gateway-controller\<close> is its command (GatewayCommand) and
    \<open>cmd/gateway-init\<close> writes the keys and slots that everything else uses (GatewayInit, Wireproxy).
  \<^item> Pods. \<open>virtualpod\<close> is the in-memory pod with its status (VirtualPod), the tunnel and promtail
    configuration and the client of the agent (Wireproxy); \<open>internal/provider/anex/mounted.go\<close> are the
    mounted files (Mounts, Paths).
  \<^item> Provider. \<open>internal/provider/anex\<close>: the specification of a machine (MachineSpec), handlers,
    provisioning, lifecycle and recovery (Provider), the configuration (Config), the node (NodeConfig),
    its metrics (NodeMetrics), the construction with the resource manager of \<open>internal/manager\<close>
    (ProviderStart), logs and refused requests (PodAccess). \<open>cmd/virtual-kubelet\<close> puts them together
    (VkCommand).
  \<^item> Clouds. \<open>internal/utils\<close> is the HTTP helper (CloudHttp, Base64); \<open>cloudprovider/vastai\<close> (VastRequest,
    VastClient), \<open>runpod\<close> (RunPodRequest, RunPodClient) and \<open>mock\<close> (MockCloud) are the clients.
  \<^item> Agent. \<open>internal/agent\<close> and \<open>cmd/container-agent\<close> run on the machine: loggers (AgentLogs), handlers
    and goroutines (Agent), the command (AgentCommand).

  \<^bold>\<open>How the model corresponds to the code.\<close> Prelude states the conventions. A struct is a record with
  the fields the code reads, an enumeration a datatype, an error a value of \<open>go_error\<close>, a result
  \<open>go_error + 'a\<close>; a panic is \<open>None\<close>, or \<open>Panicked\<close> for a whole program. A Go integer is an \<open>int\<close> with
  \<open>wrap32\<close> or \<open>wrap64\<close> where it can overflow, a random number a word. A map is a finite map or a function to an option, and
  where Go ranges over a map the order of the keys is an argument that the theorems quantify over.
  Everything behind the process (Kubernetes, the Data Plane API, the clouds, files, the operating
  system, clocks) is a \<open>service\<close>, a function of the log of earlier requests and the present one, so that
  theorems hold for any answers. Concurrency is a sequence of steps: \<open>gw_step\<close> for the controller,
  \<open>prov_step\<close> for handlers and goroutines of the provider, \<open>agent_step\<close> for those of the agent. Handlers
  that hold a lock are one step; the provider's goroutines are tasks of its state, a cancelled context
  ends them at their next check. Libraries whose code is not in the repository (YAML, number formats,
  shell words, key generation, retries, the Kubernetes libraries, the flag parsers) are arguments,
  with what is documented of them as a hypothesis where a theorem needs it.

  \<^bold>\<open>What the lemmas show.\<close>

  \<^item> GatewayProperties: what a pass leaves in the status, which objects it may write, the steady state,
    finalization, the backends of a listener, and the invariants of every run, by the relation \<open>pass\<close> of
    ControllerFacts and the locales \<open>port_pool\<close> and \<open>configurer\<close>, which are interpreted on the allocator, the
    manager and its mock. AllocatorSpec refines the allocator to a pool. GatewayCommand carries the
    invariants from the start of the process to its end.
  \<^item> VirtualPodFacts, MachineSpecFacts, Mounts: the status stays consistent in every sequence of
    operations, the restart decision and its back-off, the specification as a function of the
    annotations alone, and which files are mounted.
  \<^item> ProviderInv, Rentals, ProviderProperties: the invariant of slots and goroutines, no lost machine,
    deletion, the outcomes of provisioning, and that the loops return. Recovery establishes the invariant
    at a start on running pods; VkProperties does so for the whole command and adds node and API.
  \<^item> VastFacts, VastFilters, RunPodFacts, CloudClient, CloudExamples: garbage collection destroys exactly the machines
    without a pod (by the locale \<open>owner_label\<close>, interpreted on the labels of both clouds), rentals report
    every contract, filters select the specification, bans survive a restart, listings end, the
    environment and the command line survive their encodings; the mock client keeps the contract
    \<open>cloud_client\<close> that the provider's accounting rests on.
  \<^item> AgentProperties, AgentLogFacts, AgentCommand: the report of the child, the tunnel configuration, the
    environment and the arguments of the child, and the logs, with their limits.
  \<^item> TunnelPorts, GatewayInit, PodAccess compose components: the port the gateway computes is the one the
    tunnel forwards to that container port, the configuration of gateway-init is the one the provider
    loads, and the logs of a pod are those the agent has.

  \<^bold>\<open>Bounds and fuel.\<close> Loops that may not end are \<open>partial_function (option)\<close>: the wait for HAProxy, the
  paged listing of Vast.ai, the retries of the provider (three parameters, for which the documented
  behaviour is a hypothesis and the executable \<open>retry\<close> an instance); that they return is proved. The DNS wait of
  gateway-init makes its 90 attempts. Tunnel properties hold for slots up to 554, where the ports of the
  range end at 65535, and for at most 99 ports of a container, the size of a slot's range.

  \<^bold>\<open>What the code does otherwise than it means to.\<close> Several theorems state behaviour that is hardly meant:
  \<open>restart_hands_out_used_port\<close>, \<open>service_reupdated_iff\<close>, \<open>duplicate_ports_misroute\<close>, \<open>delete_leaves_restart\<close>,
  \<open>crash_backoff_overflows\<close>, \<open>auth_token_dropped\<close>, \<open>token_not_checked\<close>, \<open>logger_blocks_at_limit\<close>,
  \<open>run_before_report_crashes\<close>, \<open>follow_repeats_iff\<close>, \<open>day_timeouts\<close>, \<open>unreadable_keys_crash\<close>, \<open>kubelet_port_wraps\<close>,
  \<open>sample_rate_out_of_range\<close> and \<open>trace_tag_panics\<close>.

  \<^bold>\<open>Not modelled.\<close> The generated deep copies (the identity on values), log lines, pod events, trace
  spans and metric counters; the HTTP servers of metrics, zpages and the health checks; the
  self-signed certificate (calls of the cryptographic library); the version command; the scheduling of
  the libraries' own goroutines, with the five seconds the kubelet waits for provisioning at its end;
  the shell script that RunPod machines run at their start beyond what decodes its variables.
\<close>

end
